(* ===== verification/Prelude.thy ===== *)
theory Prelude
  imports Main "HOL-Library.Word"
begin

text \<open>
  Shared vocabulary of the development: bytes, the result of a fallible Rust function with its
  \<open>?\<close> operator, the state passing used for \<open>&mut\<close> arguments (a random number generator, or the
  input slice that a deserializer consumes), exclusive-or of byte strings, and the collections of
  simplification rules that the component theories fill and use.
\<close>

unbundle bit_operations_syntax

named_theorems monad_simps \<open>evaluation of the result and state combinators\<close>
named_theorems codec_simps \<open>what deserializers do on serialized input\<close>
named_theorems length_simps \<open>lengths of serialized values\<close>

section \<open>Bytes\<close>

type_synonym byte = "8 word"
type_synonym bytes = "byte list"

definition zeros :: "nat \<Rightarrow> bytes" where
  "zeros n = replicate n 0"

lemma length_zeros [simp]: "length (zeros n) = n"
  by (simp add: zeros_def)

lemma zeros_append: "zeros m @ zeros n = zeros (m + n)"
  by (simp add: zeros_def replicate_add)

definition xor_bytes :: "bytes \<Rightarrow> bytes \<Rightarrow> bytes" where
  "xor_bytes xs ys = map2 (XOR) xs ys @ drop (length ys) xs"
  \<comment> \<open>\<open>for (x1, x2) in xs.iter_mut().zip(ys) { *x1 ^= x2 }\<close>\<close>

lemma length_xor_bytes [simp]: "length (xor_bytes xs ys) = length xs"
  by (simp add: xor_bytes_def min_def)

lemma map2_xor_cancel:
  "length xs = length ys \<Longrightarrow> map2 (XOR) xs (map2 (XOR) xs ys) = (ys :: bytes)"
  by (induction xs ys rule: list_induct2) (simp_all add: xor.assoc [symmetric])

lemma xor_bytes_cancel:
  "length ys = length xs \<Longrightarrow> xor_bytes xs (xor_bytes xs ys) = ys"
  by (simp add: xor_bytes_def map2_xor_cancel)

lemma map2_xor_inj:
  "length xs = length ys \<Longrightarrow> length xs = length zs \<Longrightarrow>
     map2 (XOR) xs ys = map2 (XOR) xs zs \<longleftrightarrow> ys = (zs :: bytes)"
  by (metis map2_xor_cancel)

section \<open>Results and the \<open>?\<close> operator\<close>

text \<open>
  \<open>Result\<close> with a third outcome for a panic (\<open>unwrap()\<close> or \<open>expect()\<close> on a failure), so that
  every exit of the source is a value of the model.
\<close>

datatype ('e, 'a) result = Ok 'a | Err 'e | Panic

primrec bind_result :: "('e, 'a) result \<Rightarrow> ('a \<Rightarrow> ('e, 'b) result) \<Rightarrow> ('e, 'b) result" where
  "bind_result (Ok a) f = f a"
| "bind_result (Err e) f = Err e"
| "bind_result Panic f = Panic"

primrec map_err :: "('e \<Rightarrow> 'f) \<Rightarrow> ('e, 'a) result \<Rightarrow> ('f, 'a) result" where
  "map_err f (Ok a) = Ok a"
| "map_err f (Err e) = Err (f e)"
| "map_err f Panic = Panic"

primrec unwrap :: "('e, 'a) result \<Rightarrow> ('f, 'a) result" where
  "unwrap (Ok a) = Ok a"
| "unwrap (Err e) = Panic"
| "unwrap Panic = Panic"

primrec ok_or :: "'e \<Rightarrow> 'a option \<Rightarrow> ('e, 'a) result" where
  "ok_or e None = Err e"
| "ok_or e (Some a) = Ok a"

definition is_ok :: "('e, 'a) result \<Rightarrow> bool" where
  "is_ok r \<longleftrightarrow> (\<exists>a. r = Ok a)"

lemma is_ok_simps [simp]: "is_ok (Ok a)" "\<not> is_ok (Err e)" "\<not> is_ok Panic"
  by (simp_all add: is_ok_def)

lemma bind_result_Ok_iff:
  "bind_result m f = Ok b \<longleftrightarrow> (\<exists>a. m = Ok a \<and> f a = Ok b)"
  by (cases m) auto

lemma bind_result_Err_iff:
  "bind_result m f = Err e \<longleftrightarrow> m = Err e \<or> (\<exists>a. m = Ok a \<and> f a = Err e)"
  by (cases m) auto

lemma bind_result_Panic_iff:
  "bind_result m f = Panic \<longleftrightarrow> m = Panic \<or> (\<exists>a. m = Ok a \<and> f a = Panic)"
  by (cases m) auto

lemma map_err_Ok_iff [simp]: "map_err f r = Ok a \<longleftrightarrow> r = Ok a"
  by (cases r) auto

lemma map_err_Err_iff: "map_err f r = Err e \<longleftrightarrow> (\<exists>e'. r = Err e' \<and> e = f e')"
  by (cases r) auto

lemma unwrap_Ok_iff [simp]: "unwrap r = Ok a \<longleftrightarrow> r = Ok a"
  by (cases r) auto

lemma unwrap_not_Err [simp]: "unwrap r \<noteq> Err e"
  by (cases r) auto

lemma ok_or_Ok_iff [simp]: "ok_or e x = Ok a \<longleftrightarrow> x = Some a"
  by (cases x) auto

lemma ok_or_not_Panic [simp]: "ok_or e x \<noteq> Panic"
  by (cases x) auto

lemma ok_or_Err_iff: "ok_or e x = Err e' \<longleftrightarrow> x = None \<and> e' = e"
  by (cases x) auto

section \<open>State passing\<close>

text \<open>
  A function with an \<open>&mut\<close> argument and a \<open>Result\<close> is a state transformer: it returns the
  outcome and the value that it leaves in the argument, on the error paths too.
\<close>

type_synonym ('s, 'e, 'a) st = "'s \<Rightarrow> ('e, 'a) result \<times> 's"

definition return_st :: "'a \<Rightarrow> ('s, 'e, 'a) st" where
  "return_st a s = (Ok a, s)"

definition bind_st :: "('s, 'e, 'a) st \<Rightarrow> ('a \<Rightarrow> ('s, 'e, 'b) st) \<Rightarrow> ('s, 'e, 'b) st" where
  "bind_st m f s =
     (case m s of
        (Ok a, s') \<Rightarrow> f a s'
      | (Err e, s') \<Rightarrow> (Err e, s')
      | (Panic, s') \<Rightarrow> (Panic, s'))"

definition lift_st :: "('e, 'a) result \<Rightarrow> ('s, 'e, 'a) st" where
  "lift_st r s = (r, s)"
  \<comment> \<open>a \<open>?\<close> on a call that does not touch the state\<close>

definition run_st :: "('s \<Rightarrow> 'a \<times> 's) \<Rightarrow> ('s, 'e, 'a) st" where
  "run_st m s = (case m s of (a, s') \<Rightarrow> (Ok a, s'))"
  \<comment> \<open>a call that cannot fail\<close>

definition map_err_st :: "('e \<Rightarrow> 'f) \<Rightarrow> ('s, 'e, 'a) st \<Rightarrow> ('s, 'f, 'a) st" where
  "map_err_st f m s = (case m s of (r, s') \<Rightarrow> (map_err f r, s'))"

definition eval_st :: "('s, 'e, 'a) st \<Rightarrow> 's \<Rightarrow> ('e, 'a) result" where
  "eval_st m s = fst (m s)"
  \<comment> \<open>the \<open>mut\<close> argument is a local variable of the function\<close>

lemma return_st_apply [simp, monad_simps]: "return_st a s = (Ok a, s)"
  by (simp add: return_st_def)

lemma lift_st_apply [simp, monad_simps]: "lift_st r s = (r, s)"
  by (simp add: lift_st_def)

lemma run_st_apply [monad_simps]: "m s = (a, s') \<Longrightarrow> run_st m s = (Ok a, s')"
  by (simp add: run_st_def)

lemma bind_st_Ok [simp, monad_simps]: "m s = (Ok a, s') \<Longrightarrow> bind_st m f s = f a s'"
  by (simp add: bind_st_def)

lemma bind_st_Err [simp, monad_simps]: "m s = (Err e, s') \<Longrightarrow> bind_st m f s = (Err e, s')"
  by (simp add: bind_st_def)

lemma bind_st_Panic [simp, monad_simps]: "m s = (Panic, s') \<Longrightarrow> bind_st m f s = (Panic, s')"
  by (simp add: bind_st_def)

lemma bind_st_Ok_iff:
  "bind_st m f s = (Ok b, t) \<longleftrightarrow> (\<exists>a s'. m s = (Ok a, s') \<and> f a s' = (Ok b, t))"
  by (auto simp: bind_st_def split: prod.splits result.splits)

lemma bind_st_Err_iff:
  "bind_st m f s = (Err e, t) \<longleftrightarrow>
     m s = (Err e, t) \<or> (\<exists>a s'. m s = (Ok a, s') \<and> f a s' = (Err e, t))"
  by (auto simp: bind_st_def split: prod.splits result.splits)

lemma bind_st_Panic_iff:
  "bind_st m f s = (Panic, t) \<longleftrightarrow>
     m s = (Panic, t) \<or> (\<exists>a s'. m s = (Ok a, s') \<and> f a s' = (Panic, t))"
  by (auto simp: bind_st_def split: prod.splits result.splits)

lemma bind_st_return [simp]: "bind_st m return_st = m"
  by (auto simp: bind_st_def fun_eq_iff split: prod.splits result.splits)

lemma bind_st_assoc: "bind_st (bind_st m f) g = bind_st m (\<lambda>a. bind_st (f a) g)"
  by (auto simp: bind_st_def fun_eq_iff split: prod.splits result.splits)

lemma run_st_Ok_iff [simp]: "run_st m s = (Ok a, s') \<longleftrightarrow> m s = (a, s')"
  by (auto simp: run_st_def split: prod.splits)

lemma run_st_not_Err [simp]: "run_st m s \<noteq> (Err e, s')" "run_st m s \<noteq> (Panic, s')"
  by (auto simp: run_st_def split: prod.splits)

lemma map_err_st_Ok_iff [simp]: "map_err_st f m s = (Ok a, s') \<longleftrightarrow> m s = (Ok a, s')"
  by (auto simp: map_err_st_def split: prod.splits)

lemma map_err_st_Err_iff:
  "map_err_st f m s = (Err e, s') \<longleftrightarrow> (\<exists>e'. m s = (Err e', s') \<and> e = f e')"
  by (auto simp: map_err_st_def map_err_Err_iff split: prod.splits)

lemma eval_st_Ok_iff: "eval_st m s = Ok a \<longleftrightarrow> (\<exists>s'. m s = (Ok a, s'))"
  by (cases "m s") (simp add: eval_st_def)

lemma eval_st_apply [monad_simps]: "m s = (r, s') \<Longrightarrow> eval_st m s = r"
  by (simp add: eval_st_def)

lemmas ok_iffs = bind_result_Ok_iff bind_st_Ok_iff eval_st_Ok_iff
lemmas err_iffs = bind_result_Err_iff bind_st_Err_iff map_err_Err_iff map_err_st_Err_iff
  ok_or_Err_iff

end
