(* ===== verification/Errors.thy ===== *)
theory Errors
  imports Prelude
begin

text \<open>
  \<open>src/errors.rs\<close>: the error types and the conversions that \<open>?\<close> applies. The two error types of
  the \<open>voprf\<close> crate are not in the repository; they are carried around and never inspected, so
  they are modelled by the code of their variant.
\<close>

datatype voprf_error = Voprf_Error nat
datatype voprf_internal_error = Voprf_Internal_Error nat

datatype internal_error =
    HashToScalar
  | HkdfError
  | HmacError
  | KsfError
  | KemError
  | SealOpenHmacError
  | IncompatibleEnvelopeModeError
  | OprfError voprf_error
  | OprfInternalError voprf_internal_error

text \<open>
  \<open>ProtocolError<T>\<close>. Its default instance has \<open>T = Infallible\<close>, an empty type: HOL has no empty
  types, so \<open>protocol_error\<close> is the enum without the variant that has no values, and
  \<open>custom_protocol_error\<close> the enum for an inhabited \<open>T\<close>.
\<close>

datatype protocol_error =
    LibraryError internal_error
  | InvalidLoginError
  | SerializationError
  | SizeError string nat nat
  | ReflectedValueError

datatype 't custom_protocol_error =
    CustomLibraryError internal_error
  | CustomInvalidLoginError
  | CustomSerializationError
  | CustomSizeError string nat nat
  | CustomReflectedValueError
  | Custom 't

definition internal_from_voprf :: "voprf_error \<Rightarrow> internal_error" where
  "internal_from_voprf e = OprfError e"

definition protocol_from_voprf :: "voprf_error \<Rightarrow> protocol_error" where
  "protocol_from_voprf e = LibraryError (OprfError e)"

definition protocol_from_voprf_internal :: "voprf_internal_error \<Rightarrow> protocol_error" where
  "protocol_from_voprf_internal e = LibraryError (OprfInternalError e)"

definition protocol_from_internal :: "internal_error \<Rightarrow> protocol_error" where
  "protocol_from_internal e = LibraryError e"

primrec into_custom :: "protocol_error \<Rightarrow> 't custom_protocol_error" where
  "into_custom (LibraryError e) = CustomLibraryError e"
| "into_custom InvalidLoginError = CustomInvalidLoginError"
| "into_custom SerializationError = CustomSerializationError"
| "into_custom (SizeError name len actual_len) = CustomSizeError name len actual_len"
| "into_custom ReflectedValueError = CustomReflectedValueError"

text \<open>The two routes of a \<open>voprf\<close> error into a \<open>ProtocolError\<close> agree.\<close>

lemma protocol_from_voprf_routes:
  "protocol_from_internal (internal_from_voprf e) = protocol_from_voprf e"
  by (simp add: protocol_from_internal_def internal_from_voprf_def protocol_from_voprf_def)

lemma into_custom_inj: "into_custom e = into_custom e' \<longleftrightarrow> e = e'"
  by (cases e; cases e') auto

lemma into_custom_not_Custom: "into_custom e \<noteq> Custom t"
  by (cases e) auto

end
