(* ===== verification/Serialization.thy ===== *)
theory Serialization
  imports Errors
begin

text \<open>
  \<open>src/serialization/mod.rs\<close>: integer-to-bytes conversions, the byte-array helpers and the
  deserialization primitive \<open>take_array\<close>; and the contract of the \<open>Serialize\<close> / \<open>Deserialize\<close>
  traits of \<open>src/key_exchange/mod.rs\<close> as locales, which the message theories interpret.
\<close>

section \<open>I2OSP and OS2IP\<close>

text \<open>\<open>usize\<close> is 64 bits wide.\<close>

type_synonym usize = "64 word"

definition sizeof_usize :: nat where
  "sizeof_usize = 8"

definition leading_zeros :: "usize \<Rightarrow> nat" where
  "leading_zeros w = length (takeWhile Not (map (bit w) (rev [0..<64])))"

fun be_digits :: "nat \<Rightarrow> nat \<Rightarrow> bytes" where
  "be_digits 0 n = []"
| "be_digits (Suc k) n = be_digits k (n div 256) @ [of_nat (n mod 256)]"

definition to_be_bytes :: "usize \<Rightarrow> bytes" where
  "to_be_bytes w = be_digits sizeof_usize (unat w)"

definition be_value :: "bytes \<Rightarrow> nat" where
  "be_value bs = foldl (\<lambda>acc b. acc * 256 + unat b) 0 bs"

definition from_be_bytes :: "bytes \<Rightarrow> usize" where
  "from_be_bytes bs = of_nat (be_value bs)"

definition i2osp :: "nat \<Rightarrow> usize \<Rightarrow> (protocol_error, bytes) result" where
  "i2osp L input =
     (if sizeof_usize - leading_zeros input div 8 > L then Err SerializationError
      else Ok (take (L - sizeof_usize) (zeros L) @ drop (sizeof_usize - L) (to_be_bytes input)))"

definition os2ip :: "bytes \<Rightarrow> (protocol_error, usize) result" where
  "os2ip input =
     (if length input > sizeof_usize then Err SerializationError
      else Ok (from_be_bytes (take (sizeof_usize - length input) (zeros sizeof_usize) @ input)))"

text \<open>\<open>slice.len()\<close> as the source's \<open>usize\<close>.\<close>

definition usize_len :: "'a list \<Rightarrow> usize" where
  "usize_len xs = of_nat (length xs)"

lemma unat_usize_len: "length xs < 2 ^ 64 \<Longrightarrow> unat (usize_len xs) = length xs"
  by (simp add: usize_len_def unat_of_nat)

lemma length_be_digits [simp]: "length (be_digits k n) = k"
  by (induction k arbitrary: n) auto

lemma be_value_append [simp]: "be_value (xs @ [b]) = be_value xs * 256 + unat b"
  by (simp add: be_value_def)

lemma be_value_Nil [simp]: "be_value [] = 0"
  by (simp add: be_value_def)

lemma be_value_zeros_append: "be_value (zeros n @ bs) = be_value bs"
proof (induction bs rule: rev_induct)
  case Nil
  show ?case by (induction n) (auto simp: zeros_def be_value_def)
next
  case (snoc b bs)
  then show ?case by (metis append.assoc be_value_append)
qed

lemma be_value_be_digits: "be_value (be_digits k n) = n mod 256 ^ k"
proof (induction k arbitrary: n)
  case 0
  show ?case by simp
next
  case (Suc k)
  have "unat (of_nat (n mod 256) :: byte) = n mod 256"
    by (simp add: unat_of_nat)
  then have "be_value (be_digits (Suc k) n) = (n div 256 mod 256 ^ k) * 256 + n mod 256"
    by (simp add: Suc.IH)
  also have "\<dots> = n mod (256 * 256 ^ k)"
    by (simp add: mod_mult2_eq)
  finally show ?case by simp
qed

lemma be_value_bound: "be_value bs < 256 ^ length bs"
proof (induction bs rule: rev_induct)
  case Nil
  show ?case by simp
next
  case (snoc b bs)
  have "unat b < 256" using unsigned_less [of b] by simp
  with snoc show ?case by simp
qed

lemma be_digits_be_value: "be_digits (length bs) (be_value bs) = bs"
proof (induction bs rule: rev_induct)
  case Nil
  show ?case by simp
next
  case (snoc b bs)
  have "unat b < 256" using unsigned_less [of b] by simp
  with snoc show ?case by simp
qed

lemma be_digits_1: "be_digits 1 n = [of_nat (n mod 256)]"
  by simp

lemma be_digits_2: "be_digits 2 n = [of_nat (n div 256 mod 256), of_nat (n mod 256)]"
  by (simp only: numeral_2_eq_2 be_digits.simps append.simps)

lemma drop_be_digits: "drop j (be_digits (j + k) n) = be_digits k n"
  by (induction k arbitrary: n) auto

lemma be_digits_leading_zeros:
  "n < 256 ^ k \<Longrightarrow> be_digits (j + k) n = zeros j @ be_digits k n"
proof (induction k arbitrary: n)
  case 0
  have "be_digits j 0 = zeros j" for j
    by (induction j) (auto simp: zeros_def replicate_append_same)
  with 0 show ?case by (simp add: zeros_def)
next
  case (Suc k)
  then have "n div 256 < 256 ^ k" by (simp add: less_mult_imp_div_less mult.commute)
  then show ?case by (simp add: Suc.IH)
qed

lemma length_takeWhile_ge_iff:
  "k \<le> length (takeWhile P xs) \<longleftrightarrow> k \<le> length xs \<and> (\<forall>i<k. P (xs ! i))"
proof (induction xs arbitrary: k)
  case Nil
  show ?case by auto
next
  case (Cons x xs)
  show ?case
    by (cases k) (auto simp: Cons.IH All_less_Suc2)
qed

lemma leading_zeros_ge_iff:
  assumes "k \<le> 64"
  shows "64 - k \<le> leading_zeros w \<longleftrightarrow> unat w < 2 ^ k"
proof -
  have idx: "rev [0..<64] ! i = 63 - i" if "i < 64" for i
    using that by (simp add: rev_nth)
  have "64 - k \<le> leading_zeros w \<longleftrightarrow> (\<forall>i<64 - k. \<not> bit w (63 - i))"
    using idx by (auto simp: leading_zeros_def length_takeWhile_ge_iff)
  also have "\<dots> \<longleftrightarrow> (\<forall>j. k \<le> j \<and> j < 64 \<longrightarrow> \<not> bit w j)"
  proof (intro iffI allI impI)
    fix j assume a: "\<forall>i<64 - k. \<not> bit w (63 - i)" and j: "k \<le> j \<and> j < 64"
    from j have "63 - j < 64 - k" "63 - (63 - j) = j" by auto
    with a show "\<not> bit w j" by metis
  next
    fix i assume "\<forall>j. k \<le> j \<and> j < 64 \<longrightarrow> \<not> bit w j" and "i < 64 - k"
    moreover from \<open>i < 64 - k\<close> have "k \<le> 63 - i" "63 - i < 64" by auto
    ultimately show "\<not> bit w (63 - i)" by blast
  qed
  also have "\<dots> \<longleftrightarrow> take_bit k w = w"
    by (auto simp: bit_eq_iff bit_take_bit_iff not_le dest: bit_imp_le_length)
       (metis bit_imp_le_length len_of_numeral_defs(1) not_le)
  also have "\<dots> \<longleftrightarrow> unat w < 2 ^ k"
    by (metis take_bit_nat_eq_self_iff unsigned_take_bit_eq unsigned_word_eqI)
  finally show ?thesis .
qed

text \<open>\<open>i2osp\<close> accepts exactly the integers that fit, and writes their big-endian digits.\<close>

lemma i2osp_guard:
  "sizeof_usize - leading_zeros w div 8 > L \<longleftrightarrow> 256 ^ L \<le> unat w"
proof (cases "L \<le> 8")
  case True
  have "(256 :: nat) ^ L = 2 ^ (8 * L)" by (simp add: power_mult)
  moreover have "sizeof_usize - leading_zeros w div 8 > L \<longleftrightarrow> \<not> 64 - 8 * L \<le> leading_zeros w"
  proof -
    have "8 - L \<le> leading_zeros w div 8 \<longleftrightarrow> (8 - L) * 8 \<le> leading_zeros w"
      by (simp add: less_eq_div_iff_mult_less_eq)
    moreover have "(8 - L) * 8 = 64 - 8 * L" by simp
    ultimately show ?thesis using True by (simp only: sizeof_usize_def) linarith
  qed
  ultimately show ?thesis
    using True leading_zeros_ge_iff [of "8 * L" w] by (simp add: not_less)
next
  case False
  have "unat w < 2 ^ 64" using unsigned_less [of w] by simp
  also have "(2 :: nat) ^ 64 \<le> 256 ^ L"
  proof -
    have "(2 :: nat) ^ 64 = 256 ^ 8" by simp
    also have "\<dots> \<le> 256 ^ L" using False by (intro power_increasing) auto
    finally show ?thesis .
  qed
  finally show ?thesis using False by (simp add: sizeof_usize_def)
qed

lemma i2osp_eq:
  "i2osp L w = (if unat w < 256 ^ L then Ok (be_digits L (unat w)) else Err SerializationError)"
proof (cases "unat w < 256 ^ L")
  case True
  have "take (L - sizeof_usize) (zeros L) @ drop (sizeof_usize - L) (to_be_bytes w)
          = be_digits L (unat w)"
  proof (cases "L \<le> sizeof_usize")
    case le: True
    then show ?thesis
      using drop_be_digits [of "sizeof_usize - L" L "unat w"] by (simp add: to_be_bytes_def)
  next
    case False
    have "unat w < 256 ^ sizeof_usize"
      using unsigned_less [of w] by (simp add: sizeof_usize_def)
    with False be_digits_leading_zeros [of "unat w" sizeof_usize "L - sizeof_usize"]
    show ?thesis by (simp add: to_be_bytes_def zeros_def min_def)
  qed
  with True show ?thesis
    using i2osp_guard [of L w] by (simp add: i2osp_def del: length_zeros)
next
  case False
  then show ?thesis using i2osp_guard [of L w] by (simp add: i2osp_def)
qed

lemma i2osp_length: "i2osp L w = Ok bs \<Longrightarrow> length bs = L"
  by (auto simp: i2osp_eq split: if_splits)

lemma i2osp_inj: "i2osp L w = Ok bs \<Longrightarrow> i2osp L w' = Ok bs \<Longrightarrow> w = w'"
  by (metis be_value_be_digits i2osp_eq mod_less result.distinct(1) result.inject(1)
      unsigned_word_eqI)

lemma os2ip_eq:
  "os2ip bs = (if length bs \<le> sizeof_usize then Ok (of_nat (be_value bs))
               else Err SerializationError)"
proof -
  have "take m (zeros n) = zeros (min m n)" for m n
    by (simp add: zeros_def)
  then show ?thesis
    by (simp add: os2ip_def from_be_bytes_def be_value_zeros_append)
qed

lemma os2ip_i2osp:
  assumes "i2osp L w = Ok bs" and "L \<le> sizeof_usize"
  shows "os2ip bs = Ok w"
  using assms
  by (auto simp: i2osp_eq os2ip_eq be_value_be_digits split: if_splits)

text \<open>
  C34. \<open>i2osp\<close> fails exactly on the integers that do not fit in \<open>L\<close> bytes, and otherwise returns
  \<open>L\<close> bytes, from which \<open>os2ip\<close> reads the same integer back when \<open>L\<close> is at most the size of a
  \<open>usize\<close>. So a length field of two bytes holds every length up to 65535 and no other.
\<close>

theorem i2osp_correct:
  "(i2osp L w = Err SerializationError \<longleftrightarrow> 256 ^ L \<le> unat w) \<and>
   (unat w < 256 ^ L \<longrightarrow>
     (\<exists>bs. i2osp L w = Ok bs \<and> length bs = L \<and> (L \<le> sizeof_usize \<longrightarrow> os2ip bs = Ok w)))"
  using os2ip_i2osp [of L w] by (auto simp: i2osp_eq not_less)

theorem i2osp_correct_witness:
  "i2osp 2 300 = Ok [1, 44] \<and> os2ip [1, 44] = Ok 300 \<and> i2osp 1 256 = Err SerializationError"
proof -
  have fits: "i2osp 2 300 = Ok [1, 44]"
    by (simp add: i2osp_eq be_digits_2)
  have small: "unat (300 :: usize) < 256 ^ 2" and big: "256 ^ 1 \<le> unat (256 :: usize)"
    by simp_all
  from i2osp_correct [of 2 300] small fits have "os2ip [1, 44] = Ok 300"
    by (auto simp: sizeof_usize_def)
  moreover from i2osp_correct [of 1 256] big have "i2osp 1 256 = Err SerializationError"
    by blast
  ultimately show ?thesis using fits by blast
qed


section \<open>Feeding a hash\<close>

text \<open>\<open>UpdateExt\<close>, for any type with an \<open>update\<close> method (\<open>chain\<close> is \<open>update\<close> by value).\<close>

definition update_iter :: "('h \<Rightarrow> bytes \<Rightarrow> 'h) \<Rightarrow> 'h \<Rightarrow> bytes list \<Rightarrow> 'h" where
  "update_iter upd h iter = foldl upd h iter"

definition chain_iter :: "('h \<Rightarrow> bytes \<Rightarrow> 'h) \<Rightarrow> 'h \<Rightarrow> bytes list \<Rightarrow> 'h" where
  "chain_iter chain self iter = foldl chain self iter"

lemma foldl_append_concat: "foldl (@) h iter = h @ concat iter"
  by (induction iter arbitrary: h) auto

section \<open>Byte arrays\<close>

definition take_array :: "nat \<Rightarrow> string \<Rightarrow> (bytes, protocol_error, bytes) st" where
  "take_array L name input =
     (if L > length input then (Err (SizeError name L (length input)), input)
      else (Ok (take L input), drop L input))"

definition copy_from_slice :: "bytes \<Rightarrow> nat \<Rightarrow> nat \<Rightarrow> bytes \<Rightarrow> bytes" where
  "copy_from_slice output start stop src = take start output @ src @ drop stop output"
  \<comment> \<open>\<open>output[start..stop].copy_from_slice(src)\<close>, with \<open>length src = stop - start\<close>\<close>

definition concat_ext :: "bytes \<Rightarrow> bytes \<Rightarrow> bytes" where
  "concat_ext self other =
     (let output = zeros (length other) @ zeros (length self);
          output = copy_from_slice output 0 (length self) self
      in copy_from_slice output (length self) (length output) other)"

definition cat :: "bytes \<Rightarrow> bytes \<Rightarrow> bytes" where
  "cat self other = self @ other"

lemma concat_ext_eq [simp]: "concat_ext self other = self @ other"
  by (simp add: concat_ext_def copy_from_slice_def)

lemma take_array_append [simp, codec_simps]:
  "length xs = L \<Longrightarrow> take_array L name (xs @ rest) = (Ok xs, rest)"
  by (auto simp: take_array_def)

lemma take_array_exact [simp, codec_simps]:
  "length xs = L \<Longrightarrow> take_array L name xs = (Ok xs, [])"
  by (auto simp: take_array_def)

lemma take_array_Ok_iff:
  "take_array L name input = (Ok xs, rest) \<longleftrightarrow> length xs = L \<and> input = xs @ rest"
  by (auto simp: take_array_def min_def)

lemma take_array_Err_iff:
  "take_array L name input = (Err e, rest) \<longleftrightarrow>
     length input < L \<and> e = SizeError name L (length input) \<and> rest = input"
  by (auto simp: take_array_def)

lemma take_array_not_Panic [simp]: "take_array L name input \<noteq> (Panic, rest)"
  by (simp add: take_array_def)

section \<open>The contract of \<open>Serialize\<close> and \<open>Deserialize\<close>\<close>

text \<open>
  \<open>enc\<close> is \<open>serialize\<close>, \<open>dec\<close> is \<open>deserialize_take\<close>, \<open>len\<close> the associated length \<open>Len\<close> and
  \<open>ok\<close> the values that the Rust type can hold (arrays of the right length, keys that are not the
  identity) over lawful external primitives.
\<close>

locale wire_codec =
  fixes enc :: "'a \<Rightarrow> bytes"
    and dec :: "(bytes, protocol_error, 'a) st"
    and len :: nat
    and ok :: "'a \<Rightarrow> bool"
  assumes enc_length: "ok x \<Longrightarrow> length (enc x) = len"
    and dec_enc: "ok x \<Longrightarrow> dec (enc x @ rest) = (Ok x, rest)"
begin

lemma dec_enc_exact: "ok x \<Longrightarrow> dec (enc x) = (Ok x, [])"
  using dec_enc [of x "[]"] by simp

lemma bind_dec_enc: "ok x \<Longrightarrow> bind_st dec f (enc x @ rest) = f x rest"
  by (simp add: dec_enc)

lemma enc_inj: "ok x \<Longrightarrow> ok y \<Longrightarrow> enc x = enc y \<Longrightarrow> x = y"
  by (metis dec_enc_exact prod.inject result.inject(1))

lemma enc_prefix_free:
  "ok x \<Longrightarrow> ok y \<Longrightarrow> enc x @ a = enc y @ b \<Longrightarrow> x = y \<and> a = b"
  by (metis dec_enc prod.inject result.inject(1))

end

text \<open>
  A canonical codec also accepts nothing but encodings, so it consumes exactly \<open>len\<close> bytes and
  re-encoding what was read gives the bytes that were read. \<open>trusted\<close> says that the external
  primitives below it behave as documented.
\<close>

locale canonical_codec = wire_codec +
  fixes trusted :: bool
  assumes dec_sound: "trusted \<Longrightarrow> dec input = (Ok x, rest) \<Longrightarrow> ok x \<and> input = enc x @ rest"
begin

lemma dec_Ok_iff:
  "trusted \<Longrightarrow> dec input = (Ok x, rest) \<longleftrightarrow> ok x \<and> input = enc x @ rest"
  using dec_sound dec_enc by blast

lemma dec_consumes:
  "trusted \<Longrightarrow> dec input = (Ok x, rest) \<Longrightarrow> length input = len + length rest"
  using dec_sound enc_length by fastforce

lemma dec_short: "trusted \<Longrightarrow> length input < len \<Longrightarrow> dec input \<noteq> (Ok x, rest)"
  using dec_consumes by fastforce

end

text \<open>A fixed-size byte array is such a codec.\<close>

interpretation array_codec: canonical_codec
  "\<lambda>xs. xs" "take_array L name" L "\<lambda>xs. length xs = L" True
  for L :: nat and name :: string
  by unfold_locales (auto simp: take_array_Ok_iff)

end
