(* ===== verification/Primitives.thy ===== *)
theory Primitives
  imports Serialization
begin

text \<open>
  The external primitives that the crate is generic over (\<open>src/ciphersuite.rs\<close>, \<open>src/hash.rs\<close>)
  and \<open>src/ksf.rs\<close>. The random number generator, the hash functions with HKDF and HMAC, and the
  \<open>voprf\<close> crate are not in the repository: they are parameters, records of functions, and what
  their documentation promises is a predicate (\<open>hash_ok\<close>, \<open>oprf_ok\<close>) that theorems assume.
\<close>

section \<open>Random number generators\<close>

text \<open>
  A generator is what its methods return and leave behind. \<open>fill_bytes\<close> writes into a buffer of
  \<open>k\<close> bytes: \<open>rng_fill\<close> gives the byte at each index, and the generator afterwards.
\<close>

codatatype rng = Rng
  (rng_next_u32: "32 word \<times> rng")
  (rng_next_u64: "64 word \<times> rng")
  (rng_fill: "nat \<Rightarrow> (nat \<Rightarrow> byte) \<times> rng")

definition fill_bytes :: "nat \<Rightarrow> rng \<Rightarrow> bytes \<times> rng" where
  "fill_bytes k r = (case rng_fill r k of (f, r') \<Rightarrow> (map f [0..<k], r'))"

lemma length_fill_bytes: "fill_bytes k r = (bs, r') \<Longrightarrow> length bs = k"
  by (auto simp: fill_bytes_def split: prod.splits)

lemma length_fst_fill_bytes [simp]: "length (fst (fill_bytes k r)) = k"
  by (simp add: fill_bytes_def split: prod.splits)

section \<open>Hash functions, HKDF and HMAC\<close>

text \<open>
  An extracted HKDF key is seen through \<open>expand\<close> (info, output length), which fails when the
  output is too long. A \<open>Digest\<close> in progress is the bytes that it has absorbed; HMAC likewise.
\<close>

type_synonym hkdf = "bytes \<Rightarrow> nat \<Rightarrow> bytes option"
type_synonym hasher = bytes

record hash_fns =
  hash_len :: nat                                        \<comment> \<open>\<open>OutputSize<H>\<close>\<close>
  hash_digest :: "bytes \<Rightarrow> bytes"                        \<comment> \<open>\<open>finalize\<close> of the absorbed bytes\<close>
  hkdf_extract :: "bytes \<Rightarrow> bytes \<times> hkdf"                \<comment> \<open>\<open>HkdfExtract::new(None)\<close>, \<open>input_ikm\<close>*, \<open>finalize\<close>\<close>
  hkdf_from_prk :: "bytes \<Rightarrow> hkdf option"                \<comment> \<open>\<open>Hkdf::from_prk\<close>\<close>
  hmac_new_from_slice :: "bytes \<Rightarrow> (bytes \<Rightarrow> bytes) option" \<comment> \<open>\<open>SimpleHmac::new_from_slice\<close>\<close>

definition hkdf_expand_multi_info :: "hkdf \<Rightarrow> bytes list \<Rightarrow> nat \<Rightarrow> bytes option" where
  "hkdf_expand_multi_info h infos n = h (concat infos) n"

definition hkdf_ok :: "nat \<Rightarrow> hkdf \<Rightarrow> bool" where
  "hkdf_ok nh h \<longleftrightarrow>
     (\<forall>info n. if n \<le> 255 * nh then \<exists>okm. h info n = Some okm \<and> length okm = n
               else h info n = None)"

definition hash_ok :: "hash_fns \<Rightarrow> bool" where
  "hash_ok H \<longleftrightarrow>
     0 < hash_len H \<and> hash_len H < 256 \<and>
     (\<forall>x. length (hash_digest H x) = hash_len H) \<and>
     (\<forall>ikm. length (fst (hkdf_extract H ikm)) = hash_len H \<and>
            hkdf_ok (hash_len H) (snd (hkdf_extract H ikm))) \<and>
     (\<forall>prk. if hash_len H \<le> length prk
            then \<exists>h. hkdf_from_prk H prk = Some h \<and> hkdf_ok (hash_len H) h
            else hkdf_from_prk H prk = None) \<and>
     (\<forall>k. \<exists>f. hmac_new_from_slice H k = Some f \<and> (\<forall>m. length (f m) = hash_len H))"

lemma hash_okD:
  assumes "hash_ok H"
  shows "0 < hash_len H" "hash_len H < 256" "length (hash_digest H x) = hash_len H"
    and "hkdf_ok (hash_len H) (snd (hkdf_extract H ikm))"
  using assms by (auto simp: hash_ok_def)

lemma hkdf_expand_ok:
  assumes "hkdf_ok nh h" "n \<le> 255 * nh"
  obtains okm where "hkdf_expand_multi_info h infos n = Some okm" "length okm = n"
proof -
  from assms have "\<exists>okm. h (concat infos) n = Some okm \<and> length okm = n"
    by (auto simp: hkdf_ok_def split: if_splits)
  then show thesis using that by (auto simp: hkdf_expand_multi_info_def)
qed

lemma hkdf_expand_length:
  "hkdf_ok nh h \<Longrightarrow> hkdf_expand_multi_info h infos n = Some okm \<Longrightarrow> length okm = n"
  unfolding hkdf_ok_def hkdf_expand_multi_info_def
  by (metis option.distinct(1) option.inject)

lemma hkdf_expand_too_long:
  "hkdf_ok nh h \<Longrightarrow> 255 * nh < n \<Longrightarrow> hkdf_expand_multi_info h infos n = None"
  unfolding hkdf_ok_def hkdf_expand_multi_info_def by (metis not_le)

lemma hkdf_from_prk_ok:
  assumes "hash_ok H" "hash_len H \<le> length prk"
  obtains h where "hkdf_from_prk H prk = Some h" "hkdf_ok (hash_len H) h"
proof -
  from assms have "\<exists>h. hkdf_from_prk H prk = Some h \<and> hkdf_ok (hash_len H) h"
    by (auto simp: hash_ok_def split: if_splits)
  then show thesis using that by blast
qed

lemma hkdf_from_prk_Some:
  assumes "hash_ok H" "hkdf_from_prk H prk = Some h"
  shows "hkdf_ok (hash_len H) h" "hash_len H \<le> length prk"
proof -
  from assms(1) have "if hash_len H \<le> length prk
      then \<exists>h. hkdf_from_prk H prk = Some h \<and> hkdf_ok (hash_len H) h
      else hkdf_from_prk H prk = None" unfolding hash_ok_def by blast
  with assms(2) show "hkdf_ok (hash_len H) h" "hash_len H \<le> length prk"
    by (auto split: if_splits)
qed

lemma hmac_new_ok:
  assumes "hash_ok H"
  obtains f where "hmac_new_from_slice H k = Some f" "\<And>m. length (f m) = hash_len H"
proof -
  from assms obtain f where "hmac_new_from_slice H k = Some f" "\<forall>m. length (f m) = hash_len H"
    unfolding hash_ok_def by blast
  then show thesis using that by blast
qed

lemma hmac_new_length:
  "hash_ok H \<Longrightarrow> hmac_new_from_slice H k = Some f \<Longrightarrow> length (f m) = hash_len H"
  by (metis hmac_new_ok option.inject)

section \<open>Key stretching\<close>

text \<open>\<open>trait Ksf\<close>: an instance is used through its \<open>hash\<close> method only.\<close>

type_synonym ksf = "bytes \<Rightarrow> (internal_error, bytes) result"

definition ksf_identity :: ksf where
  "ksf_identity input = Ok input"

text \<open>
  \<open>impl Ksf for Argon2\<close>: \<open>hash_password_into\<close> (password, salt, output length) is the external
  function, which writes the byte at each index of the output or fails; \<open>salt_len\<close> is
  \<open>argon2::RECOMMENDED_SALT_LEN\<close>.
\<close>

definition ksf_argon2 :: "(bytes \<Rightarrow> bytes \<Rightarrow> nat \<Rightarrow> (nat \<Rightarrow> byte) option) \<Rightarrow> nat \<Rightarrow> ksf" where
  "ksf_argon2 hash_password_into salt_len input =
     (case hash_password_into input (zeros salt_len) (length input) of
        None \<Rightarrow> Err KsfError
      | Some out \<Rightarrow> Ok (map out [0..<length input]))"

text \<open>The trait's type says that the output has the length of the input.\<close>

locale key_stretching =
  fixes stretch :: ksf
  assumes stretch_length: "stretch input = Ok output \<Longrightarrow> length output = length input"

interpretation ksf_identity: key_stretching ksf_identity
  by unfold_locales (simp add: ksf_identity_def)

interpretation ksf_argon2: key_stretching "ksf_argon2 hash_password_into salt_len"
  for hash_password_into salt_len
  by unfold_locales (auto simp: ksf_argon2_def split: option.splits)

section \<open>The oblivious pseudorandom function\<close>

text \<open>
  The parts of the \<open>voprf\<close> crate that the source calls. \<open>BlindedElement\<close> and
  \<open>EvaluationElement\<close> wrap a group element \<open>'e\<close> (\<open>value()\<close>), so they are represented by it;
  \<open>'oc\<close> is \<open>OprfClient\<close>; \<open>OprfServer\<close> is seen through its \<open>blind_evaluate\<close>. A scalar occurs
  serialized only, so \<open>oprf_derive_key\<close> is \<open>derive_key(seed, info, Mode::Oprf)\<close> followed by
  \<open>serialize_scalar\<close>.
\<close>

record ('e, 'oc) oprf_suite =
  oprf_hash :: hash_fns
  elem_len :: nat
  scalar_len :: nat
  oprf_blind :: "bytes \<Rightarrow> (rng, voprf_error, 'oc \<times> 'e) st"
  oprf_finalize :: "'oc \<Rightarrow> bytes \<Rightarrow> 'e \<Rightarrow> (voprf_error, bytes) result"
  oprf_new_with_key :: "bytes \<Rightarrow> (voprf_error, 'e \<Rightarrow> 'e) result"
  oprf_derive_key :: "bytes \<Rightarrow> bytes \<Rightarrow> (voprf_error, bytes) result"
  serialize_elem :: "'e \<Rightarrow> bytes"
  deserialize_blinded :: "bytes \<Rightarrow> (voprf_error, 'e) result"
  deserialize_evaluation :: "bytes \<Rightarrow> (voprf_error, 'e) result"
  serialize_oprf_client :: "'oc \<Rightarrow> bytes"
  deserialize_oprf_client :: "bytes \<Rightarrow> (voprf_error, 'oc) result"

text \<open>
  What RFC 9497 and the crate's documentation promise: lengths, round trips of the non-identity
  elements (\<open>wf_e\<close>) and of client states (\<open>wf_oc\<close>), and that the output for a password under a
  key does not depend on the blind.
\<close>

definition oprf_ok :: "('e, 'oc) oprf_suite \<Rightarrow> ('e \<Rightarrow> bool) \<Rightarrow> ('oc \<Rightarrow> bool) \<Rightarrow> bool" where
  "oprf_ok P wf_e wf_oc \<longleftrightarrow>
     hash_ok (oprf_hash P) \<and>
     (\<forall>e. wf_e e \<longrightarrow>
        length (serialize_elem P e) = elem_len P \<and>
        deserialize_blinded P (serialize_elem P e) = Ok e \<and>
        deserialize_evaluation P (serialize_elem P e) = Ok e) \<and>
     (\<forall>c. wf_oc c \<longrightarrow>
        length (serialize_oprf_client P c) = scalar_len P \<and>
        deserialize_oprf_client P (serialize_oprf_client P c) = Ok c) \<and>
     (\<forall>pw r c be r'. oprf_blind P pw r = (Ok (c, be), r') \<longrightarrow> wf_oc c \<and> wf_e be) \<and>
     (\<forall>k ev e. oprf_new_with_key P k = Ok ev \<longrightarrow> wf_e e \<longrightarrow> wf_e (ev e)) \<and>
     (\<forall>pw k ev r1 c1 b1 r1' r2 c2 b2 r2'.
        oprf_new_with_key P k = Ok ev \<longrightarrow>
        oprf_blind P pw r1 = (Ok (c1, b1), r1') \<longrightarrow> oprf_blind P pw r2 = (Ok (c2, b2), r2') \<longrightarrow>
        oprf_finalize P c1 pw (ev b1) = oprf_finalize P c2 pw (ev b2))"

lemma oprf_okD:
  assumes "oprf_ok P wf_e wf_oc"
  shows "hash_ok (oprf_hash P)"
    and "wf_e e \<Longrightarrow> length (serialize_elem P e) = elem_len P"
    and "wf_e e \<Longrightarrow> deserialize_blinded P (serialize_elem P e) = Ok e"
    and "wf_e e \<Longrightarrow> deserialize_evaluation P (serialize_elem P e) = Ok e"
    and "wf_oc c \<Longrightarrow> length (serialize_oprf_client P c) = scalar_len P"
    and "wf_oc c \<Longrightarrow> deserialize_oprf_client P (serialize_oprf_client P c) = Ok c"
    and "oprf_blind P pw r = (Ok (c, be), r') \<Longrightarrow> wf_oc c"
    and "oprf_blind P pw r = (Ok (c, be), r') \<Longrightarrow> wf_e be"
    and "oprf_new_with_key P k = Ok ev \<Longrightarrow> wf_e e \<Longrightarrow> wf_e (ev e)"
  using assms unfolding oprf_ok_def by - (meson+)

lemma oprf_deterministic:
  assumes "oprf_ok P wf_e wf_oc" "oprf_new_with_key P k = Ok ev"
    and "oprf_blind P pw r1 = (Ok (c1, b1), r1')" "oprf_blind P pw r2 = (Ok (c2, b2), r2')"
  shows "oprf_finalize P c1 pw (ev b1) = oprf_finalize P c2 pw (ev b2)"
  using assms unfolding oprf_ok_def by blast

end
