(* ===== verification/Ke_Group.thy ===== *)
theory Ke_Group
  imports Primitives
begin

text \<open>
  \<open>src/key_exchange/group/mod.rs\<close> and the \<open>DiffieHellman\<close> trait of
  \<open>src/key_exchange/shared.rs\<close>: the \<open>Group\<close> trait as a record of its items, and its contract as
  locales. The group theories (\<open>Ristretto255\<close>, \<open>Curve25519\<close>, \<open>Ed25519\<close>, \<open>Elliptic_Curve\<close>) build the
  records of the implementations and interpret the locales; everything else is a client.
\<close>

definition STR_OPAQUE_DERIVE_AUTH_KEY_PAIR :: bytes where
  "STR_OPAQUE_DERIVE_AUTH_KEY_PAIR = map of_char ''OPAQUE-DeriveDiffieHellmanKeyPair''"

text \<open>\<open>random_sk\<close> may sample in a loop: \<open>None\<close> is a loop that never leaves.\<close>

record ('sk, 'pk) ke_group =
  pk_len :: nat
  sk_len :: nat
  serialize_pk :: "'pk \<Rightarrow> bytes"
  deserialize_take_pk :: "(bytes, protocol_error, 'pk) st"
  random_sk :: "rng \<Rightarrow> ('sk \<times> rng) option"
  derive_scalar :: "bytes \<Rightarrow> (internal_error, 'sk) result"
  public_key :: "'sk \<Rightarrow> 'pk"
  serialize_sk :: "'sk \<Rightarrow> bytes"
  deserialize_take_sk :: "(bytes, protocol_error, 'sk) st"

type_synonym ('sk, 'pk) diffie_hellman = "'sk \<Rightarrow> 'pk \<Rightarrow> bytes"

text \<open>
  \<open>wf_sk\<close> and \<open>wf_pk\<close> are the keys that the Rust types can hold (non-zero scalars, non-identity
  points); \<open>trusted\<close> says that the curve library behaves as documented.
\<close>

locale key_group =
  fixes G :: "('sk, 'pk) ke_group"
    and trusted :: bool
    and wf_sk :: "'sk \<Rightarrow> bool"
    and wf_pk :: "'pk \<Rightarrow> bool"
  assumes pk_length: "trusted \<Longrightarrow> wf_pk p \<Longrightarrow> length (serialize_pk G p) = pk_len G"
    and pk_roundtrip: "trusted \<Longrightarrow> wf_pk p \<Longrightarrow>
          deserialize_take_pk G (serialize_pk G p @ rest) = (Ok p, rest)"
    and pk_sound: "trusted \<Longrightarrow> deserialize_take_pk G input = (Ok p, rest) \<Longrightarrow>
          wf_pk p \<and> length input = pk_len G + length rest"
    and pk_no_panic: "trusted \<Longrightarrow> deserialize_take_pk G input \<noteq> (Panic, rest)"
    and sk_length: "trusted \<Longrightarrow> wf_sk s \<Longrightarrow> length (serialize_sk G s) = sk_len G"
    and sk_roundtrip: "trusted \<Longrightarrow> wf_sk s \<Longrightarrow>
          deserialize_take_sk G (serialize_sk G s @ rest) = (Ok s, rest)"
    and sk_sound: "trusted \<Longrightarrow> deserialize_take_sk G input = (Ok s, rest) \<Longrightarrow>
          wf_sk s \<and> length input = sk_len G + length rest"
    and sk_no_panic: "trusted \<Longrightarrow> deserialize_take_sk G input \<noteq> (Panic, rest)"
    and public_key_wf: "trusted \<Longrightarrow> wf_sk s \<Longrightarrow> wf_pk (public_key G s)"
    and derive_scalar_wf: "trusted \<Longrightarrow> length seed = sk_len G \<Longrightarrow>
          derive_scalar G seed = Ok s \<Longrightarrow> wf_sk s"
    and random_sk_wf: "trusted \<Longrightarrow> random_sk G r = Some (s, r') \<Longrightarrow> wf_sk s"
begin

lemma pk_codec: "wire_codec (serialize_pk G) (deserialize_take_pk G) (pk_len G)
    (\<lambda>p. trusted \<and> wf_pk p)"
  by unfold_locales (auto simp: pk_length pk_roundtrip)

lemma sk_codec: "wire_codec (serialize_sk G) (deserialize_take_sk G) (sk_len G)
    (\<lambda>s. trusted \<and> wf_sk s)"
  by unfold_locales (auto simp: sk_length sk_roundtrip)

lemma serialize_pk_inj:
  "trusted \<Longrightarrow> wf_pk p \<Longrightarrow> wf_pk q \<Longrightarrow> serialize_pk G p = serialize_pk G q \<Longrightarrow> p = q"
  using wire_codec.enc_inj [OF pk_codec] by blast

lemma serialize_sk_inj:
  "trusted \<Longrightarrow> wf_sk s \<Longrightarrow> wf_sk t \<Longrightarrow> serialize_sk G s = serialize_sk G t \<Longrightarrow> s = t"
  using wire_codec.enc_inj [OF sk_codec] by blast

end

text \<open>A group whose encodings of keys are unique: decoding accepts nothing else.\<close>

locale canonical_key_group = key_group +
  assumes pk_canonical: "trusted \<Longrightarrow> deserialize_take_pk G input = (Ok p, rest) \<Longrightarrow>
      input = serialize_pk G p @ rest"
    and sk_canonical: "trusted \<Longrightarrow> deserialize_take_sk G input = (Ok s, rest) \<Longrightarrow>
      input = serialize_sk G s @ rest"

text \<open>\<open>G::Sk: DiffieHellman<G>\<close>.\<close>

locale dh_group = key_group +
  fixes dh :: "('a, 'b) diffie_hellman"
  assumes dh_length: "trusted \<Longrightarrow> wf_sk s \<Longrightarrow> wf_pk p \<Longrightarrow> length (dh s p) = pk_len G"
    and dh_agree: "trusted \<Longrightarrow> wf_sk s \<Longrightarrow> wf_sk t \<Longrightarrow>
          dh s (public_key G t) = dh t (public_key G s)"

text \<open>The contracts as hypotheses on an arbitrary group.\<close>

definition group_ok ::
    "('sk, 'pk) ke_group \<Rightarrow> ('sk \<Rightarrow> bool) \<Rightarrow> ('pk \<Rightarrow> bool) \<Rightarrow> bool" where
  "group_ok G wf_sk wf_pk \<longleftrightarrow> key_group G True wf_sk wf_pk"

definition dh_ok ::
    "('sk, 'pk) ke_group \<Rightarrow> ('sk, 'pk) diffie_hellman \<Rightarrow> ('sk \<Rightarrow> bool) \<Rightarrow> ('pk \<Rightarrow> bool) \<Rightarrow> bool"
  where
  "dh_ok G dh wf_sk wf_pk \<longleftrightarrow> dh_group G True wf_sk wf_pk dh"

lemma dh_ok_group_ok: "dh_ok G dh wf_sk wf_pk \<Longrightarrow> group_ok G wf_sk wf_pk"
  by (simp add: dh_ok_def group_ok_def dh_group_def)

lemma key_group_untrusted: "\<not> b \<Longrightarrow> key_group G b wf_sk wf_pk"
  by unfold_locales simp_all

lemma dh_group_untrusted: "\<not> b \<Longrightarrow> dh_group G b wf_sk wf_pk dh"
  by (intro dh_group.intro key_group_untrusted dh_group_axioms.intro) simp_all

interpretation any_group: key_group G "group_ok G wf_sk wf_pk" wf_sk wf_pk
  for G :: "('sk, 'pk) ke_group" and wf_sk wf_pk
proof (cases "group_ok G wf_sk wf_pk")
  case True
  then have "key_group G True wf_sk wf_pk" by (simp add: group_ok_def)
  with True show "key_group G (group_ok G wf_sk wf_pk) wf_sk wf_pk" by simp
qed (rule key_group_untrusted)

interpretation any_dh: dh_group G "dh_ok G dh wf_sk wf_pk" wf_sk wf_pk dh
  for G :: "('sk, 'pk) ke_group" and dh wf_sk wf_pk
proof (cases "dh_ok G dh wf_sk wf_pk")
  case True
  then have "dh_group G True wf_sk wf_pk dh" by (simp add: dh_ok_def)
  with True show "dh_group G (dh_ok G dh wf_sk wf_pk) wf_sk wf_pk dh" by simp
qed (rule dh_group_untrusted)

lemmas group_facts = any_group.pk_length any_group.pk_roundtrip any_group.sk_length
  any_group.sk_roundtrip any_group.public_key_wf

text \<open>Key derivation cannot fail (no hash-to-scalar step): Curve25519 and Ed25519.\<close>

definition derive_total :: "('sk, 'pk) ke_group \<Rightarrow> bool" where
  "derive_total G \<longleftrightarrow> (\<forall>seed. length seed = sk_len G \<longrightarrow> is_ok (derive_scalar G seed))"

end
