(* ===== verification/Keypair.thy ===== *)
theory Keypair
  imports Ke_Group
begin

text \<open>
  \<open>src/keypair.rs\<close>: key pairs, the wrappers \<open>PrivateKey\<close> and \<open>PublicKey\<close> (represented by the
  group's own key types) and the serialization traits of the server setup.
\<close>

record ('pk, 'k) keypair =
  kp_pk :: 'pk
  kp_sk :: 'k

definition keypair_new :: "'k \<Rightarrow> 'pk \<Rightarrow> ('pk, 'k) keypair" where
  "keypair_new sk pk = \<lparr>kp_pk = pk, kp_sk = sk\<rparr>"

definition keypair_public :: "('pk, 'k) keypair \<Rightarrow> 'pk" where
  "keypair_public kp = kp_pk kp"

definition keypair_private :: "('pk, 'k) keypair \<Rightarrow> 'k" where
  "keypair_private kp = kp_sk kp"

text \<open>\<open>KeyPair::random\<close>: \<open>None\<close> when the sampling loop of the group never leaves.\<close>

definition keypair_random :: "('sk, 'pk) ke_group \<Rightarrow> rng \<Rightarrow> (('pk, 'sk) keypair \<times> rng) option" where
  "keypair_random G rng =
     (case random_sk G rng of
        None \<Rightarrow> None
      | Some (sk, rng') \<Rightarrow> Some (\<lparr>kp_pk = public_key G sk, kp_sk = sk\<rparr>, rng'))"

text \<open>\<open>KeyPair::derive_random\<close> unwraps the result of \<open>derive_scalar\<close>.\<close>

definition keypair_derive_random ::
    "('sk, 'pk) ke_group \<Rightarrow> (rng, protocol_error, ('pk, 'sk) keypair) st" where
  "keypair_derive_random G =
     bind_st (run_st (fill_bytes (sk_len G))) (\<lambda>scalar_bytes.
     bind_st (lift_st (unwrap (derive_scalar G scalar_bytes))) (\<lambda>sk.
     return_st \<lparr>kp_pk = public_key G sk, kp_sk = sk\<rparr>))"

section \<open>Private and public keys\<close>

definition private_key_public_key :: "('sk, 'pk) ke_group \<Rightarrow> 'sk \<Rightarrow> 'pk" where
  "private_key_public_key G self = public_key G self"

definition private_key_serialize :: "('sk, 'pk) ke_group \<Rightarrow> 'sk \<Rightarrow> bytes" where
  "private_key_serialize G self = serialize_sk G self"

definition private_key_deserialize_take ::
    "('sk, 'pk) ke_group \<Rightarrow> (bytes, protocol_error, 'sk) st" where
  "private_key_deserialize_take G = deserialize_take_sk G"

definition private_key_deserialize ::
    "('sk, 'pk) ke_group \<Rightarrow> bytes \<Rightarrow> (protocol_error, 'sk) result" where
  "private_key_deserialize G input = eval_st (private_key_deserialize_take G) input"

definition ke_diffie_hellman :: "('sk, 'pk) diffie_hellman \<Rightarrow> 'sk \<Rightarrow> 'pk \<Rightarrow> bytes" where
  "ke_diffie_hellman dh self pk = dh self pk"

definition public_key_serialize :: "('sk, 'pk) ke_group \<Rightarrow> 'pk \<Rightarrow> bytes" where
  "public_key_serialize G self = serialize_pk G self"

definition public_key_deserialize_take ::
    "('sk, 'pk) ke_group \<Rightarrow> (bytes, protocol_error, 'pk) st" where
  "public_key_deserialize_take G = deserialize_take_pk G"

definition public_key_deserialize ::
    "('sk, 'pk) ke_group \<Rightarrow> bytes \<Rightarrow> (protocol_error, 'pk) result" where
  "public_key_deserialize G key_bytes = eval_st (public_key_deserialize_take G) key_bytes"

lemmas key_defs = keypair_new_def keypair_public_def keypair_private_def
  private_key_public_key_def private_key_serialize_def private_key_deserialize_take_def
  private_key_deserialize_def ke_diffie_hellman_def public_key_serialize_def
  public_key_deserialize_take_def public_key_deserialize_def

section \<open>Serialization of the server's keys\<close>

text \<open>
  \<open>trait PrivateKeySerialization<G>\<close> and \<open>trait OprfSeedSerialization<H, E>\<close>. \<open>'err\<close> is
  \<open>ProtocolError<E>\<close>; the seed's implementation for \<open>OprfSeed\<close> converts into it with
  \<open>into_custom\<close>, which is the identity for \<open>E = Infallible\<close>.
\<close>

record ('pk, 'k, 'err) private_key_serialization =
  pks_len :: nat
  serialize_key_pair :: "('pk, 'k) keypair \<Rightarrow> bytes"
  deserialize_take_key_pair :: "(bytes, 'err, ('pk, 'k) keypair) st"

record ('os, 'err) oprf_seed_serialization =
  os_len :: nat
  os_serialize :: "'os \<Rightarrow> bytes"
  os_deserialize_take :: "(bytes, 'err, 'os) st"

definition private_key_serialization_impl ::
    "('sk, 'pk) ke_group \<Rightarrow> ('pk, 'sk, protocol_error) private_key_serialization" where
  "private_key_serialization_impl G =
     \<lparr>pks_len = sk_len G,
      serialize_key_pair = (\<lambda>key_pair. private_key_serialize G (keypair_private key_pair)),
      deserialize_take_key_pair =
        bind_st (private_key_deserialize_take G) (\<lambda>sk.
          let pk = private_key_public_key G sk in return_st (keypair_new sk pk))\<rparr>"

definition oprf_seed_serialization_impl ::
    "hash_fns \<Rightarrow> (protocol_error \<Rightarrow> 'err) \<Rightarrow> (bytes, 'err) oprf_seed_serialization" where
  "oprf_seed_serialization_impl H conv =
     \<lparr>os_len = hash_len H,
      os_serialize = (\<lambda>self. self),
      os_deserialize_take = map_err_st conv (take_array (hash_len H) ''OPRF seed'')\<rparr>"

section \<open>Facts\<close>

text \<open>A key pair whose public key belongs to its private key.\<close>

definition keypair_consistent :: "('sk, 'pk) ke_group \<Rightarrow> ('pk, 'sk) keypair \<Rightarrow> bool" where
  "keypair_consistent G kp \<longleftrightarrow> kp_pk kp = public_key G (kp_sk kp)"

lemma keypair_random_consistent:
  "keypair_random G r = Some (kp, r') \<Longrightarrow> keypair_consistent G kp"
  by (auto simp: keypair_random_def keypair_consistent_def split: option.splits)

lemma keypair_random_wf:
  "group_ok G wf_sk wf_pk \<Longrightarrow> keypair_random G r = Some (kp, r') \<Longrightarrow>
     wf_sk (kp_sk kp) \<and> wf_pk (kp_pk kp)"
  by (auto simp: keypair_random_def split: option.splits
      dest: any_group.random_sk_wf intro: any_group.public_key_wf)

lemma keypair_derive_random_Ok_iff:
  "keypair_derive_random G r = (Ok kp, r') \<longleftrightarrow>
     (\<exists>seed sk. fill_bytes (sk_len G) r = (seed, r') \<and> derive_scalar G seed = Ok sk \<and>
        kp = \<lparr>kp_pk = public_key G sk, kp_sk = sk\<rparr>)"
  by (auto simp: keypair_derive_random_def bind_st_Ok_iff)

lemma keypair_derive_random_not_Err [simp]: "keypair_derive_random G r \<noteq> (Err e, r')"
  by (auto simp: keypair_derive_random_def bind_st_Err_iff)

lemma keypair_derive_random_consistent:
  "keypair_derive_random G r = (Ok kp, r') \<Longrightarrow> keypair_consistent G kp"
  by (auto simp: keypair_derive_random_Ok_iff keypair_consistent_def)

lemma keypair_derive_random_wf:
  "group_ok G wf_sk wf_pk \<Longrightarrow> keypair_derive_random G r = (Ok kp, r') \<Longrightarrow>
     wf_sk (kp_sk kp) \<and> wf_pk (kp_pk kp)"
  by (auto simp: keypair_derive_random_Ok_iff dest!: length_fill_bytes
      dest: any_group.derive_scalar_wf intro: any_group.public_key_wf)

lemma keypair_derive_random_total:
  assumes "derive_total G"
  obtains kp r' where "keypair_derive_random G r = (Ok kp, r')"
proof -
  obtain seed r' where fill: "fill_bytes (sk_len G) r = (seed, r')" by fastforce
  moreover from fill have "length seed = sk_len G" by (rule length_fill_bytes)
  with assms obtain sk where "derive_scalar G seed = Ok sk"
    by (auto simp: derive_total_def is_ok_def)
  ultimately have "keypair_derive_random G r = (Ok \<lparr>kp_pk = public_key G sk, kp_sk = sk\<rparr>, r')"
    unfolding keypair_derive_random_Ok_iff by blast
  then show thesis by (rule that)
qed

text \<open>The implementation of \<open>PrivateKeySerialization\<close> for \<open>PrivateKey\<close> as a codec.\<close>

interpretation key_pair_codec: wire_codec
  "serialize_key_pair (private_key_serialization_impl G)"
  "deserialize_take_key_pair (private_key_serialization_impl G)"
  "pks_len (private_key_serialization_impl G)"
  "\<lambda>kp. group_ok G wf_sk wf_pk \<and> wf_sk (kp_sk kp) \<and> keypair_consistent G kp"
  for G :: "('sk, 'pk) ke_group" and wf_sk wf_pk
  by unfold_locales
     (auto simp: private_key_serialization_impl_def key_defs group_facts keypair_consistent_def
       Let_def)

interpretation oprf_seed_codec: wire_codec
  "os_serialize (oprf_seed_serialization_impl H id)"
  "os_deserialize_take (oprf_seed_serialization_impl H id)"
  "os_len (oprf_seed_serialization_impl H id)"
  "\<lambda>seed. length seed = hash_len H"
  for H :: hash_fns
  by unfold_locales (auto simp: oprf_seed_serialization_impl_def)

end
