(* ===== verification/Ke_Parts.thy ===== *)
theory Ke_Parts
  imports Keypair
begin

text \<open>
  The serialized values that the key exchange is given (\<open>src/key_exchange/mod.rs\<close>):
  \<open>SerializedContext\<close>, \<open>SerializedIdentifiers\<close>, \<open>SerializedCredentialRequest\<close> and
  \<open>SerializedCredentialResponse\<close>, with \<open>MaskedResponse\<close> and \<open>Identifiers\<close> of \<open>src/opaque.rs\<close>.
  \<open>iter\<close> methods return the list of slices that they yield. Where the source is generic over the
  cipher suite, a definition takes what it uses of it: the length \<open>ne\<close> of an OPRF element, the
  OPRF hash \<open>H\<close>, the group \<open>G\<close>.
\<close>

definition nonce_len :: nat where
  "nonce_len = 32"

section \<open>Context\<close>

definition STR_CONTEXT :: bytes where
  "STR_CONTEXT = map of_char ''OPAQUEv1-''"

record serialized_context =
  ctx_length :: bytes
  ctx_context :: bytes

definition serialized_context_from ::
    "bytes option \<Rightarrow> (protocol_error, serialized_context) result" where
  "serialized_context_from context =
     (let context = (case context of Some c \<Rightarrow> c | None \<Rightarrow> []) in
      bind_result (i2osp 2 (usize_len context)) (\<lambda>len.
      Ok \<lparr>ctx_length = len, ctx_context = context\<rparr>))"

definition serialized_context_iter :: "serialized_context \<Rightarrow> bytes list" where
  "serialized_context_iter self = [STR_CONTEXT] @ [ctx_length self, ctx_context self]"

section \<open>Identifiers\<close>

record identifiers =
  id_client :: "bytes option"
  id_server :: "bytes option"

datatype identifier_slice = Owned bytes | Borrowed bytes

primrec identifier_bytes :: "identifier_slice \<Rightarrow> bytes" where
  "identifier_bytes (Owned bs) = bs"
| "identifier_bytes (Borrowed bs) = bs"

record serialized_identifier =
  si_length :: bytes
  si_identifier :: identifier_slice

record serialized_identifiers =
  sids_client :: serialized_identifier
  sids_server :: serialized_identifier

definition from_identifier ::
    "bytes option \<Rightarrow> bytes \<Rightarrow> (protocol_error, serialized_identifier) result" where
  "from_identifier idt s_pk =
     (case idt of
        Some idt \<Rightarrow>
          bind_result (i2osp 2 (usize_len idt)) (\<lambda>len.
          Ok \<lparr>si_length = len, si_identifier = Borrowed idt\<rparr>)
      | None \<Rightarrow>
          bind_result (i2osp 2 (usize_len s_pk)) (\<lambda>len.
          Ok \<lparr>si_length = len, si_identifier = Owned s_pk\<rparr>))"

definition from_identifiers ::
    "identifiers \<Rightarrow> bytes \<Rightarrow> bytes \<Rightarrow> (protocol_error, serialized_identifiers) result" where
  "from_identifiers ids client_s_pk server_s_pk =
     bind_result (from_identifier (id_client ids) client_s_pk) (\<lambda>client.
     bind_result (from_identifier (id_server ids) server_s_pk) (\<lambda>server.
     Ok \<lparr>sids_client = client, sids_server = server\<rparr>))"

definition serialized_identifier_iter :: "serialized_identifier \<Rightarrow> bytes list" where
  "serialized_identifier_iter self =
     [si_length self] @
     (case si_identifier self of Owned bs \<Rightarrow> [bs] | Borrowed bs \<Rightarrow> [bs])"

section \<open>Masked response\<close>

record masked_response =
  mr_nonce :: bytes
  mr_hash :: bytes
  mr_pk :: bytes

definition masked_response_len :: "hash_fns \<Rightarrow> ('sk, 'pk) ke_group \<Rightarrow> nat" where
  "masked_response_len H G = hash_len H + nonce_len + pk_len G"

definition masked_response_serialize :: "masked_response \<Rightarrow> bytes" where
  "masked_response_serialize self =
     cat (concat_ext (mr_nonce self) (mr_hash self)) (mr_pk self)"

definition masked_response_deserialize_take ::
    "hash_fns \<Rightarrow> ('sk, 'pk) ke_group \<Rightarrow> (bytes, protocol_error, masked_response) st" where
  "masked_response_deserialize_take H G =
     bind_st (take_array nonce_len ''masked nonce'') (\<lambda>nonce.
     bind_st (take_array (hash_len H) ''masked hash'') (\<lambda>hash.
     bind_st (take_array (pk_len G) ''masked public key'') (\<lambda>pk.
     return_st \<lparr>mr_nonce = nonce, mr_hash = hash, mr_pk = pk\<rparr>)))"

definition masked_response_iter :: "masked_response \<Rightarrow> bytes list" where
  "masked_response_iter self = [mr_nonce self, mr_hash self, mr_pk self]"

definition masked_response_ok :: "hash_fns \<Rightarrow> ('sk, 'pk) ke_group \<Rightarrow> masked_response \<Rightarrow> bool" where
  "masked_response_ok H G mr \<longleftrightarrow>
     length (mr_nonce mr) = nonce_len \<and> length (mr_hash mr) = hash_len H \<and>
     length (mr_pk mr) = pk_len G"

section \<open>Credential request and response\<close>

type_synonym serialized_credential_request = bytes

definition serialized_credential_request_iter :: "serialized_credential_request \<Rightarrow> bytes list" where
  "serialized_credential_request_iter self = [self]"

definition serialized_credential_request_deserialize_take ::
    "nat \<Rightarrow> (bytes, protocol_error, serialized_credential_request) st" where
  "serialized_credential_request_deserialize_take ne = take_array ne ''blinded element''"

definition serialized_credential_request_serialize :: "serialized_credential_request \<Rightarrow> bytes" where
  "serialized_credential_request_serialize self = self"

record serialized_credential_response =
  scr_evaluation_element :: bytes
  scr_masking_nonce :: bytes
  scr_masked_response :: masked_response

definition serialized_credential_response_iter ::
    "serialized_credential_response \<Rightarrow> bytes list" where
  "serialized_credential_response_iter self =
     [scr_evaluation_element self, scr_masking_nonce self]
       @ masked_response_iter (scr_masked_response self)"

definition serialized_credential_response_deserialize_take ::
    "nat \<Rightarrow> hash_fns \<Rightarrow> ('sk, 'pk) ke_group \<Rightarrow>
     (bytes, protocol_error, serialized_credential_response) st" where
  "serialized_credential_response_deserialize_take ne H G =
     bind_st (take_array ne ''evaluation element'') (\<lambda>evaluation_element.
     bind_st (take_array nonce_len ''masking nonce'') (\<lambda>masking_nonce.
     bind_st (masked_response_deserialize_take H G) (\<lambda>masked_response.
     return_st \<lparr>scr_evaluation_element = evaluation_element,
                scr_masking_nonce = masking_nonce,
                scr_masked_response = masked_response\<rparr>)))"

definition serialized_credential_response_serialize ::
    "serialized_credential_response \<Rightarrow> bytes" where
  "serialized_credential_response_serialize self =
     cat (cat (scr_evaluation_element self) (scr_masking_nonce self))
         (masked_response_serialize (scr_masked_response self))"

definition serialized_credential_response_ok ::
    "nat \<Rightarrow> hash_fns \<Rightarrow> ('sk, 'pk) ke_group \<Rightarrow> serialized_credential_response \<Rightarrow> bool" where
  "serialized_credential_response_ok ne H G r \<longleftrightarrow>
     length (scr_evaluation_element r) = ne \<and> length (scr_masking_nonce r) = nonce_len \<and>
     masked_response_ok H G (scr_masked_response r)"

section \<open>Facts\<close>

interpretation masked_response_codec: canonical_codec
  masked_response_serialize "masked_response_deserialize_take H G" "masked_response_len H G"
  "masked_response_ok H G" True
  for H :: hash_fns and G :: "('sk, 'pk) ke_group"
  by unfold_locales
     (auto simp: masked_response_serialize_def masked_response_deserialize_take_def
       masked_response_len_def masked_response_ok_def cat_def ok_iffs take_array_Ok_iff)

interpretation credential_response_codec: canonical_codec
  serialized_credential_response_serialize
  "serialized_credential_response_deserialize_take ne H G"
  "ne + nonce_len + masked_response_len H G"
  "serialized_credential_response_ok ne H G" True
  for ne :: nat and H :: hash_fns and G :: "('sk, 'pk) ke_group"
  by unfold_locales
     (auto simp: serialized_credential_response_serialize_def
       serialized_credential_response_deserialize_take_def serialized_credential_response_ok_def
       masked_response_codec.enc_length masked_response_codec.dec_enc
       masked_response_codec.dec_Ok_iff cat_def ok_iffs take_array_Ok_iff)

interpretation credential_request_codec: canonical_codec
  serialized_credential_request_serialize "serialized_credential_request_deserialize_take ne"
  ne "\<lambda>r. length r = ne" True
  for ne :: nat
  by unfold_locales
     (auto simp: serialized_credential_request_serialize_def
       serialized_credential_request_deserialize_take_def take_array_Ok_iff)

text \<open>The slices of \<open>iter\<close> are the serialized value.\<close>

lemma concat_masked_response_iter:
  "concat (masked_response_iter mr) = masked_response_serialize mr"
  by (simp add: masked_response_iter_def masked_response_serialize_def cat_def)

lemma concat_credential_response_iter:
  "concat (serialized_credential_response_iter r) = serialized_credential_response_serialize r"
  by (simp add: serialized_credential_response_iter_def concat_masked_response_iter
      serialized_credential_response_serialize_def cat_def)

text \<open>A length field of two bytes.\<close>

lemma i2osp2_Ok:
  "length xs < 65536 \<Longrightarrow> i2osp 2 (usize_len xs) = Ok (be_digits 2 (length xs))"
  by (simp add: i2osp_eq unat_usize_len)

lemma i2osp2_Err:
  "65536 \<le> length xs \<Longrightarrow> length xs < 2 ^ 64 \<Longrightarrow> i2osp 2 (usize_len xs) = Err SerializationError"
  by (simp add: i2osp_eq unat_usize_len)

lemma i2osp_not_Panic [simp]: "i2osp L w \<noteq> Panic"
  by (simp add: i2osp_eq)

text \<open>The identifier that is used: the one given, or the static public key.\<close>

definition effective_identifier :: "bytes option \<Rightarrow> bytes \<Rightarrow> bytes" where
  "effective_identifier idt s_pk = (case idt of Some i \<Rightarrow> i | None \<Rightarrow> s_pk)"

lemma concat_identifier_iter:
  "from_identifier idt s_pk = Ok si \<Longrightarrow>
     concat (serialized_identifier_iter si) =
       be_digits 2 (unat (usize_len (effective_identifier idt s_pk))) @ effective_identifier idt s_pk"
  by (auto simp: from_identifier_def serialized_identifier_iter_def effective_identifier_def
      bind_result_Ok_iff i2osp_eq split: option.splits if_splits)

lemma from_identifier_Ok:
  "length (effective_identifier idt s_pk) < 65536 \<Longrightarrow> \<exists>si. from_identifier idt s_pk = Ok si"
  by (auto simp: from_identifier_def effective_identifier_def i2osp2_Ok split: option.splits)

lemma from_identifier_too_long:
  "65536 \<le> length (effective_identifier idt s_pk) \<Longrightarrow>
     length (effective_identifier idt s_pk) < 2 ^ 64 \<Longrightarrow>
     from_identifier idt s_pk = Err SerializationError"
  by (auto simp: from_identifier_def effective_identifier_def i2osp2_Err split: option.splits)

lemma from_identifier_short:
  "from_identifier idt s_pk = Ok si \<Longrightarrow> length (effective_identifier idt s_pk) < 2 ^ 64 \<Longrightarrow>
     length (effective_identifier idt s_pk) < 65536"
  using from_identifier_too_long [of idt s_pk] by force

lemma from_identifiers_Ok_iff:
  "from_identifiers ids cpk spk = Ok s \<longleftrightarrow>
     from_identifier (id_client ids) cpk = Ok (sids_client s) \<and>
     from_identifier (id_server ids) spk = Ok (sids_server s)"
  by (auto simp: from_identifiers_def bind_result_Ok_iff)

lemma from_identifiers_total:
  assumes "length (effective_identifier (id_client ids) cpk) < 65536"
    and "length (effective_identifier (id_server ids) spk) < 65536"
  obtains s where "from_identifiers ids cpk spk = Ok s"
proof -
  obtain c s where "from_identifier (id_client ids) cpk = Ok c"
    and "from_identifier (id_server ids) spk = Ok s"
    using from_identifier_Ok assms by metis
  then have "from_identifiers ids cpk spk = Ok \<lparr>sids_client = c, sids_server = s\<rparr>"
    by (simp add: from_identifiers_Ok_iff)
  then show thesis by (rule that)
qed

lemma serialized_context_from_Ok:
  "length (case c of Some x \<Rightarrow> x | None \<Rightarrow> []) < 65536 \<Longrightarrow>
     \<exists>ctx. serialized_context_from c = Ok ctx"
  by (auto simp: serialized_context_from_def i2osp2_Ok Let_def)

lemma serialized_context_too_long:
  "65536 \<le> length c \<Longrightarrow> length c < 2 ^ 64 \<Longrightarrow>
     serialized_context_from (Some c) = Err SerializationError"
  by (simp add: serialized_context_from_def i2osp2_Err)

lemma serialized_context_not_Panic [simp]: "serialized_context_from c \<noteq> Panic"
  by (cases "i2osp 2 (usize_len (case c of Some x \<Rightarrow> x | None \<Rightarrow> []))")
     (auto simp: serialized_context_from_def Let_def)

text \<open>
  A length field and the value it measures are self-delimiting: what follows cannot be shifted
  into the value.
\<close>

lemma length_prefixed_inj:
  assumes "be_digits 2 (unat (usize_len x)) @ x @ rest = be_digits 2 (unat (usize_len y)) @ y @ rest'"
    and "length x < 65536" "length y < 65536"
  shows "x = y \<and> rest = rest'"
proof -
  from assms(1) have "be_digits 2 (unat (usize_len x)) = be_digits 2 (unat (usize_len y))"
    and tail: "x @ rest = y @ rest'"
    by (simp_all add: append_eq_append_conv)
  then have "be_value (be_digits 2 (length x)) = be_value (be_digits 2 (length y))"
    using assms(2,3) by (simp add: unat_usize_len)
  with assms(2,3) have "length x = length y" by (simp add: be_value_be_digits)
  with tail show ?thesis by simp
qed

text \<open>Identifiers for concrete runs.\<close>

abbreviation sample_ids :: identifiers where
  "sample_ids \<equiv> \<lparr>id_client = None, id_server = Some [1]\<rparr>"

lemma sample_ids_total:
  obtains sids where "from_identifiers sample_ids [x] [y] = Ok sids"
  by (rule from_identifiers_total [of sample_ids "[x]" "[y]"])
     (auto simp: effective_identifier_def)

end
