(* ===== verification/Concrete_Suite.thy ===== *)
theory Concrete_Suite
  imports Keypair
begin

text \<open>
  Small executable instances of the external parameters, for the concrete runs that show the
  hypotheses of the theorems to be satisfiable: a counter as generator, checksums as hash, HKDF
  and HMAC, the multiplicative monoid of bytes as key-exchange and OPRF group. They satisfy the
  contracts (\<open>hash_ok\<close>, \<open>dh_ok\<close>, \<open>oprf_ok\<close>, \<open>derive_total\<close>) and nothing is claimed about their
  security.
\<close>

section \<open>A generator\<close>

primcorec counter_rng :: "nat \<Rightarrow> rng" where
  "rng_next_u32 (counter_rng n) = (of_nat n, counter_rng (n + 4))"
| "rng_next_u64 (counter_rng n) = (of_nat n, counter_rng (n + 8))"
| "rng_fill (counter_rng n) = (\<lambda>k. ((\<lambda>i. of_nat (n + i)), counter_rng (n + k)))"

lemma fill_counter [simp]:
  "fill_bytes k (counter_rng n) = (map (\<lambda>i. of_nat (n + i)) [0..<k], counter_rng (n + k))"
  by (simp add: fill_bytes_def)

section \<open>A hash\<close>

definition checksum :: "bytes \<Rightarrow> byte" where
  "checksum bs = foldl (\<lambda>acc b. acc + acc + acc + b + 1) 7 bs"

definition mini_hkdf :: "nat \<Rightarrow> byte \<Rightarrow> hkdf" where
  "mini_hkdf nh key = (\<lambda>info n.
     if n \<le> 255 * nh then Some (replicate n (checksum (key # info))) else None)"

definition mini_hash :: "nat \<Rightarrow> hash_fns" where
  "mini_hash nh =
     \<lparr>hash_len = nh,
      hash_digest = (\<lambda>x. replicate nh (checksum x)),
      hkdf_extract = (\<lambda>ikm. (replicate nh (checksum ikm), mini_hkdf nh (checksum ikm))),
      hkdf_from_prk = (\<lambda>prk. if nh \<le> length prk then Some (mini_hkdf nh (checksum prk)) else None),
      hmac_new_from_slice = (\<lambda>k. Some (\<lambda>m. replicate nh (checksum (k @ m))))\<rparr>"

lemma mini_hash_simps [simp]:
  "hash_len (mini_hash nh) = nh"
  "hash_digest (mini_hash nh) x = replicate nh (checksum x)"
  "hkdf_extract (mini_hash nh) ikm =
     (replicate nh (checksum ikm), mini_hkdf nh (checksum ikm))"
  "hkdf_from_prk (mini_hash nh) prk =
     (if nh \<le> length prk then Some (mini_hkdf nh (checksum prk)) else None)"
  "hmac_new_from_slice (mini_hash nh) k = Some (\<lambda>m. replicate nh (checksum (k @ m)))"
  by (simp_all add: mini_hash_def)

lemma mini_hkdf_apply [simp]:
  "n \<le> 255 * nh \<Longrightarrow> mini_hkdf nh key info n = Some (replicate n (checksum (key # info)))"
  by (simp add: mini_hkdf_def)

lemma mini_hkdf_ok: "hkdf_ok nh (mini_hkdf nh key)"
  by (simp add: hkdf_ok_def mini_hkdf_def)

lemma mini_hash_ok: "0 < nh \<Longrightarrow> nh < 256 \<Longrightarrow> hash_ok (mini_hash nh)"
  by (simp add: hash_ok_def mini_hkdf_ok)

section \<open>A key-exchange group\<close>

definition mini_group :: "(byte, byte) ke_group" where
  "mini_group =
     \<lparr>pk_len = 1, sk_len = 1,
      serialize_pk = (\<lambda>p. [p]),
      deserialize_take_pk = bind_st (take_array 1 ''public key'') (\<lambda>bs. return_st (hd bs)),
      random_sk = (\<lambda>r. case fill_bytes 1 r of (bs, r') \<Rightarrow> Some (hd bs, r')),
      derive_scalar = (\<lambda>seed. Ok (hd seed)),
      public_key = (\<lambda>s. 3 * s),
      serialize_sk = (\<lambda>s. [s]),
      deserialize_take_sk = bind_st (take_array 1 ''secret key'') (\<lambda>bs. return_st (hd bs))\<rparr>"

definition mini_dh :: "(byte, byte) diffie_hellman" where
  "mini_dh s p = [s * p]"

lemma mini_group_simps [simp]:
  "pk_len mini_group = 1" "sk_len mini_group = 1"
  "serialize_pk mini_group p = [p]" "serialize_sk mini_group s = [s]"
  "derive_scalar mini_group seed = Ok (hd seed)" "public_key mini_group s = 3 * s"
  "deserialize_take_pk mini_group =
     bind_st (take_array 1 ''public key'') (\<lambda>bs. return_st (hd bs))"
  "deserialize_take_sk mini_group =
     bind_st (take_array 1 ''secret key'') (\<lambda>bs. return_st (hd bs))"
  "random_sk mini_group r = (case fill_bytes 1 r of (bs, r') \<Rightarrow> Some (hd bs, r'))"
  by (simp_all add: mini_group_def)

lemma take_one [simp]: "take_array (Suc 0) name (x # rest) = (Ok [x], rest)"
  using take_array_append [of "[x]" 1] by simp

lemma bind_take_one [simp]: "bind_st (take_array (Suc 0) name) f (x # rest) = f [x] rest"
  by (rule bind_st_Ok) simp

interpretation mini: dh_group mini_group True "\<lambda>_. True" "\<lambda>_. True" mini_dh
  by unfold_locales
     (auto simp: mini_dh_def ok_iffs bind_st_Panic_iff take_array_Ok_iff ac_simps split: prod.splits)

lemma mini_dh_ok: "dh_ok mini_group mini_dh (\<lambda>_. True) (\<lambda>_. True)"
  unfolding dh_ok_def by (rule mini.dh_group_axioms)

lemma mini_group_ok: "group_ok mini_group (\<lambda>_. True) (\<lambda>_. True)"
  using mini_dh_ok by (rule dh_ok_group_ok)

lemma mini_derive_total: "derive_total mini_group"
  by (simp add: derive_total_def)

section \<open>An OPRF\<close>

text \<open>The blind is 1 or -1, its own inverse.\<close>

definition mini_oprf :: "nat \<Rightarrow> (byte, byte) oprf_suite" where
  "mini_oprf nh =
     \<lparr>oprf_hash = mini_hash nh, elem_len = 1, scalar_len = 1,
      oprf_blind = (\<lambda>pw r.
        case fill_bytes 1 r of (bs, r') \<Rightarrow>
          let b = (if bit (hd bs) 0 then 1 else - 1) in (Ok (b, b * checksum pw), r')),
      oprf_finalize = (\<lambda>b pw e. Ok (replicate nh (checksum (pw @ [b * e])))),
      oprf_new_with_key = (\<lambda>k. Ok (\<lambda>e. hd k * e)),
      oprf_derive_key = (\<lambda>seed info. Ok [hd seed + 2]),
      serialize_elem = (\<lambda>e. [e]),
      deserialize_blinded = (\<lambda>bs. if bs = [] then Err (Voprf_Error 0) else Ok (hd bs)),
      deserialize_evaluation = (\<lambda>bs. if bs = [] then Err (Voprf_Error 0) else Ok (hd bs)),
      serialize_oprf_client = (\<lambda>c. [c]),
      deserialize_oprf_client = (\<lambda>bs. if bs = [] then Err (Voprf_Error 0) else Ok (hd bs))\<rparr>"

lemma mini_oprf_ok:
  assumes "0 < nh" "nh < 256"
  shows "oprf_ok (mini_oprf nh) (\<lambda>_. True) (\<lambda>_. True)"
  unfolding oprf_ok_def
  by (intro conjI allI impI)
     (auto simp: mini_oprf_def mini_hash_ok assms Let_def split: prod.splits if_splits)

lemma mini_oprf_simps [simp]:
  "oprf_hash (mini_oprf nh) = mini_hash nh" "elem_len (mini_oprf nh) = 1"
  "scalar_len (mini_oprf nh) = 1"
  "serialize_elem (mini_oprf nh) e = [e]"
  "serialize_oprf_client (mini_oprf nh) c = [c]"
  "oprf_derive_key (mini_oprf nh) seed info = Ok [hd seed + 2]"
  "oprf_new_with_key (mini_oprf nh) k = Ok (\<lambda>e. hd k * e)"
  "oprf_finalize (mini_oprf nh) b pw e = Ok (replicate nh (checksum (pw @ [b * e])))"
  by (simp_all add: mini_oprf_def)

lemma mini_oprf_blind_counter [simp]:
  "oprf_blind (mini_oprf nh) pw (counter_rng n) =
     (let b = (if bit (of_nat n :: byte) 0 then 1 else - 1)
      in (Ok (b, b * checksum pw), counter_rng (Suc n)))"
  by (simp add: mini_oprf_def)

end
