(* ===== verification/Envelope.thy ===== *)
theory Envelope
  imports Ke_Parts Concrete_Suite
begin

text \<open>
  \<open>src/envelope.rs\<close>: the envelope that the client seals at registration and opens at login.
  \<open>H\<close> is \<open>OprfHash<CS>\<close>, \<open>G\<close> is \<open>KeGroup<CS>\<close>, \<open>randomized_pwd_hasher\<close> an extracted HKDF key.
\<close>

definition STR_AUTH_KEY :: bytes where
  "STR_AUTH_KEY = map of_char ''AuthKey''"

definition STR_EXPORT_KEY :: bytes where
  "STR_EXPORT_KEY = map of_char ''ExportKey''"

definition STR_PRIVATE_KEY :: bytes where
  "STR_PRIVATE_KEY = map of_char ''PrivateKey''"

datatype inner_envelope_mode = Zero | Internal

definition inner_envelope_mode_try_from :: "byte \<Rightarrow> (protocol_error, inner_envelope_mode) result" where
  "inner_envelope_mode_try_from x = (if x = 1 then Ok Internal else Err SerializationError)"

record envelope =
  env_mode :: inner_envelope_mode
  env_nonce :: bytes
  env_hmac :: bytes

record ('sk, 'pk) opened_envelope =
  client_static_keypair :: "('pk, 'sk) keypair"
  opened_export_key :: bytes
  opened_identifiers :: serialized_identifiers

section \<open>Helpers\<close>

definition build_inner_envelope_internal ::
    "('sk, 'pk) ke_group \<Rightarrow> hkdf \<Rightarrow> bytes \<Rightarrow> (protocol_error, 'pk) result" where
  "build_inner_envelope_internal G randomized_pwd_hasher nonce =
     bind_result (ok_or (LibraryError HkdfError)
       (hkdf_expand_multi_info randomized_pwd_hasher [nonce, STR_PRIVATE_KEY] (sk_len G)))
       (\<lambda>keypair_seed.
     bind_result (map_err protocol_from_internal (derive_scalar G keypair_seed)) (\<lambda>client_s_sk.
     Ok (private_key_public_key G client_s_sk)))"

definition recover_keys_internal ::
    "('sk, 'pk) ke_group \<Rightarrow> hkdf \<Rightarrow> bytes \<Rightarrow> (protocol_error, ('pk, 'sk) keypair) result" where
  "recover_keys_internal G randomized_pwd_hasher nonce =
     bind_result (ok_or (LibraryError HkdfError)
       (hkdf_expand_multi_info randomized_pwd_hasher [nonce, STR_PRIVATE_KEY] (sk_len G)))
       (\<lambda>keypair_seed.
     bind_result (map_err protocol_from_internal (derive_scalar G keypair_seed)) (\<lambda>client_s_sk.
     let client_s_pk = private_key_public_key G client_s_sk in
     Ok (keypair_new client_s_sk client_s_pk)))"

definition construct_aad :: "bytes list \<Rightarrow> bytes list \<Rightarrow> bytes \<Rightarrow> bytes list" where
  "construct_aad id_u id_s server_s_pk = ([server_s_pk] @ id_s) @ id_u"

section \<open>Sealing\<close>

text \<open>An HMAC in progress is its key and the bytes absorbed; \<open>update_iter\<close> appends to them.\<close>

definition seal_raw ::
    "hash_fns \<Rightarrow> hkdf \<Rightarrow> bytes \<Rightarrow> bytes list \<Rightarrow> inner_envelope_mode \<Rightarrow>
     (internal_error, envelope \<times> bytes) result" where
  "seal_raw H randomized_pwd_hasher nonce aad mode =
     bind_result (ok_or HkdfError
       (hkdf_expand_multi_info randomized_pwd_hasher [nonce, STR_AUTH_KEY] (hash_len H)))
       (\<lambda>hmac_key.
     bind_result (ok_or HkdfError
       (hkdf_expand_multi_info randomized_pwd_hasher [nonce, STR_EXPORT_KEY] (hash_len H)))
       (\<lambda>export_key.
     bind_result (ok_or HmacError (hmac_new_from_slice H hmac_key)) (\<lambda>hmac.
     let absorbed = update_iter (@) nonce aad;
         hmac_bytes = hmac absorbed in
     Ok (\<lparr>env_mode = mode, env_nonce = nonce, env_hmac = hmac_bytes\<rparr>, export_key))))"

definition seal ::
    "hash_fns \<Rightarrow> ('sk, 'pk) ke_group \<Rightarrow> hkdf \<Rightarrow> 'pk \<Rightarrow> identifiers \<Rightarrow>
     (rng, protocol_error, envelope \<times> 'pk \<times> bytes) st" where
  "seal H G randomized_pwd_hasher server_s_pk ids =
     bind_st (run_st (fill_bytes nonce_len)) (\<lambda>nonce.
     bind_st (lift_st (build_inner_envelope_internal G randomized_pwd_hasher nonce))
       (\<lambda>client_s_pk.
     let mode = Internal;
         server_s_pk_bytes = public_key_serialize G server_s_pk in
     bind_st (lift_st (from_identifiers ids (public_key_serialize G client_s_pk)
       server_s_pk_bytes)) (\<lambda>sids.
     let aad = construct_aad (serialized_identifier_iter (sids_client sids))
                 (serialized_identifier_iter (sids_server sids)) server_s_pk_bytes in
     bind_st (lift_st (map_err protocol_from_internal
       (seal_raw H randomized_pwd_hasher nonce aad mode))) (\<lambda>(envelope, export_key).
     return_st (envelope, client_s_pk, export_key)))))"

section \<open>Opening\<close>

definition open_raw ::
    "hash_fns \<Rightarrow> envelope \<Rightarrow> hkdf \<Rightarrow> bytes list \<Rightarrow> (internal_error, bytes) result" where
  "open_raw H self randomized_pwd_hasher aad =
     bind_result (ok_or HkdfError
       (hkdf_expand_multi_info randomized_pwd_hasher [env_nonce self, STR_AUTH_KEY] (hash_len H)))
       (\<lambda>hmac_key.
     bind_result (ok_or HkdfError
       (hkdf_expand_multi_info randomized_pwd_hasher [env_nonce self, STR_EXPORT_KEY] (hash_len H)))
       (\<lambda>export_key.
     bind_result (ok_or HmacError (hmac_new_from_slice H hmac_key)) (\<lambda>hmac.
     let absorbed = update_iter (@) (env_nonce self) aad in
     if hmac absorbed = env_hmac self then Ok export_key else Err SealOpenHmacError)))"

definition envelope_open ::
    "hash_fns \<Rightarrow> ('sk, 'pk) ke_group \<Rightarrow> envelope \<Rightarrow> hkdf \<Rightarrow> 'pk \<Rightarrow> identifiers \<Rightarrow>
     (protocol_error, ('sk, 'pk) opened_envelope) result" where
  "envelope_open H G self randomized_pwd_hasher server_s_pk optional_ids =
     bind_result
       (case env_mode self of
          Zero \<Rightarrow> Err (protocol_from_internal IncompatibleEnvelopeModeError)
        | Internal \<Rightarrow> recover_keys_internal G randomized_pwd_hasher (env_nonce self))
       (\<lambda>static_keypair.
     let server_s_pk_bytes = public_key_serialize G server_s_pk in
     bind_result (from_identifiers optional_ids
       (public_key_serialize G (keypair_public static_keypair)) server_s_pk_bytes) (\<lambda>sids.
     let aad = construct_aad (serialized_identifier_iter (sids_client sids))
                 (serialized_identifier_iter (sids_server sids)) server_s_pk_bytes in
     bind_result (map_err protocol_from_internal (open_raw H self randomized_pwd_hasher aad))
       (\<lambda>export_key.
     Ok \<lparr>client_static_keypair = static_keypair, opened_export_key = export_key,
         opened_identifiers = sids\<rparr>)))"

section \<open>Dummy and serialization\<close>

definition envelope_len :: "hash_fns \<Rightarrow> nat" where
  "envelope_len H = hash_len H + nonce_len"

definition envelope_dummy :: "hash_fns \<Rightarrow> envelope" where
  "envelope_dummy H =
     \<lparr>env_mode = Zero, env_nonce = zeros nonce_len, env_hmac = zeros (hash_len H)\<rparr>"

definition envelope_serialize :: "envelope \<Rightarrow> bytes" where
  "envelope_serialize self = concat_ext (env_nonce self) (env_hmac self)"

definition envelope_deserialize_take :: "hash_fns \<Rightarrow> (bytes, protocol_error, envelope) st" where
  "envelope_deserialize_take H =
     bind_st (take_array nonce_len ''nonce'') (\<lambda>nonce.
     bind_st (take_array (hash_len H) ''hmac'') (\<lambda>hmac.
     return_st \<lparr>env_mode = Internal, env_nonce = nonce, env_hmac = hmac\<rparr>))"

definition envelope_ok :: "hash_fns \<Rightarrow> envelope \<Rightarrow> bool" where
  "envelope_ok H env \<longleftrightarrow>
     env_mode env = Internal \<and> length (env_nonce env) = nonce_len \<and>
     length (env_hmac env) = hash_len H"

interpretation envelope_codec: canonical_codec
  envelope_serialize "envelope_deserialize_take H" "envelope_len H" "envelope_ok H" True
  for H :: hash_fns
  by unfold_locales
     (auto simp: envelope_serialize_def envelope_deserialize_take_def envelope_len_def
       envelope_ok_def ok_iffs take_array_Ok_iff)

lemma envelope_dummy_serialize: "envelope_serialize (envelope_dummy H) = zeros (envelope_len H)"
  by (simp add: envelope_serialize_def envelope_dummy_def envelope_len_def zeros_append add.commute)

lemma envelope_serialize_length:
  "length (env_nonce e) = nonce_len \<Longrightarrow> length (env_hmac e) = hash_len H \<Longrightarrow>
     length (envelope_serialize e) = envelope_len H"
  by (simp add: envelope_serialize_def envelope_len_def)

section \<open>Facts\<close>

lemma recover_keys_build_inner:
  "recover_keys_internal G h n = Ok kp \<longleftrightarrow>
     (\<exists>seed sk. hkdf_expand_multi_info h [n, STR_PRIVATE_KEY] (sk_len G) = Some seed \<and>
        derive_scalar G seed = Ok sk \<and> kp = \<lparr>kp_pk = public_key G sk, kp_sk = sk\<rparr>)"
  by (auto simp: recover_keys_internal_def bind_result_Ok_iff Let_def key_defs)

lemma build_inner_Ok_iff:
  "build_inner_envelope_internal G h n = Ok pk \<longleftrightarrow>
     (\<exists>kp. recover_keys_internal G h n = Ok kp \<and> kp_pk kp = pk)"
  by (auto simp: build_inner_envelope_internal_def recover_keys_internal_def bind_result_Ok_iff
      Let_def key_defs)

lemma recover_keys_consistent:
  "recover_keys_internal G h n = Ok kp \<Longrightarrow> keypair_consistent G kp"
  by (auto simp: recover_keys_build_inner keypair_consistent_def)

lemma recover_keys_wf:
  assumes "group_ok G wf_sk wf_pk" "hkdf_ok nh h" "recover_keys_internal G h n = Ok kp"
  shows "wf_sk (kp_sk kp)" "wf_pk (kp_pk kp)"
proof -
  from assms(3) obtain seed sk
    where seed: "hkdf_expand_multi_info h [n, STR_PRIVATE_KEY] (sk_len G) = Some seed"
      and sk: "derive_scalar G seed = Ok sk" and kp: "kp = \<lparr>kp_pk = public_key G sk, kp_sk = sk\<rparr>"
    by (auto simp: recover_keys_build_inner)
  from hkdf_expand_length [OF assms(2) seed] have "length seed = sk_len G" .
  with assms(1) sk have "wf_sk sk" by (metis any_group.derive_scalar_wf)
  with assms(1) kp show "wf_sk (kp_sk kp)" "wf_pk (kp_pk kp)"
    by (auto intro: any_group.public_key_wf)
qed

lemma recover_keys_total:
  assumes "hkdf_ok nh h" "derive_total G" "sk_len G \<le> 255 * nh"
  obtains kp where "recover_keys_internal G h n = Ok kp"
proof -
  obtain seed where seed: "hkdf_expand_multi_info h [n, STR_PRIVATE_KEY] (sk_len G) = Some seed"
    and "length seed = sk_len G"
    using assms(1,3) by (rule hkdf_expand_ok)
  with assms(2) obtain sk where "derive_scalar G seed = Ok sk"
    by (auto simp: derive_total_def is_ok_def)
  with seed show thesis using that by (auto simp: recover_keys_build_inner)
qed

text \<open>The message that the envelope's HMAC authenticates.\<close>

definition envelope_mac_input ::
    "bytes \<Rightarrow> serialized_identifiers \<Rightarrow> bytes \<Rightarrow> bytes" where
  "envelope_mac_input nonce sids server_s_pk =
     nonce @ server_s_pk @ concat (serialized_identifier_iter (sids_server sids))
       @ concat (serialized_identifier_iter (sids_client sids))"

lemma update_iter_aad:
  "update_iter (@) nonce (construct_aad (serialized_identifier_iter (sids_client sids))
      (serialized_identifier_iter (sids_server sids)) pk) = envelope_mac_input nonce sids pk"
  by (simp add: update_iter_def foldl_append_concat construct_aad_def envelope_mac_input_def)

lemma seal_Ok_iff:
  "seal H G h spk ids r = (Ok (env, cpk, ek), r') \<longleftrightarrow>
     (\<exists>nonce kp sids ak f.
        fill_bytes nonce_len r = (nonce, r') \<and>
        recover_keys_internal G h nonce = Ok kp \<and> cpk = kp_pk kp \<and>
        from_identifiers ids (serialize_pk G cpk) (serialize_pk G spk) = Ok sids \<and>
        hkdf_expand_multi_info h [nonce, STR_AUTH_KEY] (hash_len H) = Some ak \<and>
        hkdf_expand_multi_info h [nonce, STR_EXPORT_KEY] (hash_len H) = Some ek \<and>
        hmac_new_from_slice H ak = Some f \<and>
        env = \<lparr>env_mode = Internal, env_nonce = nonce,
               env_hmac = f (envelope_mac_input nonce sids (serialize_pk G spk))\<rparr>)"
  by (auto simp: seal_def seal_raw_def ok_iffs key_defs Let_def update_iter_aad build_inner_Ok_iff)

lemma open_Ok_iff:
  "envelope_open H G env h spk ids = Ok opened \<longleftrightarrow>
     (\<exists>kp sids ak ek f.
        env_mode env = Internal \<and>
        recover_keys_internal G h (env_nonce env) = Ok kp \<and>
        from_identifiers ids (serialize_pk G (kp_pk kp)) (serialize_pk G spk) = Ok sids \<and>
        hkdf_expand_multi_info h [env_nonce env, STR_AUTH_KEY] (hash_len H) = Some ak \<and>
        hkdf_expand_multi_info h [env_nonce env, STR_EXPORT_KEY] (hash_len H) = Some ek \<and>
        hmac_new_from_slice H ak = Some f \<and>
        f (envelope_mac_input (env_nonce env) sids (serialize_pk G spk)) = env_hmac env \<and>
        opened = \<lparr>client_static_keypair = kp, opened_export_key = ek,
                  opened_identifiers = sids\<rparr>)"
  by (cases "env_mode env")
     (auto simp: envelope_open_def open_raw_def ok_iffs key_defs Let_def update_iter_aad
        split: if_splits)

text \<open>Sealing succeeds whenever the identifiers are short enough and no key derivation fails.\<close>

lemma seal_total:
  assumes "hash_ok H" "hkdf_ok (hash_len H) h" "derive_total G" "group_ok G wf_sk wf_pk" "wf_pk spk"
    and "sk_len G \<le> 255 * hash_len H" "pk_len G < 65536"
    and "length (effective_identifier (id_client ids) []) < 65536"
    and "length (effective_identifier (id_server ids) []) < 65536"
  obtains env cpk ek r' where "seal H G h spk ids r = (Ok (env, cpk, ek), r')"
proof -
  obtain nonce r' where fill: "fill_bytes nonce_len r = (nonce, r')" by fastforce
  obtain kp where kp: "recover_keys_internal G h nonce = Ok kp"
    using assms(2,3,6) by (rule recover_keys_total)
  with assms(2,4) have "wf_pk (kp_pk kp)" by (blast intro: recover_keys_wf)
  with assms(4,5) have "length (serialize_pk G (kp_pk kp)) < 65536"
    and "length (serialize_pk G spk) < 65536"
    using assms(7) by (simp_all add: any_group.pk_length)
  with assms(8,9) have "length (effective_identifier (id_client ids) (serialize_pk G (kp_pk kp))) < 65536"
    and "length (effective_identifier (id_server ids) (serialize_pk G spk)) < 65536"
    by (auto simp: effective_identifier_def split: option.splits)
  then obtain sids where
    sids: "from_identifiers ids (serialize_pk G (kp_pk kp)) (serialize_pk G spk) = Ok sids"
    by (rule from_identifiers_total)
  have le: "hash_len H \<le> 255 * hash_len H" by simp
  obtain ak where ak: "hkdf_expand_multi_info h [nonce, STR_AUTH_KEY] (hash_len H) = Some ak"
    using assms(2) le by (rule hkdf_expand_ok)
  obtain ek where ek: "hkdf_expand_multi_info h [nonce, STR_EXPORT_KEY] (hash_len H) = Some ek"
    using assms(2) le by (rule hkdf_expand_ok)
  obtain f where "hmac_new_from_slice H ak = Some f"
    using assms(1) by (rule hmac_new_ok)
  with fill kp sids ak ek that show thesis by (auto simp: seal_Ok_iff)
qed

lemma seal_envelope_ok:
  "hash_ok H \<Longrightarrow> seal H G h spk ids r = (Ok (env, cpk, ek), r') \<Longrightarrow> envelope_ok H env"
  by (auto simp: seal_Ok_iff envelope_ok_def hmac_new_length dest: length_fill_bytes)

lemma seal_cpk_wf:
  "group_ok G wf_sk wf_pk \<Longrightarrow> hkdf_ok nh h \<Longrightarrow>
     seal H G h spk ids r = (Ok (env, cpk, ek), r') \<Longrightarrow> wf_pk cpk"
  by (auto simp: seal_Ok_iff intro: recover_keys_wf)

text \<open>The HMAC input determines the server key and both identifiers.\<close>

lemma envelope_mac_input_inj:
  assumes ids: "from_identifiers ids cpk spk = Ok sids" "from_identifiers ids' cpk spk' = Ok sids'"
    and mem: "length (effective_identifier (id_client ids) cpk) < 2 ^ 64"
      "length (effective_identifier (id_server ids) spk) < 2 ^ 64"
      "length (effective_identifier (id_client ids') cpk) < 2 ^ 64"
      "length (effective_identifier (id_server ids') spk') < 2 ^ 64"
    and "length spk = length spk'"
    and eq: "envelope_mac_input n sids spk = envelope_mac_input n sids' spk'"
  shows "spk = spk' \<and>
    effective_identifier (id_client ids) cpk = effective_identifier (id_client ids') cpk \<and>
    effective_identifier (id_server ids) spk = effective_identifier (id_server ids') spk'"
proof -
  note iter = ids [unfolded from_identifiers_Ok_iff, THEN conjunct1]
    ids [unfolded from_identifiers_Ok_iff, THEN conjunct2]
  note short = from_identifier_short [OF iter(1) mem(1)] from_identifier_short [OF iter(2) mem(3)]
    from_identifier_short [OF iter(3) mem(2)] from_identifier_short [OF iter(4) mem(4)]
  note split = eq [unfolded envelope_mac_input_def iter [THEN concat_identifier_iter] append_assoc]
  from split assms(7) have "spk = spk'" by simp
  with split have tail:
    "be_digits 2 (unat (usize_len (effective_identifier (id_server ids) spk))) @
       effective_identifier (id_server ids) spk @
       be_digits 2 (unat (usize_len (effective_identifier (id_client ids) cpk))) @
       effective_identifier (id_client ids) cpk
     = be_digits 2 (unat (usize_len (effective_identifier (id_server ids') spk'))) @
       effective_identifier (id_server ids') spk' @
       be_digits 2 (unat (usize_len (effective_identifier (id_client ids') cpk))) @
       effective_identifier (id_client ids') cpk"
    by simp
  from length_prefixed_inj [OF this short(3,4)]
  have srv: "effective_identifier (id_server ids) spk = effective_identifier (id_server ids') spk'"
    and "be_digits 2 (unat (usize_len (effective_identifier (id_client ids) cpk))) @
       effective_identifier (id_client ids) cpk @ []
     = be_digits 2 (unat (usize_len (effective_identifier (id_client ids') cpk))) @
       effective_identifier (id_client ids') cpk @ []"
    by auto
  from length_prefixed_inj [OF this(2) short(1,2)] srv \<open>spk = spk'\<close> show ?thesis by simp
qed

text \<open>Opening what was sealed, and the keys that opening returns.\<close>

lemma open_seal:
  assumes "seal H G h spk ids r = (Ok (env, cpk, ek), r')"
  shows "\<exists>opened. envelope_open H G env h spk ids = Ok opened \<and>
    opened_export_key opened = ek \<and>
    kp_pk (client_static_keypair opened) = cpk \<and>
    keypair_consistent G (client_static_keypair opened) \<and>
    from_identifiers ids (serialize_pk G cpk) (serialize_pk G spk) = Ok (opened_identifiers opened)"
  using assms by (fastforce simp: seal_Ok_iff open_Ok_iff intro: recover_keys_consistent)

lemma open_wf:
  "group_ok G wf_sk wf_pk \<Longrightarrow> hkdf_ok nh h \<Longrightarrow> envelope_open H G env h spk ids = Ok opened \<Longrightarrow>
     wf_sk (kp_sk (client_static_keypair opened))"
  by (auto simp: open_Ok_iff intro: recover_keys_wf)

text \<open>Two different messages with the same HMAC under a key.\<close>

definition hmac_collision :: "hash_fns \<Rightarrow> bytes \<Rightarrow> bytes \<Rightarrow> bytes \<Rightarrow> bool" where
  "hmac_collision H key m m' \<longleftrightarrow>
     m \<noteq> m' \<and> (\<exists>f. hmac_new_from_slice H key = Some f \<and> f m = f m')"

text \<open>Only the effective identifiers matter for opening.\<close>

lemma open_effective_identifiers:
  assumes "envelope_open H G env h spk ids = Ok opened"
    and "effective_identifier (id_client ids') (serialize_pk G (kp_pk (client_static_keypair opened)))
       = effective_identifier (id_client ids) (serialize_pk G (kp_pk (client_static_keypair opened)))"
    and "effective_identifier (id_server ids') (serialize_pk G spk)
       = effective_identifier (id_server ids) (serialize_pk G spk)"
    and "from_identifiers ids' (serialize_pk G (kp_pk (client_static_keypair opened)))
           (serialize_pk G spk) = Ok sids'"
  shows "envelope_open H G env h spk ids' = Ok (opened\<lparr>opened_identifiers := sids'\<rparr>)"
proof -
  from assms(1) have "from_identifiers ids (serialize_pk G (kp_pk (client_static_keypair opened)))
      (serialize_pk G spk) = Ok (opened_identifiers opened)"
    by (auto simp: open_Ok_iff)
  with assms(2-4) have "envelope_mac_input n sids' pk
      = envelope_mac_input n (opened_identifiers opened) pk" for n pk
    by (auto simp: envelope_mac_input_def from_identifiers_Ok_iff dest!: concat_identifier_iter)
  with assms(1,4) show ?thesis by (auto simp: open_Ok_iff)
qed

section \<open>Properties\<close>

lemmas mini_seal_total = seal_total [of "mini_hash 2" "mini_hkdf 2 5" mini_group
  "\<lambda>_. True" "\<lambda>_. True" 9 "sample_ids" "counter_rng 0",
  OF mini_hash_ok _ mini_derive_total mini_group_ok, simplified, OF mini_hkdf_ok]

lemma mini_seal:
  obtains env cpk ek r' where
    "seal (mini_hash 2) mini_group (mini_hkdf 2 5) 9 sample_ids
       (counter_rng 0) = (Ok (env, cpk, ek), r')"
  by (rule mini_seal_total) (auto simp: effective_identifier_def)

text \<open>
  C31. What \<open>Envelope::seal\<close> seals, \<open>Envelope::open\<close> opens under the same password key, server key
  and identifiers: it returns the export key that \<open>seal\<close> returned, the private key of the public
  key that \<open>seal\<close> returned, and the serialized identifiers.
\<close>

theorem envelope_open_seal:
  assumes "seal H G h spk ids r = (Ok (env, cpk, ek), r')"
  shows "\<exists>opened. envelope_open H G env h spk ids = Ok opened \<and>
    opened_export_key opened = ek \<and>
    kp_pk (client_static_keypair opened) = cpk \<and>
    keypair_consistent G (client_static_keypair opened) \<and>
    from_identifiers ids (serialize_pk G cpk) (serialize_pk G spk) = Ok (opened_identifiers opened)"
  using assms by (rule open_seal)

theorem envelope_open_seal_witness:
  "\<exists>env cpk ek r' opened.
     seal (mini_hash 2) mini_group (mini_hkdf 2 5) 9 sample_ids
       (counter_rng 0) = (Ok (env, cpk, ek), r') \<and>
     envelope_open (mini_hash 2) mini_group env (mini_hkdf 2 5) 9
       sample_ids = Ok opened \<and> opened_export_key opened = ek"
  by (rule mini_seal) (use envelope_open_seal in metis)

text \<open>
  An envelope whose HMAC was changed after sealing does not open: the error is
  \<open>SealOpenHmacError\<close>, whatever the primitives are.
\<close>

theorem envelope_tampered:
  assumes "seal H G h spk ids r = (Ok (env, cpk, ek), r')"
    and "hmac' \<noteq> env_hmac env"
  shows "envelope_open H G (env\<lparr>env_hmac := hmac'\<rparr>) h spk ids
    = Err (LibraryError SealOpenHmacError)"
proof -
  from assms obtain kp sids ak f where
    kp: "recover_keys_internal G h (env_nonce env) = Ok kp" "cpk = kp_pk kp"
    and ids: "from_identifiers ids (serialize_pk G cpk) (serialize_pk G spk) = Ok sids"
    and keys: "hkdf_expand_multi_info h [env_nonce env, STR_AUTH_KEY] (hash_len H) = Some ak"
      "hkdf_expand_multi_info h [env_nonce env, STR_EXPORT_KEY] (hash_len H) = Some ek"
      "hmac_new_from_slice H ak = Some f"
    and mac: "env_hmac env = f (envelope_mac_input (env_nonce env) sids (serialize_pk G spk))"
    and mode: "env_mode env = Internal"
    by (auto simp: seal_Ok_iff)
  with assms(2) show ?thesis
    by (simp add: envelope_open_def open_raw_def key_defs Let_def update_iter_aad
        protocol_from_internal_def)
qed

theorem envelope_tampered_witness:
  "\<exists>env cpk ek r'.
     seal (mini_hash 2) mini_group (mini_hkdf 2 5) 9 sample_ids
       (counter_rng 0) = (Ok (env, cpk, ek), r') \<and>
     envelope_open (mini_hash 2) mini_group (env\<lparr>env_hmac := map NOT (env_hmac env)\<rparr>)
       (mini_hkdf 2 5) 9 sample_ids
     = Err (LibraryError SealOpenHmacError)"
proof -
  obtain env cpk ek r' where sealed:
    "seal (mini_hash 2) mini_group (mini_hkdf 2 5) 9 sample_ids
       (counter_rng 0) = (Ok (env, cpk, ek), r')" by (rule mini_seal)
  from seal_envelope_ok [OF mini_hash_ok this] have "length (env_hmac env) = 2"
    by (simp add: envelope_ok_def)
  moreover have "NOT x \<noteq> x" for x :: byte
  proof
    assume "NOT x = x"
    then have "bit (NOT x) 0 = bit x 0" by simp
    then show False by (simp add: bit_not_iff)
  qed
  ultimately have "map NOT (env_hmac env) \<noteq> env_hmac env"
    by (cases "env_hmac env") auto
  from envelope_tampered [OF sealed this] sealed show ?thesis by blast
qed

text \<open>
  C32. The envelope binds the server's public key and both identifiers: when it opens under a server
  key and identifiers, these are the ones it was sealed with (an identifier that is not given is
  the static public key), unless two different inputs, the one authenticated by \<open>seal\<close> and the
  one checked by \<open>open\<close>, collide under the envelope's HMAC key. (The lengths are those of values
  that fit in memory.)
\<close>

theorem envelope_binding:
  assumes "group_ok G wf_sk wf_pk" "wf_pk spk" "wf_pk spk'" "pk_len G < 2 ^ 64"
    and mem: "length (effective_identifier (id_client ids) (serialize_pk G cpk)) < 2 ^ 64"
      "length (effective_identifier (id_server ids) (serialize_pk G spk)) < 2 ^ 64"
      "length (effective_identifier (id_client ids') (serialize_pk G cpk)) < 2 ^ 64"
      "length (effective_identifier (id_server ids') (serialize_pk G spk')) < 2 ^ 64"
    and sealed: "seal H G h spk ids r = (Ok (env, cpk, ek), r')"
    and opened: "envelope_open H G env h spk' ids' = Ok opened"
  shows "(spk' = spk \<and>
      effective_identifier (id_client ids) (serialize_pk G cpk) =
        effective_identifier (id_client ids') (serialize_pk G cpk) \<and>
      effective_identifier (id_server ids) (serialize_pk G spk) =
        effective_identifier (id_server ids') (serialize_pk G spk')) \<or>
    (\<exists>key sids.
      hkdf_expand_multi_info h [env_nonce env, STR_AUTH_KEY] (hash_len H) = Some key \<and>
      from_identifiers ids (serialize_pk G cpk) (serialize_pk G spk) = Ok sids \<and>
      hmac_collision H key (envelope_mac_input (env_nonce env) sids (serialize_pk G spk))
        (envelope_mac_input (env_nonce env) (opened_identifiers opened) (serialize_pk G spk')))"
proof -
  from sealed obtain kp sids ak f where
    kp: "recover_keys_internal G h (env_nonce env) = Ok kp" "cpk = kp_pk kp"
    and ids: "from_identifiers ids (serialize_pk G cpk) (serialize_pk G spk) = Ok sids"
    and keys: "hkdf_expand_multi_info h [env_nonce env, STR_AUTH_KEY] (hash_len H) = Some ak"
      "hmac_new_from_slice H ak = Some f"
    and mac: "env_hmac env = f (envelope_mac_input (env_nonce env) sids (serialize_pk G spk))"
    by (auto simp: seal_Ok_iff)
  let ?m = "envelope_mac_input (env_nonce env) sids (serialize_pk G spk)"
  let ?m' = "envelope_mac_input (env_nonce env) (opened_identifiers opened) (serialize_pk G spk')"
  from opened kp keys mac have collide: "f ?m = f ?m'"
    and ids': "from_identifiers ids' (serialize_pk G cpk) (serialize_pk G spk')
      = Ok (opened_identifiers opened)"
    by (auto simp: open_Ok_iff)
  show ?thesis
  proof (cases "?m = ?m'")
    case True
    have "length (serialize_pk G spk) = length (serialize_pk G spk')"
      using assms(1-3) by (simp add: any_group.pk_length)
    from envelope_mac_input_inj [OF ids ids' mem this True] assms(1-3) show ?thesis
      using any_group.serialize_pk_inj by metis
  next
    case False
    with collide keys ids show ?thesis unfolding hmac_collision_def by blast
  qed
qed

theorem envelope_binding_witness:
  "\<exists>env cpk ek r' ids' opened.
    seal (mini_hash 2) mini_group (mini_hkdf 2 5) 9 sample_ids (counter_rng 0) = (Ok (env, cpk, ek), r') \<and>
    ids' = \<lparr>id_client = Some [cpk], id_server = Some [1]\<rparr> \<and>
    envelope_open (mini_hash 2) mini_group env (mini_hkdf 2 5) 9 ids' = Ok opened \<and>
    ((9 :: byte) = 9 \<and>
      effective_identifier (id_client sample_ids) (serialize_pk mini_group cpk) =
        effective_identifier (id_client ids') (serialize_pk mini_group cpk) \<and>
      effective_identifier (id_server sample_ids) (serialize_pk mini_group 9) =
        effective_identifier (id_server ids') (serialize_pk mini_group 9) \<or>
     (\<exists>key sids.
      hkdf_expand_multi_info (mini_hkdf 2 5) [env_nonce env, STR_AUTH_KEY] (hash_len (mini_hash 2)) = Some key \<and>
      from_identifiers sample_ids (serialize_pk mini_group cpk) (serialize_pk mini_group 9) = Ok sids \<and>
      hmac_collision (mini_hash 2) key (envelope_mac_input (env_nonce env) sids (serialize_pk mini_group 9))
        (envelope_mac_input (env_nonce env) (opened_identifiers opened) (serialize_pk mini_group 9))))"
proof -
  obtain env cpk ek r' where sealed: "seal (mini_hash 2) mini_group (mini_hkdf 2 5) 9 sample_ids (counter_rng 0) = (Ok (env, cpk, ek), r')"
    by (rule mini_seal)
  then obtain op where
    op: "envelope_open (mini_hash 2) mini_group env (mini_hkdf 2 5) 9 sample_ids = Ok op" "kp_pk (client_static_keypair op) = cpk"
    by (auto simp: seal_Ok_iff open_Ok_iff)
  define ids' where "ids' = \<lparr>id_client = Some [cpk], id_server = Some [1 :: byte]\<rparr>"
  obtain sids' where "from_identifiers ids' [cpk] [9] = Ok sids'"
    by (rule from_identifiers_total [of ids']) (auto simp: ids'_def effective_identifier_def)
  then have opened: "envelope_open (mini_hash 2) mini_group env (mini_hkdf 2 5) 9 ids' = Ok (op\<lparr>opened_identifiers := sids'\<rparr>)"
    using op by (intro open_effective_identifiers)
      (auto simp: effective_identifier_def ids'_def)
  note binding = envelope_binding [OF mini_group_ok _ _ _ _ _ _ _ sealed opened]
  show ?thesis
    by (intro exI conjI, rule sealed, rule ids'_def, rule opened, rule binding)
       (simp_all add: ids'_def effective_identifier_def)
qed

text \<open>
  The placeholder envelope of an unknown user serializes to zeros of the length of a real
  envelope, and opening it always reports \<open>IncompatibleEnvelopeModeError\<close>. A deserialized
  envelope is never in that mode.
\<close>

theorem envelope_dummy_behaviour:
  "envelope_serialize (envelope_dummy H) = zeros (envelope_len H) \<and>
   envelope_open H G (envelope_dummy H) h spk ids
     = Err (LibraryError IncompatibleEnvelopeModeError) \<and>
   (\<exists>env. envelope_deserialize_take H (zeros (envelope_len H)) = (Ok env, []) \<and>
     env_mode env = Internal)"
proof -
  have "envelope_ok H (envelope_dummy H\<lparr>env_mode := Internal\<rparr>)"
    by (simp add: envelope_ok_def envelope_dummy_def)
  moreover have "envelope_serialize (envelope_dummy H\<lparr>env_mode := Internal\<rparr>) = zeros (envelope_len H)"
    using envelope_dummy_serialize [of H] by (simp add: envelope_serialize_def)
  ultimately have "envelope_deserialize_take H (zeros (envelope_len H)) =
      (Ok (envelope_dummy H\<lparr>env_mode := Internal\<rparr>), [])"
    using envelope_codec.dec_enc_exact by metis
  then show ?thesis
    by (simp add: envelope_dummy_serialize)
       (simp add: envelope_open_def envelope_dummy_def protocol_from_internal_def)
qed

end
