(* ===== verification/Masking.thy ===== *)
theory Masking
  imports Envelope
begin

text \<open>
  \<open>mask_response\<close> and \<open>unmask_response\<close> of \<open>src/opaque.rs\<close>: the server's public key and the
  envelope travel under a one-time pad that is expanded from the masking key.
\<close>

definition STR_CREDENTIAL_RESPONSE_PAD :: bytes where
  "STR_CREDENTIAL_RESPONSE_PAD = map of_char ''CredentialResponsePad''"

definition mask_response ::
    "hash_fns \<Rightarrow> ('sk, 'pk) ke_group \<Rightarrow> bytes \<Rightarrow> bytes \<Rightarrow> 'pk \<Rightarrow> envelope \<Rightarrow>
     (protocol_error, masked_response) result" where
  "mask_response H G masking_key masking_nonce server_s_pk envelope =
     bind_result (ok_or (protocol_from_internal HkdfError) (hkdf_from_prk H masking_key)) (\<lambda>hkdf.
     bind_result (ok_or (protocol_from_internal HkdfError)
       (hkdf_expand_multi_info hkdf [masking_nonce, STR_CREDENTIAL_RESPONSE_PAD]
         (masked_response_len H G))) (\<lambda>xor_pad.
     let xor_pad = xor_bytes xor_pad
           (public_key_serialize G server_s_pk @ envelope_serialize envelope);
         slice = xor_pad in
     eval_st (masked_response_deserialize_take H G) slice))"

definition unmask_response ::
    "hash_fns \<Rightarrow> ('sk, 'pk) ke_group \<Rightarrow> bytes \<Rightarrow> bytes \<Rightarrow> masked_response \<Rightarrow>
     (protocol_error, 'pk \<times> envelope) result" where
  "unmask_response H G masking_key masking_nonce masked_response =
     bind_result (ok_or (protocol_from_internal HkdfError) (hkdf_from_prk H masking_key)) (\<lambda>hkdf.
     bind_result (ok_or (protocol_from_internal HkdfError)
       (hkdf_expand_multi_info hkdf [masking_nonce, STR_CREDENTIAL_RESPONSE_PAD]
         (masked_response_len H G))) (\<lambda>xor_pad.
     let xor_pad = xor_bytes xor_pad (concat (masked_response_iter masked_response)) in
     eval_st
       (bind_st (map_err_st (\<lambda>_. SerializationError) (public_key_deserialize_take G))
         (\<lambda>server_s_pk.
        bind_st (envelope_deserialize_take H) (\<lambda>envelope.
        return_st (server_s_pk, envelope)))) xor_pad))"

section \<open>Facts\<close>

text \<open>The pad that both sides expand.\<close>

definition response_pad :: "hash_fns \<Rightarrow> ('sk, 'pk) ke_group \<Rightarrow> bytes \<Rightarrow> bytes \<Rightarrow> bytes option" where
  "response_pad H G masking_key masking_nonce =
     Option.bind (hkdf_from_prk H masking_key) (\<lambda>hkdf.
       hkdf_expand_multi_info hkdf [masking_nonce, STR_CREDENTIAL_RESPONSE_PAD]
         (masked_response_len H G))"

lemma response_pad_length:
  "hash_ok H \<Longrightarrow> response_pad H G mk n = Some pad \<Longrightarrow> length pad = masked_response_len H G"
  by (auto simp: response_pad_def bind_eq_Some_conv dest: hkdf_from_prk_Some hkdf_expand_length)

lemma response_pad_total:
  assumes "hash_ok H" "hash_len H \<le> length mk" "masked_response_len H G \<le> 255 * hash_len H"
  obtains pad where "response_pad H G mk n = Some pad"
proof -
  obtain h where "hkdf_from_prk H mk = Some h" "hkdf_ok (hash_len H) h"
    using assms(1,2) by (rule hkdf_from_prk_ok)
  moreover obtain pad where
    "hkdf_expand_multi_info h [n, STR_CREDENTIAL_RESPONSE_PAD] (masked_response_len H G) = Some pad"
    using calculation(2) assms(3) by (rule hkdf_expand_ok)
  ultimately show thesis using that by (auto simp: response_pad_def)
qed

lemma ok_or_chain:
  "bind_result (ok_or e x) (\<lambda>h. bind_result (ok_or e (f h)) g) =
     (case Option.bind x f of None \<Rightarrow> Err e | Some y \<Rightarrow> g y)"
  by (cases x) (auto split: option.split)

lemma mask_response_eq:
  "mask_response H G mk n spk env =
     (case response_pad H G mk n of
        None \<Rightarrow> Err (LibraryError HkdfError)
      | Some pad \<Rightarrow> eval_st (masked_response_deserialize_take H G)
          (xor_bytes pad (serialize_pk G spk @ envelope_serialize env)))"
  by (simp add: mask_response_def response_pad_def protocol_from_internal_def key_defs Let_def
      ok_or_chain)

lemma unmask_response_eq:
  "unmask_response H G mk n mr =
     (case response_pad H G mk n of
        None \<Rightarrow> Err (LibraryError HkdfError)
      | Some pad \<Rightarrow> eval_st
          (bind_st (map_err_st (\<lambda>_. SerializationError) (deserialize_take_pk G)) (\<lambda>pk.
           bind_st (envelope_deserialize_take H) (\<lambda>env. return_st (pk, env))))
          (xor_bytes pad (masked_response_serialize mr)))"
  by (simp add: unmask_response_def response_pad_def protocol_from_internal_def key_defs Let_def
      concat_masked_response_iter ok_or_chain)

lemma masked_response_decode:
  assumes "length bs = masked_response_len H G"
  obtains mr where "masked_response_deserialize_take H G bs = (Ok mr, [])"
    and "masked_response_ok H G mr" and "masked_response_serialize mr = bs"
proof -
  let ?mr = "\<lparr>mr_nonce = take nonce_len bs,
      mr_hash = take (hash_len H) (drop nonce_len bs),
      mr_pk = drop (hash_len H) (drop nonce_len bs)\<rparr>"
  have ok: "masked_response_ok H G ?mr"
    using assms by (auto simp: masked_response_ok_def masked_response_len_def)
  have ser: "masked_response_serialize ?mr = bs"
    by (simp add: masked_response_serialize_def cat_def del: drop_drop)
  from masked_response_codec.dec_enc_exact [OF ok] ser
  have "masked_response_deserialize_take H G bs = (Ok ?mr, [])" by simp
  then show thesis using ok ser by (rule that)
qed

lemma envelope_decode:
  assumes "length bs = envelope_len H"
  obtains env where "envelope_ok H env" "envelope_serialize env = bs"
proof -
  let ?env = "\<lparr>env_mode = Internal, env_nonce = take nonce_len bs, env_hmac = drop nonce_len bs\<rparr>"
  have "envelope_ok H ?env" "envelope_serialize ?env = bs"
    using assms by (auto simp: envelope_ok_def envelope_serialize_def envelope_len_def)
  then show thesis by (rule that)
qed

lemma mask_response_Ok:
  assumes "hash_ok H" "response_pad H G mk n = Some pad"
    and "length (serialize_pk G spk) = pk_len G" "length (envelope_serialize env) = envelope_len H"
  shows "\<exists>mr. mask_response H G mk n spk env = Ok mr \<and> masked_response_ok H G mr \<and>
    masked_response_serialize mr = xor_bytes pad (serialize_pk G spk @ envelope_serialize env)"
proof -
  have "length (xor_bytes pad (serialize_pk G spk @ envelope_serialize env))
      = masked_response_len H G"
    using assms by (simp add: response_pad_length)
  then obtain mr where "masked_response_deserialize_take H G
        (xor_bytes pad (serialize_pk G spk @ envelope_serialize env)) = (Ok mr, [])"
      "masked_response_ok H G mr"
      "masked_response_serialize mr = xor_bytes pad (serialize_pk G spk @ envelope_serialize env)"
    by (rule masked_response_decode)
  with assms(2) show ?thesis by (simp add: mask_response_eq eval_st_def)
qed

text \<open>A response can only be masked when the pad exists, and then has the right shape.\<close>

lemma mask_response_OkD:
  assumes "hash_ok H" "mask_response H G mk n spk env = Ok mr"
    and "length (serialize_pk G spk) = pk_len G" "length (envelope_serialize env) = envelope_len H"
  obtains pad where "response_pad H G mk n = Some pad" "masked_response_ok H G mr"
    "masked_response_serialize mr = xor_bytes pad (serialize_pk G spk @ envelope_serialize env)"
proof -
  from assms(2) obtain pad where "response_pad H G mk n = Some pad"
    by (auto simp: mask_response_eq split: option.splits)
  with mask_response_Ok [OF assms(1) this assms(3,4)] assms(2) that show thesis by auto
qed

lemma unmask_response_outcomes:
  assumes "hash_ok H" "group_ok G wf_sk wf_pk" "masked_response_ok H G mr"
    and "response_pad H G mk n = Some pad"
  shows "case deserialize_take_pk G (xor_bytes pad (masked_response_serialize mr)) of
      (Ok pk, rest) \<Rightarrow> \<exists>env. unmask_response H G mk n mr = Ok (pk, env) \<and> wf_pk pk \<and>
        envelope_ok H env \<and> envelope_serialize env = rest
    | (Err e, rest) \<Rightarrow> unmask_response H G mk n mr = Err SerializationError
    | (Panic, rest) \<Rightarrow> False"
proof (cases "deserialize_take_pk G (xor_bytes pad (masked_response_serialize mr))")
  case (Pair res rest)
  show ?thesis
  proof (cases res)
    case (Ok pk)
    with Pair have "deserialize_take_pk G (xor_bytes pad (masked_response_serialize mr))
      = (Ok pk, rest)" by simp
    from any_group.pk_sound [OF assms(2) this] have "wf_pk pk"
      and split: "length (xor_bytes pad (masked_response_serialize mr)) = pk_len G + length rest"
      by simp_all
    from split have "length rest = envelope_len H"
      using response_pad_length [OF assms(1,4)]
      by (simp add: masked_response_len_def envelope_len_def)
    then obtain env where env: "envelope_ok H env" "envelope_serialize env = rest"
      by (rule envelope_decode)
    with envelope_codec.dec_enc_exact [OF env(1)] Pair Ok assms(4) \<open>wf_pk pk\<close> show ?thesis
      by (auto simp: unmask_response_eq eval_st_def map_err_st_def)
  next
    case (Err e)
    with Pair assms(4) show ?thesis by (simp add: unmask_response_eq eval_st_def map_err_st_def)
  next
    case Panic
    with Pair any_group.pk_no_panic [OF assms(2)] show ?thesis by simp
  qed
qed

lemma unmask_mask_aux:
  assumes "hash_ok H" "group_ok G wf_sk wf_pk" "wf_pk spk"
    and "length (env_nonce env) = nonce_len" "length (env_hmac env) = hash_len H"
    and "mask_response H G mk n spk env = Ok mr"
  shows "unmask_response H G mk n mr = Ok (spk, env\<lparr>env_mode := Internal\<rparr>)"
proof -
  have env: "envelope_ok H (env\<lparr>env_mode := Internal\<rparr>)"
    "envelope_serialize (env\<lparr>env_mode := Internal\<rparr>) = envelope_serialize env"
    using assms(4,5) by (simp_all add: envelope_ok_def envelope_serialize_def)
  have pk: "length (serialize_pk G spk) = pk_len G"
    using assms(2,3) by (rule any_group.pk_length)
  have len: "length (envelope_serialize env) = envelope_len H"
    using assms(4,5) by (rule envelope_serialize_length)
  obtain pad where pad: "response_pad H G mk n = Some pad"
    and mr: "masked_response_serialize mr = xor_bytes pad (serialize_pk G spk @ envelope_serialize env)"
    using assms(1,6) pk len by (rule mask_response_OkD)
  have "length pad = masked_response_len H G" using assms(1) pad by (rule response_pad_length)
  with mr pk len have "xor_bytes pad (masked_response_serialize mr)
      = serialize_pk G spk @ envelope_serialize (env\<lparr>env_mode := Internal\<rparr>)"
    by (simp add: env xor_bytes_cancel masked_response_len_def envelope_len_def)
  with pad show ?thesis
    using any_group.pk_roundtrip [OF assms(2,3)] envelope_codec.dec_enc_exact [OF env(1)]
    by (simp add: unmask_response_eq eval_st_def map_err_st_def)
qed

abbreviation sample_env :: "byte \<Rightarrow> envelope" where
  "sample_env b \<equiv> \<lparr>env_mode = Internal, env_nonce = zeros nonce_len, env_hmac = [b, 4]\<rparr>"

lemma mini_pad:
  obtains pad where "response_pad (mini_hash 2) mini_group [1, 2] [] = Some pad"
  using response_pad_total [of "mini_hash 2" "[1, 2]" mini_group "[]"] mini_hash_ok [of 2]
  by (auto simp: masked_response_len_def nonce_len_def)

lemma mini_mask:
  obtains mr where "mask_response (mini_hash 2) mini_group [1, 2] [] pk (sample_env b) = Ok mr"
proof -
  obtain pad where "response_pad (mini_hash 2) mini_group [1, 2] [] = Some pad"
    by (rule mini_pad)
  from mask_response_Ok [OF mini_hash_ok this] that show thesis
    by (force simp: envelope_serialize_length)
qed

section \<open>Properties\<close>

text \<open>
  C33. Unmasking undoes masking: with the same masking key and nonce, \<open>unmask_response\<close> returns the
  server public key and the envelope that \<open>mask_response\<close> was given (an envelope that comes out
  of a deserializer is in mode \<open>Internal\<close>).
\<close>

theorem unmask_mask:
  assumes "hash_ok H" "group_ok G wf_sk wf_pk" "wf_pk spk"
    and "length (env_nonce env) = nonce_len" "length (env_hmac env) = hash_len H"
    and "mask_response H G mk n spk env = Ok mr"
  shows "unmask_response H G mk n mr = Ok (spk, env\<lparr>env_mode := Internal\<rparr>)"
  using assms by (rule unmask_mask_aux)

theorem unmask_mask_witness:
  "\<exists>mr. mask_response (mini_hash 2) mini_group [1, 2] [] 9 (sample_env 3) = Ok mr \<and>
     unmask_response (mini_hash 2) mini_group [1, 2] [] mr = Ok (9, sample_env 3)"
proof (rule mini_mask [of 9 3])
  fix mr assume masked: "mask_response (mini_hash 2) mini_group [1, 2] [] 9 (sample_env 3) = Ok mr"
  from unmask_mask [OF mini_hash_ok mini_group_ok _ _ _ this] masked show ?thesis by simp
qed

text \<open>
  A masked response has the fixed length of the wire format whatever it hides, and masking is
  injective: no two pairs of server key and envelope are masked to the same response under the same
  key and nonce.
\<close>

theorem mask_response_injective:
  assumes "hash_ok H" "group_ok G wf_sk wf_pk" "wf_pk spk" "wf_pk spk'"
    and "length (env_nonce env) = nonce_len" "length (env_hmac env) = hash_len H"
    and "length (env_nonce env') = nonce_len" "length (env_hmac env') = hash_len H"
    and "mask_response H G mk n spk env = Ok mr" "mask_response H G mk n spk' env' = Ok mr'"
  shows "length (masked_response_serialize mr) = masked_response_len H G \<and>
    (mr = mr' \<longrightarrow> spk = spk' \<and> env_nonce env = env_nonce env' \<and> env_hmac env = env_hmac env')"
proof -
  have pk: "length (serialize_pk G spk) = pk_len G"
    using assms(2,3) by (rule any_group.pk_length)
  have len: "length (envelope_serialize env) = envelope_len H"
    using assms(5,6) by (rule envelope_serialize_length)
  obtain pad where "masked_response_ok H G mr" using assms(1,9) pk len by (rule mask_response_OkD)
  then have "length (masked_response_serialize mr) = masked_response_len H G"
    by (rule masked_response_codec.enc_length)
  moreover have "spk = spk' \<and> env_nonce env = env_nonce env' \<and> env_hmac env = env_hmac env'"
    if "mr = mr'"
  proof -
    from that assms(9,10) have "mask_response H G mk n spk' env' = Ok mr" by simp
    then have "unmask_response H G mk n mr = Ok (spk', env'\<lparr>env_mode := Internal\<rparr>)"
      by (rule unmask_mask_aux [OF assms(1,2,4,7,8)])
    moreover have "unmask_response H G mk n mr = Ok (spk, env\<lparr>env_mode := Internal\<rparr>)"
      using assms(9) by (rule unmask_mask_aux [OF assms(1,2,3,5,6)])
    ultimately have "spk = spk'" and eq: "env\<lparr>env_mode := Internal\<rparr> = env'\<lparr>env_mode := Internal\<rparr>"
      by simp_all
    moreover from eq have "env_nonce (env\<lparr>env_mode := Internal\<rparr>) = env_nonce (env'\<lparr>env_mode := Internal\<rparr>)"
      and "env_hmac (env\<lparr>env_mode := Internal\<rparr>) = env_hmac (env'\<lparr>env_mode := Internal\<rparr>)"
      by (rule arg_cong)+
    ultimately show ?thesis by simp
  qed
  ultimately show ?thesis by blast
qed

theorem mask_response_injective_witness:
  "\<exists>mr mr'. mask_response (mini_hash 2) mini_group [1, 2] [] 9 (sample_env 3) = Ok mr \<and>
     mask_response (mini_hash 2) mini_group [1, 2] [] 9 (sample_env 5) = Ok mr' \<and>
     length (masked_response_serialize mr) = 35 \<and> mr \<noteq> mr'"
proof -
  obtain mr where mr: "mask_response (mini_hash 2) mini_group [1, 2] [] 9 (sample_env 3) = Ok mr"
    by (rule mini_mask)
  obtain mr' where mr': "mask_response (mini_hash 2) mini_group [1, 2] [] 9 (sample_env 5) = Ok mr'"
    by (rule mini_mask)
  from mask_response_injective [OF mini_hash_ok mini_group_ok _ _ _ _ _ _ mr mr'] mr mr'
  show ?thesis by (auto simp: masked_response_len_def nonce_len_def)
qed

text \<open>
  Whatever bytes arrive, \<open>unmask_response\<close> never reports a size error and never panics: the
  unmasked bytes start with a public key or the error is \<open>SerializationError\<close> (which the login
  turns into \<open>InvalidLoginError\<close>), and the bytes after a public key are always a valid envelope.
\<close>

theorem unmask_response_cases:
  assumes "hash_ok H" "group_ok G wf_sk wf_pk" "masked_response_ok H G mr"
    and "response_pad H G mk n = Some pad"
  shows "case deserialize_take_pk G (xor_bytes pad (masked_response_serialize mr)) of
      (Ok pk, rest) \<Rightarrow> \<exists>env. unmask_response H G mk n mr = Ok (pk, env) \<and> wf_pk pk \<and>
        envelope_ok H env \<and> envelope_serialize env = rest
    | (Err e, rest) \<Rightarrow> unmask_response H G mk n mr = Err SerializationError
    | (Panic, rest) \<Rightarrow> False"
  using assms by (rule unmask_response_outcomes)

theorem unmask_response_cases_witness:
  "\<exists>env. unmask_response (mini_hash 2) mini_group [1, 2] []
      \<lparr>mr_nonce = zeros nonce_len, mr_hash = [1, 2], mr_pk = [3]\<rparr> = Ok (env :: byte \<times> envelope)"
proof -
  let ?mr = "\<lparr>mr_nonce = zeros nonce_len, mr_hash = [1, 2], mr_pk = [3]\<rparr>"
  obtain pad where pad: "response_pad (mini_hash 2) mini_group [1, 2] [] = Some pad"
    by (rule mini_pad)
  have len: "length (xor_bytes pad (masked_response_serialize ?mr)) = 35"
    using response_pad_length [OF mini_hash_ok pad]
    by (simp add: masked_response_len_def nonce_len_def)
  then obtain p rest where "xor_bytes pad (masked_response_serialize ?mr) = p # rest"
    by (cases "xor_bytes pad (masked_response_serialize ?mr)") auto
  then have "deserialize_take_pk mini_group (xor_bytes pad (masked_response_serialize ?mr))
      = (Ok p, rest)" by simp
  with unmask_response_cases [OF mini_hash_ok mini_group_ok _ pad, of ?mr] show ?thesis
    by (auto simp: masked_response_ok_def)
qed

end
