(* ===== verification/Key_Exchange.thy ===== *)
theory Key_Exchange
  imports Ke_Parts
begin

text \<open>
  The \<open>KeyExchange\<close> trait of \<open>src/key_exchange/mod.rs\<close> as a record of its methods, and its contract
  as locales. \<open>Triple_Dh\<close>, \<open>Triple_Dh_Kem\<close> and \<open>Sigma_I\<close> build the records of the three
  implementations and interpret the locales; the login of \<open>Opaque_Login\<close> is proved against them.
\<close>

text \<open>\<open>Serialize + Deserialize\<close> of one message or state type.\<close>

record 'a wire =
  wire_len :: nat
  wire_serialize :: "'a \<Rightarrow> bytes"
  wire_deserialize_take :: "(bytes, protocol_error, 'a) st"

record ('sk, 'pk, 'k1s, 'k1m, 'k2s, 'k2b, 'k2d, 'k2i, 'k2m, 'k3m) key_exchange =
  ke_grp :: "('sk, 'pk) ke_group"
  ke_hash :: hash_fns
  generate_ke1 :: "(rng, protocol_error, 'k1s \<times> 'k1m) st"
  ke2_builder :: "serialized_credential_request \<Rightarrow> 'k1m \<Rightarrow> serialized_credential_response \<Rightarrow>
    'pk \<Rightarrow> serialized_identifiers \<Rightarrow> serialized_context \<Rightarrow> (rng, protocol_error, 'k2b) st"
  ke2_builder_data :: "'k2b \<Rightarrow> 'k2d"
  generate_ke2_input :: "'k2b \<Rightarrow> 'sk \<Rightarrow> rng \<Rightarrow> 'k2i \<times> rng"
  build_ke2 :: "'k2b \<Rightarrow> 'k2i \<Rightarrow> (protocol_error, 'k2s \<times> 'k2m) result"
  generate_ke3 :: "serialized_credential_request \<Rightarrow> 'k1m \<Rightarrow> serialized_credential_response \<Rightarrow>
    'k1s \<Rightarrow> 'k2m \<Rightarrow> 'pk \<Rightarrow> 'sk \<Rightarrow> serialized_identifiers \<Rightarrow> serialized_context \<Rightarrow>
    (rng, protocol_error, bytes \<times> 'k3m) st"
  finish_ke :: "'k2s \<Rightarrow> 'k3m \<Rightarrow> identifiers \<Rightarrow> serialized_context \<Rightarrow> (protocol_error, bytes) result"
  ke1_state_wire :: "'k1s wire"
  ke1_message_wire :: "'k1m wire"
  ke2_state_wire :: "'k2s wire"
  ke2_message_wire :: "'k2m wire"
  ke3_message_wire :: "'k3m wire"

section \<open>Contract\<close>

text \<open>A codec under the condition that the external primitives are lawful.\<close>

definition wire_ok :: "'a wire \<Rightarrow> ('a \<Rightarrow> bool) \<Rightarrow> bool" where
  "wire_ok W ok \<longleftrightarrow>
     wire_codec (wire_serialize W) (wire_deserialize_take W) (wire_len W) ok"

lemma wire_okD:
  assumes "wire_ok W ok" "ok x"
  shows "length (wire_serialize W x) = wire_len W"
    and "wire_deserialize_take W (wire_serialize W x @ rest) = (Ok x, rest)"
    and "wire_deserialize_take W (wire_serialize W x) = (Ok x, [])"
  using assms unfolding wire_ok_def
  by (simp_all add: wire_codec.enc_length wire_codec.dec_enc wire_codec.dec_enc_exact)

text \<open>
  The honest run of the three steps, as the login composes them: \<open>ids\<close> are the identifiers of both
  parties, \<open>c_sk\<close> and \<open>s_sk\<close> the static private keys.
\<close>

definition ke_session ::
    "('sk, 'pk, 'k1s, 'k1m, 'k2s, 'k2b, 'k2d, 'k2i, 'k2m, 'k3m) key_exchange \<Rightarrow> identifiers \<Rightarrow>
     'sk \<Rightarrow> 'sk \<Rightarrow> serialized_credential_request \<Rightarrow> serialized_credential_response \<Rightarrow>
     serialized_identifiers \<Rightarrow> serialized_context \<Rightarrow> 'k1s \<Rightarrow> 'k1m \<Rightarrow> 'k2s \<Rightarrow> 'k2m \<Rightarrow> bool" where
  "ke_session KE ids c_sk s_sk req resp sids ctx st1 m1 st2 m2 \<longleftrightarrow>
     from_identifiers ids (serialize_pk (ke_grp KE) (public_key (ke_grp KE) c_sk))
       (serialize_pk (ke_grp KE) (public_key (ke_grp KE) s_sk)) = Ok sids \<and>
     (\<exists>r1 r1'. generate_ke1 KE r1 = (Ok (st1, m1), r1')) \<and>
     (\<exists>b r2 r2' input r3 r3'.
        ke2_builder KE req m1 resp (public_key (ke_grp KE) c_sk) sids ctx r2 = (Ok b, r2') \<and>
        generate_ke2_input KE b s_sk r3 = (input, r3') \<and>
        build_ke2 KE b input = Ok (st2, m2))"

text \<open>
  \<open>trusted\<close> says that the external primitives are lawful; \<open>ne\<close>, \<open>OH\<close> are the element length and
  the hash of the OPRF; the \<open>ok_*\<close> predicates are the values of the message and state types.
\<close>

locale key_exchange_protocol =
  fixes KE :: "('sk, 'pk, 'k1s, 'k1m, 'k2s, 'k2b, 'k2d, 'k2i, 'k2m, 'k3m) key_exchange"
    and trusted :: bool
    and ne :: nat
    and OH :: hash_fns
    and wf_sk :: "'sk \<Rightarrow> bool"
    and wf_pk :: "'pk \<Rightarrow> bool"
    and ok_k1s :: "'k1s \<Rightarrow> bool"
    and ok_k1m :: "'k1m \<Rightarrow> bool"
    and ok_k2s :: "'k2s \<Rightarrow> bool"
    and ok_k2m :: "'k2m \<Rightarrow> bool"
    and ok_k3m :: "'k3m \<Rightarrow> bool"
  assumes static_group: "trusted \<Longrightarrow> group_ok (ke_grp KE) wf_sk wf_pk"
    and k1s_wire: "trusted \<Longrightarrow> wire_ok (ke1_state_wire KE) ok_k1s"
    and k1m_wire: "trusted \<Longrightarrow> wire_ok (ke1_message_wire KE) ok_k1m"
    and k2s_wire: "trusted \<Longrightarrow> wire_ok (ke2_state_wire KE) ok_k2s"
    and k2m_wire: "trusted \<Longrightarrow> wire_ok (ke2_message_wire KE) ok_k2m"
    and k3m_wire: "trusted \<Longrightarrow> wire_ok (ke3_message_wire KE) ok_k3m"
    and ke1_ok: "trusted \<Longrightarrow> generate_ke1 KE r = (Ok (st1, m1), r') \<Longrightarrow> ok_k1s st1 \<and> ok_k1m m1"
    and ke2_ok: "trusted \<Longrightarrow> wf_sk c_sk \<Longrightarrow> wf_sk s_sk \<Longrightarrow> length req = ne \<Longrightarrow>
          serialized_credential_response_ok ne OH (ke_grp KE) resp \<Longrightarrow>
          ke_session KE ids c_sk s_sk req resp sids ctx st1 m1 st2 m2 \<Longrightarrow>
          ok_k2s st2 \<and> ok_k2m m2"
    and agreement: "trusted \<Longrightarrow> wf_sk c_sk \<Longrightarrow> wf_sk s_sk \<Longrightarrow>
          ke_session KE ids c_sk s_sk req resp sids ctx st1 m1 st2 m2 \<Longrightarrow>
          \<exists>key m3 r'. generate_ke3 KE req m1 resp st1 m2 (public_key (ke_grp KE) s_sk) c_sk sids ctx r
              = (Ok (key, m3), r') \<and> ok_k3m m3 \<and>
            finish_ke KE st2 m3 ids ctx = Ok key"

text \<open>Under \<open>live\<close>, no step of an honest run fails.\<close>

locale live_key_exchange = key_exchange_protocol +
  fixes live :: bool
  assumes ke1_live: "trusted \<Longrightarrow> live \<Longrightarrow> \<exists>st1 m1 r'. generate_ke1 KE r = (Ok (st1, m1), r')"
    and ke2_live: "trusted \<Longrightarrow> live \<Longrightarrow> generate_ke1 KE r = (Ok (st1, m1), r') \<Longrightarrow>
          \<exists>b r2'. ke2_builder KE req m1 resp cpk sids ctx r2 = (Ok b, r2') \<and>
            (\<forall>s_sk r3 r3' input. generate_ke2_input KE b s_sk r3 = (input, r3') \<longrightarrow>
              is_ok (build_ke2 KE b input))"
begin

text \<open>Under \<open>live\<close> every pair of static keys has a session.\<close>

lemma session_exists:
  assumes "trusted" "live"
    and "from_identifiers ids (serialize_pk (ke_grp KE) (public_key (ke_grp KE) c_sk))
       (serialize_pk (ke_grp KE) (public_key (ke_grp KE) s_sk)) = Ok sids"
  shows "\<exists>st1 m1 st2 m2. ke_session KE ids c_sk s_sk req resp sids ctx st1 m1 st2 m2"
proof -
  fix r
  obtain st1 m1 r' where ke1: "generate_ke1 KE r = (Ok (st1, m1), r')"
    using ke1_live [OF assms(1,2)] by metis
  obtain b r2' where b: "ke2_builder KE req m1 resp (public_key (ke_grp KE) c_sk) sids ctx r
      = (Ok b, r2')"
    and build: "\<And>input r3'. generate_ke2_input KE b s_sk r = (input, r3') \<Longrightarrow>
      is_ok (build_ke2 KE b input)"
    using ke2_live [OF assms(1,2) ke1] by metis
  obtain input r3' where input: "generate_ke2_input KE b s_sk r = (input, r3')" by fastforce
  with build obtain st2 m2 where "build_ke2 KE b input = Ok (st2, m2)"
    by (fastforce simp: is_ok_def)
  with assms(3) ke1 b input show ?thesis unfolding ke_session_def by blast
qed

end

end
