(* ===== verification/Opaque_Setup.thy ===== *)
theory Opaque_Setup
  imports Masking Key_Exchange
begin

text \<open>
  The cipher suite (\<open>src/ciphersuite.rs\<close>) and, from \<open>src/opaque.rs\<close>, the server setup and the
  helper functions that registration and login share.
\<close>

definition STR_MASKING_KEY :: bytes where
  "STR_MASKING_KEY = map of_char ''MaskingKey''"

definition STR_OPRF_KEY :: bytes where
  "STR_OPRF_KEY = map of_char ''OprfKey''"

definition STR_OPAQUE_DERIVE_KEY_PAIR :: bytes where
  "STR_OPAQUE_DERIVE_KEY_PAIR = map of_char ''OPAQUE-DeriveKeyPair''"

text \<open>\<open>trait CipherSuite\<close>; \<open>cs_ksf\<close> is the \<open>hash\<close> of \<open>Ksf::default()\<close>.\<close>

record ('e, 'oc, 'sk, 'pk, 'k1s, 'k1m, 'k2s, 'k2b, 'k2d, 'k2i, 'k2m, 'k3m) cipher_suite =
  cs_oprf :: "('e, 'oc) oprf_suite"
  cs_ke :: "('sk, 'pk, 'k1s, 'k1m, 'k2s, 'k2b, 'k2d, 'k2i, 'k2m, 'k3m) key_exchange"
  cs_ksf :: ksf

abbreviation cs_hash ::
    "('e, 'oc, 'sk, 'pk, 'k1s, 'k1m, 'k2s, 'k2b, 'k2d, 'k2i, 'k2m, 'k3m) cipher_suite \<Rightarrow> hash_fns"
  where
  "cs_hash CS \<equiv> oprf_hash (cs_oprf CS)"

abbreviation cs_group ::
    "('e, 'oc, 'sk, 'pk, 'k1s, 'k1m, 'k2s, 'k2b, 'k2d, 'k2i, 'k2m, 'k3m) cipher_suite \<Rightarrow>
     ('sk, 'pk) ke_group" where
  "cs_group CS \<equiv> ke_grp (cs_ke CS)"

section \<open>Server setup\<close>

record ('os, 'k, 'pk) server_setup =
  ss_oprf_seed :: 'os
  ss_keypair :: "('pk, 'k) keypair"
  ss_dummy_pk :: 'pk

record 'os key_material =
  kmi_ikm :: 'os
  kmi_info :: "bytes list"

text \<open>\<open>None\<close>: the sampling loop of \<open>KeyPair::random\<close> never leaves.\<close>

definition new_with_key_pair_and_seed ::
    "('e, 'oc, 'sk, 'pk, _, _, _, _, _, _, _, _) cipher_suite \<Rightarrow> rng \<Rightarrow> ('pk, 'k) keypair \<Rightarrow> 'os \<Rightarrow>
     (('os, 'k, 'pk) server_setup \<times> rng) option" where
  "new_with_key_pair_and_seed CS rng keypair oprf_seed =
     (case keypair_random (cs_group CS) rng of
        None \<Rightarrow> None
      | Some (dummy, rng') \<Rightarrow>
          Some (\<lparr>ss_oprf_seed = oprf_seed, ss_keypair = keypair,
                 ss_dummy_pk = keypair_public dummy\<rparr>, rng'))"

definition new_with_key_pair ::
    "('e, 'oc, 'sk, 'pk, _, _, _, _, _, _, _, _) cipher_suite \<Rightarrow> rng \<Rightarrow> ('pk, 'k) keypair \<Rightarrow>
     ((bytes, 'k, 'pk) server_setup \<times> rng) option" where
  "new_with_key_pair CS rng keypair =
     (case fill_bytes (hash_len (cs_hash CS)) rng of
        (oprf_seed, rng') \<Rightarrow> new_with_key_pair_and_seed CS rng' keypair oprf_seed)"

definition server_setup_new ::
    "('e, 'oc, 'sk, 'pk, _, _, _, _, _, _, _, _) cipher_suite \<Rightarrow> rng \<Rightarrow>
     ((bytes, 'sk, 'pk) server_setup \<times> rng) option" where
  "server_setup_new CS rng =
     (case keypair_random (cs_group CS) rng of
        None \<Rightarrow> None
      | Some (keypair, rng') \<Rightarrow> new_with_key_pair CS rng' keypair)"

definition key_material_info :: "('os, 'k, 'pk) server_setup \<Rightarrow> bytes \<Rightarrow> 'os key_material" where
  "key_material_info self credential_identifier =
     \<lparr>kmi_ikm = ss_oprf_seed self, kmi_info = [credential_identifier, STR_OPRF_KEY]\<rparr>"

definition server_setup_keypair :: "('os, 'k, 'pk) server_setup \<Rightarrow> ('pk, 'k) keypair" where
  "server_setup_keypair self = ss_keypair self"

text \<open>
  \<open>SK\<close> and \<open>OS\<close> are the serialization traits of the private key and the seed; \<open>conv\<close> is
  \<open>ProtocolError::into_custom\<close> for the error type of \<open>SK\<close>.
\<close>

definition server_setup_serialize ::
    "('e, 'oc, 'sk, 'pk, _, _, _, _, _, _, _, _) cipher_suite \<Rightarrow>
     ('pk, 'k, 'err) private_key_serialization \<Rightarrow> ('os, 'err) oprf_seed_serialization \<Rightarrow>
     ('os, 'k, 'pk) server_setup \<Rightarrow> bytes" where
  "server_setup_serialize CS SK OS self =
     cat (cat (os_serialize OS (ss_oprf_seed self)) (serialize_key_pair SK (ss_keypair self)))
         (public_key_serialize (cs_group CS) (ss_dummy_pk self))"

definition server_setup_deserialize ::
    "('e, 'oc, 'sk, 'pk, _, _, _, _, _, _, _, _) cipher_suite \<Rightarrow>
     ('pk, 'k, 'err) private_key_serialization \<Rightarrow> ('os, 'err) oprf_seed_serialization \<Rightarrow>
     (protocol_error \<Rightarrow> 'err) \<Rightarrow> bytes \<Rightarrow> ('err, ('os, 'k, 'pk) server_setup) result" where
  "server_setup_deserialize CS SK OS conv input =
     eval_st
       (bind_st (os_deserialize_take OS) (\<lambda>oprf_seed.
        bind_st (deserialize_take_key_pair SK) (\<lambda>keypair.
        bind_st (map_err_st conv (public_key_deserialize_take (cs_group CS))) (\<lambda>dummy_pk.
        return_st \<lparr>ss_oprf_seed = oprf_seed, ss_keypair = keypair, ss_dummy_pk = dummy_pk\<rparr>)))) input"

definition server_setup_len ::
    "('e, 'oc, 'sk, 'pk, _, _, _, _, _, _, _, _) cipher_suite \<Rightarrow>
     ('pk, 'k, 'err) private_key_serialization \<Rightarrow> ('os, 'err) oprf_seed_serialization \<Rightarrow> nat" where
  "server_setup_len CS SK OS = os_len OS + pks_len SK + pk_len (cs_group CS)"

section \<open>Helper functions\<close>

definition get_password_derived_key ::
    "('e, 'oc, 'sk, 'pk, _, _, _, _, _, _, _, _) cipher_suite \<Rightarrow> bytes \<Rightarrow> 'oc \<Rightarrow> 'e \<Rightarrow> ksf option \<Rightarrow>
     (protocol_error, bytes \<times> hkdf) result" where
  "get_password_derived_key CS input oprf_client evaluation_element ksf =
     bind_result (map_err protocol_from_voprf
       (oprf_finalize (cs_oprf CS) oprf_client input evaluation_element)) (\<lambda>oprf_ga.
     bind_result (map_err protocol_from_internal
       (case ksf of Some ksf \<Rightarrow> ksf oprf_ga | None \<Rightarrow> cs_ksf CS oprf_ga)) (\<lambda>hardened_output.
     let hkdf = [];
         hkdf = hkdf @ oprf_ga;
         hkdf = hkdf @ hardened_output in
     Ok (hkdf_extract (cs_hash CS) hkdf)))"

definition oprf_key_material ::
    "('e, 'oc, 'sk, 'pk, _, _, _, _, _, _, _, _) cipher_suite \<Rightarrow> bytes \<Rightarrow> bytes list \<Rightarrow>
     (internal_error, bytes) result" where
  "oprf_key_material CS oprf_seed info =
     ok_or HkdfError (Option.bind (hkdf_from_prk (cs_hash CS) oprf_seed) (\<lambda>hkdf.
       hkdf_expand_multi_info hkdf info (scalar_len (cs_oprf CS))))"

definition oprf_key_from_key_material ::
    "('e, 'oc, 'sk, 'pk, _, _, _, _, _, _, _, _) cipher_suite \<Rightarrow> bytes \<Rightarrow>
     (internal_error, bytes) result" where
  "oprf_key_from_key_material CS input =
     map_err internal_from_voprf (oprf_derive_key (cs_oprf CS) input STR_OPAQUE_DERIVE_KEY_PAIR)"

definition blind ::
    "('e, 'oc, 'sk, 'pk, _, _, _, _, _, _, _, _) cipher_suite \<Rightarrow> bytes \<Rightarrow>
     (rng, voprf_error, 'oc \<times> 'e) st" where
  "blind CS password = oprf_blind (cs_oprf CS) password"

section \<open>Facts\<close>

definition server_setup_ok ::
    "('e, 'oc, 'sk, 'pk, _, _, _, _, _, _, _, _) cipher_suite \<Rightarrow> ('sk \<Rightarrow> bool) \<Rightarrow> ('pk \<Rightarrow> bool) \<Rightarrow>
     (bytes, 'sk, 'pk) server_setup \<Rightarrow> bool" where
  "server_setup_ok CS wf_sk wf_pk s \<longleftrightarrow>
     length (ss_oprf_seed s) = hash_len (cs_hash CS) \<and>
     wf_sk (kp_sk (ss_keypair s)) \<and> keypair_consistent (cs_group CS) (ss_keypair s) \<and>
     wf_pk (ss_dummy_pk s)"

lemma server_setup_new_ok:
  assumes "group_ok (cs_group CS) wf_sk wf_pk" "server_setup_new CS r = Some (s, r')"
  shows "server_setup_ok CS wf_sk wf_pk s"
proof -
  from assms(2) obtain kp r1 seed r2 d where
    kp: "keypair_random (cs_group CS) r = Some (kp, r1)"
    and seed: "fill_bytes (hash_len (cs_hash CS)) r1 = (seed, r2)"
    and d: "keypair_random (cs_group CS) r2 = Some (d, r')"
    and s: "s = \<lparr>ss_oprf_seed = seed, ss_keypair = kp, ss_dummy_pk = kp_pk d\<rparr>"
    by (auto simp: server_setup_new_def new_with_key_pair_def new_with_key_pair_and_seed_def
        key_defs split: option.splits prod.splits)
  from keypair_random_wf [OF assms(1) kp] keypair_random_wf [OF assms(1) d]
    keypair_random_consistent [OF kp] length_fill_bytes [OF seed]
  show ?thesis by (simp add: s server_setup_ok_def)
qed

lemma server_setup_roundtrip_aux:
  assumes "group_ok (cs_group CS) wf_sk wf_pk" "server_setup_ok CS wf_sk wf_pk s"
  defines "SK \<equiv> private_key_serialization_impl (cs_group CS)"
    and "OS \<equiv> oprf_seed_serialization_impl (cs_hash CS) id"
  shows "length (server_setup_serialize CS SK OS s) = server_setup_len CS SK OS"
    and "server_setup_deserialize CS SK OS id (server_setup_serialize CS SK OS s @ rest) = Ok s"
proof -
  have kp: "group_ok (cs_group CS) wf_sk wf_pk \<and> wf_sk (kp_sk (ss_keypair s)) \<and>
      keypair_consistent (cs_group CS) (ss_keypair s)"
    and seed: "length (ss_oprf_seed s) = hash_len (cs_hash CS)" and "wf_pk (ss_dummy_pk s)"
    using assms(1,2) by (simp_all add: server_setup_ok_def)
  note facts = key_pair_codec.enc_length [OF kp] key_pair_codec.dec_enc [OF kp]
    oprf_seed_codec.enc_length [OF seed] oprf_seed_codec.dec_enc [OF seed]
    any_group.pk_length [OF assms(1) \<open>wf_pk (ss_dummy_pk s)\<close>]
    any_group.pk_roundtrip [OF assms(1) \<open>wf_pk (ss_dummy_pk s)\<close>]
  show "length (server_setup_serialize CS SK OS s) = server_setup_len CS SK OS"
    by (simp add: server_setup_serialize_def server_setup_len_def cat_def facts SK_def OS_def
        key_defs)
  show "server_setup_deserialize CS SK OS id (server_setup_serialize CS SK OS s @ rest) = Ok s"
    by (simp add: server_setup_serialize_def server_setup_deserialize_def cat_def facts SK_def
        OS_def key_defs eval_st_def map_err_st_def)
qed

end
