(* ===== verification/Messages.thy ===== *)
theory Messages
  imports Opaque_Setup
begin

text \<open>
  \<open>src/messages.rs\<close>: the protocol messages with their serialization. The deserializers of the OPRF
  elements are given the slice that the source gives them: exactly the element, except in
  \<open>RegistrationRequest::deserialize\<close>, which passes the whole input.
\<close>

record 'e registration_request =
  rr_blinded_element :: 'e

record ('e, 'pk) registration_response =
  rsp_evaluation_element :: 'e
  rsp_server_s_pk :: 'pk

record 'pk registration_upload =
  ru_envelope :: envelope
  ru_masking_key :: bytes
  ru_client_s_pk :: 'pk

record ('e, 'k1m) credential_request =
  cr_blinded_element :: 'e
  cr_ke1_message :: 'k1m

record ('e, 'k2m) credential_response =
  crs_evaluation_element :: 'e
  crs_masking_nonce :: bytes
  crs_masked_response :: masked_response
  crs_ke2_message :: 'k2m

record 'k3m credential_finalization =
  cf_ke3_message :: 'k3m

record ('k, 'e, 'k2b) server_login_builder =
  slb_server_s_sk :: 'k
  slb_evaluation_element :: 'e
  slb_masking_nonce :: bytes
  slb_masked_response :: masked_response
  slb_ke2_builder :: 'k2b

section \<open>Registration messages\<close>

definition registration_request_serialize ::
    "('e, 'oc, 'sk, 'pk, _, _, _, _, _, _, _, _) cipher_suite \<Rightarrow> 'e registration_request \<Rightarrow> bytes"
  where
  "registration_request_serialize CS self = serialize_elem (cs_oprf CS) (rr_blinded_element self)"

definition registration_request_deserialize ::
    "('e, 'oc, 'sk, 'pk, _, _, _, _, _, _, _, _) cipher_suite \<Rightarrow> bytes \<Rightarrow>
     (protocol_error, 'e registration_request) result" where
  "registration_request_deserialize CS input =
     (if length input < elem_len (cs_oprf CS) then Err SerializationError
      else bind_result (map_err protocol_from_voprf (deserialize_blinded (cs_oprf CS) input))
        (\<lambda>blinded_element. Ok \<lparr>rr_blinded_element = blinded_element\<rparr>))"

definition registration_response_serialize ::
    "('e, 'oc, 'sk, 'pk, _, _, _, _, _, _, _, _) cipher_suite \<Rightarrow> ('e, 'pk) registration_response \<Rightarrow>
     bytes" where
  "registration_response_serialize CS self =
     (let elem = serialize_elem (cs_oprf CS) (rsp_evaluation_element self) in
      cat elem (public_key_serialize (cs_group CS) (rsp_server_s_pk self)))"

definition registration_response_deserialize ::
    "('e, 'oc, 'sk, 'pk, _, _, _, _, _, _, _, _) cipher_suite \<Rightarrow> bytes \<Rightarrow>
     (protocol_error, ('e, 'pk) registration_response) result" where
  "registration_response_deserialize CS input =
     (let elem_len = elem_len (cs_oprf CS) in
      if length input < elem_len then Err SerializationError
      else bind_result (map_err protocol_from_voprf
          (deserialize_evaluation (cs_oprf CS) (take elem_len input))) (\<lambda>evaluation_element.
        let input = drop elem_len input in
        eval_st
          (bind_st (public_key_deserialize_take (cs_group CS)) (\<lambda>server_s_pk.
           return_st \<lparr>rsp_evaluation_element = evaluation_element,
                      rsp_server_s_pk = server_s_pk\<rparr>)) input))"

definition registration_upload_serialize ::
    "('e, 'oc, 'sk, 'pk, _, _, _, _, _, _, _, _) cipher_suite \<Rightarrow> 'pk registration_upload \<Rightarrow> bytes"
  where
  "registration_upload_serialize CS self =
     cat (cat (public_key_serialize (cs_group CS) (ru_client_s_pk self)) (ru_masking_key self))
         (envelope_serialize (ru_envelope self))"

definition registration_upload_deserialize ::
    "('e, 'oc, 'sk, 'pk, _, _, _, _, _, _, _, _) cipher_suite \<Rightarrow> bytes \<Rightarrow>
     (protocol_error, 'pk registration_upload) result" where
  "registration_upload_deserialize CS input =
     eval_st
       (bind_st (public_key_deserialize_take (cs_group CS)) (\<lambda>client_s_pk.
        bind_st (take_array (hash_len (cs_hash CS)) ''masking key'') (\<lambda>masking_key.
        bind_st (envelope_deserialize_take (cs_hash CS)) (\<lambda>envelope.
        return_st \<lparr>ru_envelope = envelope, ru_masking_key = masking_key,
                   ru_client_s_pk = client_s_pk\<rparr>)))) input"

definition registration_upload_dummy ::
    "('e, 'oc, 'sk, 'pk, _, _, _, _, _, _, _, _) cipher_suite \<Rightarrow> ('os, 'k, 'pk) server_setup \<Rightarrow>
     rng \<Rightarrow> 'pk registration_upload \<times> rng" where
  "registration_upload_dummy CS setup rng =
     (case fill_bytes (hash_len (cs_hash CS)) rng of
        (masking_key, rng') \<Rightarrow>
          (\<lparr>ru_envelope = envelope_dummy (cs_hash CS), ru_masking_key = masking_key,
            ru_client_s_pk = ss_dummy_pk setup\<rparr>, rng'))"

section \<open>Login messages\<close>

definition credential_request_serialize ::
    "('e, 'oc, 'sk, 'pk, 'k1s, 'k1m, _, _, _, _, _, _) cipher_suite \<Rightarrow>
     ('e, 'k1m) credential_request \<Rightarrow> bytes" where
  "credential_request_serialize CS self =
     (let elem = serialize_elem (cs_oprf CS) (cr_blinded_element self) in
      cat elem (wire_serialize (ke1_message_wire (cs_ke CS)) (cr_ke1_message self)))"

definition credential_request_deserialize_take ::
    "('e, 'oc, 'sk, 'pk, 'k1s, 'k1m, _, _, _, _, _, _) cipher_suite \<Rightarrow>
     (bytes, protocol_error, ('e, 'k1m) credential_request) st" where
  "credential_request_deserialize_take CS input =
     (let elem_len = elem_len (cs_oprf CS) in
      if length input < elem_len then (Err SerializationError, input)
      else
        bind_st (\<lambda>input. (map_err protocol_from_voprf
          (deserialize_blinded (cs_oprf CS) (take elem_len input)), input)) (\<lambda>blinded_element.
        bind_st (\<lambda>input. (Ok (), drop elem_len input)) (\<lambda>_.
        bind_st (wire_deserialize_take (ke1_message_wire (cs_ke CS))) (\<lambda>ke1_message.
        return_st \<lparr>cr_blinded_element = blinded_element, cr_ke1_message = ke1_message\<rparr>))) input)"

definition credential_request_deserialize ::
    "('e, 'oc, 'sk, 'pk, 'k1s, 'k1m, _, _, _, _, _, _) cipher_suite \<Rightarrow> bytes \<Rightarrow>
     (protocol_error, ('e, 'k1m) credential_request) result" where
  "credential_request_deserialize CS input = eval_st (credential_request_deserialize_take CS) input"

definition credential_request_to_parts ::
    "('e, 'oc, 'sk, 'pk, 'k1s, 'k1m, _, _, _, _, _, _) cipher_suite \<Rightarrow>
     ('e, 'k1m) credential_request \<Rightarrow> serialized_credential_request" where
  "credential_request_to_parts CS self = serialize_elem (cs_oprf CS) (cr_blinded_element self)"

definition credential_response_serialize ::
    "('e, 'oc, 'sk, 'pk, _, _, _, _, _, _, 'k2m, _) cipher_suite \<Rightarrow>
     ('e, 'k2m) credential_response \<Rightarrow> bytes" where
  "credential_response_serialize CS self =
     (let elem = serialize_elem (cs_oprf CS) (crs_evaluation_element self) in
      cat (cat (cat elem (crs_masking_nonce self))
        (masked_response_serialize (crs_masked_response self)))
        (wire_serialize (ke2_message_wire (cs_ke CS)) (crs_ke2_message self)))"

definition credential_response_deserialize ::
    "('e, 'oc, 'sk, 'pk, _, _, _, _, _, _, 'k2m, _) cipher_suite \<Rightarrow> bytes \<Rightarrow>
     (protocol_error, ('e, 'k2m) credential_response) result" where
  "credential_response_deserialize CS input =
     (let elem_len = elem_len (cs_oprf CS) in
      if length input < elem_len then Err SerializationError
      else bind_result (map_err protocol_from_voprf
          (deserialize_evaluation (cs_oprf CS) (take elem_len input))) (\<lambda>evaluation_element.
        let input = drop elem_len input in
        eval_st
          (bind_st (take_array nonce_len ''masking nonce'') (\<lambda>masking_nonce.
           bind_st (masked_response_deserialize_take (cs_hash CS) (cs_group CS))
             (\<lambda>masked_response.
           bind_st (wire_deserialize_take (ke2_message_wire (cs_ke CS))) (\<lambda>ke2_message.
           return_st \<lparr>crs_evaluation_element = evaluation_element,
                      crs_masking_nonce = masking_nonce,
                      crs_masked_response = masked_response,
                      crs_ke2_message = ke2_message\<rparr>)))) input))"

text \<open>\<open>SerializedCredentialResponse::new\<close> and \<open>CredentialResponse::to_parts\<close>.\<close>

definition serialized_credential_response_new ::
    "('e, 'oc, 'sk, 'pk, _, _, _, _, _, _, _, _) cipher_suite \<Rightarrow> 'e \<Rightarrow> bytes \<Rightarrow> masked_response \<Rightarrow>
     serialized_credential_response" where
  "serialized_credential_response_new CS evaluation_element masking_nonce masked_response =
     \<lparr>scr_evaluation_element = serialize_elem (cs_oprf CS) evaluation_element,
      scr_masking_nonce = masking_nonce, scr_masked_response = masked_response\<rparr>"

definition credential_response_to_parts ::
    "('e, 'oc, 'sk, 'pk, _, _, _, _, _, _, 'k2m, _) cipher_suite \<Rightarrow>
     ('e, 'k2m) credential_response \<Rightarrow> serialized_credential_response" where
  "credential_response_to_parts CS self =
     serialized_credential_response_new CS (crs_evaluation_element self) (crs_masking_nonce self)
       (crs_masked_response self)"

definition credential_finalization_serialize ::
    "('e, 'oc, 'sk, 'pk, _, _, _, _, _, _, _, 'k3m) cipher_suite \<Rightarrow>
     'k3m credential_finalization \<Rightarrow> bytes" where
  "credential_finalization_serialize CS self =
     wire_serialize (ke3_message_wire (cs_ke CS)) (cf_ke3_message self)"

definition credential_finalization_deserialize ::
    "('e, 'oc, 'sk, 'pk, _, _, _, _, _, _, _, 'k3m) cipher_suite \<Rightarrow> bytes \<Rightarrow>
     (protocol_error, 'k3m credential_finalization) result" where
  "credential_finalization_deserialize CS input =
     eval_st (bind_st (wire_deserialize_take (ke3_message_wire (cs_ke CS)))
       (\<lambda>ke3_message. return_st \<lparr>cf_ke3_message = ke3_message\<rparr>)) input"

section \<open>Builder\<close>

definition builder_data ::
    "('e, 'oc, 'sk, 'pk, 'k1s, 'k1m, 'k2s, 'k2b, 'k2d, _, _, _) cipher_suite \<Rightarrow>
     ('k, 'e, 'k2b) server_login_builder \<Rightarrow> 'k2d" where
  "builder_data CS self = ke2_builder_data (cs_ke CS) (slb_ke2_builder self)"

definition builder_private_key :: "('k, 'e, 'k2b) server_login_builder \<Rightarrow> 'k" where
  "builder_private_key self = slb_server_s_sk self"

section \<open>Facts\<close>

text \<open>Round trips of the messages whose parts are well formed.\<close>

lemma registration_request_rt:
  assumes "oprf_ok (cs_oprf CS) wf_e wf_oc" "wf_e (rr_blinded_element m)"
  shows "length (registration_request_serialize CS m) = elem_len (cs_oprf CS)"
    and "registration_request_deserialize CS (registration_request_serialize CS m) = Ok m"
  using oprf_okD(2,3) [OF assms]
  by (simp_all add: registration_request_serialize_def registration_request_deserialize_def)

lemma registration_response_rt:
  assumes "oprf_ok (cs_oprf CS) wf_e wf_oc" "group_ok (cs_group CS) wf_sk wf_pk"
    and "wf_e (rsp_evaluation_element m)" "wf_pk (rsp_server_s_pk m)"
  shows "length (registration_response_serialize CS m) =
      elem_len (cs_oprf CS) + pk_len (cs_group CS)"
    and "registration_response_deserialize CS (registration_response_serialize CS m @ rest) = Ok m"
  using oprf_okD(2,4) [OF assms(1,3)] any_group.pk_length [OF assms(2,4)]
    any_group.pk_roundtrip [OF assms(2,4)]
  by (simp_all add: registration_response_serialize_def registration_response_deserialize_def
      cat_def key_defs Let_def eval_st_def)

lemma registration_upload_rt:
  assumes "group_ok (cs_group CS) wf_sk wf_pk" "wf_pk (ru_client_s_pk m)"
    and "length (ru_masking_key m) = hash_len (cs_hash CS)"
    and "envelope_ok (cs_hash CS) (ru_envelope m)"
  shows "length (registration_upload_serialize CS m) =
      pk_len (cs_group CS) + hash_len (cs_hash CS) + envelope_len (cs_hash CS)"
    and "registration_upload_deserialize CS (registration_upload_serialize CS m @ rest) = Ok m"
  using assms(3) any_group.pk_length [OF assms(1,2)] any_group.pk_roundtrip [OF assms(1,2)]
    envelope_codec.enc_length [OF assms(4)] envelope_codec.dec_enc [OF assms(4)]
  by (simp_all add: registration_upload_serialize_def registration_upload_deserialize_def cat_def
      key_defs eval_st_def)

lemma credential_request_rt:
  assumes "oprf_ok (cs_oprf CS) wf_e wf_oc" "wire_ok (ke1_message_wire (cs_ke CS)) ok_k1m"
    and "wf_e (cr_blinded_element m)" "ok_k1m (cr_ke1_message m)"
  shows "length (credential_request_serialize CS m) =
      elem_len (cs_oprf CS) + wire_len (ke1_message_wire (cs_ke CS))"
    and "credential_request_deserialize_take CS (credential_request_serialize CS m @ rest) = (Ok m, rest)"
    and "credential_request_deserialize CS (credential_request_serialize CS m @ rest) = Ok m"
proof -
  note facts = oprf_okD(2,3) [OF assms(1,3)] wire_okD [OF assms(2,4)]
  show "length (credential_request_serialize CS m) =
      elem_len (cs_oprf CS) + wire_len (ke1_message_wire (cs_ke CS))"
    by (simp add: credential_request_serialize_def cat_def facts Let_def)
  show take: "credential_request_deserialize_take CS (credential_request_serialize CS m @ rest)
      = (Ok m, rest)"
    by (simp add: credential_request_serialize_def credential_request_deserialize_take_def cat_def
        facts Let_def bind_st_def)
  then show "credential_request_deserialize CS (credential_request_serialize CS m @ rest) = Ok m"
    by (simp add: credential_request_deserialize_def eval_st_def)
qed

lemma credential_response_rt:
  assumes "oprf_ok (cs_oprf CS) wf_e wf_oc" "wire_ok (ke2_message_wire (cs_ke CS)) ok_k2m"
    and "wf_e (crs_evaluation_element m)" "length (crs_masking_nonce m) = nonce_len"
    and "masked_response_ok (cs_hash CS) (cs_group CS) (crs_masked_response m)"
    and "ok_k2m (crs_ke2_message m)"
  shows "length (credential_response_serialize CS m) =
      elem_len (cs_oprf CS) + nonce_len + masked_response_len (cs_hash CS) (cs_group CS)
        + wire_len (ke2_message_wire (cs_ke CS))"
    and "credential_response_deserialize CS (credential_response_serialize CS m @ rest) = Ok m"
  using assms(4) oprf_okD(2,4) [OF assms(1,3)] wire_okD [OF assms(2,6)]
    masked_response_codec.enc_length [OF assms(5)] masked_response_codec.dec_enc [OF assms(5)]
  by (simp_all add: credential_response_serialize_def credential_response_deserialize_def cat_def
      Let_def eval_st_def)

lemma credential_finalization_rt:
  assumes "wire_ok (ke3_message_wire (cs_ke CS)) ok_k3m" "ok_k3m (cf_ke3_message m)"
  shows "length (credential_finalization_serialize CS m) = wire_len (ke3_message_wire (cs_ke CS))"
    and "credential_finalization_deserialize CS (credential_finalization_serialize CS m @ rest) = Ok m"
  using wire_okD [OF assms]
  by (simp_all add: credential_finalization_serialize_def credential_finalization_deserialize_def
      eval_st_def)

end
