(* ===== verification/Opaque_Registration.thy ===== *)
theory Opaque_Registration
  imports Messages
begin

text \<open>
  Registration (\<open>ClientRegistration\<close> and \<open>ServerRegistration\<close> of \<open>src/opaque.rs\<close>).
\<close>

record ('oc, 'e) client_registration =
  creg_oprf_client :: 'oc
  creg_blinded_element :: 'e

type_synonym 'pk server_registration = "'pk registration_upload"

record client_registration_finish_parameters =
  crp_identifiers :: identifiers
  crp_ksf :: "ksf option"

record ('pk) client_registration_finish_result =
  crf_message :: "'pk registration_upload"
  crf_export_key :: bytes
  crf_server_s_pk :: 'pk

section \<open>Client\<close>

definition client_registration_serialize ::
    "('e, 'oc, 'sk, 'pk, _, _, _, _, _, _, _, _) cipher_suite \<Rightarrow> ('oc, 'e) client_registration \<Rightarrow>
     bytes" where
  "client_registration_serialize CS self =
     cat (serialize_oprf_client (cs_oprf CS) (creg_oprf_client self))
         (serialize_elem (cs_oprf CS) (creg_blinded_element self))"

definition client_registration_deserialize ::
    "('e, 'oc, 'sk, 'pk, _, _, _, _, _, _, _, _) cipher_suite \<Rightarrow> bytes \<Rightarrow>
     (protocol_error, ('oc, 'e) client_registration) result" where
  "client_registration_deserialize CS input =
     (let client_len = scalar_len (cs_oprf CS) in
      if length input < client_len then Err SerializationError
      else bind_result (map_err protocol_from_voprf
          (deserialize_oprf_client (cs_oprf CS) (take client_len input))) (\<lambda>oprf_client.
        let input = drop client_len input in
        bind_result (map_err protocol_from_voprf (deserialize_blinded (cs_oprf CS) input))
          (\<lambda>blinded_element.
        Ok \<lparr>creg_oprf_client = oprf_client, creg_blinded_element = blinded_element\<rparr>)))"

definition client_registration_start ::
    "('e, 'oc, 'sk, 'pk, _, _, _, _, _, _, _, _) cipher_suite \<Rightarrow> bytes \<Rightarrow>
     (rng, protocol_error, 'e registration_request \<times> ('oc, 'e) client_registration) st" where
  "client_registration_start CS password =
     bind_st (map_err_st protocol_from_voprf (blind CS password)) (\<lambda>(state, message).
     return_st (\<lparr>rr_blinded_element = message\<rparr>,
       \<lparr>creg_oprf_client = state, creg_blinded_element = message\<rparr>))"

definition client_registration_finish ::
    "('e, 'oc, 'sk, 'pk, _, _, _, _, _, _, _, _) cipher_suite \<Rightarrow> ('oc, 'e) client_registration \<Rightarrow>
     bytes \<Rightarrow> ('e, 'pk) registration_response \<Rightarrow> client_registration_finish_parameters \<Rightarrow>
     (rng, protocol_error, 'pk client_registration_finish_result) st" where
  "client_registration_finish CS self password registration_response params =
     (if creg_blinded_element self = rsp_evaluation_element registration_response
      then lift_st (Err ReflectedValueError)
      else
        bind_st (lift_st (get_password_derived_key CS password (creg_oprf_client self)
          (rsp_evaluation_element registration_response) (crp_ksf params)))
          (\<lambda>(_, randomized_pwd_hasher).
        bind_st (lift_st (ok_or (protocol_from_internal HkdfError)
          (randomized_pwd_hasher STR_MASKING_KEY (hash_len (cs_hash CS))))) (\<lambda>masking_key.
        bind_st (seal (cs_hash CS) (cs_group CS) randomized_pwd_hasher
          (rsp_server_s_pk registration_response) (crp_identifiers params))
          (\<lambda>(envelope, client_s_pk, export_key).
        return_st
          \<lparr>crf_message = \<lparr>ru_envelope = envelope, ru_masking_key = masking_key,
             ru_client_s_pk = client_s_pk\<rparr>,
           crf_export_key = export_key,
           crf_server_s_pk = rsp_server_s_pk registration_response\<rparr>))))"

section \<open>Server\<close>

definition server_registration_serialize ::
    "('e, 'oc, 'sk, 'pk, _, _, _, _, _, _, _, _) cipher_suite \<Rightarrow> 'pk server_registration \<Rightarrow> bytes"
  where
  "server_registration_serialize CS self = registration_upload_serialize CS self"

definition server_registration_deserialize ::
    "('e, 'oc, 'sk, 'pk, _, _, _, _, _, _, _, _) cipher_suite \<Rightarrow> bytes \<Rightarrow>
     (protocol_error, 'pk server_registration) result" where
  "server_registration_deserialize CS input = registration_upload_deserialize CS input"

definition server_registration_start_with_key_material ::
    "('e, 'oc, 'sk, 'pk, _, _, _, _, _, _, _, _) cipher_suite \<Rightarrow> ('os, 'k, 'pk) server_setup \<Rightarrow>
     bytes \<Rightarrow> 'e registration_request \<Rightarrow> (protocol_error, ('e, 'pk) registration_response) result"
  where
  "server_registration_start_with_key_material CS server_setup key_material message =
     bind_result (map_err protocol_from_internal (oprf_key_from_key_material CS key_material))
       (\<lambda>oprf_key.
     bind_result (map_err protocol_from_voprf (oprf_new_with_key (cs_oprf CS) oprf_key))
       (\<lambda>server.
     let evaluation_element = server (rr_blinded_element message) in
     Ok \<lparr>rsp_evaluation_element = evaluation_element,
         rsp_server_s_pk = keypair_public (server_setup_keypair server_setup)\<rparr>))"

definition server_registration_start ::
    "('e, 'oc, 'sk, 'pk, _, _, _, _, _, _, _, _) cipher_suite \<Rightarrow> (bytes, 'k, 'pk) server_setup \<Rightarrow>
     'e registration_request \<Rightarrow> bytes \<Rightarrow> (protocol_error, ('e, 'pk) registration_response) result"
  where
  "server_registration_start CS server_setup message credential_identifier =
     (let kmi = key_material_info server_setup credential_identifier;
          oprf_seed = kmi_ikm kmi;
          info = kmi_info kmi in
      bind_result (map_err protocol_from_internal (oprf_key_material CS oprf_seed info))
        (\<lambda>key_material.
      server_registration_start_with_key_material CS server_setup key_material message))"

definition server_registration_finish :: "'pk registration_upload \<Rightarrow> 'pk server_registration" where
  "server_registration_finish message = message"

definition server_registration_dummy ::
    "('e, 'oc, 'sk, 'pk, _, _, _, _, _, _, _, _) cipher_suite \<Rightarrow> ('os, 'k, 'pk) server_setup \<Rightarrow>
     rng \<Rightarrow> 'pk server_registration \<times> rng" where
  "server_registration_dummy CS server_setup rng = registration_upload_dummy CS server_setup rng"

section \<open>Facts\<close>

text \<open>The OPRF evaluation that the server's seed and a credential identifier determine.\<close>

definition server_evaluation ::
    "('e, 'oc, 'sk, 'pk, _, _, _, _, _, _, _, _) cipher_suite \<Rightarrow> bytes \<Rightarrow> bytes \<Rightarrow>
     (protocol_error, 'e \<Rightarrow> 'e) result" where
  "server_evaluation CS oprf_seed credential_identifier =
     bind_result (map_err protocol_from_internal
       (oprf_key_material CS oprf_seed [credential_identifier, STR_OPRF_KEY])) (\<lambda>key_material.
     bind_result (map_err protocol_from_internal (oprf_key_from_key_material CS key_material))
       (\<lambda>oprf_key.
     map_err protocol_from_voprf (oprf_new_with_key (cs_oprf CS) oprf_key)))"

lemma server_evaluation_Ok:
  "server_evaluation CS seed cid = Ok ev \<Longrightarrow> \<exists>k. oprf_new_with_key (cs_oprf CS) k = Ok ev"
  by (auto simp: server_evaluation_def bind_result_Ok_iff)

lemma bind_result_assoc:
  "bind_result (bind_result m f) g = bind_result m (\<lambda>x. bind_result (f x) g)"
  by (cases m) simp_all

lemma server_registration_start_eq:
  "server_registration_start CS setup msg cid =
     bind_result (server_evaluation CS (ss_oprf_seed setup) cid) (\<lambda>ev.
       Ok \<lparr>rsp_evaluation_element = ev (rr_blinded_element msg),
           rsp_server_s_pk = kp_pk (ss_keypair setup)\<rparr>)"
  by (simp add: server_registration_start_def server_registration_start_with_key_material_def
      key_material_info_def server_setup_keypair_def server_evaluation_def key_defs Let_def
      bind_result_assoc)

lemma client_registration_start_Ok_iff:
  "client_registration_start CS pw r = (Ok (msg, st), r') \<longleftrightarrow>
     (\<exists>c be. oprf_blind (cs_oprf CS) pw r = (Ok (c, be), r') \<and>
        msg = \<lparr>rr_blinded_element = be\<rparr> \<and> st = \<lparr>creg_oprf_client = c, creg_blinded_element = be\<rparr>)"
  by (auto simp: client_registration_start_def bind_st_Ok_iff blind_def)

lemma client_registration_finish_Ok_iff:
  "client_registration_finish CS st pw resp params r = (Ok res, r') \<longleftrightarrow>
     creg_blinded_element st \<noteq> rsp_evaluation_element resp \<and>
     (\<exists>p h mk env cpk ek.
        get_password_derived_key CS pw (creg_oprf_client st) (rsp_evaluation_element resp)
          (crp_ksf params) = Ok (p, h) \<and>
        h STR_MASKING_KEY (hash_len (cs_hash CS)) = Some mk \<and>
        seal (cs_hash CS) (cs_group CS) h (rsp_server_s_pk resp) (crp_identifiers params) r
          = (Ok (env, cpk, ek), r') \<and>
        res = \<lparr>crf_message = \<lparr>ru_envelope = env, ru_masking_key = mk, ru_client_s_pk = cpk\<rparr>,
               crf_export_key = ek, crf_server_s_pk = rsp_server_s_pk resp\<rparr>)"
  by (auto simp: client_registration_finish_def bind_st_Ok_iff)

lemma get_password_derived_key_hkdf_ok:
  "hash_ok (cs_hash CS) \<Longrightarrow> get_password_derived_key CS pw c e ksf = Ok (p, h) \<Longrightarrow>
     hkdf_ok (hash_len (cs_hash CS)) h"
  using hash_okD(4) [of "cs_hash CS"]
  by (auto simp: get_password_derived_key_def bind_result_Ok_iff Let_def) (metis snd_conv)

text \<open>Both runs of the protocol derive the same key from the same password.\<close>

lemma get_password_derived_key_agree:
  assumes "oprf_ok (cs_oprf CS) wf_e wf_oc" "oprf_new_with_key (cs_oprf CS) k = Ok ev"
    and "oprf_blind (cs_oprf CS) pw r1 = (Ok (c1, b1), r1')"
    and "oprf_blind (cs_oprf CS) pw r2 = (Ok (c2, b2), r2')"
  shows "get_password_derived_key CS pw c1 (ev b1) ksf = get_password_derived_key CS pw c2 (ev b2) ksf"
  using oprf_deterministic [OF assms] by (simp add: get_password_derived_key_def)

lemma client_registration_rt:
  assumes "oprf_ok (cs_oprf CS) wf_e wf_oc" "wf_oc (creg_oprf_client s)" "wf_e (creg_blinded_element s)"
  shows "length (client_registration_serialize CS s) = scalar_len (cs_oprf CS) + elem_len (cs_oprf CS)"
    and "client_registration_deserialize CS (client_registration_serialize CS s) = Ok s"
  using oprf_okD(2,3) [OF assms(1,3)] oprf_okD(5,6) [OF assms(1,2)]
  by (simp_all add: client_registration_serialize_def client_registration_deserialize_def cat_def
      Let_def)

text \<open>
  An honest registration of a password under a credential identifier, with what it leaves: the
  server's password file and the client's export key.
\<close>

definition registered ::
    "('e, 'oc, 'sk, 'pk, 'k1s, 'k1m, 'k2s, 'k2b, 'k2d, 'k2i, 'k2m, 'k3m) cipher_suite \<Rightarrow>
     (bytes, 'sk, 'pk) server_setup \<Rightarrow> bytes \<Rightarrow> bytes \<Rightarrow> client_registration_finish_parameters \<Rightarrow>
     'pk server_registration \<Rightarrow> bytes \<Rightarrow> bool" where
  "registered CS setup credential_identifier password params file export_key \<longleftrightarrow>
     (\<exists>r1 r1' r2 r2' request state response result.
        client_registration_start CS password r1 = (Ok (request, state), r1') \<and>
        server_registration_start CS setup request credential_identifier = Ok response \<and>
        client_registration_finish CS state password response params r2 = (Ok result, r2') \<and>
        file = server_registration_finish (crf_message result) \<and>
        export_key = crf_export_key result)"

lemma registeredD:
  assumes "registered CS setup cid pw params file ek"
  obtains r1 r1' c be ev r2 r2' p h mk env cpk where
    "oprf_blind (cs_oprf CS) pw r1 = (Ok (c, be), r1')"
    "server_evaluation CS (ss_oprf_seed setup) cid = Ok ev"
    "get_password_derived_key CS pw c (ev be) (crp_ksf params) = Ok (p, h)"
    "h STR_MASKING_KEY (hash_len (cs_hash CS)) = Some mk"
    "seal (cs_hash CS) (cs_group CS) h (kp_pk (ss_keypair setup)) (crp_identifiers params) r2
       = (Ok (env, cpk, ek), r2')"
    "file = \<lparr>ru_envelope = env, ru_masking_key = mk, ru_client_s_pk = cpk\<rparr>"
proof -
  from assms obtain r1 r1' r2 r2' req st resp res where
    start: "client_registration_start CS pw r1 = (Ok (req, st), r1')"
    and srv: "server_registration_start CS setup req cid = Ok resp"
    and fin: "client_registration_finish CS st pw resp params r2 = (Ok res, r2')"
    and pf: "file = crf_message res" "ek = crf_export_key res"
    unfolding registered_def server_registration_finish_def by blast
  from start obtain c be where b: "oprf_blind (cs_oprf CS) pw r1 = (Ok (c, be), r1')"
    and req: "req = \<lparr>rr_blinded_element = be\<rparr>"
    and st: "st = \<lparr>creg_oprf_client = c, creg_blinded_element = be\<rparr>"
    by (auto simp: client_registration_start_Ok_iff)
  from srv obtain ev where ev: "server_evaluation CS (ss_oprf_seed setup) cid = Ok ev"
    and resp: "resp = \<lparr>rsp_evaluation_element = ev be, rsp_server_s_pk = kp_pk (ss_keypair setup)\<rparr>"
    by (auto simp: server_registration_start_eq bind_result_Ok_iff req)
  from fin obtain p h mk env cpk ek' where
    "get_password_derived_key CS pw c (ev be) (crp_ksf params) = Ok (p, h)"
    "h STR_MASKING_KEY (hash_len (cs_hash CS)) = Some mk"
    "seal (cs_hash CS) (cs_group CS) h (kp_pk (ss_keypair setup)) (crp_identifiers params) r2
       = (Ok (env, cpk, ek'), r2')"
    "res = \<lparr>crf_message = \<lparr>ru_envelope = env, ru_masking_key = mk, ru_client_s_pk = cpk\<rparr>,
       crf_export_key = ek', crf_server_s_pk = kp_pk (ss_keypair setup)\<rparr>"
    by (auto simp: client_registration_finish_Ok_iff st resp)
  with that [OF b ev] pf show thesis by simp
qed

end
