(* ===== verification/Opaque_Login.thy ===== *)
theory Opaque_Login
  imports Opaque_Registration
begin

text \<open>
  Login (\<open>ClientLogin\<close>, \<open>ServerLogin\<close> and \<open>ServerLoginBuilder\<close> of \<open>src/opaque.rs\<close> and
  \<open>src/messages.rs\<close>).
\<close>

record ('oc, 'k1s, 'e, 'k1m) client_login =
  cl_oprf_client :: 'oc
  cl_ke1_state :: 'k1s
  cl_credential_request :: "('e, 'k1m) credential_request"

record 'k2s server_login =
  sl_ke2_state :: 'k2s

record client_login_finish_parameters =
  clp_context :: "bytes option"
  clp_identifiers :: identifiers
  clp_ksf :: "ksf option"

record server_login_parameters =
  slp_context :: "bytes option"
  slp_identifiers :: identifiers

record ('k3m, 'pk) client_login_finish_result =
  clf_message :: "'k3m credential_finalization"
  clf_session_key :: bytes
  clf_export_key :: bytes
  clf_server_s_pk :: 'pk

section \<open>Client\<close>

definition client_login_serialize ::
    "('e, 'oc, 'sk, 'pk, 'k1s, 'k1m, _, _, _, _, _, _) cipher_suite \<Rightarrow>
     ('oc, 'k1s, 'e, 'k1m) client_login \<Rightarrow> bytes" where
  "client_login_serialize CS self =
     cat (cat (serialize_oprf_client (cs_oprf CS) (cl_oprf_client self))
         (credential_request_serialize CS (cl_credential_request self)))
         (wire_serialize (ke1_state_wire (cs_ke CS)) (cl_ke1_state self))"

definition client_login_deserialize ::
    "('e, 'oc, 'sk, 'pk, 'k1s, 'k1m, _, _, _, _, _, _) cipher_suite \<Rightarrow> bytes \<Rightarrow>
     (protocol_error, ('oc, 'k1s, 'e, 'k1m) client_login) result" where
  "client_login_deserialize CS input =
     (let client_len = scalar_len (cs_oprf CS) in
      if length input < client_len then Err SerializationError
      else bind_result (map_err protocol_from_voprf
          (deserialize_oprf_client (cs_oprf CS) (take client_len input))) (\<lambda>oprf_client.
        let input = drop client_len input in
        eval_st
          (bind_st (credential_request_deserialize_take CS) (\<lambda>credential_request.
           bind_st (wire_deserialize_take (ke1_state_wire (cs_ke CS))) (\<lambda>ke1_state.
           return_st \<lparr>cl_oprf_client = oprf_client, cl_ke1_state = ke1_state,
                      cl_credential_request = credential_request\<rparr>))) input))"

definition client_login_start ::
    "('e, 'oc, 'sk, 'pk, 'k1s, 'k1m, _, _, _, _, _, _) cipher_suite \<Rightarrow> bytes \<Rightarrow>
     (rng, protocol_error, ('e, 'k1m) credential_request \<times> ('oc, 'k1s, 'e, 'k1m) client_login) st"
  where
  "client_login_start CS password =
     bind_st (map_err_st protocol_from_voprf (blind CS password))
       (\<lambda>(blind_state, blind_message).
     bind_st (generate_ke1 (cs_ke CS)) (\<lambda>(state, message).
     let credential_request = \<lparr>cr_blinded_element = blind_message, cr_ke1_message = message\<rparr> in
     return_st (credential_request,
       \<lparr>cl_oprf_client = blind_state, cl_ke1_state = state,
        cl_credential_request = credential_request\<rparr>)))"

text \<open>The two \<open>map_err\<close> closures of \<open>ClientLogin::finish\<close>.\<close>

fun unmask_error :: "protocol_error \<Rightarrow> protocol_error" where
  "unmask_error SerializationError = InvalidLoginError"
| "unmask_error err = err"

fun open_error :: "protocol_error \<Rightarrow> protocol_error" where
  "open_error (LibraryError SealOpenHmacError) = InvalidLoginError"
| "open_error err = err"

definition client_login_finish ::
    "('e, 'oc, 'sk, 'pk, 'k1s, 'k1m, _, _, _, _, 'k2m, 'k3m) cipher_suite \<Rightarrow>
     ('oc, 'k1s, 'e, 'k1m) client_login \<Rightarrow> bytes \<Rightarrow> ('e, 'k2m) credential_response \<Rightarrow>
     client_login_finish_parameters \<Rightarrow>
     (rng, protocol_error, ('k3m, 'pk) client_login_finish_result) st" where
  "client_login_finish CS self password credential_response params =
     (if cr_blinded_element (cl_credential_request self)
         = crs_evaluation_element credential_response
      then lift_st (Err ReflectedValueError)
      else
        bind_st (lift_st (get_password_derived_key CS password (cl_oprf_client self)
          (crs_evaluation_element credential_response) (clp_ksf params)))
          (\<lambda>(_, randomized_pwd_hasher).
        bind_st (lift_st (ok_or (protocol_from_internal HkdfError)
          (randomized_pwd_hasher STR_MASKING_KEY (hash_len (cs_hash CS))))) (\<lambda>masking_key.
        bind_st (lift_st (map_err unmask_error (unmask_response (cs_hash CS) (cs_group CS)
          masking_key (crs_masking_nonce credential_response)
          (crs_masked_response credential_response)))) (\<lambda>(server_s_pk, envelope).
        bind_st (lift_st (map_err open_error (envelope_open (cs_hash CS) (cs_group CS) envelope
          randomized_pwd_hasher server_s_pk (clp_identifiers params)))) (\<lambda>opened.
        bind_st (lift_st (serialized_context_from (clp_context params))) (\<lambda>ctx.
        bind_st (generate_ke3 (cs_ke CS)
          (credential_request_to_parts CS (cl_credential_request self))
          (cr_ke1_message (cl_credential_request self))
          (credential_response_to_parts CS credential_response)
          (cl_ke1_state self)
          (crs_ke2_message credential_response)
          server_s_pk
          (keypair_private (client_static_keypair opened))
          (opened_identifiers opened)
          ctx) (\<lambda>(session_key, message).
        return_st
          \<lparr>clf_message = \<lparr>cf_ke3_message = message\<rparr>, clf_session_key = session_key,
           clf_export_key = opened_export_key opened, clf_server_s_pk = server_s_pk\<rparr>)))))))"

section \<open>Server\<close>

definition server_login_serialize ::
    "('e, 'oc, 'sk, 'pk, _, _, 'k2s, _, _, _, _, _) cipher_suite \<Rightarrow> 'k2s server_login \<Rightarrow> bytes" where
  "server_login_serialize CS self =
     wire_serialize (ke2_state_wire (cs_ke CS)) (sl_ke2_state self)"

definition server_login_deserialize ::
    "('e, 'oc, 'sk, 'pk, _, _, 'k2s, _, _, _, _, _) cipher_suite \<Rightarrow> bytes \<Rightarrow>
     (protocol_error, 'k2s server_login) result" where
  "server_login_deserialize CS input =
     eval_st (bind_st (wire_deserialize_take (ke2_state_wire (cs_ke CS)))
       (\<lambda>ke2_state. return_st \<lparr>sl_ke2_state = ke2_state\<rparr>)) input"

text \<open>
  \<open>CtOption::new(dummy, password_file.is_none()).into_option().unwrap_or_else(...)\<close>: the dummy is
  drawn in either case, before the choice.
\<close>

definition choose_record ::
    "'pk server_registration \<Rightarrow> 'pk server_registration option \<Rightarrow>
     (protocol_error, 'pk server_registration) result" where
  "choose_record dummy password_file =
     (case (if Option.is_none password_file then Some dummy else None) of
        Some r \<Rightarrow> Ok r
      | None \<Rightarrow> (case password_file of Some r \<Rightarrow> Ok r | None \<Rightarrow> Panic))"

definition builder_with_key_material ::
    "('e, 'oc, 'sk, 'pk, 'k1s, 'k1m, 'k2s, 'k2b, _, _, _, _) cipher_suite \<Rightarrow>
     ('os, 'k, 'pk) server_setup \<Rightarrow> bytes \<Rightarrow> 'pk server_registration option \<Rightarrow>
     ('e, 'k1m) credential_request \<Rightarrow> server_login_parameters \<Rightarrow>
     (rng, protocol_error, ('k, 'e, 'k2b) server_login_builder) st" where
  "builder_with_key_material CS server_setup key_material password_file credential_request params =
     bind_st (run_st (server_registration_dummy CS server_setup)) (\<lambda>dummy.
     bind_st (lift_st (choose_record dummy password_file)) (\<lambda>record.
     let client_s_pk = ru_client_s_pk record in
     bind_st (lift_st (serialized_context_from (slp_context params))) (\<lambda>ctx.
     let server_s_pk = keypair_public (ss_keypair server_setup) in
     bind_st (run_st (fill_bytes nonce_len)) (\<lambda>masking_nonce.
     bind_st (lift_st (mask_response (cs_hash CS) (cs_group CS) (ru_masking_key record)
       masking_nonce server_s_pk (ru_envelope record))) (\<lambda>masked_response.
     let serialized_client_s_pk = public_key_serialize (cs_group CS) client_s_pk;
         serialized_server_s_pk = public_key_serialize (cs_group CS) server_s_pk in
     bind_st (lift_st (from_identifiers (slp_identifiers params) serialized_client_s_pk
       serialized_server_s_pk)) (\<lambda>sids.
     bind_st (lift_st (map_err protocol_from_internal (oprf_key_from_key_material CS key_material)))
       (\<lambda>oprf_key.
     bind_st (lift_st (map_err protocol_from_voprf (oprf_new_with_key (cs_oprf CS) oprf_key)))
       (\<lambda>server.
     let evaluation_element = server (cr_blinded_element credential_request);
         credential_response = serialized_credential_response_new CS evaluation_element
           masking_nonce masked_response in
     bind_st (ke2_builder (cs_ke CS) (credential_request_to_parts CS credential_request)
       (cr_ke1_message credential_request) credential_response client_s_pk sids ctx) (\<lambda>builder.
     return_st
       \<lparr>slb_server_s_sk = keypair_private (server_setup_keypair server_setup),
        slb_evaluation_element = evaluation_element, slb_masking_nonce = masking_nonce,
        slb_masked_response = masked_response, slb_ke2_builder = builder\<rparr>)))))))))"

definition server_login_builder_new ::
    "('e, 'oc, 'sk, 'pk, 'k1s, 'k1m, 'k2s, 'k2b, _, _, _, _) cipher_suite \<Rightarrow>
     (bytes, 'k, 'pk) server_setup \<Rightarrow> 'pk server_registration option \<Rightarrow>
     ('e, 'k1m) credential_request \<Rightarrow> bytes \<Rightarrow> server_login_parameters \<Rightarrow>
     (rng, protocol_error, ('k, 'e, 'k2b) server_login_builder) st" where
  "server_login_builder_new CS server_setup password_file credential_request
      credential_identifier params =
     (let kmi = key_material_info server_setup credential_identifier;
          oprf_seed = kmi_ikm kmi;
          info = kmi_info kmi in
      bind_st (lift_st (map_err protocol_from_internal (oprf_key_material CS oprf_seed info)))
        (\<lambda>key_material.
      builder_with_key_material CS server_setup key_material password_file credential_request
        params))"

definition server_login_build ::
    "('e, 'oc, 'sk, 'pk, 'k1s, 'k1m, 'k2s, 'k2b, 'k2d, 'k2i, 'k2m, _) cipher_suite \<Rightarrow>
     ('k, 'e, 'k2b) server_login_builder \<Rightarrow> 'k2i \<Rightarrow>
     (protocol_error, ('e, 'k2m) credential_response \<times> 'k2s server_login) result" where
  "server_login_build CS builder input =
     bind_result (build_ke2 (cs_ke CS) (slb_ke2_builder builder) input) (\<lambda>(state, message).
     let credential_response =
       \<lparr>crs_evaluation_element = slb_evaluation_element builder,
        crs_masking_nonce = slb_masking_nonce builder,
        crs_masked_response = slb_masked_response builder,
        crs_ke2_message = message\<rparr> in
     Ok (credential_response, \<lparr>sl_ke2_state = state\<rparr>))"

text \<open>\<open>ServerLoginBuilder::build\<close>.\<close>

definition builder_build ::
    "('e, 'oc, 'sk, 'pk, 'k1s, 'k1m, 'k2s, 'k2b, 'k2d, 'k2i, 'k2m, _) cipher_suite \<Rightarrow>
     ('k, 'e, 'k2b) server_login_builder \<Rightarrow> 'k2i \<Rightarrow>
     (protocol_error, ('e, 'k2m) credential_response \<times> 'k2s server_login) result" where
  "builder_build CS self input = server_login_build CS self input"

definition server_login_start ::
    "('e, 'oc, 'sk, 'pk, 'k1s, 'k1m, 'k2s, 'k2b, 'k2d, 'k2i, 'k2m, _) cipher_suite \<Rightarrow>
     (bytes, 'sk, 'pk) server_setup \<Rightarrow> 'pk server_registration option \<Rightarrow>
     ('e, 'k1m) credential_request \<Rightarrow> bytes \<Rightarrow> server_login_parameters \<Rightarrow>
     (rng, protocol_error, ('e, 'k2m) credential_response \<times> 'k2s server_login) st" where
  "server_login_start CS server_setup password_file credential_request credential_identifier
      parameters =
     bind_st (server_login_builder_new CS server_setup password_file credential_request
       credential_identifier parameters) (\<lambda>builder.
     bind_st (run_st (generate_ke2_input (cs_ke CS) (slb_ke2_builder builder)
       (keypair_private (ss_keypair server_setup)))) (\<lambda>input.
     lift_st (server_login_build CS builder input)))"

definition server_login_finish ::
    "('e, 'oc, 'sk, 'pk, 'k1s, 'k1m, 'k2s, 'k2b, 'k2d, 'k2i, 'k2m, 'k3m) cipher_suite \<Rightarrow>
     'k2s server_login \<Rightarrow> 'k3m credential_finalization \<Rightarrow> server_login_parameters \<Rightarrow>
     (protocol_error, bytes) result" where
  "server_login_finish CS self message parameters =
     bind_result (serialized_context_from (slp_context parameters)) (\<lambda>ctx.
     bind_result (finish_ke (cs_ke CS) (sl_ke2_state self) (cf_ke3_message message)
       (slp_identifiers parameters) ctx) (\<lambda>session_key.
     Ok session_key))"

section \<open>Facts\<close>

lemma choose_record_simps [simp]:
  "choose_record dummy (Some r) = Ok r" "choose_record dummy None = Ok dummy"
  by (simp_all add: choose_record_def)

lemma client_login_start_Ok_iff:
  "client_login_start CS pw r = (Ok (creq, cst), r') \<longleftrightarrow>
     (\<exists>c be r1 st1 m1. oprf_blind (cs_oprf CS) pw r = (Ok (c, be), r1) \<and>
        generate_ke1 (cs_ke CS) r1 = (Ok (st1, m1), r') \<and>
        creq = \<lparr>cr_blinded_element = be, cr_ke1_message = m1\<rparr> \<and>
        cst = \<lparr>cl_oprf_client = c, cl_ke1_state = st1, cl_credential_request = creq\<rparr>)"
  by (auto simp: client_login_start_def bind_st_Ok_iff blind_def Let_def)

text \<open>What the server does with the record that it looks up or makes up.\<close>

lemma builder_with_key_material_Ok_iff:
  "builder_with_key_material CS setup km pf creq params r = (Ok bld, r') \<longleftrightarrow>
     (\<exists>k ev dummy r1 rcd ctx n r2 mr sids b.
        server_registration_dummy CS setup r = (dummy, r1) \<and> choose_record dummy pf = Ok rcd \<and>
        serialized_context_from (slp_context params) = Ok ctx \<and>
        fill_bytes nonce_len r1 = (n, r2) \<and>
        mask_response (cs_hash CS) (cs_group CS) (ru_masking_key rcd) n (kp_pk (ss_keypair setup))
          (ru_envelope rcd) = Ok mr \<and>
        from_identifiers (slp_identifiers params) (serialize_pk (cs_group CS) (ru_client_s_pk rcd))
          (serialize_pk (cs_group CS) (kp_pk (ss_keypair setup))) = Ok sids \<and>
        oprf_key_from_key_material CS km = Ok k \<and> oprf_new_with_key (cs_oprf CS) k = Ok ev \<and>
        ke2_builder (cs_ke CS) (credential_request_to_parts CS creq) (cr_ke1_message creq)
          (serialized_credential_response_new CS (ev (cr_blinded_element creq)) n mr)
          (ru_client_s_pk rcd) sids ctx r2 = (Ok b, r') \<and>
        bld = \<lparr>slb_server_s_sk = kp_sk (ss_keypair setup),
          slb_evaluation_element = ev (cr_blinded_element creq), slb_masking_nonce = n,
          slb_masked_response = mr, slb_ke2_builder = b\<rparr>)"
  (is "?L = ?R")
proof
  show "?L \<Longrightarrow> ?R"
    by (simp add: builder_with_key_material_def server_setup_keypair_def key_defs Let_def ok_iffs)
       blast
  show "?R \<Longrightarrow> ?L"
    by (elim exE conjE)
       (simp add: builder_with_key_material_def server_setup_keypair_def key_defs Let_def run_st_def)
qed

lemma server_login_builder_new_Ok_iff:
  "server_login_builder_new CS setup pf creq cid params r = (Ok bld, r') \<longleftrightarrow>
     (\<exists>km. oprf_key_material CS (ss_oprf_seed setup) [cid, STR_OPRF_KEY] = Ok km \<and>
        builder_with_key_material CS setup km pf creq params r = (Ok bld, r'))"
  by (simp add: server_login_builder_new_def key_material_info_def Let_def ok_iffs)

lemma server_login_start_Ok_iff:
  "server_login_start CS setup pf creq cid params r = (Ok (cresp, sst), r') \<longleftrightarrow>
     (\<exists>ev dummy r1 rcd ctx n r2 mr sids b r3 input st2 m2.
        server_evaluation CS (ss_oprf_seed setup) cid = Ok ev \<and>
        server_registration_dummy CS setup r = (dummy, r1) \<and> choose_record dummy pf = Ok rcd \<and>
        serialized_context_from (slp_context params) = Ok ctx \<and>
        fill_bytes nonce_len r1 = (n, r2) \<and>
        mask_response (cs_hash CS) (cs_group CS) (ru_masking_key rcd) n (kp_pk (ss_keypair setup))
          (ru_envelope rcd) = Ok mr \<and>
        from_identifiers (slp_identifiers params) (serialize_pk (cs_group CS) (ru_client_s_pk rcd))
          (serialize_pk (cs_group CS) (kp_pk (ss_keypair setup))) = Ok sids \<and>
        ke2_builder (cs_ke CS) (credential_request_to_parts CS creq) (cr_ke1_message creq)
          (serialized_credential_response_new CS (ev (cr_blinded_element creq)) n mr)
          (ru_client_s_pk rcd) sids ctx r2 = (Ok b, r3) \<and>
        generate_ke2_input (cs_ke CS) b (kp_sk (ss_keypair setup)) r3 = (input, r') \<and>
        build_ke2 (cs_ke CS) b input = Ok (st2, m2) \<and>
        cresp = \<lparr>crs_evaluation_element = ev (cr_blinded_element creq), crs_masking_nonce = n,
                 crs_masked_response = mr, crs_ke2_message = m2\<rparr> \<and>
        sst = \<lparr>sl_ke2_state = st2\<rparr>)"
  (is "?L = ?R")
proof
  assume ?L
  then obtain bld r3 input where
    bld: "server_login_builder_new CS setup pf creq cid params r = (Ok bld, r3)"
    and input: "generate_ke2_input (cs_ke CS) (slb_ke2_builder bld) (kp_sk (ss_keypair setup)) r3
      = (input, r')"
    and build: "server_login_build CS bld input = Ok (cresp, sst)"
    by (auto simp: server_login_start_def ok_iffs key_defs)
  from bld obtain km k ev dummy r1 rcd ctx n r2 mr sids b where
    "oprf_key_material CS (ss_oprf_seed setup) [cid, STR_OPRF_KEY] = Ok km"
    "oprf_key_from_key_material CS km = Ok k" "oprf_new_with_key (cs_oprf CS) k = Ok ev"
    and run: "server_registration_dummy CS setup r = (dummy, r1)" "choose_record dummy pf = Ok rcd"
    "serialized_context_from (slp_context params) = Ok ctx"
    "fill_bytes nonce_len r1 = (n, r2)"
    "mask_response (cs_hash CS) (cs_group CS) (ru_masking_key rcd) n (kp_pk (ss_keypair setup))
       (ru_envelope rcd) = Ok mr"
    "from_identifiers (slp_identifiers params) (serialize_pk (cs_group CS) (ru_client_s_pk rcd))
       (serialize_pk (cs_group CS) (kp_pk (ss_keypair setup))) = Ok sids"
    "ke2_builder (cs_ke CS) (credential_request_to_parts CS creq) (cr_ke1_message creq)
       (serialized_credential_response_new CS (ev (cr_blinded_element creq)) n mr)
       (ru_client_s_pk rcd) sids ctx r2 = (Ok b, r3)"
    and bld': "bld = \<lparr>slb_server_s_sk = kp_sk (ss_keypair setup),
          slb_evaluation_element = ev (cr_blinded_element creq), slb_masking_nonce = n,
          slb_masked_response = mr, slb_ke2_builder = b\<rparr>"
    unfolding server_login_builder_new_Ok_iff builder_with_key_material_Ok_iff by blast
  then have ev: "server_evaluation CS (ss_oprf_seed setup) cid = Ok ev"
    by (simp add: server_evaluation_def)
  from build bld' obtain st2 m2 where "build_ke2 (cs_ke CS) b input = Ok (st2, m2)"
    "cresp = \<lparr>crs_evaluation_element = ev (cr_blinded_element creq), crs_masking_nonce = n,
                 crs_masked_response = mr, crs_ke2_message = m2\<rparr>" "sst = \<lparr>sl_ke2_state = st2\<rparr>"
    by (auto simp: server_login_build_def ok_iffs Let_def)
  with ev run input bld' show ?R by fastforce
next
  assume ?R
  then show ?L
    by (elim exE conjE)
       (simp add: server_login_start_def server_login_builder_new_def builder_with_key_material_def
         server_login_build_def key_material_info_def server_setup_keypair_def
         server_evaluation_def key_defs Let_def run_st_def bind_result_Ok_iff, force)
qed

end
