(* ===== verification/Login_Correctness.thy ===== *)
theory Login_Correctness
  imports Opaque_Login
begin

text \<open>
  The whole protocol over any key exchange that satisfies \<open>key_exchange_protocol\<close>: the locale
  \<open>opaque_suite\<close> states what is needed of a cipher suite and proves honest runs correct. The suites
  built from the three key exchanges interpret it in \<open>Suites\<close>.
\<close>

section \<open>Honest logins\<close>

text \<open>The first two messages of a login against a password file.\<close>

definition login_started ::
    "('e, 'oc, 'sk, 'pk, 'k1s, 'k1m, 'k2s, 'k2b, 'k2d, 'k2i, 'k2m, 'k3m) cipher_suite \<Rightarrow>
     (bytes, 'sk, 'pk) server_setup \<Rightarrow> bytes \<Rightarrow> bytes \<Rightarrow> 'pk server_registration \<Rightarrow>
     server_login_parameters \<Rightarrow> ('e, 'k1m) credential_request \<Rightarrow>
     ('oc, 'k1s, 'e, 'k1m) client_login \<Rightarrow> ('e, 'k2m) credential_response \<Rightarrow>
     'k2s server_login \<Rightarrow> bool" where
  "login_started CS setup credential_identifier password file params request cstate response sstate
     \<longleftrightarrow> (\<exists>r1 r1' r2 r2'.
        client_login_start CS password r1 = (Ok (request, cstate), r1') \<and>
        server_login_start CS setup (Some file) request credential_identifier params r2
          = (Ok (response, sstate), r2'))"

locale opaque_suite =
  fixes CS :: "('e, 'oc, 'sk, 'pk, 'k1s, 'k1m, 'k2s, 'k2b, 'k2d, 'k2i, 'k2m, 'k3m) cipher_suite"
    and trusted :: bool
    and wf_e :: "'e \<Rightarrow> bool"
    and wf_oc :: "'oc \<Rightarrow> bool"
    and wf_sk :: "'sk \<Rightarrow> bool"
    and wf_pk :: "'pk \<Rightarrow> bool"
    and ok_k1s :: "'k1s \<Rightarrow> bool"
    and ok_k1m :: "'k1m \<Rightarrow> bool"
    and ok_k2s :: "'k2s \<Rightarrow> bool"
    and ok_k2m :: "'k2m \<Rightarrow> bool"
    and ok_k3m :: "'k3m \<Rightarrow> bool"
  assumes oprf: "trusted \<Longrightarrow> oprf_ok (cs_oprf CS) wf_e wf_oc"
    and ke: "trusted \<Longrightarrow> key_exchange_protocol (cs_ke CS) True (elem_len (cs_oprf CS)) (cs_hash CS)
      wf_sk wf_pk ok_k1s ok_k1m ok_k2s ok_k2m ok_k3m"
begin

lemma hash: "trusted \<Longrightarrow> hash_ok (cs_hash CS)"
  using oprf by (rule oprf_okD)

lemma grp: "trusted \<Longrightarrow> group_ok (cs_group CS) wf_sk wf_pk"
  using key_exchange_protocol.static_group [OF ke] by blast

text \<open>The password file of an honest registration is well formed.\<close>

lemma registered_file_ok:
  assumes "trusted" "registered CS setup cid pw params file ek"
  shows "wf_pk (ru_client_s_pk file)" "length (ru_masking_key file) = hash_len (cs_hash CS)"
    "envelope_ok (cs_hash CS) (ru_envelope file)"
proof -
  from assms(2) obtain r1 r1' c be ev r2 r2' p h mk env cpk where
    pdk: "get_password_derived_key CS pw c (ev be) (crp_ksf params) = Ok (p, h)"
    and mk: "h STR_MASKING_KEY (hash_len (cs_hash CS)) = Some mk"
    and sealed: "seal (cs_hash CS) (cs_group CS) h (kp_pk (ss_keypair setup))
      (crp_identifiers params) r2 = (Ok (env, cpk, ek), r2')"
    and pf: "file = \<lparr>ru_envelope = env, ru_masking_key = mk, ru_client_s_pk = cpk\<rparr>"
    by (rule registeredD)
  have h: "hkdf_ok (hash_len (cs_hash CS)) h"
    using get_password_derived_key_hkdf_ok [OF hash [OF assms(1)] pdk] .
  show "wf_pk (ru_client_s_pk file)"
    using seal_cpk_wf [OF grp [OF assms(1)] h sealed] by (simp add: pf)
  show "envelope_ok (cs_hash CS) (ru_envelope file)"
    using seal_envelope_ok [OF hash [OF assms(1)] sealed] by (simp add: pf)
  have "hkdf_expand_multi_info h [STR_MASKING_KEY] (hash_len (cs_hash CS)) = Some mk"
    using mk by (simp add: hkdf_expand_multi_info_def)
  from hkdf_expand_length [OF h this]
  show "length (ru_masking_key file) = hash_len (cs_hash CS)" by (simp add: pf)
qed

text \<open>The client key of a registration is the public key of the key that its envelope hides.\<close>

lemma registered_client_key:
  assumes "trusted" "registered CS setup cid pw params file ek"
  obtains csk where "wf_sk csk" "ru_client_s_pk file = public_key (cs_group CS) csk"
proof -
  note H = hash [OF assms(1)] and G = grp [OF assms(1)]
  from assms(2) obtain r1 r1' c be ev r2 r2' p h mk env cpk where
    pdk: "get_password_derived_key CS pw c (ev be) (crp_ksf params) = Ok (p, h)"
    and sealed: "seal (cs_hash CS) (cs_group CS) h (kp_pk (ss_keypair setup))
      (crp_identifiers params) r2 = (Ok (env, cpk, ek), r2')"
    and pf: "file = \<lparr>ru_envelope = env, ru_masking_key = mk, ru_client_s_pk = cpk\<rparr>"
    by (rule registeredD)
  obtain opened where opened: "envelope_open (cs_hash CS) (cs_group CS) env h
      (kp_pk (ss_keypair setup)) (crp_identifiers params) = Ok opened"
    and cpk: "kp_pk (client_static_keypair opened) = cpk"
    and cons: "keypair_consistent (cs_group CS) (client_static_keypair opened)"
    using open_seal [OF sealed] by blast
  from open_wf [OF G get_password_derived_key_hkdf_ok [OF H pdk] opened] cons cpk pf that
  show thesis by (simp add: keypair_consistent_def)
qed

lemma server_key_ok:
  assumes "trusted" "server_setup_ok CS wf_sk wf_pk setup"
  shows "wf_sk (kp_sk (ss_keypair setup))" "wf_pk (kp_pk (ss_keypair setup))"
    and "kp_pk (ss_keypair setup) = public_key (cs_group CS) (kp_sk (ss_keypair setup))"
  using assms(2) any_group.public_key_wf [OF grp [OF assms(1)], of "kp_sk (ss_keypair setup)"]
  by (simp_all add: server_setup_ok_def keypair_consistent_def)

text \<open>The key exchange inside the first two messages of a login.\<close>

lemma login_ke_session:
  assumes "trusted" "server_setup_ok CS wf_sk wf_pk setup"
    and login: "login_started CS setup cid pw file \<lparr>slp_context = c, slp_identifiers = ids\<rparr>
      creq cst cresp sst"
    and csk: "ru_client_s_pk file = public_key (cs_group CS) csk"
  obtains sids ctx where "serialized_context_from c = Ok ctx"
    "from_identifiers ids (serialize_pk (cs_group CS) (ru_client_s_pk file))
       (serialize_pk (cs_group CS) (kp_pk (ss_keypair setup))) = Ok sids"
    "ke_session (cs_ke CS) ids csk (kp_sk (ss_keypair setup)) (credential_request_to_parts CS creq)
       (credential_response_to_parts CS cresp) sids ctx (cl_ke1_state cst) (cr_ke1_message creq)
       (sl_ke2_state sst) (crs_ke2_message cresp)"
proof -
  let ?G = "cs_group CS" and ?ssk = "kp_sk (ss_keypair setup)"
  from login obtain rx r3' where
    ke1: "generate_ke1 (cs_ke CS) rx = (Ok (cl_ke1_state cst, cr_ke1_message creq), r3')"
    by (auto simp: login_started_def client_login_start_Ok_iff)
  from login obtain ev r4 r5 r6 n ctx mr sids b r7 input st2 m2 where
    ctx: "serialized_context_from c = Ok ctx"
    and sids: "from_identifiers ids (serialize_pk ?G (ru_client_s_pk file))
       (serialize_pk ?G (kp_pk (ss_keypair setup))) = Ok sids"
    and ke2: "ke2_builder (cs_ke CS) (credential_request_to_parts CS creq) (cr_ke1_message creq)
      (serialized_credential_response_new CS (ev (cr_blinded_element creq)) n mr)
      (ru_client_s_pk file) sids ctx r4 = (Ok b, r5)"
    and input: "generate_ke2_input (cs_ke CS) b ?ssk r6 = (input, r7)"
    and build: "build_ke2 (cs_ke CS) b input = Ok (st2, m2)"
    and cresp: "cresp = \<lparr>crs_evaluation_element = ev (cr_blinded_element creq),
      crs_masking_nonce = n, crs_masked_response = mr, crs_ke2_message = m2\<rparr>"
    and sst: "sst = \<lparr>sl_ke2_state = st2\<rparr>"
    by (auto simp: login_started_def server_login_start_Ok_iff)
  have resp: "credential_response_to_parts CS cresp
      = serialized_credential_response_new CS (ev (cr_blinded_element creq)) n mr"
    by (simp add: credential_response_to_parts_def cresp)
  have "ke_session (cs_ke CS) ids csk ?ssk (credential_request_to_parts CS creq)
      (credential_response_to_parts CS cresp) sids ctx (cl_ke1_state cst) (cr_ke1_message creq)
      st2 m2"
    unfolding ke_session_def resp
    using sids ke1 ke2 [unfolded csk] input build server_key_ok(3) [OF assms(1,2)] csk by metis
  with that [OF ctx sids] show thesis by (simp add: cresp sst)
qed

text \<open>The messages and states of a started login are values of their types.\<close>

lemma login_messages_ok:
  assumes "trusted" "server_setup_ok CS wf_sk wf_pk setup"
    and reg: "registered CS setup cid pw rparams file ek"
    and login: "login_started CS setup cid pw file \<lparr>slp_context = c, slp_identifiers = ids\<rparr>
      creq cst cresp sst"
  shows "wf_oc (cl_oprf_client cst)" "cl_credential_request cst = creq"
    and "wf_e (cr_blinded_element creq)" "ok_k1s (cl_ke1_state cst)" "ok_k1m (cr_ke1_message creq)"
    and "wf_e (crs_evaluation_element cresp)" "length (crs_masking_nonce cresp) = nonce_len"
    and "masked_response_ok (cs_hash CS) (cs_group CS) (crs_masked_response cresp)"
    and "ok_k2m (crs_ke2_message cresp)" "ok_k2s (sl_ke2_state sst)"
proof -
  note P = oprf [OF assms(1)] and G = grp [OF assms(1)] and H = hash [OF assms(1)]
    and K = ke [OF assms(1)]
  from login obtain r3 rx r3' where
    b: "oprf_blind (cs_oprf CS) pw r3 = (Ok (cl_oprf_client cst, cr_blinded_element creq), rx)"
    and ke1: "generate_ke1 (cs_ke CS) rx = (Ok (cl_ke1_state cst, cr_ke1_message creq), r3')"
    and cst: "cl_credential_request cst = creq"
    by (auto simp: login_started_def client_login_start_Ok_iff)
  show "cl_credential_request cst = creq" by (rule cst)
  show "wf_oc (cl_oprf_client cst)" and e: "wf_e (cr_blinded_element creq)"
    using oprf_okD(7,8) [OF P b] by simp_all
  show "ok_k1s (cl_ke1_state cst)" "ok_k1m (cr_ke1_message creq)"
    using key_exchange_protocol.ke1_ok [OF K TrueI ke1] by simp_all
  from login obtain ev r4 r5 n mr where ev: "server_evaluation CS (ss_oprf_seed setup) cid = Ok ev"
    and n: "fill_bytes nonce_len r4 = (n, r5)"
    and masked: "mask_response (cs_hash CS) (cs_group CS) (ru_masking_key file) n
      (kp_pk (ss_keypair setup)) (ru_envelope file) = Ok mr"
    and cresp: "crs_evaluation_element cresp = ev (cr_blinded_element creq)"
      "crs_masking_nonce cresp = n" "crs_masked_response cresp = mr"
    by (auto simp: login_started_def server_login_start_Ok_iff)
  obtain k where "oprf_new_with_key (cs_oprf CS) k = Ok ev"
    using server_evaluation_Ok [OF ev] by blast
  then show re: "wf_e (crs_evaluation_element cresp)" using oprf_okD(9) [OF P _ e] cresp by simp
  show rn: "length (crs_masking_nonce cresp) = nonce_len" using length_fill_bytes [OF n] cresp by simp
  have "length (envelope_serialize (ru_envelope file)) = envelope_len (cs_hash CS)"
    using registered_file_ok(3) [OF assms(1) reg] by (rule envelope_codec.enc_length)
  from mask_response_OkD [OF H masked
      any_group.pk_length [OF G server_key_ok(2) [OF assms(1,2)]] this]
  have "masked_response_ok (cs_hash CS) (cs_group CS) mr" by blast
  then show rm: "masked_response_ok (cs_hash CS) (cs_group CS) (crs_masked_response cresp)"
    using cresp by simp
  obtain csk where csk: "wf_sk csk" "ru_client_s_pk file = public_key (cs_group CS) csk"
    by (rule registered_client_key [OF assms(1) reg])
  obtain sids ctx where session: "ke_session (cs_ke CS) ids csk (kp_sk (ss_keypair setup))
      (credential_request_to_parts CS creq) (credential_response_to_parts CS cresp) sids ctx
      (cl_ke1_state cst) (cr_ke1_message creq) (sl_ke2_state sst) (crs_ke2_message cresp)"
    by (rule login_ke_session [OF assms(1,2) login csk(2)])
  have "length (credential_request_to_parts CS creq) = elem_len (cs_oprf CS)"
    using oprf_okD(2) [OF P e] by (simp add: credential_request_to_parts_def)
  moreover have "serialized_credential_response_ok (elem_len (cs_oprf CS)) (cs_hash CS) (cs_group CS)
      (credential_response_to_parts CS cresp)"
    using oprf_okD(2) [OF P re] rn rm
    by (simp add: serialized_credential_response_ok_def credential_response_to_parts_def
        serialized_credential_response_new_def)
  ultimately show "ok_k2m (crs_ke2_message cresp)" "ok_k2s (sl_ke2_state sst)"
    using key_exchange_protocol.ke2_ok [OF K TrueI csk(1) server_key_ok(1) [OF assms(1,2)] _ _ session]
    by simp_all
qed

text \<open>
  A login with the registered password, identifiers and key stretching succeeds on both sides: the
  same session key, the export key of the registration and the server's public key. The only
  further condition is that the server's evaluation is not the blinded element itself.
\<close>

lemma login_correct:
  assumes "trusted" "server_setup_ok CS wf_sk wf_pk setup"
    and reg: "registered CS setup cid pw \<lparr>crp_identifiers = ids, crp_ksf = ksf\<rparr> file ek"
    and login: "login_started CS setup cid pw file \<lparr>slp_context = c, slp_identifiers = ids\<rparr>
      creq cst cresp sst"
    and "crs_evaluation_element cresp \<noteq> cr_blinded_element creq"
  shows "\<exists>res r'. client_login_finish CS cst pw cresp
      \<lparr>clp_context = c, clp_identifiers = ids, clp_ksf = ksf\<rparr> r = (Ok res, r') \<and>
    clf_export_key res = ek \<and> clf_server_s_pk res = kp_pk (ss_keypair setup) \<and>
    ok_k3m (cf_ke3_message (clf_message res)) \<and>
    server_login_finish CS sst (clf_message res) \<lparr>slp_context = c, slp_identifiers = ids\<rparr>
      = Ok (clf_session_key res)"
proof -
  let ?H = "cs_hash CS" and ?G = "cs_group CS"
  let ?spk = "kp_pk (ss_keypair setup)" and ?ssk = "kp_sk (ss_keypair setup)"
  note P = oprf [OF assms(1)] and G = grp [OF assms(1)] and H = hash [OF assms(1)]
    and K = ke [OF assms(1)] and srv = server_key_ok [OF assms(1,2)]
  from reg obtain r1 r1' c1 be1 ev r2 r2' p h mk env cpk where
    b1: "oprf_blind (cs_oprf CS) pw r1 = (Ok (c1, be1), r1')"
    and ev: "server_evaluation CS (ss_oprf_seed setup) cid = Ok ev"
    and pdk1: "get_password_derived_key CS pw c1 (ev be1) ksf = Ok (p, h)"
    and mk: "h STR_MASKING_KEY (hash_len ?H) = Some mk"
    and sealed: "seal ?H ?G h ?spk ids r2 = (Ok (env, cpk, ek), r2')"
    and pf: "file = \<lparr>ru_envelope = env, ru_masking_key = mk, ru_client_s_pk = cpk\<rparr>"
    by (rule registeredD) simp
  from login ev obtain r3 rx n mr where
    b2: "oprf_blind (cs_oprf CS) pw r3 = (Ok (cl_oprf_client cst, cr_blinded_element creq), rx)"
    and cst: "cl_credential_request cst = creq"
    and masked: "mask_response ?H ?G mk n ?spk env = Ok mr"
    and cresp: "crs_evaluation_element cresp = ev (cr_blinded_element creq)"
      "crs_masking_nonce cresp = n" "crs_masked_response cresp = mr"
    by (auto simp: login_started_def client_login_start_Ok_iff server_login_start_Ok_iff pf)
  obtain k where "oprf_new_with_key (cs_oprf CS) k = Ok ev"
    using server_evaluation_Ok [OF ev] by blast
  from get_password_derived_key_agree [OF P this b1 b2] pdk1
  have pdk2: "get_password_derived_key CS pw (cl_oprf_client cst) (ev (cr_blinded_element creq)) ksf
      = Ok (p, h)" by simp
  have env: "env_mode env = Internal" "length (env_nonce env) = nonce_len"
      "length (env_hmac env) = hash_len ?H"
    using seal_envelope_ok [OF H sealed] by (simp_all add: envelope_ok_def)
  have unmask: "unmask_response ?H ?G mk n mr = Ok (?spk, env)"
    using unmask_mask_aux [OF H G srv(2) env(2,3) masked] env(1) by simp
  obtain opened where opened: "envelope_open ?H ?G env h ?spk ids = Ok opened"
    and ek: "opened_export_key opened = ek" and cpk: "kp_pk (client_static_keypair opened) = cpk"
    and cons: "keypair_consistent ?G (client_static_keypair opened)"
    and sids': "from_identifiers ids (serialize_pk ?G cpk) (serialize_pk ?G ?spk)
      = Ok (opened_identifiers opened)"
    using open_seal [OF sealed] by blast
  let ?csk = "kp_sk (client_static_keypair opened)"
  have csk: "wf_sk ?csk" "ru_client_s_pk file = public_key ?G ?csk"
    using open_wf [OF G get_password_derived_key_hkdf_ok [OF H pdk1] opened] cons cpk
    by (simp_all add: keypair_consistent_def pf)
  obtain sids ctx where ctx: "serialized_context_from c = Ok ctx"
    and sids: "from_identifiers ids (serialize_pk ?G (ru_client_s_pk file)) (serialize_pk ?G ?spk)
      = Ok sids"
    and session: "ke_session (cs_ke CS) ids ?csk ?ssk (credential_request_to_parts CS creq)
      (credential_response_to_parts CS cresp) sids ctx (cl_ke1_state cst) (cr_ke1_message creq)
      (sl_ke2_state sst) (crs_ke2_message cresp)"
    by (rule login_ke_session [OF assms(1,2) login csk(2)])
  from key_exchange_protocol.agreement [OF K TrueI csk(1) srv(1) session] obtain key m3 r' where
    ke3: "generate_ke3 (cs_ke CS) (credential_request_to_parts CS creq) (cr_ke1_message creq)
      (credential_response_to_parts CS cresp) (cl_ke1_state cst) (crs_ke2_message cresp)
      (public_key ?G ?ssk) ?csk sids ctx r = (Ok (key, m3), r')" and ok: "ok_k3m m3"
    and fin: "finish_ke (cs_ke CS) (sl_ke2_state sst) m3 ids ctx = Ok key"
    by blast
  have "client_login_finish CS cst pw cresp \<lparr>clp_context = c, clp_identifiers = ids, clp_ksf = ksf\<rparr> r
      = (Ok \<lparr>clf_message = \<lparr>cf_ke3_message = m3\<rparr>, clf_session_key = key,
          clf_export_key = ek, clf_server_s_pk = ?spk\<rparr>, r')"
    using assms(5) pdk2 mk unmask opened ctx ke3 sids sids' ek srv(3)
    by (simp add: client_login_finish_def cst cresp key_defs pf)
  moreover have "server_login_finish CS sst \<lparr>cf_ke3_message = m3\<rparr>
      \<lparr>slp_context = c, slp_identifiers = ids\<rparr> = Ok key"
    using ctx fin by (simp add: server_login_finish_def)
  ultimately show ?thesis using ok by simp
qed

end

section \<open>Progress\<close>

text \<open>
  A suite whose key derivation is total (\<open>live\<close>) never fails in an honest run: what can still fail
  is the OPRF (a password that it rejects) and the key stretching function.
\<close>

locale live_opaque_suite = opaque_suite +
  fixes live :: bool
  assumes live_ke: "trusted \<Longrightarrow> live \<Longrightarrow> live_key_exchange (cs_ke CS) True (elem_len (cs_oprf CS))
      (cs_hash CS) wf_sk wf_pk ok_k1s ok_k1m ok_k2s ok_k2m ok_k3m True"
    and live_group: "live \<Longrightarrow> derive_total (cs_group CS)"
begin

lemma registration_steps_total:
  assumes "trusted" "live" "server_setup_ok CS wf_sk wf_pk setup"
    and blind: "oprf_blind (cs_oprf CS) pw r = (Ok (c, be), r')"
    and ev: "server_evaluation CS (ss_oprf_seed setup) cid = Ok ev" "be \<noteq> ev be"
    and pdk: "get_password_derived_key CS pw c (ev be) ksf = Ok (p, h)"
    and "sk_len (cs_group CS) \<le> 255 * hash_len (cs_hash CS)" "pk_len (cs_group CS) < 65536"
    and "length (effective_identifier (id_client ids) []) < 65536"
    and "length (effective_identifier (id_server ids) []) < 65536"
  obtains req st resp res r2' where
    "client_registration_start CS pw r = (Ok (req, st), r')" "rr_blinded_element req = be"
    "server_registration_start CS setup req cid = Ok resp" "rsp_evaluation_element resp = ev be"
    "rsp_server_s_pk resp = kp_pk (ss_keypair setup)"
    "client_registration_finish CS st pw resp \<lparr>crp_identifiers = ids, crp_ksf = ksf\<rparr> r2
       = (Ok res, r2')"
proof -
  let ?H = "cs_hash CS" and ?G = "cs_group CS" and ?spk = "kp_pk (ss_keypair setup)"
  note H = hash [OF assms(1)] and G = grp [OF assms(1)]
  have h: "hkdf_ok (hash_len ?H) h" by (rule get_password_derived_key_hkdf_ok [OF H pdk])
  have "hash_len ?H \<le> 255 * hash_len ?H" by simp
  with h obtain mk where mk: "h STR_MASKING_KEY (hash_len ?H) = Some mk"
    using hkdf_expand_ok [of "hash_len ?H" h "hash_len ?H" "[STR_MASKING_KEY]"]
    by (auto simp: hkdf_expand_multi_info_def)
  obtain env cpk ek r2' where sealed: "seal ?H ?G h ?spk ids r2 = (Ok (env, cpk, ek), r2')"
    using seal_total [OF H h live_group [OF assms(2)] G server_key_ok(2) [OF assms(1,3)] assms(8-11)]
    by metis
  let ?req = "\<lparr>rr_blinded_element = be\<rparr>"
    and ?st = "\<lparr>creg_oprf_client = c, creg_blinded_element = be\<rparr>"
    and ?resp = "\<lparr>rsp_evaluation_element = ev be, rsp_server_s_pk = ?spk\<rparr>"
  have "client_registration_start CS pw r = (Ok (?req, ?st), r')"
    using blind by (simp add: client_registration_start_Ok_iff)
  moreover have "server_registration_start CS setup ?req cid = Ok ?resp"
    using ev(1) by (simp add: server_registration_start_eq)
  moreover have "client_registration_finish CS ?st pw ?resp
      \<lparr>crp_identifiers = ids, crp_ksf = ksf\<rparr> r2
    = (Ok \<lparr>crf_message = \<lparr>ru_envelope = env, ru_masking_key = mk, ru_client_s_pk = cpk\<rparr>,
           crf_export_key = ek, crf_server_s_pk = ?spk\<rparr>, r2')"
    using ev(2) pdk mk sealed by (simp add: client_registration_finish_Ok_iff)
  ultimately show thesis using that [of ?req ?st ?resp] by simp
qed

lemma registration_total:
  assumes "trusted" "live" "server_setup_ok CS wf_sk wf_pk setup"
    and "oprf_blind (cs_oprf CS) pw r = (Ok (c, be), r')"
    and "server_evaluation CS (ss_oprf_seed setup) cid = Ok ev" "be \<noteq> ev be"
    and "get_password_derived_key CS pw c (ev be) ksf = Ok (p, h)"
    and "sk_len (cs_group CS) \<le> 255 * hash_len (cs_hash CS)" "pk_len (cs_group CS) < 65536"
    and "length (effective_identifier (id_client ids) []) < 65536"
    and "length (effective_identifier (id_server ids) []) < 65536"
  shows "\<exists>file ek. registered CS setup cid pw \<lparr>crp_identifiers = ids, crp_ksf = ksf\<rparr> file ek"
  using registration_steps_total [OF assms] unfolding registered_def by metis

lemma login_start_total:
  assumes "trusted" "live" "server_setup_ok CS wf_sk wf_pk setup"
    and blind: "oprf_blind (cs_oprf CS) pw r = (Ok (c, be), r')"
    and ev: "server_evaluation CS (ss_oprf_seed setup) cid = Ok ev"
    and pf: "wf_pk (ru_client_s_pk rcd)" "length (ru_masking_key rcd) = hash_len (cs_hash CS)"
      "length (envelope_serialize (ru_envelope rcd)) = envelope_len (cs_hash CS)"
    and choose: "\<And>dummy. pf = None \<Longrightarrow> rcd = fst (server_registration_dummy CS setup r2)"
      "\<And>file. pf = Some file \<Longrightarrow> rcd = file"
    and "masked_response_len (cs_hash CS) (cs_group CS) \<le> 255 * hash_len (cs_hash CS)"
    and "pk_len (cs_group CS) < 65536"
    and "length (effective_identifier (id_client ids) []) < 65536"
    and "length (effective_identifier (id_server ids) []) < 65536"
    and "length (case ctxt of Some x \<Rightarrow> x | None \<Rightarrow> []) < 65536"
  shows "\<exists>creq cst r3 cresp sst r4. client_login_start CS pw r = (Ok (creq, cst), r3) \<and>
    cr_blinded_element creq = be \<and>
    server_login_start CS setup pf creq cid \<lparr>slp_context = ctxt, slp_identifiers = ids\<rparr> r2
      = (Ok (cresp, sst), r4) \<and>
    crs_evaluation_element cresp = ev be"
proof -
  let ?H = "cs_hash CS" and ?G = "cs_group CS" and ?spk = "kp_pk (ss_keypair setup)"
  note H = hash [OF assms(1)] and G = grp [OF assms(1)] and L = live_ke [OF assms(1,2)]
  have spk: "wf_pk ?spk"
    using assms(3) any_group.public_key_wf [OF G, of "kp_sk (ss_keypair setup)"]
    by (simp add: server_setup_ok_def keypair_consistent_def)
  obtain st1 m1 r3 where ke1: "generate_ke1 (cs_ke CS) r' = (Ok (st1, m1), r3)"
    using live_key_exchange.ke1_live [OF L TrueI TrueI] by metis
  let ?creq = "\<lparr>cr_blinded_element = be, cr_ke1_message = m1\<rparr>"
  let ?cst = "\<lparr>cl_oprf_client = c, cl_ke1_state = st1, cl_credential_request = ?creq\<rparr>"
  have start: "client_login_start CS pw r = (Ok (?creq, ?cst), r3)"
    using blind ke1 by (simp add: client_login_start_Ok_iff)
  obtain dummy ra where dummy: "server_registration_dummy CS setup r2 = (dummy, ra)" by fastforce
  then have rcd: "choose_record dummy pf = Ok rcd" using choose by (cases pf) auto
  obtain ctx where ctx: "serialized_context_from ctxt = Ok ctx"
    using serialized_context_from_Ok [OF assms(15)] by blast
  obtain n rb where n: "fill_bytes nonce_len ra = (n, rb)" by fastforce
  obtain pad where pad: "response_pad ?H ?G (ru_masking_key rcd) n = Some pad"
    using response_pad_total [OF H _ assms(11), of "ru_masking_key rcd" n] pf(2) by auto
  obtain mr where mr: "mask_response ?H ?G (ru_masking_key rcd) n ?spk (ru_envelope rcd) = Ok mr"
    using mask_response_Ok [OF H pad any_group.pk_length [OF G spk] pf(3)] by blast
  have "length (effective_identifier (id_client ids) (serialize_pk ?G (ru_client_s_pk rcd))) < 65536"
    "length (effective_identifier (id_server ids) (serialize_pk ?G ?spk)) < 65536"
    using any_group.pk_length [OF G spk] any_group.pk_length [OF G pf(1)] assms(12-14)
    by (auto simp: effective_identifier_def split: option.splits)
  then obtain sids where sids: "from_identifiers ids (serialize_pk ?G (ru_client_s_pk rcd))
      (serialize_pk ?G ?spk) = Ok sids" by (rule from_identifiers_total)
  let ?resp = "serialized_credential_response_new CS (ev be) n mr"
  obtain b rc where b: "ke2_builder (cs_ke CS) (credential_request_to_parts CS ?creq) m1 ?resp
      (ru_client_s_pk rcd) sids ctx rb = (Ok b, rc)"
    and build: "\<And>s_sk r3 r3' input. generate_ke2_input (cs_ke CS) b s_sk r3 = (input, r3') \<Longrightarrow>
      is_ok (build_ke2 (cs_ke CS) b input)"
    using live_key_exchange.ke2_live [OF L TrueI TrueI ke1] by metis
  obtain input r4 where input:
    "generate_ke2_input (cs_ke CS) b (kp_sk (ss_keypair setup)) rc = (input, r4)" by fastforce
  with build obtain st2 m2 where built: "build_ke2 (cs_ke CS) b input = Ok (st2, m2)"
    by (fastforce simp: is_ok_def)
  have "server_login_start CS setup pf ?creq cid \<lparr>slp_context = ctxt, slp_identifiers = ids\<rparr> r2
      = (Ok (\<lparr>crs_evaluation_element = ev be, crs_masking_nonce = n, crs_masked_response = mr,
             crs_ke2_message = m2\<rparr>, \<lparr>sl_ke2_state = st2\<rparr>), r4)"
    unfolding server_login_start_Ok_iff
    using ev dummy rcd ctx n mr sids b input built by fastforce
  with start show ?thesis by (intro exI conjI) (assumption | simp)+
qed

text \<open>
  Registration and the start of a login together: a run exists whenever the OPRF accepts the
  password and the parameters fit the length prefixes.
\<close>

lemma honest_run:
  assumes "trusted" "live" "server_setup_ok CS wf_sk wf_pk setup"
    and "oprf_blind (cs_oprf CS) pw r = (Ok (c, be), r')"
    and "server_evaluation CS (ss_oprf_seed setup) cid = Ok ev" "be \<noteq> ev be"
    and "get_password_derived_key CS pw c (ev be) ksf = Ok (p, h)"
    and "sk_len (cs_group CS) \<le> 255 * hash_len (cs_hash CS)" "pk_len (cs_group CS) < 65536"
    and "length (effective_identifier (id_client ids) []) < 65536"
    and "length (effective_identifier (id_server ids) []) < 65536"
    and "masked_response_len (cs_hash CS) (cs_group CS) \<le> 255 * hash_len (cs_hash CS)"
    and "length (case ctxt of Some x \<Rightarrow> x | None \<Rightarrow> []) < 65536"
  obtains pf ek creq cst cresp sst where
    "registered CS setup cid pw \<lparr>crp_identifiers = ids, crp_ksf = ksf\<rparr> pf ek"
    "login_started CS setup cid pw pf \<lparr>slp_context = ctxt, slp_identifiers = ids\<rparr>
      creq cst cresp sst"
    "crs_evaluation_element cresp \<noteq> cr_blinded_element creq"
proof -
  obtain pf ek where
    reg: "registered CS setup cid pw \<lparr>crp_identifiers = ids, crp_ksf = ksf\<rparr> pf ek"
    using registration_total [OF assms(1-11)] by blast
  note ok = registered_file_ok [OF assms(1) reg]
  have env: "length (envelope_serialize (ru_envelope pf)) = envelope_len (cs_hash CS)"
    using ok(3) by (rule envelope_codec.enc_length)
  obtain creq cst r3 cresp sst r4 where
    "client_login_start CS pw r = (Ok (creq, cst), r3)"
    and el: "cr_blinded_element creq = be" "crs_evaluation_element cresp = ev be"
    and "server_login_start CS setup (Some pf) creq cid
      \<lparr>slp_context = ctxt, slp_identifiers = ids\<rparr> r = (Ok (cresp, sst), r4)"
    using login_start_total [OF assms(1-5) ok(1,2) env _ _ assms(12,9,10,11,13), of "Some pf" r]
    by auto
  then have "login_started CS setup cid pw pf \<lparr>slp_context = ctxt, slp_identifiers = ids\<rparr>
      creq cst cresp sst"
    unfolding login_started_def by blast
  with reg el assms(6) that show thesis by simp
qed

end

end
