(* ===== verification/Ke_Shared.thy ===== *)
theory Ke_Shared
  imports Ke_Parts Concrete_Suite
begin

text \<open>
  \<open>src/key_exchange/shared.rs\<close>: the first key exchange message, the transcript, the key schedule
  and the MACs that the three key exchanges share. \<open>G\<close> is the group of the ephemeral keys, \<open>dh\<close> its
  \<open>DiffieHellman\<close> implementation, \<open>H\<close> the key exchange hash.
\<close>

definition STR_CLIENT_MAC :: bytes where
  "STR_CLIENT_MAC = map of_char ''ClientMAC''"

definition STR_HANDSHAKE_SECRET :: bytes where
  "STR_HANDSHAKE_SECRET = map of_char ''HandshakeSecret''"

definition STR_SERVER_MAC :: bytes where
  "STR_SERVER_MAC = map of_char ''ServerMAC''"

definition STR_SESSION_KEY :: bytes where
  "STR_SESSION_KEY = map of_char ''SessionKey''"

definition STR_OPAQUE :: bytes where
  "STR_OPAQUE = map of_char ''OPAQUE-''"

section \<open>State and message of the first step\<close>

record 'sk ke1_state =
  client_e_sk :: 'sk
  k1s_client_nonce :: bytes

record 'pk ke1_message =
  k1m_client_nonce :: bytes
  client_e_pk :: 'pk

record ke1_message_iter =
  k1i_client_nonce :: bytes
  k1i_client_e_pk :: bytes

definition ke1_state_serialize :: "('sk, 'pk) ke_group \<Rightarrow> 'sk ke1_state \<Rightarrow> bytes" where
  "ke1_state_serialize G self =
     cat (private_key_serialize G (client_e_sk self)) (k1s_client_nonce self)"

definition ke1_state_deserialize_take ::
    "('sk, 'pk) ke_group \<Rightarrow> (bytes, protocol_error, 'sk ke1_state) st" where
  "ke1_state_deserialize_take G =
     bind_st (private_key_deserialize_take G) (\<lambda>sk.
     bind_st (take_array nonce_len ''client nonce'') (\<lambda>nonce.
     return_st \<lparr>client_e_sk = sk, k1s_client_nonce = nonce\<rparr>))"

definition ke1_message_serialize :: "('sk, 'pk) ke_group \<Rightarrow> 'pk ke1_message \<Rightarrow> bytes" where
  "ke1_message_serialize G self =
     cat (k1m_client_nonce self) (public_key_serialize G (client_e_pk self))"

definition ke1_message_deserialize_take ::
    "('sk, 'pk) ke_group \<Rightarrow> (bytes, protocol_error, 'pk ke1_message) st" where
  "ke1_message_deserialize_take G =
     bind_st (take_array nonce_len ''client nonce'') (\<lambda>nonce.
     bind_st (public_key_deserialize_take G) (\<lambda>pk.
     return_st \<lparr>k1m_client_nonce = nonce, client_e_pk = pk\<rparr>))"

definition to_iter :: "('sk, 'pk) ke_group \<Rightarrow> 'pk ke1_message \<Rightarrow> ke1_message_iter" where
  "to_iter G self =
     \<lparr>k1i_client_nonce = k1m_client_nonce self,
      k1i_client_e_pk = public_key_serialize G (client_e_pk self)\<rparr>"

definition ke1_message_iter_iter :: "ke1_message_iter \<Rightarrow> bytes list" where
  "ke1_message_iter_iter self = [k1i_client_nonce self, k1i_client_e_pk self]"

definition ke1_message_iter_deserialize_take ::
    "('sk, 'pk) ke_group \<Rightarrow> (bytes, protocol_error, ke1_message_iter) st" where
  "ke1_message_iter_deserialize_take G =
     bind_st (take_array nonce_len ''client nonce'') (\<lambda>nonce.
     bind_st (take_array (pk_len G) ''client ephemeral public key'') (\<lambda>pk.
     return_st \<lparr>k1i_client_nonce = nonce, k1i_client_e_pk = pk\<rparr>))"

definition ke1_message_iter_serialize :: "ke1_message_iter \<Rightarrow> bytes" where
  "ke1_message_iter_serialize self = cat (k1i_client_nonce self) (k1i_client_e_pk self)"

section \<open>Steps\<close>

definition generate_nonce :: "rng \<Rightarrow> bytes \<times> rng" where
  "generate_nonce rng = fill_bytes nonce_len rng"

definition shared_generate_ke1 ::
    "('sk, 'pk) ke_group \<Rightarrow> (rng, protocol_error, 'sk ke1_state \<times> 'pk ke1_message) st" where
  "shared_generate_ke1 G =
     bind_st (keypair_derive_random G) (\<lambda>client_e_kp.
     bind_st (run_st generate_nonce) (\<lambda>client_nonce.
     let ke1_message = \<lparr>k1m_client_nonce = client_nonce, client_e_pk = keypair_public client_e_kp\<rparr>
     in return_st
       (\<lparr>client_e_sk = keypair_private client_e_kp, k1s_client_nonce = client_nonce\<rparr>,
        ke1_message)))"

definition transcript ::
    "serialized_context \<Rightarrow> serialized_identifiers \<Rightarrow> serialized_credential_request \<Rightarrow>
     ke1_message_iter \<Rightarrow> serialized_credential_response \<Rightarrow> bytes \<Rightarrow> bytes \<Rightarrow> hasher" where
  "transcript ctx sids credential_request ke1_message credential_response server_nonce server_e_pk =
     (let h = [];
          h = chain_iter (@) h (serialized_context_iter ctx);
          h = chain_iter (@) h (serialized_identifier_iter (sids_client sids));
          h = chain_iter (@) h (serialized_credential_request_iter credential_request);
          h = chain_iter (@) h (ke1_message_iter_iter ke1_message);
          h = chain_iter (@) h (serialized_identifier_iter (sids_server sids));
          h = chain_iter (@) h (serialized_credential_response_iter credential_response);
          h = h @ server_nonce
      in h @ server_e_pk)"

record 'pk ke2_builder_common =
  kbc_server_nonce :: bytes
  kbc_transcript_hasher :: hasher
  kbc_client_e_pk :: 'pk
  kbc_server_e_pk :: 'pk
  kbc_shared_secret_1 :: bytes
  kbc_shared_secret_3 :: bytes

definition shared_ke2_builder_common ::
    "('sk, 'pk) ke_group \<Rightarrow> ('sk, 'pk) diffie_hellman \<Rightarrow> serialized_credential_request \<Rightarrow>
     'pk ke1_message \<Rightarrow> serialized_credential_response \<Rightarrow> 'pk \<Rightarrow> serialized_identifiers \<Rightarrow>
     serialized_context \<Rightarrow> (rng, protocol_error, 'pk ke2_builder_common) st" where
  "shared_ke2_builder_common G dh credential_request ke1_message credential_response client_s_pk
      sids ctx =
     bind_st (keypair_derive_random G) (\<lambda>server_ephemeral.
     bind_st (run_st generate_nonce) (\<lambda>server_nonce.
     let server_e_pk_bytes = public_key_serialize G (keypair_public server_ephemeral);
         ke1_iter = to_iter G ke1_message;
         transcript_hasher = transcript ctx sids credential_request ke1_iter credential_response
           server_nonce server_e_pk_bytes;
         shared_secret_1 = ke_diffie_hellman dh (keypair_private server_ephemeral)
           (client_e_pk ke1_message);
         shared_secret_3 = ke_diffie_hellman dh (keypair_private server_ephemeral) client_s_pk
     in return_st
       \<lparr>kbc_server_nonce = server_nonce, kbc_transcript_hasher = transcript_hasher,
        kbc_client_e_pk = client_e_pk ke1_message,
        kbc_server_e_pk = keypair_public server_ephemeral,
        kbc_shared_secret_1 = shared_secret_1, kbc_shared_secret_3 = shared_secret_3\<rparr>))"

section \<open>Key schedule\<close>

definition hkdf_expand_label_extracted ::
    "hash_fns \<Rightarrow> hkdf \<Rightarrow> bytes \<Rightarrow> bytes \<Rightarrow> (protocol_error, bytes) result" where
  "hkdf_expand_label_extracted H hkdf label ctx =
     bind_result (i2osp 2 (of_nat (hash_len H))) (\<lambda>len.
     bind_result (i2osp 1 (usize_len STR_OPAQUE + usize_len label)) (\<lambda>label_length.
     bind_result (i2osp 1 (usize_len ctx)) (\<lambda>context_len.
     let hkdf_label = [len, label_length, STR_OPAQUE, label, context_len, ctx] in
     bind_result (ok_or (protocol_from_internal HkdfError)
       (hkdf_expand_multi_info hkdf hkdf_label (hash_len H))) (\<lambda>okm.
     Ok okm))))"

definition hkdf_expand_label ::
    "hash_fns \<Rightarrow> bytes \<Rightarrow> bytes \<Rightarrow> bytes \<Rightarrow> (protocol_error, bytes) result" where
  "hkdf_expand_label H secret label ctx =
     bind_result (ok_or (protocol_from_internal HkdfError) (hkdf_from_prk H secret)) (\<lambda>h.
     hkdf_expand_label_extracted H h label ctx)"

definition derive_secrets ::
    "hash_fns \<Rightarrow> hkdf \<Rightarrow> bytes \<Rightarrow> bytes \<Rightarrow> (protocol_error, bytes) result" where
  "derive_secrets H hkdf label hashed_derivation_transcript =
     hkdf_expand_label_extracted H hkdf label hashed_derivation_transcript"

record derived_keys =
  dk_session_key :: bytes
  dk_km2 :: bytes
  dk_km3 :: bytes

definition derive_keys :: "hash_fns \<Rightarrow> bytes list \<Rightarrow> bytes \<Rightarrow> (protocol_error, derived_keys) result"
  where
  "derive_keys H ikms hashed_derivation_transcript =
     (let hkdf = foldl (@) [] ikms;
          (_, extracted_ikm) = hkdf_extract H hkdf in
      bind_result (derive_secrets H extracted_ikm STR_HANDSHAKE_SECRET hashed_derivation_transcript)
        (\<lambda>handshake_secret.
      bind_result (derive_secrets H extracted_ikm STR_SESSION_KEY hashed_derivation_transcript)
        (\<lambda>session_key.
      bind_result (hkdf_expand_label H handshake_secret STR_SERVER_MAC []) (\<lambda>km2.
      bind_result (hkdf_expand_label H handshake_secret STR_CLIENT_MAC []) (\<lambda>km3.
      Ok \<lparr>dk_session_key = session_key, dk_km2 = km2, dk_km3 = km3\<rparr>)))))"

section \<open>MACs\<close>

definition compute_ke2_macs ::
    "hash_fns \<Rightarrow> derived_keys \<Rightarrow> bytes \<Rightarrow> (hasher, protocol_error, bytes \<times> bytes) st" where
  "compute_ke2_macs H keys transcript_digest =
     bind_st (lift_st (ok_or (protocol_from_internal HmacError)
       (hmac_new_from_slice H (dk_km2 keys)))) (\<lambda>mac_hasher.
     let mac = mac_hasher transcript_digest in
     bind_st (\<lambda>hasher. (Ok (), hasher @ mac)) (\<lambda>_.
     bind_st (\<lambda>hasher. (Ok (hash_digest H hasher), hasher)) (\<lambda>finalized_transcript.
     bind_st (lift_st (ok_or (protocol_from_internal HmacError)
       (hmac_new_from_slice H (dk_km3 keys)))) (\<lambda>expected_mac_hasher.
     let expected_mac = expected_mac_hasher finalized_transcript in
     return_st (mac, expected_mac)))))"

definition finalize_ke3_transcript ::
    "hash_fns \<Rightarrow> bytes list \<Rightarrow> bytes \<Rightarrow> (hasher, protocol_error, derived_keys \<times> bytes) st" where
  "finalize_ke3_transcript H shared_secrets server_mac =
     bind_st (\<lambda>hasher. (Ok (hash_digest H hasher), hasher)) (\<lambda>transcript_digest.
     bind_st (lift_st (derive_keys H shared_secrets transcript_digest)) (\<lambda>keys.
     bind_st (lift_st (ok_or (protocol_from_internal HmacError)
       (hmac_new_from_slice H (dk_km2 keys)))) (\<lambda>server_mac_hasher.
     bind_st (lift_st (if server_mac_hasher transcript_digest = server_mac then Ok ()
       else Err InvalidLoginError)) (\<lambda>_.
     bind_st (\<lambda>hasher. (Ok (), hasher @ server_mac)) (\<lambda>_.
     bind_st (\<lambda>hasher. (Ok (hash_digest H hasher), hasher)) (\<lambda>finalized_transcript.
     bind_st (lift_st (ok_or (protocol_from_internal HmacError)
       (hmac_new_from_slice H (dk_km3 keys)))) (\<lambda>client_mac_hasher.
     let client_mac = client_mac_hasher finalized_transcript in
     return_st (keys, client_mac))))))))"

section \<open>Facts\<close>

definition ke1_state_ok :: "('sk \<Rightarrow> bool) \<Rightarrow> 'sk ke1_state \<Rightarrow> bool" where
  "ke1_state_ok wf_sk s \<longleftrightarrow> wf_sk (client_e_sk s) \<and> length (k1s_client_nonce s) = nonce_len"

definition ke1_message_ok :: "('pk \<Rightarrow> bool) \<Rightarrow> 'pk ke1_message \<Rightarrow> bool" where
  "ke1_message_ok wf_pk m \<longleftrightarrow> wf_pk (client_e_pk m) \<and> length (k1m_client_nonce m) = nonce_len"

definition ke1_message_iter_ok :: "('sk, 'pk) ke_group \<Rightarrow> ke1_message_iter \<Rightarrow> bool" where
  "ke1_message_iter_ok G m \<longleftrightarrow>
     length (k1i_client_nonce m) = nonce_len \<and> length (k1i_client_e_pk m) = pk_len G"

interpretation ke1_state_codec: wire_codec
  "ke1_state_serialize G" "ke1_state_deserialize_take G" "sk_len G + nonce_len"
  "\<lambda>s. group_ok G wf_sk wf_pk \<and> ke1_state_ok wf_sk s"
  for G :: "('sk, 'pk) ke_group" and wf_sk wf_pk
  by unfold_locales
     (auto simp: ke1_state_serialize_def ke1_state_deserialize_take_def ke1_state_ok_def key_defs
       cat_def any_group.sk_length any_group.sk_roundtrip)

interpretation ke1_message_codec: wire_codec
  "ke1_message_serialize G" "ke1_message_deserialize_take G" "nonce_len + pk_len G"
  "\<lambda>m. group_ok G wf_sk wf_pk \<and> ke1_message_ok wf_pk m"
  for G :: "('sk, 'pk) ke_group" and wf_sk wf_pk
  by unfold_locales
     (auto simp: ke1_message_serialize_def ke1_message_deserialize_take_def ke1_message_ok_def
       key_defs cat_def any_group.pk_length any_group.pk_roundtrip)

interpretation ke1_message_iter_codec: canonical_codec
  ke1_message_iter_serialize "ke1_message_iter_deserialize_take G" "nonce_len + pk_len G"
  "ke1_message_iter_ok G" True
  for G :: "('sk, 'pk) ke_group"
  by unfold_locales
     (auto simp: ke1_message_iter_serialize_def ke1_message_iter_deserialize_take_def
       ke1_message_iter_ok_def cat_def ok_iffs take_array_Ok_iff)

lemma to_iter_serialize:
  "ke1_message_iter_serialize (to_iter G m) = ke1_message_serialize G m"
  by (simp add: ke1_message_iter_serialize_def to_iter_def ke1_message_serialize_def)

lemma generate_nonce_length: "generate_nonce r = (n, r') \<Longrightarrow> length n = nonce_len"
  by (simp add: generate_nonce_def length_fill_bytes)

lemma generate_ke1_Ok_iff:
  "shared_generate_ke1 G r = (Ok (s, m), r') \<longleftrightarrow>
     (\<exists>kp r1 n. keypair_derive_random G r = (Ok kp, r1) \<and> generate_nonce r1 = (n, r') \<and>
        s = \<lparr>client_e_sk = kp_sk kp, k1s_client_nonce = n\<rparr> \<and>
        m = \<lparr>k1m_client_nonce = n, client_e_pk = kp_pk kp\<rparr>)"
  by (auto simp: shared_generate_ke1_def bind_st_Ok_iff key_defs Let_def)

lemma generate_ke1_ok:
  assumes "group_ok G wf_sk wf_pk" "shared_generate_ke1 G r = (Ok (s, m), r')"
  shows "ke1_state_ok wf_sk s" "ke1_message_ok wf_pk m"
    and "client_e_pk m = public_key G (client_e_sk s)"
proof -
  from assms(2) obtain kp r1 n where kp: "keypair_derive_random G r = (Ok kp, r1)"
    and n: "generate_nonce r1 = (n, r')" and sm: "s = \<lparr>client_e_sk = kp_sk kp, k1s_client_nonce = n\<rparr>"
      "m = \<lparr>k1m_client_nonce = n, client_e_pk = kp_pk kp\<rparr>"
    by (auto simp: generate_ke1_Ok_iff)
  from keypair_derive_random_wf [OF assms(1) kp] generate_nonce_length [OF n]
  show "ke1_state_ok wf_sk s" "ke1_message_ok wf_pk m"
    by (simp_all add: sm ke1_state_ok_def ke1_message_ok_def)
  from keypair_derive_random_consistent [OF kp] show "client_e_pk m = public_key G (client_e_sk s)"
    by (simp add: sm keypair_consistent_def)
qed

lemma generate_ke1_total:
  assumes "derive_total G"
  shows "\<exists>s m r'. shared_generate_ke1 G r = (Ok (s, m), r')"
proof -
  obtain kp r1 where "keypair_derive_random G r = (Ok kp, r1)"
    using assms by (rule keypair_derive_random_total)
  moreover obtain n r' where "generate_nonce r1 = (n, r')" by fastforce
  ultimately show ?thesis unfolding generate_ke1_Ok_iff by blast
qed

lemma transcript_concat:
  "transcript ctx sids req k1 resp n pk =
     concat (serialized_context_iter ctx) @
     concat (serialized_identifier_iter (sids_client sids)) @
     serialized_credential_request_serialize req @
     ke1_message_iter_serialize k1 @
     concat (serialized_identifier_iter (sids_server sids)) @
     serialized_credential_response_serialize resp @ n @ pk"
  by (simp add: transcript_def chain_iter_def foldl_append_concat
      serialized_credential_request_iter_def serialized_credential_request_serialize_def
      ke1_message_iter_iter_def ke1_message_iter_serialize_def cat_def
      concat_credential_response_iter [symmetric])

lemma ke2_builder_common_Ok_iff:
  "shared_ke2_builder_common G dh req m resp cpk sids ctx r = (Ok c, r') \<longleftrightarrow>
     (\<exists>kp r1 n. keypair_derive_random G r = (Ok kp, r1) \<and> generate_nonce r1 = (n, r') \<and>
        c = \<lparr>kbc_server_nonce = n,
             kbc_transcript_hasher =
               transcript ctx sids req (to_iter G m) resp n (serialize_pk G (kp_pk kp)),
             kbc_client_e_pk = client_e_pk m, kbc_server_e_pk = kp_pk kp,
             kbc_shared_secret_1 = dh (kp_sk kp) (client_e_pk m),
             kbc_shared_secret_3 = dh (kp_sk kp) cpk\<rparr>)"
  by (auto simp: shared_ke2_builder_common_def bind_st_Ok_iff key_defs Let_def)

lemma ke2_builder_common_total:
  assumes "derive_total G"
  shows "\<exists>c r'. shared_ke2_builder_common G dh req m resp cpk sids ctx r = (Ok c, r')"
proof -
  obtain kp r1 where "keypair_derive_random G r = (Ok kp, r1)"
    using assms by (rule keypair_derive_random_total)
  moreover obtain n r' where "generate_nonce r1 = (n, r')" by fastforce
  ultimately show ?thesis unfolding ke2_builder_common_Ok_iff by blast
qed

text \<open>The key schedule returns keys of the hash's length, and cannot fail on a digest.\<close>

lemma expand_label_extracted_length:
  "hkdf_ok (hash_len H) h \<Longrightarrow> hkdf_expand_label_extracted H h label ctx = Ok okm \<Longrightarrow>
     length okm = hash_len H"
  by (auto simp: hkdf_expand_label_extracted_def bind_result_Ok_iff Let_def
      dest: hkdf_expand_length)

lemma expand_label_extracted_total:
  assumes "hash_ok H" "hkdf_ok (hash_len H) h" "length label < 200" "length ctx < 256"
  shows "\<exists>okm. hkdf_expand_label_extracted H h label ctx = Ok okm"
proof -
  have "hash_len H < 256" using assms(1) by (rule hash_okD)
  then have a: "\<exists>l. i2osp 2 (of_nat (hash_len H)) = Ok l"
    by (simp add: i2osp_eq unat_of_nat)
  have "length STR_OPAQUE = 7" by (simp add: STR_OPAQUE_def)
  then have "usize_len STR_OPAQUE + usize_len label = of_nat (7 + length label)"
    by (simp add: usize_len_def)
  with assms(3) have b: "\<exists>l. i2osp 1 (usize_len STR_OPAQUE + usize_len label) = Ok l"
    by (simp add: i2osp_eq unat_of_nat del: of_nat_add)
  have c: "\<exists>l. i2osp 1 (usize_len ctx) = Ok l"
    using assms(4) by (simp add: i2osp_eq unat_usize_len)
  have "hash_len H \<le> 255 * hash_len H" by simp
  then have d: "\<exists>okm. hkdf_expand_multi_info h infos (hash_len H) = Some okm" for infos
    using hkdf_expand_ok [OF assms(2)] by metis
  from a b c d show ?thesis
    by (auto simp: hkdf_expand_label_extracted_def bind_result_Ok_iff Let_def)
qed

lemma expand_label_total:
  assumes "hash_ok H" "length secret = hash_len H" "length label < 200"
  shows "\<exists>okm. hkdf_expand_label H secret label [] = Ok okm"
proof -
  obtain h where "hkdf_from_prk H secret = Some h" "hkdf_ok (hash_len H) h"
    using assms(1,2) hkdf_from_prk_ok [of H secret] by auto
  with assms(1,3) show ?thesis
    using expand_label_extracted_total [of H h label "[]"]
    by (auto simp: hkdf_expand_label_def bind_result_Ok_iff)
qed

lemmas label_defs = STR_HANDSHAKE_SECRET_def STR_SESSION_KEY_def STR_SERVER_MAC_def
  STR_CLIENT_MAC_def

lemma derive_keys_total:
  assumes "hash_ok H" "length t = hash_len H"
  shows "\<exists>dk. derive_keys H ikms t = Ok dk"
proof -
  let ?x = "snd (hkdf_extract H (foldl (@) [] ikms))"
  have x: "hkdf_ok (hash_len H) ?x" using assms(1) by (rule hash_okD)
  have "length t < 256" using assms hash_okD(2) by simp
  then obtain hs sk where hs: "derive_secrets H ?x STR_HANDSHAKE_SECRET t = Ok hs"
    and sk: "derive_secrets H ?x STR_SESSION_KEY t = Ok sk"
    using expand_label_extracted_total [OF assms(1) x, of STR_HANDSHAKE_SECRET t]
      expand_label_extracted_total [OF assms(1) x, of STR_SESSION_KEY t]
    by (auto simp: label_defs derive_secrets_def)
  have "length hs = hash_len H"
    using expand_label_extracted_length [OF x hs [unfolded derive_secrets_def]] .
  then obtain km2 km3 where "hkdf_expand_label H hs STR_SERVER_MAC [] = Ok km2"
    and "hkdf_expand_label H hs STR_CLIENT_MAC [] = Ok km3"
    using expand_label_total [OF assms(1), of hs STR_SERVER_MAC]
      expand_label_total [OF assms(1), of hs STR_CLIENT_MAC]
    by (auto simp: label_defs)
  with hs sk show ?thesis by (simp add: derive_keys_def split_beta)
qed

lemma derive_keys_session_key_length:
  assumes "hash_ok H" "derive_keys H ikms t = Ok dk"
  shows "length (dk_session_key dk) = hash_len H"
proof -
  let ?x = "snd (hkdf_extract H (foldl (@) [] ikms))"
  from assms(2) have "derive_secrets H ?x STR_SESSION_KEY t = Ok (dk_session_key dk)"
    by (auto simp: derive_keys_def split_beta bind_result_Ok_iff Let_def)
  with hash_okD(4) [OF assms(1)] show ?thesis
    unfolding derive_secrets_def by (rule expand_label_extracted_length)
qed

lemma compute_ke2_macs_Ok_iff:
  "compute_ke2_macs H dk d th = (Ok (mac, em), th') \<longleftrightarrow>
     (\<exists>f g. hmac_new_from_slice H (dk_km2 dk) = Some f \<and> mac = f d \<and> th' = th @ mac \<and>
        hmac_new_from_slice H (dk_km3 dk) = Some g \<and> em = g (hash_digest H (th @ mac)))"
  by (auto simp: compute_ke2_macs_def bind_st_Ok_iff Let_def)

lemma finalize_ke3_Ok_iff:
  "finalize_ke3_transcript H ss smac th = (Ok (dk, cm), th') \<longleftrightarrow>
     derive_keys H ss (hash_digest H th) = Ok dk \<and>
     (\<exists>f g. hmac_new_from_slice H (dk_km2 dk) = Some f \<and> f (hash_digest H th) = smac \<and>
        th' = th @ smac \<and>
        hmac_new_from_slice H (dk_km3 dk) = Some g \<and> cm = g (hash_digest H (th @ smac)))"
  by (auto simp: finalize_ke3_transcript_def bind_st_Ok_iff Let_def split: if_splits)

lemma compute_ke2_macs_total:
  assumes "hash_ok H"
  shows "\<exists>mac em. compute_ke2_macs H dk d th = (Ok (mac, em), th @ mac) \<and>
    length mac = hash_len H \<and> length em = hash_len H"
proof -
  obtain f where "hmac_new_from_slice H (dk_km2 dk) = Some f" "\<And>m. length (f m) = hash_len H"
    using assms by (rule hmac_new_ok) blast
  moreover obtain g where "hmac_new_from_slice H (dk_km3 dk) = Some g" "\<And>m. length (g m) = hash_len H"
    using assms by (rule hmac_new_ok) blast
  ultimately show ?thesis by (auto simp: compute_ke2_macs_Ok_iff)
qed

text \<open>The client's side of the schedule, given what the server computed.\<close>

lemma finalize_ke3_agrees:
  "derive_keys H ss (hash_digest H th) = Ok dk \<Longrightarrow>
     compute_ke2_macs H dk (hash_digest H th) th = (Ok (mac, em), th') \<Longrightarrow>
     finalize_ke3_transcript H ss mac th = (Ok (dk, em), th @ mac)"
  by (auto simp: finalize_ke3_Ok_iff compute_ke2_macs_Ok_iff)

lemma finalize_ke3_rejects:
  "derive_keys H ss (hash_digest H th) = Ok dk \<Longrightarrow>
     compute_ke2_macs H dk (hash_digest H th) th = (Ok (mac, em), th') \<Longrightarrow> smac \<noteq> mac \<Longrightarrow>
     finalize_ke3_transcript H ss smac th = (Err InvalidLoginError, th)"
  by (auto simp: compute_ke2_macs_Ok_iff finalize_ke3_transcript_def bind_st_def)

text \<open>The hashed form of a context.\<close>

lemma concat_context_iter:
  assumes "serialized_context_from c = Ok ctx"
  shows "ctx_context ctx = (case c of Some x \<Rightarrow> x | None \<Rightarrow> [])"
    and "concat (serialized_context_iter ctx) =
      STR_CONTEXT @ be_digits 2 (unat (usize_len (ctx_context ctx))) @ ctx_context ctx"
  using assms by (auto simp: serialized_context_from_def serialized_context_iter_def Let_def
      bind_result_Ok_iff i2osp_eq split: if_splits)

lemma serialized_context_short:
  assumes "serialized_context_from c = Ok ctx"
    and "length (case c of Some x \<Rightarrow> x | None \<Rightarrow> []) < 2 ^ 64"
  shows "length (ctx_context ctx) < 65536"
proof (rule ccontr)
  assume "\<not> length (ctx_context ctx) < 65536"
  then have "65536 \<le> length (case c of Some x \<Rightarrow> x | None \<Rightarrow> [])"
    using concat_context_iter(1) [OF assms(1)] by simp
  with assms(2) have "i2osp 2 (usize_len (case c of Some x \<Rightarrow> x | None \<Rightarrow> [])) = Err SerializationError"
    by (rule i2osp2_Err [rotated])
  with assms(1) show False by (simp add: serialized_context_from_def Let_def)
qed

text \<open>The hashed bytes determine the session.\<close>

lemma transcript_inj:
  assumes ctx: "serialized_context_from c = Ok ctx" "serialized_context_from c' = Ok ctx'"
    and ids: "from_identifiers ids cpk spk = Ok sids" "from_identifiers ids' cpk' spk' = Ok sids'"
    and mem: "length (case c of Some x \<Rightarrow> x | None \<Rightarrow> []) < 2 ^ 64"
      "length (case c' of Some x \<Rightarrow> x | None \<Rightarrow> []) < 2 ^ 64"
      "length (effective_identifier (id_client ids) cpk) < 2 ^ 64"
      "length (effective_identifier (id_server ids) spk) < 2 ^ 64"
      "length (effective_identifier (id_client ids') cpk') < 2 ^ 64"
      "length (effective_identifier (id_server ids') spk') < 2 ^ 64"
    and lens: "length req = ne" "length req' = ne"
      "ke1_message_iter_ok G k1" "ke1_message_iter_ok G k1'"
      "serialized_credential_response_ok ne OH KG resp"
      "serialized_credential_response_ok ne OH KG resp'"
      "length n = nonce_len" "length n' = nonce_len"
    and eq: "transcript ctx sids req k1 resp n pk = transcript ctx' sids' req' k1' resp' n' pk'"
  shows "ctx_context ctx = ctx_context ctx' \<and>
    effective_identifier (id_client ids) cpk = effective_identifier (id_client ids') cpk' \<and>
    effective_identifier (id_server ids) spk = effective_identifier (id_server ids') spk' \<and>
    req = req' \<and> k1 = k1' \<and> resp = resp' \<and> n = n' \<and> pk = pk'"
proof -
  note cid = ids [unfolded from_identifiers_Ok_iff, THEN conjunct1]
  note sid = ids [unfolded from_identifiers_Ok_iff, THEN conjunct2]
  note ctxs = concat_context_iter [OF ctx(1)] concat_context_iter [OF ctx(2)]
  note eq1 = eq [unfolded transcript_concat cid [THEN concat_identifier_iter]
      sid [THEN concat_identifier_iter] ctxs(2,4) append_assoc same_append_eq]
  have "length (ctx_context ctx) < 65536" "length (ctx_context ctx') < 65536"
    using serialized_context_short ctx mem(1,2) by blast+
  note ctx_split = length_prefixed_inj [OF eq1 this]
  note id_short = from_identifier_short [OF cid(1) mem(3)] from_identifier_short [OF cid(2) mem(5)]
    from_identifier_short [OF sid(1) mem(4)] from_identifier_short [OF sid(2) mem(6)]
  note cid_split = length_prefixed_inj [OF ctx_split [THEN conjunct2] id_short(1,2)]
  note req_eq = credential_request_codec.enc_prefix_free
    [OF lens(1,2) cid_split [THEN conjunct2]]
  note k1_eq = ke1_message_iter_codec.enc_prefix_free [OF lens(3,4) req_eq [THEN conjunct2]]
  note sid_split = length_prefixed_inj [OF k1_eq [THEN conjunct2] id_short(3,4)]
  note resp_eq = credential_response_codec.enc_prefix_free
    [OF lens(5,6) sid_split [THEN conjunct2]]
  from resp_eq lens(7,8) have "n = n'" "pk = pk'" by auto
  with ctx_split cid_split req_eq k1_eq sid_split resp_eq show ?thesis by blast
qed

section \<open>Properties\<close>

text \<open>
  C28. Key confirmation in both directions. For every transcript and shared secrets the key schedule
  and the server's MACs succeed; the client's check of the server's MAC accepts exactly the MAC
  that the server computes, returns the same keys and answers with exactly the MAC that the server
  expects, and rejects any other with \<open>InvalidLoginError\<close>.
\<close>

theorem key_confirmation:
  assumes "hash_ok H"
  shows "\<exists>dk mac em. derive_keys H ss (hash_digest H th) = Ok dk \<and>
    length (dk_session_key dk) = hash_len H \<and>
    compute_ke2_macs H dk (hash_digest H th) th = (Ok (mac, em), th @ mac) \<and>
    (\<forall>smac. finalize_ke3_transcript H ss smac th =
      (if smac = mac then (Ok (dk, em), th @ mac) else (Err InvalidLoginError, th)))"
proof -
  have "length (hash_digest H th) = hash_len H" using assms by (rule hash_okD)
  with derive_keys_total [OF assms] obtain dk where
    dk: "derive_keys H ss (hash_digest H th) = Ok dk" by metis
  obtain mac em where
    mac: "compute_ke2_macs H dk (hash_digest H th) th = (Ok (mac, em), th @ mac)"
    using compute_ke2_macs_total [OF assms] by metis
  have "finalize_ke3_transcript H ss smac th =
      (if smac = mac then (Ok (dk, em), th @ mac) else (Err InvalidLoginError, th))" for smac
    using finalize_ke3_agrees [OF dk mac] finalize_ke3_rejects [OF dk mac] by simp
  with dk mac derive_keys_session_key_length [OF assms dk] show ?thesis by blast
qed

theorem key_confirmation_witness:
  "\<exists>dk mac em.
    derive_keys (mini_hash 2) [[1], [2]] (hash_digest (mini_hash 2) [5]) = Ok dk \<and>
    length (dk_session_key dk) = 2 \<and>
    compute_ke2_macs (mini_hash 2) dk (hash_digest (mini_hash 2) [5]) [5] = (Ok (mac, em), [5] @ mac) \<and>
    finalize_ke3_transcript (mini_hash 2) [[1], [2]] mac [5] = (Ok (dk, em), [5] @ mac)"
proof -
  have "hash_ok (mini_hash 2)" by (rule mini_hash_ok) simp_all
  from key_confirmation [OF this, of "[[1], [2]]" "[5]"] show ?thesis by fastforce
qed

text \<open>
  C30. The bytes that are hashed determine the whole session: two transcripts are equal only if the
  contexts, the effective client and server identifiers, the credential request and response, the
  client's first message, the server's nonce and ephemeral key are all equal. (Lengths are those
  of the wire formats; contexts and identifiers fit in memory.)
\<close>

theorem transcript_injective:
  assumes ctx: "serialized_context_from c = Ok ctx" "serialized_context_from c' = Ok ctx'"
    and ids: "from_identifiers ids cpk spk = Ok sids" "from_identifiers ids' cpk' spk' = Ok sids'"
    and mem: "length (case c of Some x \<Rightarrow> x | None \<Rightarrow> []) < 2 ^ 64"
      "length (case c' of Some x \<Rightarrow> x | None \<Rightarrow> []) < 2 ^ 64"
      "length (effective_identifier (id_client ids) cpk) < 2 ^ 64"
      "length (effective_identifier (id_server ids) spk) < 2 ^ 64"
      "length (effective_identifier (id_client ids') cpk') < 2 ^ 64"
      "length (effective_identifier (id_server ids') spk') < 2 ^ 64"
    and lens: "length req = ne" "length req' = ne"
      "ke1_message_iter_ok G k1" "ke1_message_iter_ok G k1'"
      "serialized_credential_response_ok ne OH KG resp"
      "serialized_credential_response_ok ne OH KG resp'"
      "length n = nonce_len" "length n' = nonce_len"
    and eq: "transcript ctx sids req k1 resp n pk = transcript ctx' sids' req' k1' resp' n' pk'"
  shows "ctx_context ctx = ctx_context ctx' \<and>
    effective_identifier (id_client ids) cpk = effective_identifier (id_client ids') cpk' \<and>
    effective_identifier (id_server ids) spk = effective_identifier (id_server ids') spk' \<and>
    req = req' \<and> k1 = k1' \<and> resp = resp' \<and> n = n' \<and> pk = pk'"
  by (rule transcript_inj [OF assms])

theorem transcript_injective_witness:
  "\<exists>ctx ids ids' sids sids' req k1 resp.
    serialized_context_from None = Ok ctx \<and>
    ids = \<lparr>id_client = None, id_server = None\<rparr> \<and> ids' = \<lparr>id_client = Some [7], id_server = None\<rparr> \<and>
    from_identifiers ids [7] [9] = Ok sids \<and> from_identifiers ids' [7] [9] = Ok sids' \<and>
    transcript ctx sids req k1 resp (zeros nonce_len) [3] =
      transcript ctx sids' req k1 resp (zeros nonce_len) [3] \<and>
    effective_identifier (id_client ids) [7] = effective_identifier (id_client ids') [7]"
proof -
  define ids ids' where ids_def: "ids = \<lparr>id_client = None :: bytes option, id_server = None :: bytes option\<rparr>"
    and ids'_def: "ids' = \<lparr>id_client = Some [7 :: byte], id_server = None :: bytes option\<rparr>"
  define k1 where k1_def: "k1 = \<lparr>k1i_client_nonce = zeros nonce_len, k1i_client_e_pk = [5]\<rparr>"
  define resp where resp_def: "resp = \<lparr>scr_evaluation_element = [6], scr_masking_nonce = zeros nonce_len,
    scr_masked_response = \<lparr>mr_nonce = zeros nonce_len, mr_hash = [1, 2], mr_pk = [3]\<rparr>\<rparr>"
  obtain ctx where ctx: "serialized_context_from None = Ok ctx"
    using serialized_context_from_Ok [of None] by auto
  obtain sids where sids: "from_identifiers ids [7] [9] = Ok sids"
    by (rule from_identifiers_total [of ids "[7]" "[9]"])
       (auto simp: ids_def effective_identifier_def)
  obtain sids' where sids': "from_identifiers ids' [7] [9] = Ok sids'"
    by (rule from_identifiers_total [of ids' "[7]" "[9]"])
       (auto simp: ids'_def effective_identifier_def)
  have eq: "transcript ctx sids [4] k1 resp (zeros nonce_len) [3] =
      transcript ctx sids' [4] k1 resp (zeros nonce_len) [3]"
    using sids sids'
    by (auto simp: transcript_concat from_identifiers_Ok_iff ids_def ids'_def
        effective_identifier_def dest!: concat_identifier_iter)
  have "effective_identifier (id_client ids) [7] = effective_identifier (id_client ids') [7]"
    by (rule transcript_injective [OF ctx ctx sids sids' _ _ _ _ _ _ _ _ _ _ _ _ _ _ eq,
          THEN conjunct2, THEN conjunct1, of 1 mini_group "mini_hash 2" mini_group])
       (simp_all add: ids_def ids'_def k1_def resp_def effective_identifier_def
         ke1_message_iter_ok_def serialized_credential_response_ok_def masked_response_ok_def)
  with ctx ids_def ids'_def sids sids' eq show ?thesis by blast
qed

end
