(* ===== verification/Triple_Dh.thy ===== *)
theory Triple_Dh
  imports Ke_Shared Key_Exchange
begin

text \<open>
  \<open>src/key_exchange/tripledh.rs\<close>: the 3DH key exchange. \<open>G\<close> is the group of the static and the
  ephemeral keys, \<open>dh\<close> its Diffie-Hellman function, \<open>H\<close> the key exchange hash.
\<close>

record ke2_state =
  k2s_session_key :: bytes
  k2s_expected_mac :: bytes

record 'pk ke2_builder =
  k2b_server_nonce :: bytes
  k2b_transcript_hasher :: hasher
  k2b_client_e_pk :: 'pk
  k2b_server_e_pk :: 'pk
  k2b_shared_secret_1 :: bytes
  k2b_shared_secret_3 :: bytes

record 'pk ke2_message =
  k2m_server_nonce :: bytes
  k2m_server_e_pk :: 'pk
  k2m_mac :: bytes

record ke3_message =
  k3m_mac :: bytes

section \<open>Steps\<close>

definition tdh_generate_ke1 ::
    "('sk, 'pk) ke_group \<Rightarrow> (rng, protocol_error, 'sk ke1_state \<times> 'pk ke1_message) st" where
  "tdh_generate_ke1 G = shared_generate_ke1 G"

definition tdh_ke2_builder ::
    "('sk, 'pk) ke_group \<Rightarrow> ('sk, 'pk) diffie_hellman \<Rightarrow> serialized_credential_request \<Rightarrow>
     'pk ke1_message \<Rightarrow> serialized_credential_response \<Rightarrow> 'pk \<Rightarrow> serialized_identifiers \<Rightarrow>
     serialized_context \<Rightarrow> (rng, protocol_error, 'pk ke2_builder) st" where
  "tdh_ke2_builder G dh credential_request ke1_message credential_response client_s_pk sids ctx =
     bind_st (shared_ke2_builder_common G dh credential_request ke1_message credential_response
       client_s_pk sids ctx) (\<lambda>c.
     return_st
       \<lparr>k2b_server_nonce = kbc_server_nonce c, k2b_transcript_hasher = kbc_transcript_hasher c,
        k2b_client_e_pk = kbc_client_e_pk c, k2b_server_e_pk = kbc_server_e_pk c,
        k2b_shared_secret_1 = kbc_shared_secret_1 c,
        k2b_shared_secret_3 = kbc_shared_secret_3 c\<rparr>)"

definition tdh_ke2_builder_data :: "'pk ke2_builder \<Rightarrow> 'pk" where
  "tdh_ke2_builder_data builder = k2b_client_e_pk builder"

definition tdh_generate_ke2_input ::
    "('sk, 'pk) diffie_hellman \<Rightarrow> 'pk ke2_builder \<Rightarrow> 'sk \<Rightarrow> rng \<Rightarrow> bytes \<times> rng" where
  "tdh_generate_ke2_input dh builder server_s_sk rng =
     (ke_diffie_hellman dh server_s_sk (k2b_client_e_pk builder), rng)"

definition tdh_build_ke2 ::
    "hash_fns \<Rightarrow> 'pk ke2_builder \<Rightarrow> bytes \<Rightarrow> (protocol_error, ke2_state \<times> 'pk ke2_message) result"
  where
  "tdh_build_ke2 H builder shared_secret_2 =
     (let transcript_digest = hash_digest H (k2b_transcript_hasher builder) in
      bind_result (derive_keys H
        [k2b_shared_secret_1 builder, shared_secret_2, k2b_shared_secret_3 builder]
        transcript_digest) (\<lambda>keys.
      bind_result (eval_st (compute_ke2_macs H keys transcript_digest)
        (k2b_transcript_hasher builder)) (\<lambda>(mac, expected_mac).
      Ok (\<lparr>k2s_session_key = dk_session_key keys, k2s_expected_mac = expected_mac\<rparr>,
          \<lparr>k2m_server_nonce = k2b_server_nonce builder,
           k2m_server_e_pk = k2b_server_e_pk builder, k2m_mac = mac\<rparr>))))"

definition tdh_generate_ke3 ::
    "('sk, 'pk) ke_group \<Rightarrow> ('sk, 'pk) diffie_hellman \<Rightarrow> hash_fns \<Rightarrow>
     serialized_credential_request \<Rightarrow> 'pk ke1_message \<Rightarrow> serialized_credential_response \<Rightarrow>
     'sk ke1_state \<Rightarrow> 'pk ke2_message \<Rightarrow> 'pk \<Rightarrow> 'sk \<Rightarrow> serialized_identifiers \<Rightarrow>
     serialized_context \<Rightarrow> (rng, protocol_error, bytes \<times> ke3_message) st" where
  "tdh_generate_ke3 G dh H credential_request ke1_message credential_response state ke2_message
      server_s_pk client_s_sk sids ctx =
     (let transcript_hasher = transcript ctx sids credential_request (to_iter G ke1_message)
            credential_response (k2m_server_nonce ke2_message)
            (public_key_serialize G (k2m_server_e_pk ke2_message));
          shared_secret_1 = ke_diffie_hellman dh (client_e_sk state) (k2m_server_e_pk ke2_message);
          shared_secret_2 = ke_diffie_hellman dh (client_e_sk state) server_s_pk;
          shared_secret_3 = ke_diffie_hellman dh client_s_sk (k2m_server_e_pk ke2_message) in
      bind_st (lift_st (eval_st (finalize_ke3_transcript H
        [shared_secret_1, shared_secret_2, shared_secret_3] (k2m_mac ke2_message))
        transcript_hasher)) (\<lambda>(keys, client_mac).
      return_st (dk_session_key keys, \<lparr>k3m_mac = client_mac\<rparr>)))"

definition tdh_finish_ke ::
    "ke2_state \<Rightarrow> ke3_message \<Rightarrow> identifiers \<Rightarrow> serialized_context \<Rightarrow>
     (protocol_error, bytes) result" where
  "tdh_finish_ke state ke3_message ids ctx =
     ok_or InvalidLoginError
       (if k2s_expected_mac state = k3m_mac ke3_message then Some (k2s_session_key state) else None)"

section \<open>Serialization\<close>

definition ke2_state_serialize :: "ke2_state \<Rightarrow> bytes" where
  "ke2_state_serialize self = cat (k2s_session_key self) (k2s_expected_mac self)"

definition ke2_state_deserialize_take :: "hash_fns \<Rightarrow> (bytes, protocol_error, ke2_state) st" where
  "ke2_state_deserialize_take H =
     bind_st (take_array (hash_len H) ''session key'') (\<lambda>session_key.
     bind_st (take_array (hash_len H) ''expected mac'') (\<lambda>expected_mac.
     return_st \<lparr>k2s_session_key = session_key, k2s_expected_mac = expected_mac\<rparr>))"

definition ke2_message_serialize :: "('sk, 'pk) ke_group \<Rightarrow> 'pk ke2_message \<Rightarrow> bytes" where
  "ke2_message_serialize G self =
     cat (cat (k2m_server_nonce self) (public_key_serialize G (k2m_server_e_pk self)))
         (k2m_mac self)"

definition ke2_message_deserialize_take ::
    "('sk, 'pk) ke_group \<Rightarrow> hash_fns \<Rightarrow> (bytes, protocol_error, 'pk ke2_message) st" where
  "ke2_message_deserialize_take G H =
     bind_st (take_array nonce_len ''server nonce'') (\<lambda>server_nonce.
     bind_st (public_key_deserialize_take G) (\<lambda>server_e_pk.
     bind_st (take_array (hash_len H) ''mac'') (\<lambda>mac.
     return_st \<lparr>k2m_server_nonce = server_nonce, k2m_server_e_pk = server_e_pk,
                k2m_mac = mac\<rparr>)))"

definition ke3_message_serialize :: "ke3_message \<Rightarrow> bytes" where
  "ke3_message_serialize self = k3m_mac self"

definition ke3_message_deserialize_take :: "hash_fns \<Rightarrow> (bytes, protocol_error, ke3_message) st" where
  "ke3_message_deserialize_take H =
     bind_st (take_array (hash_len H) ''mac'') (\<lambda>mac. return_st \<lparr>k3m_mac = mac\<rparr>)"

section \<open>The trait implementation\<close>

definition triple_dh ::
    "('sk, 'pk) ke_group \<Rightarrow> ('sk, 'pk) diffie_hellman \<Rightarrow> hash_fns \<Rightarrow>
     ('sk, 'pk, 'sk ke1_state, 'pk ke1_message, ke2_state, 'pk ke2_builder, 'pk, bytes,
      'pk ke2_message, ke3_message) key_exchange" where
  "triple_dh G dh H =
     \<lparr>ke_grp = G, ke_hash = H,
      generate_ke1 = tdh_generate_ke1 G,
      ke2_builder = tdh_ke2_builder G dh,
      ke2_builder_data = tdh_ke2_builder_data,
      generate_ke2_input = tdh_generate_ke2_input dh,
      build_ke2 = tdh_build_ke2 H,
      generate_ke3 = tdh_generate_ke3 G dh H,
      finish_ke = tdh_finish_ke,
      ke1_state_wire = \<lparr>wire_len = sk_len G + nonce_len,
        wire_serialize = ke1_state_serialize G,
        wire_deserialize_take = ke1_state_deserialize_take G\<rparr>,
      ke1_message_wire = \<lparr>wire_len = nonce_len + pk_len G,
        wire_serialize = ke1_message_serialize G,
        wire_deserialize_take = ke1_message_deserialize_take G\<rparr>,
      ke2_state_wire = \<lparr>wire_len = hash_len H + hash_len H,
        wire_serialize = ke2_state_serialize,
        wire_deserialize_take = ke2_state_deserialize_take H\<rparr>,
      ke2_message_wire = \<lparr>wire_len = nonce_len + pk_len G + hash_len H,
        wire_serialize = ke2_message_serialize G,
        wire_deserialize_take = ke2_message_deserialize_take G H\<rparr>,
      ke3_message_wire = \<lparr>wire_len = hash_len H,
        wire_serialize = ke3_message_serialize,
        wire_deserialize_take = ke3_message_deserialize_take H\<rparr>\<rparr>"

section \<open>Facts\<close>

definition ke2_state_ok :: "hash_fns \<Rightarrow> ke2_state \<Rightarrow> bool" where
  "ke2_state_ok H s \<longleftrightarrow>
     length (k2s_session_key s) = hash_len H \<and> length (k2s_expected_mac s) = hash_len H"

definition ke2_message_ok :: "hash_fns \<Rightarrow> ('pk \<Rightarrow> bool) \<Rightarrow> 'pk ke2_message \<Rightarrow> bool" where
  "ke2_message_ok H wf_pk m \<longleftrightarrow>
     length (k2m_server_nonce m) = nonce_len \<and> wf_pk (k2m_server_e_pk m) \<and>
     length (k2m_mac m) = hash_len H"

definition ke3_message_ok :: "hash_fns \<Rightarrow> ke3_message \<Rightarrow> bool" where
  "ke3_message_ok H m \<longleftrightarrow> length (k3m_mac m) = hash_len H"

interpretation ke2_state_codec: canonical_codec
  ke2_state_serialize "ke2_state_deserialize_take H" "hash_len H + hash_len H" "ke2_state_ok H" True
  for H :: hash_fns
  by unfold_locales
     (auto simp: ke2_state_serialize_def ke2_state_deserialize_take_def ke2_state_ok_def cat_def
       ok_iffs take_array_Ok_iff)

interpretation ke2_message_codec: wire_codec
  "ke2_message_serialize G" "ke2_message_deserialize_take G H" "nonce_len + pk_len G + hash_len H"
  "\<lambda>m. group_ok G wf_sk wf_pk \<and> ke2_message_ok H wf_pk m"
  for G :: "('sk, 'pk) ke_group" and H :: hash_fns and wf_sk wf_pk
  by unfold_locales
     (auto simp: ke2_message_serialize_def ke2_message_deserialize_take_def ke2_message_ok_def
       key_defs cat_def any_group.pk_length any_group.pk_roundtrip)

interpretation ke3_message_codec: canonical_codec
  ke3_message_serialize "ke3_message_deserialize_take H" "hash_len H" "ke3_message_ok H" True
  for H :: hash_fns
  by unfold_locales
     (auto simp: ke3_message_serialize_def ke3_message_deserialize_take_def ke3_message_ok_def
       ok_iffs take_array_Ok_iff)

lemma tdh_build_ke2_Ok_iff:
  "tdh_build_ke2 H b ss2 = Ok (st2, m2) \<longleftrightarrow>
     (\<exists>dk mac em th. derive_keys H [k2b_shared_secret_1 b, ss2, k2b_shared_secret_3 b]
          (hash_digest H (k2b_transcript_hasher b)) = Ok dk \<and>
        compute_ke2_macs H dk (hash_digest H (k2b_transcript_hasher b)) (k2b_transcript_hasher b)
          = (Ok (mac, em), th) \<and>
        st2 = \<lparr>k2s_session_key = dk_session_key dk, k2s_expected_mac = em\<rparr> \<and>
        m2 = \<lparr>k2m_server_nonce = k2b_server_nonce b, k2m_server_e_pk = k2b_server_e_pk b,
              k2m_mac = mac\<rparr>)"
  by (auto simp: tdh_build_ke2_def ok_iffs Let_def)

lemma tdh_build_ke2_total:
  assumes "hash_ok H"
  shows "\<exists>st2 m2. tdh_build_ke2 H b ss2 = Ok (st2, m2)"
proof -
  obtain dk where
    dk: "derive_keys H [k2b_shared_secret_1 b, ss2, k2b_shared_secret_3 b]
      (hash_digest H (k2b_transcript_hasher b)) = Ok dk"
    using derive_keys_total [OF assms] hash_okD(3) [OF assms] by metis
  with compute_ke2_macs_total [OF assms, of dk "hash_digest H (k2b_transcript_hasher b)"
      "k2b_transcript_hasher b"]
  show ?thesis unfolding tdh_build_ke2_Ok_iff by blast
qed

text \<open>What a session of the contract is for this implementation.\<close>

lemma tdh_session:
  assumes "ke_session (triple_dh G dh H) ids c_sk s_sk req resp sids ctx st1 m1 st2 m2"
  obtains r1 r1' kp r2 r2' n dk mac em th ss1 ss2 ss3 where
    "shared_generate_ke1 G r1 = (Ok (st1, m1), r1')"
    "keypair_derive_random G r2 = (Ok kp, r2')" "length n = nonce_len"
    "th = transcript ctx sids req (to_iter G m1) resp n (serialize_pk G (kp_pk kp))"
    "ss1 = dh (kp_sk kp) (client_e_pk m1)" "ss2 = dh s_sk (client_e_pk m1)"
    "ss3 = dh (kp_sk kp) (public_key G c_sk)"
    "derive_keys H [ss1, ss2, ss3] (hash_digest H th) = Ok dk"
    "compute_ke2_macs H dk (hash_digest H th) th = (Ok (mac, em), th @ mac)"
    "st2 = \<lparr>k2s_session_key = dk_session_key dk, k2s_expected_mac = em\<rparr>"
    "m2 = \<lparr>k2m_server_nonce = n, k2m_server_e_pk = kp_pk kp, k2m_mac = mac\<rparr>"
proof -
  from assms obtain r1 r1' where g1: "shared_generate_ke1 G r1 = (Ok (st1, m1), r1')"
    by (auto simp: ke_session_def triple_dh_def tdh_generate_ke1_def)
  from assms obtain b r2 r2' input r3 r3' where
    b: "tdh_ke2_builder G dh req m1 resp (public_key G c_sk) sids ctx r2 = (Ok b, r2')"
    and input: "tdh_generate_ke2_input dh b s_sk r3 = (input, r3')"
    and build: "tdh_build_ke2 H b input = Ok (st2, m2)"
    by (auto simp: ke_session_def triple_dh_def)
  from b obtain kp r n where kp: "keypair_derive_random G r2 = (Ok kp, r)"
    and n: "generate_nonce r = (n, r2')"
    and bdef: "b = \<lparr>k2b_server_nonce = n, k2b_transcript_hasher =
        transcript ctx sids req (to_iter G m1) resp n (serialize_pk G (kp_pk kp)),
      k2b_client_e_pk = client_e_pk m1, k2b_server_e_pk = kp_pk kp,
      k2b_shared_secret_1 = dh (kp_sk kp) (client_e_pk m1),
      k2b_shared_secret_3 = dh (kp_sk kp) (public_key G c_sk)\<rparr>"
    by (auto simp: tdh_ke2_builder_def bind_st_Ok_iff ke2_builder_common_Ok_iff)
  from input bdef have inp: "input = dh s_sk (client_e_pk m1)"
    by (simp add: tdh_generate_ke2_input_def key_defs)
  from build obtain dk mac em th' where
    "derive_keys H [k2b_shared_secret_1 b, input, k2b_shared_secret_3 b]
       (hash_digest H (k2b_transcript_hasher b)) = Ok dk"
    and c: "compute_ke2_macs H dk (hash_digest H (k2b_transcript_hasher b)) (k2b_transcript_hasher b)
          = (Ok (mac, em), th')"
    and "st2 = \<lparr>k2s_session_key = dk_session_key dk, k2s_expected_mac = em\<rparr>"
    and "m2 = \<lparr>k2m_server_nonce = k2b_server_nonce b, k2m_server_e_pk = k2b_server_e_pk b,
              k2m_mac = mac\<rparr>"
    by (auto simp: tdh_build_ke2_Ok_iff)
  moreover from c have "th' = k2b_transcript_hasher b @ mac"
    by (auto simp: compute_ke2_macs_Ok_iff)
  ultimately show thesis
    using that [OF g1 kp generate_nonce_length [OF n] refl refl refl refl] inp bdef by simp
qed

lemma tdh_session_ok:
  assumes "dh_ok G dh wf_sk wf_pk" "hash_ok H" "wf_sk c_sk"
    and "ke_session (triple_dh G dh H) ids c_sk s_sk req resp sids ctx st1 m1 st2 m2"
  shows "ke2_state_ok H st2 \<and> ke2_message_ok H wf_pk m2"
  using assms(4)
proof (rule tdh_session)
  fix r2 r2' kp n dk mac em th ss1 ss2 ss3
  assume kp: "keypair_derive_random G r2 = (Ok kp, r2')" and n: "length n = nonce_len"
    and dk: "derive_keys H [ss1, ss2, ss3] (hash_digest H th) = Ok dk"
    and c: "compute_ke2_macs H dk (hash_digest H th) th = (Ok (mac, em), th @ mac)"
    and res: "st2 = \<lparr>k2s_session_key = dk_session_key dk, k2s_expected_mac = em\<rparr>"
      "m2 = \<lparr>k2m_server_nonce = n, k2m_server_e_pk = kp_pk kp, k2m_mac = mac\<rparr>"
  have "wf_pk (kp_pk kp)"
    using keypair_derive_random_wf [OF dh_ok_group_ok [OF assms(1)] kp] by simp
  moreover have "length mac = hash_len H" "length em = hash_len H"
    using compute_ke2_macs_total [OF assms(2), of dk "hash_digest H th" th] c by auto
  ultimately show ?thesis
    using n derive_keys_session_key_length [OF assms(2) dk]
    by (simp add: res ke2_state_ok_def ke2_message_ok_def)
qed

text \<open>Both parties compute the same three shared secrets.\<close>

lemma dh_secrets_agree:
  assumes dh: "dh_ok G dh wf_sk wf_pk" and "wf_sk c_sk" "wf_sk s_sk"
    and g1: "shared_generate_ke1 G r1 = (Ok (st1, m1), r1')"
    and kp: "keypair_derive_random G r2 = (Ok kp, r2')"
  shows "dh (client_e_sk st1) (kp_pk kp) = dh (kp_sk kp) (client_e_pk m1)"
    and "dh (client_e_sk st1) (public_key G s_sk) = dh s_sk (client_e_pk m1)"
    and "dh c_sk (kp_pk kp) = dh (kp_sk kp) (public_key G c_sk)"
proof -
  note G = dh_ok_group_ok [OF dh]
  have e: "client_e_pk m1 = public_key G (client_e_sk st1)" "wf_sk (client_e_sk st1)"
    using generate_ke1_ok [OF G g1] by (simp_all add: ke1_state_ok_def)
  have s: "kp_pk kp = public_key G (kp_sk kp)" "wf_sk (kp_sk kp)"
    using keypair_derive_random_wf [OF G kp] keypair_derive_random_consistent [OF kp]
    by (simp_all add: keypair_consistent_def)
  show "dh (client_e_sk st1) (kp_pk kp) = dh (kp_sk kp) (client_e_pk m1)"
    "dh (client_e_sk st1) (public_key G s_sk) = dh s_sk (client_e_pk m1)"
    "dh c_sk (kp_pk kp) = dh (kp_sk kp) (public_key G c_sk)"
    using any_dh.dh_agree [OF dh] assms(2,3) e s by simp_all
qed

lemma tdh_agreement:
  assumes dh: "dh_ok G dh wf_sk wf_pk" and H: "hash_ok H" and "wf_sk c_sk" "wf_sk s_sk"
    and "ke_session (triple_dh G dh H) ids c_sk s_sk req resp sids ctx st1 m1 st2 m2"
  shows "\<exists>m3. tdh_generate_ke3 G dh H req m1 resp st1 m2 (public_key G s_sk) c_sk sids ctx r
      = (Ok (k2s_session_key st2, m3), r) \<and> ke3_message_ok H m3 \<and>
    tdh_finish_ke st2 m3 ids' ctx' = Ok (k2s_session_key st2)"
  using assms(5)
proof (rule tdh_session)
  fix r1 r1' kp r2 r2' n dk mac em th ss1 ss2 ss3
  assume g1: "shared_generate_ke1 G r1 = (Ok (st1, m1), r1')"
    and kp: "keypair_derive_random G r2 = (Ok kp, r2')"
    and th: "th = transcript ctx sids req (to_iter G m1) resp n (serialize_pk G (kp_pk kp))"
    and ss: "ss1 = dh (kp_sk kp) (client_e_pk m1)" "ss2 = dh s_sk (client_e_pk m1)"
      "ss3 = dh (kp_sk kp) (public_key G c_sk)"
    and dk: "derive_keys H [ss1, ss2, ss3] (hash_digest H th) = Ok dk"
    and c: "compute_ke2_macs H dk (hash_digest H th) th = (Ok (mac, em), th @ mac)"
    and res: "st2 = \<lparr>k2s_session_key = dk_session_key dk, k2s_expected_mac = em\<rparr>"
      "m2 = \<lparr>k2m_server_nonce = n, k2m_server_e_pk = kp_pk kp, k2m_mac = mac\<rparr>"
  have "dh (client_e_sk st1) (kp_pk kp) = ss1" "dh (client_e_sk st1) (public_key G s_sk) = ss2"
    "dh c_sk (kp_pk kp) = ss3"
    using dh_secrets_agree [OF dh assms(3,4) g1 kp] by (simp_all add: ss)
  moreover have "length em = hash_len H"
    using compute_ke2_macs_total [OF H, of dk "hash_digest H th" th] c by auto
  ultimately show ?thesis
    using finalize_ke3_agrees [OF dk c]
    by (simp add: res tdh_generate_ke3_def tdh_finish_ke_def key_defs Let_def th [symmetric]
        eval_st_def ke3_message_ok_def)
qed

text \<open>A server MAC that is not the one of the session is rejected.\<close>

lemma tdh_bad_mac:
  assumes dh: "dh_ok G dh wf_sk wf_pk" and "wf_sk c_sk" "wf_sk s_sk"
    and "ke_session (triple_dh G dh H) ids c_sk s_sk req resp sids ctx st1 m1 st2 m2"
    and "mac' \<noteq> k2m_mac m2"
  shows "tdh_generate_ke3 G dh H req m1 resp st1 (m2\<lparr>k2m_mac := mac'\<rparr>) (public_key G s_sk) c_sk
    sids ctx r = (Err InvalidLoginError, r)"
  using assms(4)
proof (rule tdh_session)
  fix r1 r1' kp r2 r2' n dk mac em th ss1 ss2 ss3
  assume g1: "shared_generate_ke1 G r1 = (Ok (st1, m1), r1')"
    and kp: "keypair_derive_random G r2 = (Ok kp, r2')"
    and th: "th = transcript ctx sids req (to_iter G m1) resp n (serialize_pk G (kp_pk kp))"
    and ss: "ss1 = dh (kp_sk kp) (client_e_pk m1)" "ss2 = dh s_sk (client_e_pk m1)"
      "ss3 = dh (kp_sk kp) (public_key G c_sk)"
    and dk: "derive_keys H [ss1, ss2, ss3] (hash_digest H th) = Ok dk"
    and c: "compute_ke2_macs H dk (hash_digest H th) th = (Ok (mac, em), th @ mac)"
    and res: "st2 = \<lparr>k2s_session_key = dk_session_key dk, k2s_expected_mac = em\<rparr>"
      "m2 = \<lparr>k2m_server_nonce = n, k2m_server_e_pk = kp_pk kp, k2m_mac = mac\<rparr>"
  have "dh (client_e_sk st1) (kp_pk kp) = ss1" "dh (client_e_sk st1) (public_key G s_sk) = ss2"
    "dh c_sk (kp_pk kp) = ss3"
    using dh_secrets_agree [OF dh assms(2,3) g1 kp] by (simp_all add: ss)
  moreover have "mac' \<noteq> mac" using assms(5) by (simp add: res)
  ultimately show ?thesis
    using finalize_ke3_rejects [OF dk c]
    by (simp add: res tdh_generate_ke3_def key_defs Let_def th [symmetric] eval_st_def)
qed

section \<open>The contract\<close>

interpretation tdh: live_key_exchange "triple_dh G dh H"
  "dh_ok G dh wf_sk wf_pk \<and> hash_ok H" ne OH wf_sk wf_pk
  "ke1_state_ok wf_sk" "ke1_message_ok wf_pk" "ke2_state_ok H" "ke2_message_ok H wf_pk"
  "ke3_message_ok H" "derive_total G"
  for G :: "('sk, 'pk) ke_group" and dh H wf_sk wf_pk and ne :: nat and OH :: hash_fns
proof (unfold_locales, goal_cases)
  case 1
  then show ?case by (auto simp: triple_dh_def intro: dh_ok_group_ok)
next
  case 2
  then have "group_ok G wf_sk wf_pk" by (blast intro: dh_ok_group_ok)
  with ke1_state_codec.wire_codec_axioms [of G wf_sk wf_pk] show ?case
    by (simp add: triple_dh_def wire_ok_def)
next
  case 3
  then have "group_ok G wf_sk wf_pk" by (blast intro: dh_ok_group_ok)
  with ke1_message_codec.wire_codec_axioms [of G wf_sk wf_pk] show ?case
    by (simp add: triple_dh_def wire_ok_def)
next
  case 4
  show ?case using ke2_state_codec.wire_codec_axioms by (simp add: triple_dh_def wire_ok_def)
next
  case 5
  then have "group_ok G wf_sk wf_pk" by (blast intro: dh_ok_group_ok)
  with ke2_message_codec.wire_codec_axioms [of G H wf_sk wf_pk] show ?case
    by (simp add: triple_dh_def wire_ok_def)
next
  case 6
  show ?case using ke3_message_codec.wire_codec_axioms by (simp add: triple_dh_def wire_ok_def)
next
  case (7 r st1 m1 r')
  then have "group_ok G wf_sk wf_pk" by (blast intro: dh_ok_group_ok)
  with 7 show ?case
    using generate_ke1_ok [of G wf_sk wf_pk r st1 m1 r']
    by (simp add: triple_dh_def tdh_generate_ke1_def)
next
  case (8 c_sk s_sk req resp ids sids ctx st1 m1 st2 m2)
  show ?case
    by (rule tdh_session_ok [OF 8(1) [THEN conjunct1] 8(1) [THEN conjunct2] 8(2,6)])
next
  case (9 c_sk s_sk ids req resp sids ctx st1 m1 st2 m2 r)
  then obtain m3 where
    "tdh_generate_ke3 G dh H req m1 resp st1 m2 (public_key G s_sk) c_sk sids ctx r
       = (Ok (k2s_session_key st2, m3), r)" "ke3_message_ok H m3"
    "tdh_finish_ke st2 m3 ids ctx = Ok (k2s_session_key st2)"
    using tdh_agreement [OF 9(1) [THEN conjunct1] 9(1) [THEN conjunct2] 9(2-4)] by blast
  then show ?case by (simp add: triple_dh_def)
next
  case 10
  then show ?case by (simp add: triple_dh_def tdh_generate_ke1_def generate_ke1_total)
next
  case (11 r st1 m1 r' req resp cpk sids ctx r2)
  then obtain c r2' where
    "shared_ke2_builder_common G dh req m1 resp cpk sids ctx r2 = (Ok c, r2')"
    using ke2_builder_common_total by metis
  moreover have "is_ok (tdh_build_ke2 H b input)" for b :: "'pk ke2_builder" and input
    using tdh_build_ke2_total [of H b input] 11 by (auto simp: is_ok_def)
  ultimately show ?case by (simp add: triple_dh_def tdh_ke2_builder_def)
qed

text \<open>A concrete session.\<close>

lemma mini_tdh_session:
  obtains sids ctx req resp st1 m1 st2 m2 where
    "ke_session (triple_dh mini_group mini_dh (mini_hash 2)) sample_ids 5 6 req resp
      sids ctx st1 m1 st2 m2"
proof -
  obtain sids where "from_identifiers sample_ids [15] [18] = Ok sids"
    by (rule sample_ids_total)
  then have "from_identifiers sample_ids
      (serialize_pk (ke_grp (triple_dh mini_group mini_dh (mini_hash 2)))
        (public_key (ke_grp (triple_dh mini_group mini_dh (mini_hash 2))) 5))
      (serialize_pk (ke_grp (triple_dh mini_group mini_dh (mini_hash 2)))
        (public_key (ke_grp (triple_dh mini_group mini_dh (mini_hash 2))) 6)) = Ok sids"
    by (simp add: triple_dh_def)
  moreover have "hash_ok (mini_hash 2)" by (rule mini_hash_ok) simp_all
  ultimately have "\<exists>st1 m1 st2 m2. ke_session (triple_dh mini_group mini_dh (mini_hash 2))
      sample_ids 5 6 req resp sids ctx st1 m1 st2 m2" for req resp ctx
    by (intro tdh.session_exists [OF conjI [OF mini_dh_ok] mini_derive_total])
  then show thesis using that by blast
qed

section \<open>Properties\<close>

text \<open>
  C21. Two honest parties of 3DH agree: with the server's second message the client computes the
  server's session key, and the server accepts the client's answer with that session key and
  rejects every other third message with \<open>InvalidLoginError\<close>.
\<close>

theorem triple_dh_agreement:
  assumes "dh_ok G dh wf_sk wf_pk" "hash_ok H" "wf_sk c_sk" "wf_sk s_sk"
    and "ke_session (triple_dh G dh H) ids c_sk s_sk req resp sids ctx st1 m1 st2 m2"
  shows "\<exists>key m3. generate_ke3 (triple_dh G dh H) req m1 resp st1 m2 (public_key G s_sk) c_sk
      sids ctx r = (Ok (key, m3), r) \<and> length key = hash_len H \<and>
    (\<forall>m3'. finish_ke (triple_dh G dh H) st2 m3' ids ctx =
      (if m3' = m3 then Ok key else Err InvalidLoginError))"
proof -
  obtain m3 where
    m3: "tdh_generate_ke3 G dh H req m1 resp st1 m2 (public_key G s_sk) c_sk sids ctx r
       = (Ok (k2s_session_key st2, m3), r)"
    and fin: "tdh_finish_ke st2 m3 ids ctx = Ok (k2s_session_key st2)"
    using tdh_agreement [OF assms] by metis
  have "length (k2s_session_key st2) = hash_len H"
    using tdh_session_ok [OF assms(1-3,5)] by (simp add: ke2_state_ok_def)
  moreover have "k2s_expected_mac st2 = k3m_mac m3"
    using fin by (simp add: tdh_finish_ke_def split: if_splits)
  then have "tdh_finish_ke st2 m3' ids ctx =
      (if m3' = m3 then Ok (k2s_session_key st2) else Err InvalidLoginError)" for m3'
    by (simp add: tdh_finish_ke_def)
  ultimately show ?thesis using m3 by (simp add: triple_dh_def)
qed

text \<open>
  In 3DH the client authenticates the server: with a second message whose MAC is not the one
  that the server computed for the session, the client stops with \<open>InvalidLoginError\<close>.
\<close>

theorem triple_dh_rejects_server_mac:
  assumes "dh_ok G dh wf_sk wf_pk" "wf_sk c_sk" "wf_sk s_sk"
    and "ke_session (triple_dh G dh H) ids c_sk s_sk req resp sids ctx st1 m1 st2 m2"
    and "mac' \<noteq> k2m_mac m2"
  shows "generate_ke3 (triple_dh G dh H) req m1 resp st1 (m2\<lparr>k2m_mac := mac'\<rparr>)
    (public_key G s_sk) c_sk sids ctx r = (Err InvalidLoginError, r)"
  using tdh_bad_mac [OF assms] by (simp add: triple_dh_def)

theorem triple_dh_agreement_witness:
  "\<exists>req resp sids ctx st1 m1 st2 m2 key m3.
    ke_session (triple_dh mini_group mini_dh (mini_hash 2)) sample_ids 5 6 req resp sids ctx
      st1 m1 st2 m2 \<and>
    generate_ke3 (triple_dh mini_group mini_dh (mini_hash 2)) req m1 resp st1 m2 18 5 sids ctx
      (counter_rng 0) = (Ok (key, m3), counter_rng 0) \<and>
    finish_ke (triple_dh mini_group mini_dh (mini_hash 2)) st2 m3 sample_ids ctx = Ok key"
proof -
  have H: "hash_ok (mini_hash 2)" by (rule mini_hash_ok) simp_all
  obtain sids ctx req resp st1 m1 st2 m2 where
    session: "ke_session (triple_dh mini_group mini_dh (mini_hash 2)) sample_ids 5 6 req resp
      sids ctx st1 m1 st2 m2" by (rule mini_tdh_session)
  obtain key m3 where
    "generate_ke3 (triple_dh mini_group mini_dh (mini_hash 2)) req m1 resp st1 m2
       (public_key mini_group 6) 5 sids ctx (counter_rng 0) = (Ok (key, m3), counter_rng 0)"
    "finish_ke (triple_dh mini_group mini_dh (mini_hash 2)) st2 m3 sample_ids ctx = Ok key"
    using triple_dh_agreement [OF mini_dh_ok H _ _ session, of "counter_rng 0"] by auto
  with session show ?thesis by (intro exI conjI) simp_all
qed

theorem triple_dh_rejects_server_mac_witness:
  "\<exists>req resp sids ctx st1 m1 st2 m2.
    ke_session (triple_dh mini_group mini_dh (mini_hash 2)) sample_ids 5 6 req resp sids ctx
      st1 m1 st2 m2 \<and>
    generate_ke3 (triple_dh mini_group mini_dh (mini_hash 2)) req m1 resp st1
      (m2\<lparr>k2m_mac := k2m_mac m2 @ [0]\<rparr>) 18 5 sids ctx (counter_rng 0)
    = (Err InvalidLoginError, counter_rng 0)"
proof -
  obtain sids ctx req resp st1 m1 st2 m2 where
    session: "ke_session (triple_dh mini_group mini_dh (mini_hash 2)) sample_ids 5 6 req resp
      sids ctx st1 m1 st2 m2" by (rule mini_tdh_session)
  have "generate_ke3 (triple_dh mini_group mini_dh (mini_hash 2)) req m1 resp st1
      (m2\<lparr>k2m_mac := k2m_mac m2 @ [0]\<rparr>) (public_key mini_group 6) 5 sids ctx (counter_rng 0)
    = (Err InvalidLoginError, counter_rng 0)"
    by (rule triple_dh_rejects_server_mac [OF mini_dh_ok _ _ session]) simp_all
  with session show ?thesis by (intro exI conjI) simp_all
qed

end
