(* ===== verification/Triple_Dh_Kem.thy ===== *)
theory Triple_Dh_Kem
  imports Triple_Dh
begin

text \<open>
  \<open>src/key_exchange/tripledh_kem.rs\<close>: 3DH with the shared secret of a KEM as a fourth input of the
  key schedule. The trait \<open>KemCoreWrapper\<close> is a record with its contract as a locale; its
  implementation for the \<open>ml-kem\<close> crate takes the crate's functions, which are not in the
  repository, as a parameter.
\<close>

section \<open>The KEM interface\<close>

record ('dk, 'ek) kem_core_wrapper =
  ek_len :: nat
  dk_len :: nat
  ct_len :: nat
  kem_ss_len :: nat
  kem_generate :: "(rng, protocol_error, 'dk \<times> 'ek) st"
  serialize_encapsulation_key :: "'ek \<Rightarrow> bytes"
  deserialize_encapsulation_key :: "(bytes, protocol_error, 'ek) st"
  serialize_decapsulation_key :: "'dk \<Rightarrow> bytes"
  deserialize_decapsulation_key :: "(bytes, protocol_error, 'dk) st"
  kem_encapsulate :: "'ek \<Rightarrow> (rng, protocol_error, bytes \<times> bytes) st"
  kem_decapsulate :: "'dk \<Rightarrow> bytes \<Rightarrow> (protocol_error, bytes) result"

text \<open>
  \<open>wf_dk\<close> and \<open>wf_ek\<close> are the keys of the Rust types. Decapsulation with the key of the pair
  recovers the encapsulated secret (for ML-KEM: up to the failure probability of the scheme).
\<close>

locale kem_contract =
  fixes K :: "('dk, 'ek) kem_core_wrapper"
    and trusted :: bool
    and wf_dk :: "'dk \<Rightarrow> bool"
    and wf_ek :: "'ek \<Rightarrow> bool"
  assumes ek_codec: "trusted \<Longrightarrow> wire_codec (serialize_encapsulation_key K)
          (deserialize_encapsulation_key K) (ek_len K) wf_ek"
    and dk_codec: "trusted \<Longrightarrow> wire_codec (serialize_decapsulation_key K)
          (deserialize_decapsulation_key K) (dk_len K) wf_dk"
    and generate_wf: "trusted \<Longrightarrow> kem_generate K r = (Ok (dk, ek), r') \<Longrightarrow> wf_dk dk \<and> wf_ek ek"
    and encapsulate_length: "trusted \<Longrightarrow> wf_ek ek \<Longrightarrow> kem_encapsulate K ek r = (Ok (ct, ss), r') \<Longrightarrow>
          length ct = ct_len K \<and> length ss = kem_ss_len K"
    and decapsulates: "trusted \<Longrightarrow> kem_generate K r1 = (Ok (dk, ek), r1') \<Longrightarrow>
          kem_encapsulate K ek r2 = (Ok (ct, ss), r2') \<Longrightarrow> kem_decapsulate K dk ct = Ok ss"
    and generate_total: "trusted \<Longrightarrow> \<exists>kp r'. kem_generate K r = (Ok kp, r')"
    and encapsulate_total: "trusted \<Longrightarrow> wf_ek ek \<Longrightarrow> \<exists>c r'. kem_encapsulate K ek r = (Ok c, r')"
begin

text \<open>The server reads the encapsulation key from the bytes that the client sent.\<close>

lemma sent_key:
  assumes "trusted" "kem_generate K r = (Ok (dk, ek), r')"
  shows "eval_st (deserialize_encapsulation_key K) (serialize_encapsulation_key K ek) = Ok ek"
    and "length (serialize_encapsulation_key K ek) = ek_len K"
  using wire_codec.dec_enc_exact [OF ek_codec [OF assms(1)]]
    wire_codec.enc_length [OF ek_codec [OF assms(1)]] generate_wf [OF assms]
  by (simp_all add: eval_st_def)

end

definition kem_ok ::
    "('dk, 'ek) kem_core_wrapper \<Rightarrow> ('dk \<Rightarrow> bool) \<Rightarrow> ('ek \<Rightarrow> bool) \<Rightarrow> bool" where
  "kem_ok K wf_dk wf_ek \<longleftrightarrow> kem_contract K True wf_dk wf_ek"

interpretation any_kem: kem_contract K "kem_ok K wf_dk wf_ek" wf_dk wf_ek
  for K :: "('dk, 'ek) kem_core_wrapper" and wf_dk wf_ek
proof (cases "kem_ok K wf_dk wf_ek")
  case True
  then have "kem_contract K True wf_dk wf_ek" by (simp add: kem_ok_def)
  with True show "kem_contract K (kem_ok K wf_dk wf_ek) wf_dk wf_ek" by simp
qed (unfold_locales, simp_all)

section \<open>The adapter of the generator\<close>

text \<open>
  \<open>RngCompat\<close> forwards every method to the generator that it borrows.
\<close>

primcorec rng_compat :: "rng \<Rightarrow> rng" where
  "rng_next_u32 (rng_compat r) = map_prod id rng_compat (rng_next_u32 r)"
| "rng_next_u64 (rng_compat r) = map_prod id rng_compat (rng_next_u64 r)"
| "rng_fill (rng_compat r) = (\<lambda>k. map_prod id rng_compat (rng_fill r k))"

section \<open>The implementation for ML-KEM\<close>

text \<open>
  The \<open>ml-kem\<close> crate: \<open>generate_keypair_from_rng\<close>, \<open>to_bytes\<close> and \<open>new\<close> of the keys
  (\<open>TryKeyInit::new\<close> may refuse a public key), \<open>encapsulate_with_rng\<close>, \<open>decapsulate\<close>. Its array
  types have fixed lengths.
\<close>

record ('dk, 'ek) ml_kem =
  mk_ek_len :: nat
  mk_dk_len :: nat
  mk_ct_len :: nat
  mk_ss_len :: nat
  generate_keypair_from_rng :: "rng \<Rightarrow> ('dk \<times> 'ek) \<times> rng"
  ek_to_bytes :: "'ek \<Rightarrow> bytes"
  ek_try_new :: "bytes \<Rightarrow> 'ek option"
  dk_to_bytes :: "'dk \<Rightarrow> bytes"
  dk_new :: "bytes \<Rightarrow> 'dk"
  encapsulate_with_rng :: "'ek \<Rightarrow> rng \<Rightarrow> (bytes \<times> bytes) \<times> rng"
  mk_decapsulate :: "'dk \<Rightarrow> bytes \<Rightarrow> bytes"

text \<open>\<open>Array::try_from\<close> a slice: the length has to match.\<close>

definition array_try_from :: "nat \<Rightarrow> bytes \<Rightarrow> (protocol_error, bytes) result" where
  "array_try_from n bytes = (if length bytes = n then Ok bytes else Err SerializationError)"

definition ml_kem_generate ::
    "('dk, 'ek) ml_kem \<Rightarrow> (rng, protocol_error, 'dk \<times> 'ek) st" where
  "ml_kem_generate M rng = (case generate_keypair_from_rng M (rng_compat rng) of (kp, rng') \<Rightarrow>
     (Ok kp, rng'))"

definition ml_kem_deserialize_encapsulation_key ::
    "('dk, 'ek) ml_kem \<Rightarrow> (bytes, protocol_error, 'ek) st" where
  "ml_kem_deserialize_encapsulation_key M =
     bind_st (take_array (mk_ek_len M) ''kem encapsulation key'') (\<lambda>bytes.
     bind_st (lift_st (array_try_from (mk_ek_len M) bytes)) (\<lambda>key.
     lift_st (ok_or SerializationError (ek_try_new M key))))"

definition ml_kem_deserialize_decapsulation_key ::
    "('dk, 'ek) ml_kem \<Rightarrow> (bytes, protocol_error, 'dk) st" where
  "ml_kem_deserialize_decapsulation_key M =
     bind_st (take_array (mk_dk_len M) ''kem decapsulation key'') (\<lambda>bytes.
     bind_st (lift_st (array_try_from (mk_dk_len M) bytes)) (\<lambda>seed.
     return_st (dk_new M seed)))"

definition ml_kem_encapsulate ::
    "('dk, 'ek) ml_kem \<Rightarrow> 'ek \<Rightarrow> (rng, protocol_error, bytes \<times> bytes) st" where
  "ml_kem_encapsulate M key rng =
     (case encapsulate_with_rng M key (rng_compat rng) of ((ciphertext, shared), rng') \<Rightarrow>
        (Ok (ciphertext, shared), rng'))"

definition ml_kem_decapsulate ::
    "('dk, 'ek) ml_kem \<Rightarrow> 'dk \<Rightarrow> bytes \<Rightarrow> (protocol_error, bytes) result" where
  "ml_kem_decapsulate M key encapsulated_key =
     bind_result (array_try_from (mk_ct_len M) encapsulated_key) (\<lambda>ciphertext.
     Ok (mk_decapsulate M key ciphertext))"

definition ml_kem_wrapper :: "('dk, 'ek) ml_kem \<Rightarrow> ('dk, 'ek) kem_core_wrapper" where
  "ml_kem_wrapper M =
     \<lparr>ek_len = mk_ek_len M, dk_len = mk_dk_len M, ct_len = mk_ct_len M, kem_ss_len = mk_ss_len M,
      kem_generate = ml_kem_generate M,
      serialize_encapsulation_key = ek_to_bytes M,
      deserialize_encapsulation_key = ml_kem_deserialize_encapsulation_key M,
      serialize_decapsulation_key = dk_to_bytes M,
      deserialize_decapsulation_key = ml_kem_deserialize_decapsulation_key M,
      kem_encapsulate = ml_kem_encapsulate M,
      kem_decapsulate = ml_kem_decapsulate M\<rparr>"

section \<open>State and messages\<close>

record ('sk, 'dk) kem_ke1_state =
  kk1s_dh_state :: "'sk ke1_state"
  kem_decapsulation_key :: 'dk

record 'pk kem_ke1_message =
  kk1m_dh_message :: "'pk ke1_message"
  kk1m_encapsulation_key :: bytes

record kem_ke2_state =
  kk2s_base_state :: ke2_state
  kk2s_encapsulation_key :: bytes
  server_kem_ciphertext :: bytes

record 'pk kem_builder =
  kk2b_server_nonce :: bytes
  kk2b_transcript_hasher :: hasher
  kk2b_client_e_pk :: 'pk
  kk2b_server_e_pk :: 'pk
  kk2b_shared_secret_1 :: bytes
  kk2b_shared_secret_3 :: bytes
  kk2b_encapsulation_key :: bytes
  kk2b_ciphertext :: bytes
  kk2b_kem_shared_secret :: bytes

record 'pk kem_ke2_message =
  kk2m_dh_message :: "'pk ke2_message"
  kk2m_ciphertext :: bytes

type_synonym kem_ke3_message = ke3_message

section \<open>Steps\<close>

definition kem_generate_ke1 ::
    "('sk, 'pk) ke_group \<Rightarrow> ('dk, 'ek) kem_core_wrapper \<Rightarrow>
     (rng, protocol_error, ('sk, 'dk) kem_ke1_state \<times> 'pk kem_ke1_message) st" where
  "kem_generate_ke1 G K =
     bind_st (tdh_generate_ke1 G) (\<lambda>(base_state, base_message).
     bind_st (kem_generate K) (\<lambda>(kem_secret, kem_public).
     let encapsulation_key = serialize_encapsulation_key K kem_public in
     return_st
       (\<lparr>kk1s_dh_state = base_state, kem_decapsulation_key = kem_secret\<rparr>,
        \<lparr>kk1m_dh_message = base_message, kk1m_encapsulation_key = encapsulation_key\<rparr>)))"

definition kem_ke2_builder ::
    "('sk, 'pk) ke_group \<Rightarrow> ('sk, 'pk) diffie_hellman \<Rightarrow> ('dk, 'ek) kem_core_wrapper \<Rightarrow>
     serialized_credential_request \<Rightarrow> 'pk kem_ke1_message \<Rightarrow> serialized_credential_response \<Rightarrow>
     'pk \<Rightarrow> serialized_identifiers \<Rightarrow> serialized_context \<Rightarrow>
     (rng, protocol_error, 'pk kem_builder) st" where
  "kem_ke2_builder G dh K credential_request ke1_message credential_response client_s_pk sids ctx =
     bind_st (shared_ke2_builder_common G dh credential_request (kk1m_dh_message ke1_message)
       credential_response client_s_pk sids ctx) (\<lambda>c.
     bind_st (lift_st (eval_st (deserialize_encapsulation_key K)
       (kk1m_encapsulation_key ke1_message))) (\<lambda>encapsulation_key.
     bind_st (kem_encapsulate K encapsulation_key) (\<lambda>(kem_ciphertext, kem_shared_secret).
     let transcript_hasher = kbc_transcript_hasher c;
         transcript_hasher = transcript_hasher @ kk1m_encapsulation_key ke1_message;
         transcript_hasher = transcript_hasher @ kem_ciphertext
     in return_st
       \<lparr>kk2b_server_nonce = kbc_server_nonce c, kk2b_transcript_hasher = transcript_hasher,
        kk2b_client_e_pk = kbc_client_e_pk c, kk2b_server_e_pk = kbc_server_e_pk c,
        kk2b_shared_secret_1 = kbc_shared_secret_1 c,
        kk2b_shared_secret_3 = kbc_shared_secret_3 c,
        kk2b_encapsulation_key = kk1m_encapsulation_key ke1_message,
        kk2b_ciphertext = kem_ciphertext, kk2b_kem_shared_secret = kem_shared_secret\<rparr>)))"

definition kem_ke2_builder_data :: "'pk kem_builder \<Rightarrow> 'pk \<times> bytes" where
  "kem_ke2_builder_data builder = (kk2b_client_e_pk builder, kk2b_encapsulation_key builder)"

definition kem_generate_ke2_input ::
    "('sk, 'pk) diffie_hellman \<Rightarrow> 'pk kem_builder \<Rightarrow> 'sk \<Rightarrow> rng \<Rightarrow> bytes \<times> rng" where
  "kem_generate_ke2_input dh builder server_s_sk rng =
     (ke_diffie_hellman dh server_s_sk (kk2b_client_e_pk builder), rng)"

definition kem_build_ke2 ::
    "hash_fns \<Rightarrow> 'pk kem_builder \<Rightarrow> bytes \<Rightarrow>
     (protocol_error, kem_ke2_state \<times> 'pk kem_ke2_message) result" where
  "kem_build_ke2 H builder shared_secret_2 =
     (let transcript_digest = hash_digest H (kk2b_transcript_hasher builder) in
      bind_result (derive_keys H
        [kk2b_shared_secret_1 builder, shared_secret_2, kk2b_shared_secret_3 builder,
         kk2b_kem_shared_secret builder] transcript_digest) (\<lambda>keys.
      bind_result (eval_st (compute_ke2_macs H keys transcript_digest)
        (kk2b_transcript_hasher builder)) (\<lambda>(mac, expected_mac).
      Ok (\<lparr>kk2s_base_state =
             \<lparr>k2s_session_key = dk_session_key keys, k2s_expected_mac = expected_mac\<rparr>,
           kk2s_encapsulation_key = kk2b_encapsulation_key builder,
           server_kem_ciphertext = kk2b_ciphertext builder\<rparr>,
          \<lparr>kk2m_dh_message =
             \<lparr>k2m_server_nonce = kk2b_server_nonce builder,
              k2m_server_e_pk = kk2b_server_e_pk builder, k2m_mac = mac\<rparr>,
           kk2m_ciphertext = kk2b_ciphertext builder\<rparr>))))"

definition kem_generate_ke3 ::
    "('sk, 'pk) ke_group \<Rightarrow> ('sk, 'pk) diffie_hellman \<Rightarrow> hash_fns \<Rightarrow> ('dk, 'ek) kem_core_wrapper \<Rightarrow>
     serialized_credential_request \<Rightarrow> 'pk kem_ke1_message \<Rightarrow> serialized_credential_response \<Rightarrow>
     ('sk, 'dk) kem_ke1_state \<Rightarrow> 'pk kem_ke2_message \<Rightarrow> 'pk \<Rightarrow> 'sk \<Rightarrow> serialized_identifiers \<Rightarrow>
     serialized_context \<Rightarrow> (rng, protocol_error, bytes \<times> kem_ke3_message) st" where
  "kem_generate_ke3 G dh H K credential_request ke1_message credential_response state ke2_message
      server_s_pk client_s_sk sids ctx =
     (let dh_message = kk2m_dh_message ke2_message;
          transcript_hasher = transcript ctx sids credential_request
            (to_iter G (kk1m_dh_message ke1_message)) credential_response
            (k2m_server_nonce dh_message) (public_key_serialize G (k2m_server_e_pk dh_message));
          transcript_hasher = transcript_hasher @ kk1m_encapsulation_key ke1_message;
          transcript_hasher = transcript_hasher @ kk2m_ciphertext ke2_message;
          e_sk = client_e_sk (kk1s_dh_state state);
          shared_secret_1 = ke_diffie_hellman dh e_sk (k2m_server_e_pk dh_message);
          shared_secret_2 = ke_diffie_hellman dh e_sk server_s_pk;
          shared_secret_3 = ke_diffie_hellman dh client_s_sk (k2m_server_e_pk dh_message) in
      bind_st (lift_st (kem_decapsulate K (kem_decapsulation_key state)
        (kk2m_ciphertext ke2_message))) (\<lambda>kem_shared_secret.
      bind_st (lift_st (eval_st (finalize_ke3_transcript H
        [shared_secret_1, shared_secret_2, shared_secret_3, kem_shared_secret]
        (k2m_mac dh_message)) transcript_hasher)) (\<lambda>(keys, client_mac).
      return_st (dk_session_key keys, \<lparr>k3m_mac = client_mac\<rparr>))))"

definition kem_finish_ke ::
    "kem_ke2_state \<Rightarrow> kem_ke3_message \<Rightarrow> identifiers \<Rightarrow> serialized_context \<Rightarrow>
     (protocol_error, bytes) result" where
  "kem_finish_ke state ke3_message ids ctx =
     ok_or InvalidLoginError
       (if k2s_expected_mac (kk2s_base_state state) = k3m_mac ke3_message
        then Some (k2s_session_key (kk2s_base_state state)) else None)"

section \<open>Serialization\<close>

definition kem_ke1_state_serialize ::
    "('sk, 'pk) ke_group \<Rightarrow> ('dk, 'ek) kem_core_wrapper \<Rightarrow> ('sk, 'dk) kem_ke1_state \<Rightarrow> bytes" where
  "kem_ke1_state_serialize G K self =
     cat (ke1_state_serialize G (kk1s_dh_state self))
         (serialize_decapsulation_key K (kem_decapsulation_key self))"

definition kem_ke1_state_deserialize_take ::
    "('sk, 'pk) ke_group \<Rightarrow> ('dk, 'ek) kem_core_wrapper \<Rightarrow>
     (bytes, protocol_error, ('sk, 'dk) kem_ke1_state) st" where
  "kem_ke1_state_deserialize_take G K =
     bind_st (ke1_state_deserialize_take G) (\<lambda>dh_state.
     bind_st (deserialize_decapsulation_key K) (\<lambda>dk.
     return_st \<lparr>kk1s_dh_state = dh_state, kem_decapsulation_key = dk\<rparr>))"

definition kem_ke1_message_serialize ::
    "('sk, 'pk) ke_group \<Rightarrow> 'pk kem_ke1_message \<Rightarrow> bytes" where
  "kem_ke1_message_serialize G self =
     cat (ke1_message_serialize G (kk1m_dh_message self)) (kk1m_encapsulation_key self)"

definition kem_ke1_message_deserialize_take ::
    "('sk, 'pk) ke_group \<Rightarrow> ('dk, 'ek) kem_core_wrapper \<Rightarrow>
     (bytes, protocol_error, 'pk kem_ke1_message) st" where
  "kem_ke1_message_deserialize_take G K =
     bind_st (ke1_message_deserialize_take G) (\<lambda>dh_message.
     bind_st (take_array (ek_len K) ''kem encapsulation key'') (\<lambda>ek.
     return_st \<lparr>kk1m_dh_message = dh_message, kk1m_encapsulation_key = ek\<rparr>))"

definition kem_ke2_state_serialize :: "kem_ke2_state \<Rightarrow> bytes" where
  "kem_ke2_state_serialize self =
     cat (cat (ke2_state_serialize (kk2s_base_state self)) (kk2s_encapsulation_key self))
         (server_kem_ciphertext self)"

definition kem_ke2_state_deserialize_take ::
    "hash_fns \<Rightarrow> ('dk, 'ek) kem_core_wrapper \<Rightarrow> (bytes, protocol_error, kem_ke2_state) st" where
  "kem_ke2_state_deserialize_take H K =
     bind_st (ke2_state_deserialize_take H) (\<lambda>base_state.
     bind_st (take_array (ek_len K) ''kem encapsulation key'') (\<lambda>ek.
     bind_st (take_array (ct_len K) ''kem ciphertext'') (\<lambda>ct.
     return_st \<lparr>kk2s_base_state = base_state, kk2s_encapsulation_key = ek,
                server_kem_ciphertext = ct\<rparr>)))"

definition kem_ke2_message_serialize ::
    "('sk, 'pk) ke_group \<Rightarrow> 'pk kem_ke2_message \<Rightarrow> bytes" where
  "kem_ke2_message_serialize G self =
     cat (ke2_message_serialize G (kk2m_dh_message self)) (kk2m_ciphertext self)"

definition kem_ke2_message_deserialize_take ::
    "('sk, 'pk) ke_group \<Rightarrow> hash_fns \<Rightarrow> ('dk, 'ek) kem_core_wrapper \<Rightarrow>
     (bytes, protocol_error, 'pk kem_ke2_message) st" where
  "kem_ke2_message_deserialize_take G H K =
     bind_st (ke2_message_deserialize_take G H) (\<lambda>dh_message.
     bind_st (take_array (ct_len K) ''kem ciphertext'') (\<lambda>ct.
     return_st \<lparr>kk2m_dh_message = dh_message, kk2m_ciphertext = ct\<rparr>))"

section \<open>The trait implementation\<close>

definition triple_dh_kem ::
    "('sk, 'pk) ke_group \<Rightarrow> ('sk, 'pk) diffie_hellman \<Rightarrow> hash_fns \<Rightarrow> ('dk, 'ek) kem_core_wrapper \<Rightarrow>
     ('sk, 'pk, ('sk, 'dk) kem_ke1_state, 'pk kem_ke1_message, kem_ke2_state, 'pk kem_builder,
      'pk \<times> bytes, bytes, 'pk kem_ke2_message, kem_ke3_message) key_exchange" where
  "triple_dh_kem G dh H K =
     \<lparr>ke_grp = G, ke_hash = H,
      generate_ke1 = kem_generate_ke1 G K,
      ke2_builder = kem_ke2_builder G dh K,
      ke2_builder_data = kem_ke2_builder_data,
      generate_ke2_input = kem_generate_ke2_input dh,
      build_ke2 = kem_build_ke2 H,
      generate_ke3 = kem_generate_ke3 G dh H K,
      finish_ke = kem_finish_ke,
      ke1_state_wire = \<lparr>wire_len = sk_len G + nonce_len + dk_len K,
        wire_serialize = kem_ke1_state_serialize G K,
        wire_deserialize_take = kem_ke1_state_deserialize_take G K\<rparr>,
      ke1_message_wire = \<lparr>wire_len = nonce_len + pk_len G + ek_len K,
        wire_serialize = kem_ke1_message_serialize G,
        wire_deserialize_take = kem_ke1_message_deserialize_take G K\<rparr>,
      ke2_state_wire = \<lparr>wire_len = hash_len H + hash_len H + ek_len K + ct_len K,
        wire_serialize = kem_ke2_state_serialize,
        wire_deserialize_take = kem_ke2_state_deserialize_take H K\<rparr>,
      ke2_message_wire = \<lparr>wire_len = nonce_len + pk_len G + hash_len H + ct_len K,
        wire_serialize = kem_ke2_message_serialize G,
        wire_deserialize_take = kem_ke2_message_deserialize_take G H K\<rparr>,
      ke3_message_wire = \<lparr>wire_len = hash_len H,
        wire_serialize = ke3_message_serialize,
        wire_deserialize_take = ke3_message_deserialize_take H\<rparr>\<rparr>"

section \<open>Facts\<close>

lemma rng_compat_id: "rng_compat r = r"
proof (coinduction arbitrary: r)
  case Eq_rng
  show ?case
    by (cases "rng_next_u32 r"; cases "rng_next_u64 r") (auto simp: rel_fun_def prod.rel_eq
        rel_prod_sel)
qed

definition ml_kem_ok :: "('dk, 'ek) ml_kem \<Rightarrow> ('dk \<Rightarrow> bool) \<Rightarrow> ('ek \<Rightarrow> bool) \<Rightarrow> bool" where
  "ml_kem_ok M wf_dk wf_ek \<longleftrightarrow>
     (\<forall>ek. wf_ek ek \<longrightarrow> length (ek_to_bytes M ek) = mk_ek_len M \<and>
        ek_try_new M (ek_to_bytes M ek) = Some ek) \<and>
     (\<forall>dk. wf_dk dk \<longrightarrow> length (dk_to_bytes M dk) = mk_dk_len M \<and>
        dk_new M (dk_to_bytes M dk) = dk) \<and>
     (\<forall>r dk ek r'. generate_keypair_from_rng M r = ((dk, ek), r') \<longrightarrow> wf_dk dk \<and> wf_ek ek \<and>
        (\<forall>r2 ct ss r2'. encapsulate_with_rng M ek r2 = ((ct, ss), r2') \<longrightarrow>
           mk_decapsulate M dk ct = ss)) \<and>
     (\<forall>ek r ct ss r'. wf_ek ek \<longrightarrow> encapsulate_with_rng M ek r = ((ct, ss), r') \<longrightarrow>
        length ct = mk_ct_len M \<and> length ss = mk_ss_len M)"

lemma ml_kem_okD:
  assumes "ml_kem_ok M wf_dk wf_ek"
  shows "wf_ek ek \<Longrightarrow> length (ek_to_bytes M ek) = mk_ek_len M"
    and "wf_ek ek \<Longrightarrow> ek_try_new M (ek_to_bytes M ek) = Some ek"
    and "wf_dk dk \<Longrightarrow> length (dk_to_bytes M dk) = mk_dk_len M"
    and "wf_dk dk \<Longrightarrow> dk_new M (dk_to_bytes M dk) = dk"
    and "generate_keypair_from_rng M r = ((dk, ek), r') \<Longrightarrow> wf_dk dk \<and> wf_ek ek"
    and "generate_keypair_from_rng M r = ((dk, ek), r') \<Longrightarrow>
      encapsulate_with_rng M ek r2 = ((ct, ss), r2') \<Longrightarrow> mk_decapsulate M dk ct = ss"
    and "wf_ek ek \<Longrightarrow> encapsulate_with_rng M ek r = ((ct, ss), r') \<Longrightarrow>
      length ct = mk_ct_len M \<and> length ss = mk_ss_len M"
  using assms unfolding ml_kem_ok_def by blast+

lemmas ml_kem_defs = ml_kem_wrapper_def ml_kem_generate_def ml_kem_encapsulate_def
  ml_kem_decapsulate_def ml_kem_deserialize_encapsulation_key_def
  ml_kem_deserialize_decapsulation_key_def array_try_from_def rng_compat_id

interpretation ml_kem: kem_contract "ml_kem_wrapper M" "ml_kem_ok M wf_dk wf_ek" wf_dk wf_ek
  for M :: "('dk, 'ek) ml_kem" and wf_dk wf_ek
proof (rule kem_contract.intro, goal_cases)
  case 1
  show ?case by unfold_locales (simp_all add: ml_kem_defs ml_kem_okD(1,2) [OF 1])
next
  case 2
  show ?case by unfold_locales (simp_all add: ml_kem_defs ml_kem_okD(3,4) [OF 2])
next
  case (3 r dk ek r')
  then show ?case using ml_kem_okD(5) [OF 3(1), of r dk ek r']
    by (simp add: ml_kem_defs split: prod.splits)
next
  case (4 ek r ct ss r')
  then show ?case using ml_kem_okD(7) [OF 4(1,2), of r ct ss r']
    by (simp add: ml_kem_defs split: prod.splits)
next
  case (5 r1 dk ek r1' r2 ct ss r2')
  then have gen: "generate_keypair_from_rng M r1 = ((dk, ek), r1')"
    and enc: "encapsulate_with_rng M ek r2 = ((ct, ss), r2')"
    by (simp_all add: ml_kem_defs split: prod.splits)
  from ml_kem_okD(5) [OF 5(1) gen] ml_kem_okD(7) [OF 5(1) _ enc] ml_kem_okD(6) [OF 5(1) gen enc]
  show ?case by (simp add: ml_kem_defs)
next
  case (6 r)
  then show ?case by (simp add: ml_kem_defs split: prod.splits)
next
  case (7 ek r)
  then show ?case by (simp add: ml_kem_defs split: prod.splits)
qed

definition kem_ke1_state_ok ::
    "('sk \<Rightarrow> bool) \<Rightarrow> ('dk \<Rightarrow> bool) \<Rightarrow> ('sk, 'dk) kem_ke1_state \<Rightarrow> bool" where
  "kem_ke1_state_ok wf_sk wf_dk s \<longleftrightarrow>
     ke1_state_ok wf_sk (kk1s_dh_state s) \<and> wf_dk (kem_decapsulation_key s)"

definition kem_ke1_message_ok ::
    "('dk, 'ek) kem_core_wrapper \<Rightarrow> ('pk \<Rightarrow> bool) \<Rightarrow> 'pk kem_ke1_message \<Rightarrow> bool" where
  "kem_ke1_message_ok K wf_pk m \<longleftrightarrow>
     ke1_message_ok wf_pk (kk1m_dh_message m) \<and> length (kk1m_encapsulation_key m) = ek_len K"

definition kem_ke2_state_ok ::
    "hash_fns \<Rightarrow> ('dk, 'ek) kem_core_wrapper \<Rightarrow> kem_ke2_state \<Rightarrow> bool" where
  "kem_ke2_state_ok H K s \<longleftrightarrow>
     ke2_state_ok H (kk2s_base_state s) \<and> length (kk2s_encapsulation_key s) = ek_len K \<and>
     length (server_kem_ciphertext s) = ct_len K"

definition kem_ke2_message_ok ::
    "hash_fns \<Rightarrow> ('dk, 'ek) kem_core_wrapper \<Rightarrow> ('pk \<Rightarrow> bool) \<Rightarrow> 'pk kem_ke2_message \<Rightarrow> bool" where
  "kem_ke2_message_ok H K wf_pk m \<longleftrightarrow>
     ke2_message_ok H wf_pk (kk2m_dh_message m) \<and> length (kk2m_ciphertext m) = ct_len K"

interpretation kem_ke1_state_codec: wire_codec
  "kem_ke1_state_serialize G K" "kem_ke1_state_deserialize_take G K"
  "sk_len G + nonce_len + dk_len K"
  "\<lambda>s. group_ok G wf_sk wf_pk \<and> kem_ok K wf_dk wf_ek \<and> kem_ke1_state_ok wf_sk wf_dk s"
  for G :: "('sk, 'pk) ke_group" and K :: "('dk, 'ek) kem_core_wrapper" and wf_sk wf_pk wf_dk wf_ek
proof (unfold_locales, goal_cases)
  case (1 s)
  then have "kem_ok K wf_dk wf_ek" by simp
  note dk = wire_codec.enc_length [OF any_kem.dk_codec [OF this]]
  from 1 show ?case
    using ke1_state_codec.enc_length [of G wf_sk wf_pk] dk
    by (simp add: kem_ke1_state_serialize_def kem_ke1_state_ok_def cat_def)
next
  case (2 s rest)
  then have "kem_ok K wf_dk wf_ek" by simp
  note dk = wire_codec.dec_enc [OF any_kem.dk_codec [OF this]]
  from 2 show ?case
    using ke1_state_codec.dec_enc [of G wf_sk wf_pk] dk
    by (simp add: kem_ke1_state_serialize_def kem_ke1_state_deserialize_take_def
        kem_ke1_state_ok_def cat_def)
qed

interpretation kem_ke1_message_codec: wire_codec
  "kem_ke1_message_serialize G" "kem_ke1_message_deserialize_take G K"
  "nonce_len + pk_len G + ek_len K"
  "\<lambda>m. group_ok G wf_sk wf_pk \<and> kem_ke1_message_ok K wf_pk m"
  for G :: "('sk, 'pk) ke_group" and K :: "('dk, 'ek) kem_core_wrapper" and wf_sk wf_pk
  using ke1_message_codec.enc_length [of G wf_sk wf_pk]
    ke1_message_codec.dec_enc [of G wf_sk wf_pk]
  by unfold_locales (simp_all add: kem_ke1_message_serialize_def
      kem_ke1_message_deserialize_take_def kem_ke1_message_ok_def cat_def)

interpretation kem_ke2_state_codec: canonical_codec
  kem_ke2_state_serialize "kem_ke2_state_deserialize_take H K"
  "hash_len H + hash_len H + ek_len K + ct_len K" "kem_ke2_state_ok H K" True
  for H :: hash_fns and K :: "('dk, 'ek) kem_core_wrapper"
  using ke2_state_codec.enc_length [of H] ke2_state_codec.dec_enc [of H]
    ke2_state_codec.dec_sound [of H]
  by unfold_locales (fastforce simp: kem_ke2_state_serialize_def kem_ke2_state_deserialize_take_def
      kem_ke2_state_ok_def cat_def ok_iffs take_array_Ok_iff)+

interpretation kem_ke2_message_codec: wire_codec
  "kem_ke2_message_serialize G" "kem_ke2_message_deserialize_take G H K"
  "nonce_len + pk_len G + hash_len H + ct_len K"
  "\<lambda>m. group_ok G wf_sk wf_pk \<and> kem_ke2_message_ok H K wf_pk m"
  for G :: "('sk, 'pk) ke_group" and H :: hash_fns and K :: "('dk, 'ek) kem_core_wrapper"
    and wf_sk wf_pk
  using ke2_message_codec.enc_length [of G wf_sk wf_pk H]
    ke2_message_codec.dec_enc [of G wf_sk wf_pk H]
  by unfold_locales (simp_all add: kem_ke2_message_serialize_def
      kem_ke2_message_deserialize_take_def kem_ke2_message_ok_def cat_def)

lemma kem_build_ke2_Ok_iff:
  "kem_build_ke2 H b ss2 = Ok (st2, m2) \<longleftrightarrow>
     (\<exists>dk mac em th. derive_keys H
          [kk2b_shared_secret_1 b, ss2, kk2b_shared_secret_3 b, kk2b_kem_shared_secret b]
          (hash_digest H (kk2b_transcript_hasher b)) = Ok dk \<and>
        compute_ke2_macs H dk (hash_digest H (kk2b_transcript_hasher b)) (kk2b_transcript_hasher b)
          = (Ok (mac, em), th) \<and>
        st2 = \<lparr>kk2s_base_state = \<lparr>k2s_session_key = dk_session_key dk, k2s_expected_mac = em\<rparr>,
               kk2s_encapsulation_key = kk2b_encapsulation_key b,
               server_kem_ciphertext = kk2b_ciphertext b\<rparr> \<and>
        m2 = \<lparr>kk2m_dh_message = \<lparr>k2m_server_nonce = kk2b_server_nonce b,
                k2m_server_e_pk = kk2b_server_e_pk b, k2m_mac = mac\<rparr>,
              kk2m_ciphertext = kk2b_ciphertext b\<rparr>)"
  by (auto simp: kem_build_ke2_def ok_iffs Let_def)

lemma kem_build_ke2_total:
  assumes "hash_ok H"
  shows "is_ok (kem_build_ke2 H b ss2)"
proof -
  let ?th = "kk2b_transcript_hasher b"
  obtain dk where "derive_keys H
      [kk2b_shared_secret_1 b, ss2, kk2b_shared_secret_3 b, kk2b_kem_shared_secret b]
      (hash_digest H ?th) = Ok dk"
    using derive_keys_total [OF assms] hash_okD(3) [OF assms] by metis
  with compute_ke2_macs_total [OF assms, of dk "hash_digest H ?th" ?th]
  have "\<exists>st2 m2. kem_build_ke2 H b ss2 = Ok (st2, m2)"
    unfolding kem_build_ke2_Ok_iff by blast
  then show ?thesis by (auto simp: is_ok_def)
qed

lemma kem_generate_ke1_Ok_iff:
  "kem_generate_ke1 G K r = (Ok (st1, m1), r') \<longleftrightarrow>
     (\<exists>base msg dk ek r1. shared_generate_ke1 G r = (Ok (base, msg), r1) \<and>
        kem_generate K r1 = (Ok (dk, ek), r') \<and>
        st1 = \<lparr>kk1s_dh_state = base, kem_decapsulation_key = dk\<rparr> \<and>
        m1 = \<lparr>kk1m_dh_message = msg,
              kk1m_encapsulation_key = serialize_encapsulation_key K ek\<rparr>)"
  by (auto simp: kem_generate_ke1_def tdh_generate_ke1_def bind_st_Ok_iff Let_def)

text \<open>What a session of the contract is for this implementation.\<close>

lemma kem_session:
  assumes "kem_ok K wf_dk wf_ek"
    and "ke_session (triple_dh_kem G dh H K) ids c_sk s_sk req resp sids ctx st1 m1 st2 m2"
  obtains r1 r1' base msg rk rk' dk ek kp r2 r2' re re' n ct kss keys mac em th ss1 ss2 ss3 where
    "shared_generate_ke1 G r1 = (Ok (base, msg), r1')"
    "kem_generate K rk = (Ok (dk, ek), rk')"
    "st1 = \<lparr>kk1s_dh_state = base, kem_decapsulation_key = dk\<rparr>"
    "m1 = \<lparr>kk1m_dh_message = msg, kk1m_encapsulation_key = serialize_encapsulation_key K ek\<rparr>"
    "keypair_derive_random G r2 = (Ok kp, r2')" "length n = nonce_len"
    "kem_encapsulate K ek re = (Ok (ct, kss), re')"
    "th = transcript ctx sids req (to_iter G msg) resp n (serialize_pk G (kp_pk kp)) @
       serialize_encapsulation_key K ek @ ct"
    "ss1 = dh (kp_sk kp) (client_e_pk msg)" "ss2 = dh s_sk (client_e_pk msg)"
    "ss3 = dh (kp_sk kp) (public_key G c_sk)"
    "derive_keys H [ss1, ss2, ss3, kss] (hash_digest H th) = Ok keys"
    "compute_ke2_macs H keys (hash_digest H th) th = (Ok (mac, em), th @ mac)"
    "st2 = \<lparr>kk2s_base_state = \<lparr>k2s_session_key = dk_session_key keys, k2s_expected_mac = em\<rparr>,
       kk2s_encapsulation_key = serialize_encapsulation_key K ek, server_kem_ciphertext = ct\<rparr>"
    "m2 = \<lparr>kk2m_dh_message = \<lparr>k2m_server_nonce = n, k2m_server_e_pk = kp_pk kp, k2m_mac = mac\<rparr>,
       kk2m_ciphertext = ct\<rparr>"
proof -
  from assms(2) obtain r1 r2 where "kem_generate_ke1 G K r1 = (Ok (st1, m1), r2)"
    by (auto simp: ke_session_def triple_dh_kem_def)
  then obtain base msg rk dk ek where g1: "shared_generate_ke1 G r1 = (Ok (base, msg), rk)"
    and gk: "kem_generate K rk = (Ok (dk, ek), r2)"
    and st1: "st1 = \<lparr>kk1s_dh_state = base, kem_decapsulation_key = dk\<rparr>"
    and m1: "m1 = \<lparr>kk1m_dh_message = msg,
      kk1m_encapsulation_key = serialize_encapsulation_key K ek\<rparr>"
    by (auto simp: kem_generate_ke1_Ok_iff)
  from assms(2) obtain b r3 r4 input r5 r6 where
    b: "kem_ke2_builder G dh K req m1 resp (public_key G c_sk) sids ctx r3 = (Ok b, r4)"
    and input: "kem_generate_ke2_input dh b s_sk r5 = (input, r6)"
    and build: "kem_build_ke2 H b input = Ok (st2, m2)"
    by (auto simp: ke_session_def triple_dh_kem_def)
  let ?ek = "serialize_encapsulation_key K ek"
  from b obtain kp r n ct kss r' where kp: "keypair_derive_random G r3 = (Ok kp, r)"
    and n: "generate_nonce r = (n, r')" and enc: "kem_encapsulate K ek r' = (Ok (ct, kss), r4)"
    and bdef: "b = \<lparr>kk2b_server_nonce = n, kk2b_transcript_hasher =
        transcript ctx sids req (to_iter G msg) resp n (serialize_pk G (kp_pk kp)) @ ?ek @ ct,
      kk2b_client_e_pk = client_e_pk msg, kk2b_server_e_pk = kp_pk kp,
      kk2b_shared_secret_1 = dh (kp_sk kp) (client_e_pk msg),
      kk2b_shared_secret_3 = dh (kp_sk kp) (public_key G c_sk),
      kk2b_encapsulation_key = ?ek, kk2b_ciphertext = ct, kk2b_kem_shared_secret = kss\<rparr>"
    using any_kem.sent_key(1) [OF assms(1) gk]
    by (auto simp: kem_ke2_builder_def bind_st_Ok_iff ke2_builder_common_Ok_iff Let_def m1)
  from input have "input = dh s_sk (client_e_pk msg)"
    by (simp add: kem_generate_ke2_input_def key_defs bdef)
  moreover from build obtain keys mac em th' where
    "derive_keys H [kk2b_shared_secret_1 b, input, kk2b_shared_secret_3 b, kk2b_kem_shared_secret b]
       (hash_digest H (kk2b_transcript_hasher b)) = Ok keys"
    and c: "compute_ke2_macs H keys (hash_digest H (kk2b_transcript_hasher b))
       (kk2b_transcript_hasher b) = (Ok (mac, em), th')"
    and "st2 = \<lparr>kk2s_base_state = \<lparr>k2s_session_key = dk_session_key keys, k2s_expected_mac = em\<rparr>,
       kk2s_encapsulation_key = kk2b_encapsulation_key b,
       server_kem_ciphertext = kk2b_ciphertext b\<rparr>"
    and "m2 = \<lparr>kk2m_dh_message = \<lparr>k2m_server_nonce = kk2b_server_nonce b,
         k2m_server_e_pk = kk2b_server_e_pk b, k2m_mac = mac\<rparr>,
       kk2m_ciphertext = kk2b_ciphertext b\<rparr>"
    by (auto simp: kem_build_ke2_Ok_iff)
  moreover from c have "th' = kk2b_transcript_hasher b @ mac"
    by (auto simp: compute_ke2_macs_Ok_iff)
  ultimately show thesis
    using that [OF g1 gk st1 m1 kp generate_nonce_length [OF n] enc refl refl refl refl] bdef
    by simp
qed

lemma kem_session_ok:
  assumes dh: "dh_ok G dh wf_sk wf_pk" and H: "hash_ok H" and K: "kem_ok K wf_dk wf_ek"
    and "ke_session (triple_dh_kem G dh H K) ids c_sk s_sk req resp sids ctx st1 m1 st2 m2"
  shows "kem_ke2_state_ok H K st2 \<and> kem_ke2_message_ok H K wf_pk m2"
  using K assms(4)
proof (rule kem_session)
  fix rk rk' dk ek kp r2 r2' re re' n ct kss keys mac em th ss1 ss2 ss3
  assume gk: "kem_generate K rk = (Ok (dk, ek), rk')"
    and kp: "keypair_derive_random G r2 = (Ok kp, r2')" and n: "length n = nonce_len"
    and enc: "kem_encapsulate K ek re = (Ok (ct, kss), re')"
    and keys: "derive_keys H [ss1, ss2, ss3, kss] (hash_digest H th) = Ok keys"
    and c: "compute_ke2_macs H keys (hash_digest H th) th = (Ok (mac, em), th @ mac)"
    and res: "st2 = \<lparr>kk2s_base_state =
          \<lparr>k2s_session_key = dk_session_key keys, k2s_expected_mac = em\<rparr>,
        kk2s_encapsulation_key = serialize_encapsulation_key K ek, server_kem_ciphertext = ct\<rparr>"
      "m2 = \<lparr>kk2m_dh_message = \<lparr>k2m_server_nonce = n, k2m_server_e_pk = kp_pk kp, k2m_mac = mac\<rparr>,
        kk2m_ciphertext = ct\<rparr>"
  have "wf_pk (kp_pk kp)"
    using keypair_derive_random_wf [OF dh_ok_group_ok [OF dh] kp] by simp
  moreover have "length mac = hash_len H" "length em = hash_len H"
    using compute_ke2_macs_total [OF H, of keys "hash_digest H th" th] c by auto
  moreover have "length ct = ct_len K"
    using any_kem.encapsulate_length [OF K _ enc] any_kem.generate_wf [OF K gk] by simp
  ultimately show ?thesis
    using n derive_keys_session_key_length [OF H keys] any_kem.sent_key(2) [OF K gk]
    by (simp add: res kem_ke2_state_ok_def kem_ke2_message_ok_def ke2_state_ok_def
        ke2_message_ok_def)
qed

text \<open>
  The client's last step in a session, for any MAC: both parties have the same four secrets.
\<close>

lemma kem_generate_ke3:
  assumes dh: "dh_ok G dh wf_sk wf_pk" and H: "hash_ok H" and K: "kem_ok K wf_dk wf_ek"
    and "wf_sk c_sk" "wf_sk s_sk"
    and "ke_session (triple_dh_kem G dh H K) ids c_sk s_sk req resp sids ctx st1 m1 st2 m2"
  shows "\<exists>m3. ke3_message_ok H m3 \<and> k3m_mac m3 = k2s_expected_mac (kk2s_base_state st2) \<and>
    (\<forall>mac'. kem_generate_ke3 G dh H K req m1 resp st1
        (m2\<lparr>kk2m_dh_message := (kk2m_dh_message m2)\<lparr>k2m_mac := mac'\<rparr>\<rparr>)
        (public_key G s_sk) c_sk sids ctx r =
      (if mac' = k2m_mac (kk2m_dh_message m2)
       then (Ok (k2s_session_key (kk2s_base_state st2), m3), r) else (Err InvalidLoginError, r)))"
  using K assms(6)
proof (rule kem_session)
  fix r1 r1' base msg rk rk' dk ek kp r2 r2' re re' n ct kss keys mac em th ss1 ss2 ss3
  assume g1: "shared_generate_ke1 G r1 = (Ok (base, msg), r1')"
    and gk: "kem_generate K rk = (Ok (dk, ek), rk')"
    and st1: "st1 = \<lparr>kk1s_dh_state = base, kem_decapsulation_key = dk\<rparr>"
    and m1: "m1 = \<lparr>kk1m_dh_message = msg,
      kk1m_encapsulation_key = serialize_encapsulation_key K ek\<rparr>"
    and kp: "keypair_derive_random G r2 = (Ok kp, r2')"
    and enc: "kem_encapsulate K ek re = (Ok (ct, kss), re')"
    and th: "th = transcript ctx sids req (to_iter G msg) resp n (serialize_pk G (kp_pk kp)) @
       serialize_encapsulation_key K ek @ ct"
    and ss: "ss1 = dh (kp_sk kp) (client_e_pk msg)" "ss2 = dh s_sk (client_e_pk msg)"
      "ss3 = dh (kp_sk kp) (public_key G c_sk)"
    and keys: "derive_keys H [ss1, ss2, ss3, kss] (hash_digest H th) = Ok keys"
    and c: "compute_ke2_macs H keys (hash_digest H th) th = (Ok (mac, em), th @ mac)"
    and res: "st2 = \<lparr>kk2s_base_state =
          \<lparr>k2s_session_key = dk_session_key keys, k2s_expected_mac = em\<rparr>,
        kk2s_encapsulation_key = serialize_encapsulation_key K ek, server_kem_ciphertext = ct\<rparr>"
      "m2 = \<lparr>kk2m_dh_message = \<lparr>k2m_server_nonce = n, k2m_server_e_pk = kp_pk kp, k2m_mac = mac\<rparr>,
        kk2m_ciphertext = ct\<rparr>"
  have "dh (client_e_sk base) (kp_pk kp) = ss1" "dh (client_e_sk base) (public_key G s_sk) = ss2"
    "dh c_sk (kp_pk kp) = ss3"
    using dh_secrets_agree [OF dh assms(4,5) g1 kp] by (simp_all add: ss)
  moreover have "kem_decapsulate K dk ct = Ok kss" by (rule any_kem.decapsulates [OF K gk enc])
  moreover have "length em = hash_len H"
    using compute_ke2_macs_total [OF H, of keys "hash_digest H th" th] c by auto
  ultimately show ?thesis
    using finalize_ke3_agrees [OF keys c] finalize_ke3_rejects [OF keys c]
    by (intro exI [of _ "\<lparr>k3m_mac = em\<rparr>"])
       (simp add: kem_generate_ke3_def key_defs Let_def st1 m1 res th [symmetric] eval_st_def
         ke3_message_ok_def)
qed

section \<open>The contract\<close>

interpretation tdh_kem: live_key_exchange "triple_dh_kem G dh H K"
  "dh_ok G dh wf_sk wf_pk \<and> hash_ok H \<and> kem_ok K wf_dk wf_ek" ne OH wf_sk wf_pk
  "kem_ke1_state_ok wf_sk wf_dk" "kem_ke1_message_ok K wf_pk" "kem_ke2_state_ok H K"
  "kem_ke2_message_ok H K wf_pk" "ke3_message_ok H" "derive_total G"
  for G :: "('sk, 'pk) ke_group" and dh H and K :: "('dk, 'ek) kem_core_wrapper"
    and wf_sk wf_pk wf_dk wf_ek and ne :: nat and OH :: hash_fns
proof (unfold_locales, goal_cases)
  case 1
  then show ?case by (auto simp: triple_dh_kem_def intro: dh_ok_group_ok)
next
  case 2
  then have "group_ok G wf_sk wf_pk" by (blast intro: dh_ok_group_ok)
  with 2 kem_ke1_state_codec.wire_codec_axioms [of G K wf_sk wf_pk wf_dk wf_ek] show ?case
    by (simp add: triple_dh_kem_def wire_ok_def)
next
  case 3
  then have "group_ok G wf_sk wf_pk" by (blast intro: dh_ok_group_ok)
  with kem_ke1_message_codec.wire_codec_axioms [of G K wf_sk wf_pk] show ?case
    by (simp add: triple_dh_kem_def wire_ok_def)
next
  case 4
  show ?case using kem_ke2_state_codec.wire_codec_axioms
    by (simp add: triple_dh_kem_def wire_ok_def)
next
  case 5
  then have "group_ok G wf_sk wf_pk" by (blast intro: dh_ok_group_ok)
  with kem_ke2_message_codec.wire_codec_axioms [of G H K wf_sk wf_pk] show ?case
    by (simp add: triple_dh_kem_def wire_ok_def)
next
  case 6
  show ?case using ke3_message_codec.wire_codec_axioms by (simp add: triple_dh_kem_def wire_ok_def)
next
  case (7 r st1 m1 r')
  then have G: "group_ok G wf_sk wf_pk" and K: "kem_ok K wf_dk wf_ek"
    by (blast intro: dh_ok_group_ok)+
  from 7(2) show ?case
    using generate_ke1_ok [OF G] any_kem.generate_wf [OF K] any_kem.sent_key(2) [OF K]
    by (fastforce simp: triple_dh_kem_def kem_generate_ke1_Ok_iff kem_ke1_state_ok_def
        kem_ke1_message_ok_def)
next
  case (8 c_sk s_sk req resp ids sids ctx st1 m1 st2 m2)
  then show ?case by (intro kem_session_ok) auto
next
  case (9 c_sk s_sk ids req resp sids ctx st1 m1 st2 m2 r)
  then obtain m3 where m3: "ke3_message_ok H m3"
      "k3m_mac m3 = k2s_expected_mac (kk2s_base_state st2)"
    and ke3: "\<And>mac'. kem_generate_ke3 G dh H K req m1 resp st1
        (m2\<lparr>kk2m_dh_message := (kk2m_dh_message m2)\<lparr>k2m_mac := mac'\<rparr>\<rparr>)
        (public_key G s_sk) c_sk sids ctx r =
      (if mac' = k2m_mac (kk2m_dh_message m2)
       then (Ok (k2s_session_key (kk2s_base_state st2), m3), r) else (Err InvalidLoginError, r))"
    using kem_generate_ke3 [of G dh wf_sk wf_pk H K wf_dk wf_ek] by blast
  from ke3 [of "k2m_mac (kk2m_dh_message m2)"] m3 show ?case
    by (simp add: triple_dh_kem_def kem_finish_ke_def)
next
  case (10 r)
  then have K: "kem_ok K wf_dk wf_ek" by blast
  obtain base msg r1 where "shared_generate_ke1 G r = (Ok (base, msg), r1)"
    using generate_ke1_total [OF 10(2)] by metis
  moreover obtain kp r' where "kem_generate K r1 = (Ok kp, r')"
    using any_kem.generate_total [OF K] by metis
  ultimately show ?case
    by (cases kp) (fastforce simp: triple_dh_kem_def kem_generate_ke1_Ok_iff)
next
  case (11 r st1 m1 r' req resp cpk sids ctx r2)
  then have K: "kem_ok K wf_dk wf_ek" by blast
  from 11(3) obtain r1 dk ek where gk: "kem_generate K r1 = (Ok (dk, ek), r')"
    and ek: "kk1m_encapsulation_key m1 = serialize_encapsulation_key K ek"
    by (auto simp: triple_dh_kem_def kem_generate_ke1_Ok_iff)
  obtain c r3 where c: "shared_ke2_builder_common G dh req (kk1m_dh_message m1) resp cpk sids ctx r2
      = (Ok c, r3)"
    using ke2_builder_common_total [OF 11(2)] by metis
  obtain ct ss r4 where "kem_encapsulate K ek r3 = (Ok (ct, ss), r4)"
    using any_kem.encapsulate_total [OF K] any_kem.generate_wf [OF K gk] by (metis surj_pair)
  with c ek any_kem.sent_key(1) [OF K gk]
  have "\<exists>b r2'. kem_ke2_builder G dh K req m1 resp cpk sids ctx r2 = (Ok b, r2')"
    by (simp add: kem_ke2_builder_def)
  moreover have "is_ok (kem_build_ke2 H b input)" for b :: "'pk kem_builder" and input
    using 11(1) by (intro kem_build_ke2_total) blast
  ultimately show ?case by (simp add: triple_dh_kem_def)
qed

section \<open>A concrete KEM\<close>

text \<open>
  The ciphertext is the secret plus the key, and the byte 255 is not a public key; for the concrete
  runs only.
\<close>

definition mini_ml_kem :: "(byte, byte) ml_kem" where
  "mini_ml_kem =
     \<lparr>mk_ek_len = 1, mk_dk_len = 1, mk_ct_len = 1, mk_ss_len = 1,
      generate_keypair_from_rng =
        (\<lambda>r. case fill_bytes 1 r of (bs, r') \<Rightarrow> let k = 2 * hd bs in ((k, k), r')),
      ek_to_bytes = (\<lambda>k. [k]),
      ek_try_new = (\<lambda>bs. if bs = [255] then None else Some (hd bs)),
      dk_to_bytes = (\<lambda>k. [k]),
      dk_new = hd,
      encapsulate_with_rng = (\<lambda>k r. case fill_bytes 1 r of (bs, r') \<Rightarrow> (([hd bs + k], bs), r')),
      mk_decapsulate = (\<lambda>k ct. [hd ct - k])\<rparr>"

lemma double_not_255: "2 * (x :: byte) \<noteq> 255"
proof
  assume "2 * x = 255"
  then have "even (255 :: byte)" by (metis dvd_triv_left)
  then show False by simp
qed

lemma mini_ml_kem_ok: "ml_kem_ok mini_ml_kem (\<lambda>_. True) (\<lambda>k. k \<noteq> 255)"
  unfolding ml_kem_ok_def
proof (intro conjI allI impI, goal_cases)
  case (7 r dk ek r' r2 ct ss r2')
  from 7(1) have "dk = ek" by (auto simp: mini_ml_kem_def Let_def split: prod.splits)
  moreover from 7(2) have "ct = [hd ss + ek]" and len: "length ss = 1"
    by (auto simp: mini_ml_kem_def length_fill_bytes split: prod.splits)
  moreover from len have "ss = [hd ss]" by (cases ss) simp_all
  ultimately show ?case by (simp add: mini_ml_kem_def)
qed (auto simp: mini_ml_kem_def Let_def double_not_255 dest: length_fill_bytes split: prod.splits)

abbreviation mini_kem :: "(byte, byte) kem_core_wrapper" where
  "mini_kem \<equiv> ml_kem_wrapper mini_ml_kem"

lemma mini_kem_ok: "kem_ok mini_kem (\<lambda>_. True) (\<lambda>k. k \<noteq> 255)"
  unfolding kem_ok_def using ml_kem.kem_contract_axioms [of mini_ml_kem "\<lambda>_. True" "\<lambda>k. k \<noteq> 255"]
  by (simp add: mini_ml_kem_ok)

section \<open>Properties\<close>

text \<open>
  C22. Two honest parties of the KEM variant agree. Whatever MAC arrives in the second message, the
  client accepts it exactly when it is the server's, and then has the server's session key and a
  third message that the server accepts; otherwise it stops with \<open>InvalidLoginError\<close>.
\<close>

theorem triple_dh_kem_agreement:
  assumes "dh_ok G dh wf_sk wf_pk" "hash_ok H" "kem_ok K wf_dk wf_ek" "wf_sk c_sk" "wf_sk s_sk"
    and "ke_session (triple_dh_kem G dh H K) ids c_sk s_sk req resp sids ctx st1 m1 st2 m2"
  shows "\<exists>key m3. finish_ke (triple_dh_kem G dh H K) st2 m3 ids ctx = Ok key \<and>
    (\<forall>m3'. m3' \<noteq> m3 \<longrightarrow>
      finish_ke (triple_dh_kem G dh H K) st2 m3' ids ctx = Err InvalidLoginError) \<and>
    (\<forall>mac'. generate_ke3 (triple_dh_kem G dh H K) req m1 resp st1
        (m2\<lparr>kk2m_dh_message := (kk2m_dh_message m2)\<lparr>k2m_mac := mac'\<rparr>\<rparr>)
        (public_key G s_sk) c_sk sids ctx r =
      (if mac' = k2m_mac (kk2m_dh_message m2) then (Ok (key, m3), r)
       else (Err InvalidLoginError, r)))"
proof -
  obtain m3 where
    m3: "k3m_mac m3 = k2s_expected_mac (kk2s_base_state st2)"
    and ke3: "\<forall>mac'. kem_generate_ke3 G dh H K req m1 resp st1
        (m2\<lparr>kk2m_dh_message := (kk2m_dh_message m2)\<lparr>k2m_mac := mac'\<rparr>\<rparr>)
        (public_key G s_sk) c_sk sids ctx r =
      (if mac' = k2m_mac (kk2m_dh_message m2)
       then (Ok (k2s_session_key (kk2s_base_state st2), m3), r) else (Err InvalidLoginError, r))"
    using kem_generate_ke3 [OF assms] by blast
  have "kem_finish_ke st2 m3' ids ctx = (if m3' = m3 then Ok (k2s_session_key (kk2s_base_state st2))
      else Err InvalidLoginError)" for m3'
    using m3 by (auto simp: kem_finish_ke_def)
  with ke3 show ?thesis by (intro exI conjI) (simp_all add: triple_dh_kem_def)
qed

theorem triple_dh_kem_agreement_witness:
  "\<exists>req resp sids ctx st1 m1 st2 m2 key m3.
    ke_session (triple_dh_kem mini_group mini_dh (mini_hash 2) mini_kem) sample_ids 5 6 req resp
      sids ctx st1 m1 st2 m2 \<and>
    generate_ke3 (triple_dh_kem mini_group mini_dh (mini_hash 2) mini_kem) req m1 resp st1 m2 18 5
      sids ctx (counter_rng 0) = (Ok (key, m3), counter_rng 0) \<and>
    finish_ke (triple_dh_kem mini_group mini_dh (mini_hash 2) mini_kem) st2 m3 sample_ids ctx
      = Ok key"
proof -
  let ?KE = "triple_dh_kem mini_group mini_dh (mini_hash 2) mini_kem"
  have H: "hash_ok (mini_hash 2)" by (rule mini_hash_ok) simp_all
  obtain sids where "from_identifiers sample_ids [15] [18] = Ok sids" by (rule sample_ids_total)
  then have "from_identifiers sample_ids
      (serialize_pk (ke_grp ?KE) (public_key (ke_grp ?KE) 5))
      (serialize_pk (ke_grp ?KE) (public_key (ke_grp ?KE) 6)) = Ok sids"
    by (simp add: triple_dh_kem_def)
  then have "\<exists>st1 m1 st2 m2. ke_session ?KE sample_ids 5 6 req resp sids ctx st1 m1 st2 m2"
    for req resp ctx
    by (rule tdh_kem.session_exists
        [OF conjI [OF mini_dh_ok conjI [OF H mini_kem_ok]] mini_derive_total])
  then obtain req resp ctx st1 m1 st2 m2 where
    session: "ke_session ?KE sample_ids 5 6 req resp sids ctx st1 m1 st2 m2"
    by blast
  obtain key m3 where fin: "finish_ke ?KE st2 m3 sample_ids ctx = Ok key"
    and ke3: "\<And>mac'. generate_ke3 ?KE req m1 resp st1
        (m2\<lparr>kk2m_dh_message := (kk2m_dh_message m2)\<lparr>k2m_mac := mac'\<rparr>\<rparr>)
        (public_key mini_group 6) 5 sids ctx (counter_rng 0) =
      (if mac' = k2m_mac (kk2m_dh_message m2) then (Ok (key, m3), counter_rng 0)
       else (Err InvalidLoginError, counter_rng 0))"
    using triple_dh_kem_agreement [OF mini_dh_ok H mini_kem_ok _ _ session] by blast
  from ke3 [of "k2m_mac (kk2m_dh_message m2)"] session fin show ?thesis
    by (intro exI conjI) simp_all
qed

text \<open>
  The adapter between the two generator interfaces is transparent: it produces what the
  borrowed generator produces and leaves it in the same state, so key generation and encapsulation
  draw from the caller's generator as if they had been called with it.
\<close>

theorem rng_compat_transparent:
  "rng_compat r = r \<and> fill_bytes k (rng_compat r) = fill_bytes k r \<and>
   kem_generate (ml_kem_wrapper M) r =
     (Ok (fst (generate_keypair_from_rng M r)), snd (generate_keypair_from_rng M r)) \<and>
   kem_encapsulate (ml_kem_wrapper M) ek r =
     (Ok (fst (encapsulate_with_rng M ek r)), snd (encapsulate_with_rng M ek r))"
  by (simp add: ml_kem_defs split: prod.splits)

text \<open>
  A first message whose encapsulation key the KEM refuses does not get an answer: the server
  stops with \<open>SerializationError\<close>, whatever the rest of the request is.
\<close>

theorem kem_rejects_encapsulation_key:
  assumes "ek_try_new M (kk1m_encapsulation_key m1) = None"
    and "length (kk1m_encapsulation_key m1) = mk_ek_len M"
    and "derive_total G"
  shows "\<exists>r'. ke2_builder (triple_dh_kem G dh H (ml_kem_wrapper M)) req m1 resp cpk sids ctx r
    = (Err SerializationError, r')"
proof -
  obtain c r' where "shared_ke2_builder_common G dh req (kk1m_dh_message m1) resp cpk sids ctx r
      = (Ok c, r')"
    using ke2_builder_common_total [OF assms(3)] by metis
  moreover have "eval_st (deserialize_encapsulation_key (ml_kem_wrapper M))
      (kk1m_encapsulation_key m1) = Err SerializationError"
    using assms(1,2) by (simp add: eval_st_def ml_kem_defs)
  ultimately show ?thesis by (simp add: triple_dh_kem_def kem_ke2_builder_def)
qed

theorem kem_rejects_encapsulation_key_witness:
  "\<forall>resp sids ctx. \<exists>r'. ke2_builder (triple_dh_kem mini_group mini_dh (mini_hash 2) mini_kem) [1]
      \<lparr>kk1m_dh_message = \<lparr>k1m_client_nonce = zeros 32, client_e_pk = 3\<rparr>,
       kk1m_encapsulation_key = [255]\<rparr> resp 15 sids ctx (counter_rng 0)
    = (Err SerializationError, r')"
  by (intro allI, rule kem_rejects_encapsulation_key) (simp_all add: mini_ml_kem_def mini_derive_total)

end
