(* ===== verification/Sigma_Message.thy ===== *)
theory Sigma_Message
  imports Ke_Shared
begin

text \<open>
  \<open>src/key_exchange/sigma_i/message.rs\<close> and \<open>src/key_exchange/sigma_i/shared.rs\<close>: the messages that
  the two parties of SIGMA-I sign, the state kept to verify the other party's signature, and the
  hash of both. \<open>iter\<close>-like methods return the list of slices that they yield.
\<close>

datatype role = Server | Client

datatype stage = Sign | Verify

record cached_message =
  cm_credential_request :: serialized_credential_request
  cm_ke1_message :: ke1_message_iter
  cm_credential_response :: serialized_credential_response
  cm_server_nonce :: bytes
  cm_server_e_pk :: bytes
  cm_server_mac :: bytes

record message =
  msg_role :: role
  msg_context :: serialized_context
  msg_identifiers :: serialized_identifiers
  msg_cache :: cached_message

record verify_message =
  vm_role :: role
  vm_context :: serialized_context
  vm_identifier :: serialized_identifier
  vm_cache :: cached_message

record message_builder =
  mb_role :: role
  mb_context :: serialized_context
  mb_identifier :: serialized_identifier

record hash_output =
  ho_sign :: hasher
  ho_verify :: hasher

section \<open>Operations\<close>

definition cached_post_message ::
    "cached_message \<Rightarrow> role \<Rightarrow> serialized_identifier \<Rightarrow> bytes list" where
  "cached_post_message self transcript_role idt =
     (if transcript_role = Client then serialized_identifier_iter idt else []) @
     serialized_credential_request_iter (cm_credential_request self) @
     ke1_message_iter_iter (cm_ke1_message self) @
     (if transcript_role = Server then serialized_identifier_iter idt else []) @
     serialized_credential_response_iter (cm_credential_response self) @
     [cm_server_nonce self, cm_server_e_pk self] @
     (if transcript_role = Client then [cm_server_mac self] else [])"

definition post_message :: "message \<Rightarrow> stage \<Rightarrow> bytes list" where
  "post_message self stage =
     (let transcript_role = (case (msg_role self, stage) of
          (Server, Sign) \<Rightarrow> Server
        | (Server, Verify) \<Rightarrow> Client
        | (Client, Sign) \<Rightarrow> Client
        | (Client, Verify) \<Rightarrow> Server);
          idt = (case transcript_role of
          Server \<Rightarrow> sids_server (msg_identifiers self)
        | Client \<Rightarrow> sids_client (msg_identifiers self))
      in cached_post_message (msg_cache self) transcript_role idt)"

definition sign_message :: "message \<Rightarrow> bytes list" where
  "sign_message self = serialized_context_iter (msg_context self) @ post_message self Sign"

text \<open>The hash state of \<open>KEH\<close> after each message.\<close>

definition message_hash :: "message \<Rightarrow> hash_output" where
  "message_hash self =
     (let ctx = [];
          ctx = update_iter (@) ctx (serialized_context_iter (msg_context self));
          sign = chain_iter (@) ctx (post_message self Sign);
          verify = chain_iter (@) ctx (post_message self Verify)
      in \<lparr>ho_sign = sign, ho_verify = verify\<rparr>)"

definition to_cached :: "message \<Rightarrow> cached_message" where
  "to_cached self = msg_cache self"

definition verify_message_iter :: "verify_message \<Rightarrow> bytes list" where
  "verify_message_iter self =
     (let transcript_role = (case vm_role self of Server \<Rightarrow> Client | Client \<Rightarrow> Server) in
      serialized_context_iter (vm_context self) @
        cached_post_message (vm_cache self) transcript_role (vm_identifier self))"

definition message_builder_build :: "message_builder \<Rightarrow> cached_message \<Rightarrow> verify_message" where
  "message_builder_build self cache =
     \<lparr>vm_role = mb_role self, vm_context = mb_context self, vm_identifier = mb_identifier self,
      vm_cache = cache\<rparr>"

section \<open>Serialization\<close>

definition cached_message_deserialize_take ::
    "nat \<Rightarrow> hash_fns \<Rightarrow> ('sk, 'pk) ke_group \<Rightarrow> ('esk, 'epk) ke_group \<Rightarrow> hash_fns \<Rightarrow>
     (bytes, protocol_error, cached_message) st" where
  "cached_message_deserialize_take ne OH G KG H =
     bind_st (serialized_credential_request_deserialize_take ne) (\<lambda>credential_request.
     bind_st (ke1_message_iter_deserialize_take KG) (\<lambda>ke1_message.
     bind_st (serialized_credential_response_deserialize_take ne OH G) (\<lambda>credential_response.
     bind_st (take_array nonce_len ''server nonce'') (\<lambda>server_nonce.
     bind_st (take_array (pk_len KG) ''serialized server ephemeral key'') (\<lambda>server_e_pk.
     bind_st (take_array (hash_len H) ''server mac'') (\<lambda>server_mac.
     return_st
       \<lparr>cm_credential_request = credential_request, cm_ke1_message = ke1_message,
        cm_credential_response = credential_response, cm_server_nonce = server_nonce,
        cm_server_e_pk = server_e_pk, cm_server_mac = server_mac\<rparr>))))))"

definition cached_message_serialize :: "cached_message \<Rightarrow> bytes" where
  "cached_message_serialize self =
     cat (cat (cat (cat (cat
       (serialized_credential_request_serialize (cm_credential_request self))
       (ke1_message_iter_serialize (cm_ke1_message self)))
       (serialized_credential_response_serialize (cm_credential_response self)))
       (cm_server_nonce self))
       (cm_server_e_pk self))
       (cm_server_mac self)"

definition cached_message_len ::
    "nat \<Rightarrow> hash_fns \<Rightarrow> ('sk, 'pk) ke_group \<Rightarrow> ('esk, 'epk) ke_group \<Rightarrow> hash_fns \<Rightarrow> nat" where
  "cached_message_len ne OH G KG H =
     ne + (nonce_len + pk_len KG) + (ne + nonce_len + masked_response_len OH G) + nonce_len +
       pk_len KG + hash_len H"

text \<open>\<open>PreHash<H>\<close> is a digest.\<close>

type_synonym pre_hash = bytes

definition pre_hash_deserialize_take :: "nat \<Rightarrow> (bytes, protocol_error, pre_hash) st" where
  "pre_hash_deserialize_take nh = take_array nh ''pre-hash''"

definition pre_hash_serialize :: "pre_hash \<Rightarrow> bytes" where
  "pre_hash_serialize self = self"

section \<open>Facts\<close>

definition cached_message_ok ::
    "nat \<Rightarrow> hash_fns \<Rightarrow> ('sk, 'pk) ke_group \<Rightarrow> ('esk, 'epk) ke_group \<Rightarrow> hash_fns \<Rightarrow>
     cached_message \<Rightarrow> bool" where
  "cached_message_ok ne OH G KG H c \<longleftrightarrow>
     length (cm_credential_request c) = ne \<and> ke1_message_iter_ok KG (cm_ke1_message c) \<and>
     serialized_credential_response_ok ne OH G (cm_credential_response c) \<and>
     length (cm_server_nonce c) = nonce_len \<and> length (cm_server_e_pk c) = pk_len KG \<and>
     length (cm_server_mac c) = hash_len H"

interpretation cached_message_codec: canonical_codec
  cached_message_serialize "cached_message_deserialize_take ne OH G KG H"
  "cached_message_len ne OH G KG H" "cached_message_ok ne OH G KG H" True
  for ne :: nat and OH :: hash_fns and G :: "('sk, 'pk) ke_group"
    and KG :: "('esk, 'epk) ke_group" and H :: hash_fns
proof (unfold_locales, goal_cases)
  case (1 c)
  then show ?case
    using credential_request_codec.enc_length [of "cm_credential_request c" ne]
      ke1_message_iter_codec.enc_length [of KG "cm_ke1_message c"]
      credential_response_codec.enc_length [of ne OH G "cm_credential_response c"]
    by (simp add: cached_message_serialize_def cached_message_len_def cached_message_ok_def cat_def)
next
  case (2 c rest)
  then show ?case
    using credential_request_codec.dec_enc [of "cm_credential_request c" ne]
    by (simp add: cached_message_serialize_def cached_message_deserialize_take_def
        cached_message_ok_def cat_def ke1_message_iter_codec.dec_enc
        credential_response_codec.dec_enc)
next
  case (3 input c rest)
  then show ?case
    by (auto simp: cached_message_serialize_def cached_message_deserialize_take_def
        cached_message_ok_def cat_def ok_iffs take_array_Ok_iff
        credential_request_codec.dec_Ok_iff ke1_message_iter_codec.dec_Ok_iff
        credential_response_codec.dec_Ok_iff)
qed

interpretation pre_hash_codec: canonical_codec
  pre_hash_serialize "pre_hash_deserialize_take nh" nh "\<lambda>x. length x = nh" True
  for nh :: nat
  by unfold_locales (auto simp: pre_hash_serialize_def pre_hash_deserialize_take_def
      take_array_Ok_iff)

text \<open>The same message seen by the other party, and the builder that this party uses.\<close>

definition other_role :: "role \<Rightarrow> role" where
  "other_role r = (case r of Server \<Rightarrow> Client | Client \<Rightarrow> Server)"

definition peer_message :: "message \<Rightarrow> message" where
  "peer_message m = m\<lparr>msg_role := other_role (msg_role m)\<rparr>"

definition own_identifier :: "message \<Rightarrow> serialized_identifier" where
  "own_identifier m = (case msg_role m of
     Server \<Rightarrow> sids_server (msg_identifiers m) | Client \<Rightarrow> sids_client (msg_identifiers m))"

definition peer_builder :: "message \<Rightarrow> message_builder" where
  "peer_builder m = \<lparr>mb_role = other_role (msg_role m), mb_context = msg_context m,
     mb_identifier = own_identifier m\<rparr>"

lemma other_role_simps [simp]:
  "other_role Server = Client" "other_role Client = Server" "other_role (other_role r) = r"
  by (simp_all add: other_role_def split: role.split)

lemma peer_message_sel [simp]:
  "msg_role (peer_message m) = other_role (msg_role m)"
  "msg_context (peer_message m) = msg_context m"
  "msg_identifiers (peer_message m) = msg_identifiers m"
  "msg_cache (peer_message m) = msg_cache m"
  by (simp_all add: peer_message_def)

lemma peer_message_peer [simp]: "peer_message (peer_message m) = m"
  by (simp add: peer_message_def)

lemma post_message_peer: "post_message (peer_message m) Verify = post_message m Sign"
  by (cases "msg_role m") (simp_all add: post_message_def Let_def)

lemma verify_message_peer:
  "verify_message_iter (message_builder_build (peer_builder m) (to_cached (peer_message m)))
     = sign_message m"
  by (cases "msg_role m")
     (simp_all add: verify_message_iter_def message_builder_build_def peer_builder_def
       to_cached_def sign_message_def post_message_def own_identifier_def Let_def)

lemma message_hash_peer: "ho_verify (message_hash (peer_message m)) = ho_sign (message_hash m)"
  by (simp add: message_hash_def Let_def post_message_peer)

lemma message_hash_sign: "ho_sign (message_hash m) = concat (sign_message m)"
  by (simp add: message_hash_def sign_message_def Let_def chain_iter_def update_iter_def
      foldl_append_concat)

lemma concat_post_message:
  "concat (post_message m Sign) =
     (case msg_role m of
        Client \<Rightarrow> concat (serialized_identifier_iter (sids_client (msg_identifiers m))) | Server \<Rightarrow> []) @
     serialized_credential_request_serialize (cm_credential_request (msg_cache m)) @
     ke1_message_iter_serialize (cm_ke1_message (msg_cache m)) @
     (case msg_role m of
        Server \<Rightarrow> concat (serialized_identifier_iter (sids_server (msg_identifiers m))) | Client \<Rightarrow> []) @
     serialized_credential_response_serialize (cm_credential_response (msg_cache m)) @
     cm_server_nonce (msg_cache m) @ cm_server_e_pk (msg_cache m) @
     (case msg_role m of Client \<Rightarrow> cm_server_mac (msg_cache m) | Server \<Rightarrow> [])"
  by (cases "msg_role m")
     (simp_all add: post_message_def cached_post_message_def Let_def
       serialized_credential_request_iter_def serialized_credential_request_serialize_def
       ke1_message_iter_iter_def ke1_message_iter_serialize_def cat_def
       concat_credential_response_iter [symmetric])

lemma concat_sign_message:
  assumes "serialized_context_from c = Ok (msg_context m)"
    and "from_identifier idt pk = Ok (own_identifier m)"
  shows "concat (sign_message m) =
     STR_CONTEXT @ be_digits 2 (unat (usize_len (ctx_context (msg_context m)))) @
     ctx_context (msg_context m) @
     (let field = be_digits 2 (unat (usize_len (effective_identifier idt pk))) @
            effective_identifier idt pk;
          k = msg_cache m in
      (case msg_role m of Client \<Rightarrow> field | Server \<Rightarrow> []) @
      serialized_credential_request_serialize (cm_credential_request k) @
      ke1_message_iter_serialize (cm_ke1_message k) @
      (case msg_role m of Server \<Rightarrow> field | Client \<Rightarrow> []) @
      serialized_credential_response_serialize (cm_credential_response k) @
      cm_server_nonce k @ cm_server_e_pk k @
      (case msg_role m of Client \<Rightarrow> cm_server_mac k | Server \<Rightarrow> []))"
  using concat_identifier_iter [OF assms(2)]
  by (cases "msg_role m")
     (simp_all add: sign_message_def concat_context_iter(2) [OF assms(1)] concat_post_message
       own_identifier_def Let_def)

section \<open>Properties\<close>

text \<open>
  C26. What one party signs is what the other party verifies: for the two views of one exchange, the
  message that the verifier rebuilds from its cached state and a builder with the signer's
  identifier is the signer's message, and the hash of the message to be verified is the signer's
  hash of the message to be signed.
\<close>

theorem message_duality:
  "verify_message_iter (message_builder_build (peer_builder m) (to_cached (peer_message m)))
     = sign_message m \<and>
   ho_verify (message_hash (peer_message m)) = ho_sign (message_hash m) \<and>
   ho_sign (message_hash m) = concat (sign_message m) \<and>
   peer_message (peer_message m) = m"
  by (simp add: verify_message_peer message_hash_peer message_hash_sign)

text \<open>
  C27. What a signature covers, exactly. Two messages signed in the same role have equal signed bytes
  if and only if they agree on the context, the signer's own effective identifier, the credential
  request and response, the first key exchange message, the server's nonce and its ephemeral key,
  and, in the client's role, the server's MAC. So the signed bytes determine all of these, and they
  leave out the other party's identifier and, in the server's role, the MAC. (The bytes do not name
  the role: nothing is said of two messages in different roles.)
\<close>

theorem sign_message_injective:
  assumes ctx: "serialized_context_from c = Ok (msg_context m)"
      "serialized_context_from c' = Ok (msg_context m')"
    and ids: "from_identifier idt pk = Ok (own_identifier m)"
      "from_identifier idt' pk' = Ok (own_identifier m')"
    and mem: "length (case c of Some x \<Rightarrow> x | None \<Rightarrow> []) < 2 ^ 64"
      "length (case c' of Some x \<Rightarrow> x | None \<Rightarrow> []) < 2 ^ 64"
      "length (effective_identifier idt pk) < 2 ^ 64"
      "length (effective_identifier idt' pk') < 2 ^ 64"
    and role: "msg_role m' = msg_role m"
    and ok: "cached_message_ok ne OH G KG H (msg_cache m)"
      "cached_message_ok ne OH G KG H (msg_cache m')"
  shows "concat (sign_message m) = concat (sign_message m') \<longleftrightarrow>
    ctx_context (msg_context m) = ctx_context (msg_context m') \<and>
    effective_identifier idt pk = effective_identifier idt' pk' \<and>
    (case msg_role m of
       Client \<Rightarrow> msg_cache m = msg_cache m'
     | Server \<Rightarrow> (msg_cache m)\<lparr>cm_server_mac := []\<rparr> = (msg_cache m')\<lparr>cm_server_mac := []\<rparr>)"
    (is "?bytes \<longleftrightarrow> ?parts")
proof
  let ?k = "msg_cache m" and ?k' = "msg_cache m'"
  from ok have req: "length (cm_credential_request ?k) = ne" "length (cm_credential_request ?k') = ne"
    and ke1: "ke1_message_iter_ok KG (cm_ke1_message ?k)" "ke1_message_iter_ok KG (cm_ke1_message ?k')"
    and resp: "serialized_credential_response_ok ne OH G (cm_credential_response ?k)"
      "serialized_credential_response_ok ne OH G (cm_credential_response ?k')"
    and tail: "length (cm_server_nonce ?k) = length (cm_server_nonce ?k')"
      "length (cm_server_e_pk ?k) = length (cm_server_e_pk ?k')"
    by (simp_all add: cached_message_ok_def)
  assume eq: ?bytes
  note eq1 = eq [unfolded concat_sign_message [OF ctx(1) ids(1)]
      concat_sign_message [OF ctx(2) ids(2)] append_assoc same_append_eq Let_def role]
  note id_pf = length_prefixed_inj [OF _ from_identifier_short [OF ids(1) mem(3)]
      from_identifier_short [OF ids(2) mem(4)]]
  note cs = length_prefixed_inj [OF eq1 serialized_context_short [OF ctx(1) mem(1)]
      serialized_context_short [OF ctx(2) mem(2)]]
  show ?parts
  proof (cases "msg_role m")
    case Server
    note e = cs [THEN conjunct2, unfolded Server role.case append_Nil append_Nil2 append_assoc]
    note r = credential_request_codec.enc_prefix_free [OF req e]
    note k = ke1_message_iter_codec.enc_prefix_free [OF ke1 r [THEN conjunct2]]
    note i = id_pf [OF k [THEN conjunct2]]
    note p = credential_response_codec.enc_prefix_free [OF resp i [THEN conjunct2]]
    from p tail have "cm_server_nonce ?k = cm_server_nonce ?k'"
      "cm_server_e_pk ?k = cm_server_e_pk ?k'" by simp_all
    with cs r k i p Server show ?thesis by (simp add: cached_message.equality)
  next
    case Client
    note e = cs [THEN conjunct2, unfolded Client role.case append_Nil append_Nil2 append_assoc]
    note i = id_pf [OF e]
    note r = credential_request_codec.enc_prefix_free [OF req i [THEN conjunct2]]
    note k = ke1_message_iter_codec.enc_prefix_free [OF ke1 r [THEN conjunct2]]
    note p = credential_response_codec.enc_prefix_free [OF resp k [THEN conjunct2]]
    from p tail have "cm_server_nonce ?k = cm_server_nonce ?k'"
      "cm_server_e_pk ?k = cm_server_e_pk ?k'" "cm_server_mac ?k = cm_server_mac ?k'" by simp_all
    with cs r k i p Client show ?thesis by (simp add: cached_message.equality)
  qed
next
  assume parts: ?parts
  have fields: "k\<lparr>cm_server_mac := []\<rparr> = k'\<lparr>cm_server_mac := []\<rparr> \<longleftrightarrow>
      cm_credential_request k = cm_credential_request k' \<and> cm_ke1_message k = cm_ke1_message k' \<and>
      cm_credential_response k = cm_credential_response k' \<and>
      cm_server_nonce k = cm_server_nonce k' \<and> cm_server_e_pk k = cm_server_e_pk k'"
    for k k' :: cached_message
    by (cases k; cases k') simp
  show ?bytes
    using parts role
    by (simp add: concat_sign_message [OF ctx(1) ids(1)] concat_sign_message [OF ctx(2) ids(2)]
        Let_def fields split: role.splits)
qed

text \<open>
  Two messages that a server signs alike although they differ in the client's identifier and in the
  MAC; signed in the client's role, messages with these two MACs differ.
\<close>

theorem sign_message_injective_witness:
  "\<exists>m m'. msg_role m = Server \<and> concat (sign_message m) = concat (sign_message m') \<and>
    si_identifier (sids_client (msg_identifiers m)) = Owned [7] \<and>
    si_identifier (sids_client (msg_identifiers m')) = Owned [9] \<and>
    cm_server_mac (msg_cache m) = [1, 2] \<and> cm_server_mac (msg_cache m') = [3, 4] \<and>
    concat (sign_message (m\<lparr>msg_role := Client, msg_identifiers := msg_identifiers m'\<rparr>))
      \<noteq> concat (sign_message (m'\<lparr>msg_role := Client\<rparr>))"
proof -
  define k where k_def: "k = (\<lambda>mac :: bytes. \<lparr>cm_credential_request = [4],
    cm_ke1_message = \<lparr>k1i_client_nonce = zeros nonce_len, k1i_client_e_pk = [5]\<rparr>,
    cm_credential_response = \<lparr>scr_evaluation_element = [6], scr_masking_nonce = zeros nonce_len,
      scr_masked_response = \<lparr>mr_nonce = zeros nonce_len, mr_hash = [1, 2], mr_pk = [3]\<rparr>\<rparr>,
    cm_server_nonce = zeros nonce_len, cm_server_e_pk = [8], cm_server_mac = mac\<rparr>)"
  obtain ctx where ctx: "serialized_context_from None = Ok ctx"
    using serialized_context_from_Ok [of None] by auto
  obtain si where si: "from_identifier None [7] = Ok si" "si_identifier si = Owned [7]"
    by (auto simp: from_identifier_def i2osp2_Ok)
  obtain si' where si': "from_identifier None [9] = Ok si'" "si_identifier si' = Owned [9]"
    by (auto simp: from_identifier_def i2osp2_Ok)
  define msg where msg_def: "msg = (\<lambda>rl idt mac. \<lparr>msg_role = rl, msg_context = ctx,
    msg_identifiers = \<lparr>sids_client = idt, sids_server = si\<rparr>, msg_cache = k mac\<rparr>)"
  have ok: "cached_message_ok (Suc 0) (mini_hash 2) mini_group mini_group (mini_hash 2) (k [a, b])" for a b
    by (simp add: k_def cached_message_ok_def ke1_message_iter_ok_def
        serialized_credential_response_ok_def masked_response_ok_def)
  have "concat (sign_message (msg Server si [1, 2])) = concat (sign_message (msg Server si' [3, 4]))"
    by (subst sign_message_injective [where c = None and c' = None and idt = None and idt' = None
          and pk = "[7]" and pk' = "[7]" and ne = 1 and OH = "mini_hash 2" and G = mini_group
          and KG = mini_group and H = "mini_hash 2"])
       (simp_all add: msg_def ctx si si' ok own_identifier_def effective_identifier_def,
        simp_all add: k_def)
  moreover have "concat (sign_message (msg Client si' [1, 2]))
      \<noteq> concat (sign_message (msg Client si' [3, 4]))"
    by (subst sign_message_injective [where c = None and c' = None and idt = None and idt' = None
          and pk = "[9]" and pk' = "[9]" and ne = 1 and OH = "mini_hash 2" and G = mini_group
          and KG = mini_group and H = "mini_hash 2"])
       (simp_all add: msg_def ctx si si' ok own_identifier_def effective_identifier_def,
        simp_all add: k_def)
  ultimately show ?thesis
    by (intro exI [of _ "msg Server si [1, 2]"] exI [of _ "msg Server si' [3, 4]"])
       (simp add: msg_def si si' k_def)
qed

end
