(* ===== verification/Sigma_I.thy ===== *)
theory Sigma_I
  imports Sigma_Message Key_Exchange
begin

text \<open>
  \<open>src/key_exchange/sigma_i/mod.rs\<close>: the SIGMA-I key exchange. The trait \<open>SignatureProtocol\<close> is a
  record with its contract as a locale (the instances are in \<open>Signatures\<close>). \<open>KG\<close> is the group of
  the ephemeral keys, \<open>dh\<close> its Diffie-Hellman function, \<open>H\<close> the key exchange hash.
\<close>

section \<open>Signature protocols\<close>

record ('sk, 'pk, 'sig, 'vs) signature_protocol =
  sig_group :: "('sk, 'pk) ke_group"
  sig_len :: nat
  sig_sign :: "'sk \<Rightarrow> message \<Rightarrow> rng \<Rightarrow> ('sig \<times> 'vs) \<times> rng"
  sig_verify :: "'pk \<Rightarrow> message_builder \<Rightarrow> 'vs \<Rightarrow> 'sig \<Rightarrow> (protocol_error, unit) result"
  serialize_signature :: "'sig \<Rightarrow> bytes"
  deserialize_take_signature :: "(bytes, protocol_error, 'sig) st"
  verify_state_wire :: "'vs wire"

text \<open>\<open>PrivateKey::sign\<close> and \<open>PublicKey::verify\<close> of \<open>src/keypair.rs\<close>.\<close>

definition private_key_sign ::
    "('sk, 'pk, 'sig, 'vs) signature_protocol \<Rightarrow> 'sk \<Rightarrow> message \<Rightarrow> rng \<Rightarrow> ('sig \<times> 'vs) \<times> rng" where
  "private_key_sign SP self message rng = sig_sign SP self message rng"

definition public_key_verify ::
    "('sk, 'pk, 'sig, 'vs) signature_protocol \<Rightarrow> 'pk \<Rightarrow> message_builder \<Rightarrow> 'vs \<Rightarrow> 'sig \<Rightarrow>
     (protocol_error, unit) result" where
  "public_key_verify SP self builder state signature = sig_verify SP self builder state signature"

text \<open>
  What SIGMA-I needs of \<open>SIG\<close>: a signature verifies at the other party, who signed its own view of
  the same exchange and kept the state of that call. \<open>msg_ok\<close> are the messages of the suite.
\<close>

locale signature_scheme =
  fixes SP :: "('sk, 'pk, 'sig, 'vs) signature_protocol"
    and trusted :: bool
    and wf_sk :: "'sk \<Rightarrow> bool"
    and wf_pk :: "'pk \<Rightarrow> bool"
    and wf_sig :: "'sig \<Rightarrow> bool"
    and wf_vs :: "'vs \<Rightarrow> bool"
    and msg_ok :: "message \<Rightarrow> bool"
  assumes sig_keys: "trusted \<Longrightarrow> group_ok (sig_group SP) wf_sk wf_pk"
    and sig_codec: "trusted \<Longrightarrow> wire_codec (serialize_signature SP)
          (deserialize_take_signature SP) (sig_len SP) wf_sig"
    and vs_codec: "trusted \<Longrightarrow> wire_ok (verify_state_wire SP) wf_vs"
    and sign_wf: "trusted \<Longrightarrow> wf_sk sk \<Longrightarrow> sig_sign SP sk m r = ((sg, vs), r') \<Longrightarrow> wf_sig sg"
    and state_wf: "trusted \<Longrightarrow> wf_sk sk \<Longrightarrow> msg_ok m \<Longrightarrow>
          sig_sign SP sk m r = ((sg, vs), r') \<Longrightarrow> wf_vs vs"
    and sign_verify: "trusted \<Longrightarrow> wf_sk sk \<Longrightarrow> sig_sign SP sk m r1 = ((sg, vs), r1') \<Longrightarrow>
          sig_sign SP sk' (peer_message m) r2 = ((sg', vs'), r2') \<Longrightarrow>
          sig_verify SP (public_key (sig_group SP) sk) (peer_builder m) vs' sg = Ok ()"

definition signature_ok ::
    "('sk, 'pk, 'sig, 'vs) signature_protocol \<Rightarrow> ('sk \<Rightarrow> bool) \<Rightarrow> ('pk \<Rightarrow> bool) \<Rightarrow> ('sig \<Rightarrow> bool) \<Rightarrow>
     ('vs \<Rightarrow> bool) \<Rightarrow> (message \<Rightarrow> bool) \<Rightarrow> bool" where
  "signature_ok SP wf_sk wf_pk wf_sig wf_vs msg_ok \<longleftrightarrow>
     signature_scheme SP True wf_sk wf_pk wf_sig wf_vs msg_ok"

interpretation any_sig: signature_scheme SP "signature_ok SP wf_sk wf_pk wf_sig wf_vs msg_ok"
  wf_sk wf_pk wf_sig wf_vs msg_ok
  for SP :: "('sk, 'pk, 'sig, 'vs) signature_protocol" and wf_sk wf_pk wf_sig wf_vs msg_ok
proof (cases "signature_ok SP wf_sk wf_pk wf_sig wf_vs msg_ok")
  case True
  then have "signature_scheme SP True wf_sk wf_pk wf_sig wf_vs msg_ok" by (simp add: signature_ok_def)
  with True show "signature_scheme SP (signature_ok SP wf_sk wf_pk wf_sig wf_vs msg_ok)
    wf_sk wf_pk wf_sig wf_vs msg_ok" by simp
next
  case False
  then show "signature_scheme SP (signature_ok SP wf_sk wf_pk wf_sig wf_vs msg_ok)
    wf_sk wf_pk wf_sig wf_vs msg_ok" by (intro signature_scheme.intro) simp_all
qed

section \<open>State and messages\<close>

record ('pk, 'epk) sigma_builder =
  sgb_transcript :: message
  sgb_server_nonce :: bytes
  sgb_client_s_pk :: 'pk
  sgb_server_e_pk :: 'epk
  sgb_expected_mac :: bytes
  sgb_session_key :: bytes

record ('pk, 'vs) sigma_ke2_state =
  sgs_client_s_pk :: 'pk
  sgs_session_key :: bytes
  sgs_verify_state :: 'vs
  sgs_expected_mac :: bytes

record ('epk, 'sig) sigma_ke2_message =
  sg2_server_nonce :: bytes
  sg2_server_e_pk :: 'epk
  sg2_signature :: 'sig
  sg2_mac :: bytes

record 'sig sigma_ke3_message =
  sg3_signature :: 'sig
  sg3_mac :: bytes

section \<open>Steps\<close>

text \<open>The MAC of an identifier: the source has this block for the server's and the client's.\<close>

definition identifier_mac ::
    "hash_fns \<Rightarrow> bytes \<Rightarrow> serialized_identifier \<Rightarrow> (protocol_error, bytes) result" where
  "identifier_mac H key idt =
     bind_result (ok_or (protocol_from_internal HmacError) (hmac_new_from_slice H key)) (\<lambda>mac.
     Ok (mac (update_iter (@) [] (serialized_identifier_iter idt))))"

definition sigma_generate_ke1 ::
    "('esk, 'epk) ke_group \<Rightarrow> (rng, protocol_error, 'esk ke1_state \<times> 'epk ke1_message) st" where
  "sigma_generate_ke1 KG = shared_generate_ke1 KG"

definition sigma_ke2_builder ::
    "('esk, 'epk) ke_group \<Rightarrow> ('esk, 'epk) diffie_hellman \<Rightarrow> hash_fns \<Rightarrow>
     serialized_credential_request \<Rightarrow> 'epk ke1_message \<Rightarrow> serialized_credential_response \<Rightarrow> 'pk \<Rightarrow>
     serialized_identifiers \<Rightarrow> serialized_context \<Rightarrow>
     (rng, protocol_error, ('pk, 'epk) sigma_builder) st" where
  "sigma_ke2_builder KG dh H credential_request ke1_message credential_response client_s_pk sids ctx =
     bind_st (keypair_derive_random KG) (\<lambda>server_e.
     bind_st (run_st generate_nonce) (\<lambda>server_nonce.
     let ke1_message_iter = to_iter KG ke1_message;
         server_e_pk = public_key_serialize KG (keypair_public server_e);
         transcript_hasher = transcript ctx sids credential_request ke1_message_iter
           credential_response server_nonce server_e_pk;
         shared_secret = ke_diffie_hellman dh (keypair_private server_e) (client_e_pk ke1_message) in
     bind_st (lift_st (derive_keys H [shared_secret] (hash_digest H transcript_hasher))) (\<lambda>keys.
     bind_st (lift_st (identifier_mac H (dk_km2 keys) (sids_server sids))) (\<lambda>server_mac.
     bind_st (lift_st (identifier_mac H (dk_km3 keys) (sids_client sids))) (\<lambda>client_mac.
     let message =
       \<lparr>msg_role = Server, msg_context = ctx, msg_identifiers = sids,
        msg_cache = \<lparr>cm_credential_request = credential_request,
          cm_ke1_message = ke1_message_iter, cm_credential_response = credential_response,
          cm_server_nonce = server_nonce, cm_server_e_pk = server_e_pk,
          cm_server_mac = server_mac\<rparr>\<rparr> in
     return_st
       \<lparr>sgb_transcript = message, sgb_server_nonce = server_nonce, sgb_client_s_pk = client_s_pk,
        sgb_server_e_pk = keypair_public server_e, sgb_expected_mac = client_mac,
        sgb_session_key = dk_session_key keys\<rparr>)))))"

definition sigma_ke2_builder_data :: "('pk, 'epk) sigma_builder \<Rightarrow> message" where
  "sigma_ke2_builder_data builder = sgb_transcript builder"

definition sigma_generate_ke2_input ::
    "('sk, 'pk, 'sig, 'vs) signature_protocol \<Rightarrow> ('pk, 'epk) sigma_builder \<Rightarrow> 'sk \<Rightarrow> rng \<Rightarrow>
     ('sig \<times> 'vs) \<times> rng" where
  "sigma_generate_ke2_input SP builder server_s_sk rng =
     private_key_sign SP server_s_sk (sgb_transcript builder) rng"

definition sigma_build_ke2 ::
    "('pk, 'epk) sigma_builder \<Rightarrow> 'sig \<times> 'vs \<Rightarrow>
     (protocol_error, ('pk, 'vs) sigma_ke2_state \<times> ('epk, 'sig) sigma_ke2_message) result" where
  "sigma_build_ke2 builder input =
     Ok (\<lparr>sgs_client_s_pk = sgb_client_s_pk builder, sgs_session_key = sgb_session_key builder,
          sgs_verify_state = snd input, sgs_expected_mac = sgb_expected_mac builder\<rparr>,
         \<lparr>sg2_server_nonce = sgb_server_nonce builder, sg2_server_e_pk = sgb_server_e_pk builder,
          sg2_signature = fst input,
          sg2_mac = cm_server_mac (msg_cache (sgb_transcript builder))\<rparr>)"

definition sigma_generate_ke3 ::
    "('sk, 'pk, 'sig, 'vs) signature_protocol \<Rightarrow> ('esk, 'epk) ke_group \<Rightarrow>
     ('esk, 'epk) diffie_hellman \<Rightarrow> hash_fns \<Rightarrow>
     serialized_credential_request \<Rightarrow> 'epk ke1_message \<Rightarrow> serialized_credential_response \<Rightarrow>
     'esk ke1_state \<Rightarrow> ('epk, 'sig) sigma_ke2_message \<Rightarrow> 'pk \<Rightarrow> 'sk \<Rightarrow> serialized_identifiers \<Rightarrow>
     serialized_context \<Rightarrow> (rng, protocol_error, bytes \<times> 'sig sigma_ke3_message) st" where
  "sigma_generate_ke3 SP KG dh H credential_request ke1_message credential_response ke1_state
      ke2_message server_s_pk client_s_sk sids ctx =
     (let ke1_message_iter = to_iter KG ke1_message;
          server_e_pk = public_key_serialize KG (sg2_server_e_pk ke2_message);
          transcript_hasher = transcript ctx sids credential_request ke1_message_iter
            credential_response (sg2_server_nonce ke2_message) server_e_pk;
          shared_secret = ke_diffie_hellman dh (client_e_sk ke1_state) (sg2_server_e_pk ke2_message)
      in
      bind_st (lift_st (derive_keys H [shared_secret] (hash_digest H transcript_hasher))) (\<lambda>keys.
      bind_st (lift_st (identifier_mac H (dk_km2 keys) (sids_server sids))) (\<lambda>server_mac.
      bind_st (lift_st (ok_or InvalidLoginError
        (if server_mac = sg2_mac ke2_message then Some () else None))) (\<lambda>_.
      bind_st (lift_st (identifier_mac H (dk_km3 keys) (sids_client sids))) (\<lambda>client_mac.
      let message =
        \<lparr>msg_role = Client, msg_context = ctx, msg_identifiers = sids,
         msg_cache = \<lparr>cm_credential_request = credential_request,
           cm_ke1_message = ke1_message_iter, cm_credential_response = credential_response,
           cm_server_nonce = sg2_server_nonce ke2_message, cm_server_e_pk = server_e_pk,
           cm_server_mac = server_mac\<rparr>\<rparr> in
      bind_st (run_st (private_key_sign SP client_s_sk message)) (\<lambda>(signature, state).
      bind_st (lift_st (public_key_verify SP server_s_pk
        \<lparr>mb_role = Client, mb_context = ctx, mb_identifier = sids_server sids\<rparr>
        state (sg2_signature ke2_message))) (\<lambda>_.
      return_st (dk_session_key keys,
        \<lparr>sg3_signature = signature, sg3_mac = client_mac\<rparr>))))))))"

definition sigma_finish_ke ::
    "('sk, 'pk, 'sig, 'vs) signature_protocol \<Rightarrow> ('pk, 'vs) sigma_ke2_state \<Rightarrow>
     'sig sigma_ke3_message \<Rightarrow> identifiers \<Rightarrow> serialized_context \<Rightarrow> (protocol_error, bytes) result"
  where
  "sigma_finish_ke SP ke2_state ke3_message ids ctx =
     bind_result (from_identifier (id_client ids)
       (public_key_serialize (sig_group SP) (sgs_client_s_pk ke2_state))) (\<lambda>idt.
     bind_result (public_key_verify SP (sgs_client_s_pk ke2_state)
       \<lparr>mb_role = Server, mb_context = ctx, mb_identifier = idt\<rparr>
       (sgs_verify_state ke2_state) (sg3_signature ke3_message)) (\<lambda>_.
     ok_or InvalidLoginError
       (if sgs_expected_mac ke2_state = sg3_mac ke3_message
        then Some (sgs_session_key ke2_state) else None)))"

section \<open>Serialization\<close>

definition sigma_ke2_state_serialize ::
    "('sk, 'pk, 'sig, 'vs) signature_protocol \<Rightarrow> ('pk, 'vs) sigma_ke2_state \<Rightarrow> bytes" where
  "sigma_ke2_state_serialize SP self =
     cat (cat (cat (public_key_serialize (sig_group SP) (sgs_client_s_pk self))
       (sgs_session_key self))
       (wire_serialize (verify_state_wire SP) (sgs_verify_state self)))
       (sgs_expected_mac self)"

definition sigma_ke2_state_deserialize_take ::
    "('sk, 'pk, 'sig, 'vs) signature_protocol \<Rightarrow> hash_fns \<Rightarrow>
     (bytes, protocol_error, ('pk, 'vs) sigma_ke2_state) st" where
  "sigma_ke2_state_deserialize_take SP H =
     bind_st (public_key_deserialize_take (sig_group SP)) (\<lambda>client_s_pk.
     bind_st (take_array (hash_len H) ''session key'') (\<lambda>session_key.
     bind_st (wire_deserialize_take (verify_state_wire SP)) (\<lambda>verify_state.
     bind_st (take_array (hash_len H) ''expected mac'') (\<lambda>expected_mac.
     return_st \<lparr>sgs_client_s_pk = client_s_pk, sgs_session_key = session_key,
                sgs_verify_state = verify_state, sgs_expected_mac = expected_mac\<rparr>))))"

definition sigma_ke2_message_serialize ::
    "('sk, 'pk, 'sig, 'vs) signature_protocol \<Rightarrow> ('esk, 'epk) ke_group \<Rightarrow>
     ('epk, 'sig) sigma_ke2_message \<Rightarrow> bytes" where
  "sigma_ke2_message_serialize SP KG self =
     cat (cat (cat (sg2_server_nonce self) (public_key_serialize KG (sg2_server_e_pk self)))
       (serialize_signature SP (sg2_signature self)))
       (sg2_mac self)"

definition sigma_ke2_message_deserialize_take ::
    "('sk, 'pk, 'sig, 'vs) signature_protocol \<Rightarrow> ('esk, 'epk) ke_group \<Rightarrow> hash_fns \<Rightarrow>
     (bytes, protocol_error, ('epk, 'sig) sigma_ke2_message) st" where
  "sigma_ke2_message_deserialize_take SP KG H =
     bind_st (take_array nonce_len ''server nonce'') (\<lambda>server_nonce.
     bind_st (public_key_deserialize_take KG) (\<lambda>server_e_pk.
     bind_st (deserialize_take_signature SP) (\<lambda>signature.
     bind_st (take_array (hash_len H) ''mac'') (\<lambda>mac.
     return_st \<lparr>sg2_server_nonce = server_nonce, sg2_server_e_pk = server_e_pk,
                sg2_signature = signature, sg2_mac = mac\<rparr>))))"

definition sigma_ke3_message_serialize ::
    "('sk, 'pk, 'sig, 'vs) signature_protocol \<Rightarrow> 'sig sigma_ke3_message \<Rightarrow> bytes" where
  "sigma_ke3_message_serialize SP self =
     cat (serialize_signature SP (sg3_signature self)) (sg3_mac self)"

definition sigma_ke3_message_deserialize_take ::
    "('sk, 'pk, 'sig, 'vs) signature_protocol \<Rightarrow> hash_fns \<Rightarrow>
     (bytes, protocol_error, 'sig sigma_ke3_message) st" where
  "sigma_ke3_message_deserialize_take SP H =
     bind_st (deserialize_take_signature SP) (\<lambda>signature.
     bind_st (take_array (hash_len H) ''mac'') (\<lambda>mac.
     return_st \<lparr>sg3_signature = signature, sg3_mac = mac\<rparr>))"

section \<open>The trait implementation\<close>

definition sigma_i ::
    "('sk, 'pk, 'sig, 'vs) signature_protocol \<Rightarrow> ('esk, 'epk) ke_group \<Rightarrow>
     ('esk, 'epk) diffie_hellman \<Rightarrow> hash_fns \<Rightarrow>
     ('sk, 'pk, 'esk ke1_state, 'epk ke1_message, ('pk, 'vs) sigma_ke2_state,
      ('pk, 'epk) sigma_builder, message, 'sig \<times> 'vs, ('epk, 'sig) sigma_ke2_message,
      'sig sigma_ke3_message) key_exchange" where
  "sigma_i SP KG dh H =
     \<lparr>ke_grp = sig_group SP, ke_hash = H,
      generate_ke1 = sigma_generate_ke1 KG,
      ke2_builder = sigma_ke2_builder KG dh H,
      ke2_builder_data = sigma_ke2_builder_data,
      generate_ke2_input = sigma_generate_ke2_input SP,
      build_ke2 = sigma_build_ke2,
      generate_ke3 = sigma_generate_ke3 SP KG dh H,
      finish_ke = sigma_finish_ke SP,
      ke1_state_wire = \<lparr>wire_len = sk_len KG + nonce_len,
        wire_serialize = ke1_state_serialize KG,
        wire_deserialize_take = ke1_state_deserialize_take KG\<rparr>,
      ke1_message_wire = \<lparr>wire_len = nonce_len + pk_len KG,
        wire_serialize = ke1_message_serialize KG,
        wire_deserialize_take = ke1_message_deserialize_take KG\<rparr>,
      ke2_state_wire =
        \<lparr>wire_len = pk_len (sig_group SP) + hash_len H + wire_len (verify_state_wire SP) + hash_len H,
         wire_serialize = sigma_ke2_state_serialize SP,
         wire_deserialize_take = sigma_ke2_state_deserialize_take SP H\<rparr>,
      ke2_message_wire = \<lparr>wire_len = nonce_len + pk_len KG + sig_len SP + hash_len H,
        wire_serialize = sigma_ke2_message_serialize SP KG,
        wire_deserialize_take = sigma_ke2_message_deserialize_take SP KG H\<rparr>,
      ke3_message_wire = \<lparr>wire_len = sig_len SP + hash_len H,
        wire_serialize = sigma_ke3_message_serialize SP,
        wire_deserialize_take = sigma_ke3_message_deserialize_take SP H\<rparr>\<rparr>"

section \<open>Facts\<close>

definition sigma_ke2_state_ok ::
    "hash_fns \<Rightarrow> ('pk \<Rightarrow> bool) \<Rightarrow> ('vs \<Rightarrow> bool) \<Rightarrow> ('pk, 'vs) sigma_ke2_state \<Rightarrow> bool" where
  "sigma_ke2_state_ok H wf_pk wf_vs s \<longleftrightarrow>
     wf_pk (sgs_client_s_pk s) \<and> length (sgs_session_key s) = hash_len H \<and>
     wf_vs (sgs_verify_state s) \<and> length (sgs_expected_mac s) = hash_len H"

definition sigma_ke2_message_ok ::
    "hash_fns \<Rightarrow> ('epk \<Rightarrow> bool) \<Rightarrow> ('sig \<Rightarrow> bool) \<Rightarrow> ('epk, 'sig) sigma_ke2_message \<Rightarrow> bool" where
  "sigma_ke2_message_ok H wf_epk wf_sig m \<longleftrightarrow>
     length (sg2_server_nonce m) = nonce_len \<and> wf_epk (sg2_server_e_pk m) \<and>
     wf_sig (sg2_signature m) \<and> length (sg2_mac m) = hash_len H"

definition sigma_ke3_message_ok ::
    "hash_fns \<Rightarrow> ('sig \<Rightarrow> bool) \<Rightarrow> 'sig sigma_ke3_message \<Rightarrow> bool" where
  "sigma_ke3_message_ok H wf_sig m \<longleftrightarrow> wf_sig (sg3_signature m) \<and> length (sg3_mac m) = hash_len H"

interpretation sigma_ke2_state_codec: wire_codec
  "sigma_ke2_state_serialize SP" "sigma_ke2_state_deserialize_take SP H"
  "pk_len (sig_group SP) + hash_len H + wire_len (verify_state_wire SP) + hash_len H"
  "\<lambda>s. signature_ok SP wf_sk wf_pk wf_sig wf_vs msg_ok \<and> sigma_ke2_state_ok H wf_pk wf_vs s"
  for SP :: "('sk, 'pk, 'sig, 'vs) signature_protocol" and H :: hash_fns
    and wf_sk wf_pk wf_sig wf_vs msg_ok
proof (unfold_locales, goal_cases)
  case (1 s)
  then have S: "signature_ok SP wf_sk wf_pk wf_sig wf_vs msg_ok" by simp
  from 1 any_group.pk_length [OF any_sig.sig_keys [OF S]] wire_okD(1) [OF any_sig.vs_codec [OF S]]
  show ?case
    by (simp add: sigma_ke2_state_serialize_def sigma_ke2_state_ok_def cat_def key_defs)
next
  case (2 s rest)
  then have S: "signature_ok SP wf_sk wf_pk wf_sig wf_vs msg_ok" by simp
  from 2 any_group.pk_roundtrip [OF any_sig.sig_keys [OF S]]
    wire_okD(2) [OF any_sig.vs_codec [OF S]]
  show ?case
    by (simp add: sigma_ke2_state_serialize_def sigma_ke2_state_deserialize_take_def
        sigma_ke2_state_ok_def cat_def key_defs)
qed

interpretation sigma_ke2_message_codec: wire_codec
  "sigma_ke2_message_serialize SP KG" "sigma_ke2_message_deserialize_take SP KG H"
  "nonce_len + pk_len KG + sig_len SP + hash_len H"
  "\<lambda>m. signature_ok SP wf_sk wf_pk wf_sig wf_vs msg_ok \<and> group_ok KG wf_esk wf_epk \<and>
       sigma_ke2_message_ok H wf_epk wf_sig m"
  for SP :: "('sk, 'pk, 'sig, 'vs) signature_protocol" and KG :: "('esk, 'epk) ke_group"
    and H :: hash_fns and wf_sk wf_pk wf_sig wf_vs msg_ok wf_esk wf_epk
proof (unfold_locales, goal_cases)
  case (1 m)
  then have S: "signature_ok SP wf_sk wf_pk wf_sig wf_vs msg_ok" and G: "group_ok KG wf_esk wf_epk"
    by simp_all
  from 1 wire_codec.enc_length [OF any_sig.sig_codec [OF S]] any_group.pk_length [OF G]
  show ?case
    by (simp add: sigma_ke2_message_serialize_def sigma_ke2_message_ok_def cat_def key_defs)
next
  case (2 m rest)
  then have S: "signature_ok SP wf_sk wf_pk wf_sig wf_vs msg_ok" and G: "group_ok KG wf_esk wf_epk"
    by simp_all
  from 2 wire_codec.dec_enc [OF any_sig.sig_codec [OF S]] any_group.pk_roundtrip [OF G]
  show ?case
    by (simp add: sigma_ke2_message_serialize_def sigma_ke2_message_deserialize_take_def
        sigma_ke2_message_ok_def cat_def key_defs)
qed

interpretation sigma_ke3_message_codec: wire_codec
  "sigma_ke3_message_serialize SP" "sigma_ke3_message_deserialize_take SP H" "sig_len SP + hash_len H"
  "\<lambda>m. signature_ok SP wf_sk wf_pk wf_sig wf_vs msg_ok \<and> sigma_ke3_message_ok H wf_sig m"
  for SP :: "('sk, 'pk, 'sig, 'vs) signature_protocol" and H :: hash_fns
    and wf_sk wf_pk wf_sig wf_vs msg_ok
proof (unfold_locales, goal_cases)
  case (1 m)
  then have S: "signature_ok SP wf_sk wf_pk wf_sig wf_vs msg_ok" by simp
  from 1 wire_codec.enc_length [OF any_sig.sig_codec [OF S]]
  show ?case by (simp add: sigma_ke3_message_serialize_def sigma_ke3_message_ok_def cat_def)
next
  case (2 m rest)
  then have S: "signature_ok SP wf_sk wf_pk wf_sig wf_vs msg_ok" by simp
  from 2 wire_codec.dec_enc [OF any_sig.sig_codec [OF S]]
  show ?case
    by (simp add: sigma_ke3_message_serialize_def sigma_ke3_message_deserialize_take_def
        sigma_ke3_message_ok_def cat_def)
qed

lemma identifier_mac_Ok_iff:
  "identifier_mac H key si = Ok m \<longleftrightarrow>
     (\<exists>f. hmac_new_from_slice H key = Some f \<and> m = f (concat (serialized_identifier_iter si)))"
  by (auto simp: identifier_mac_def bind_result_Ok_iff update_iter_def foldl_append_concat)

lemma identifier_mac_total:
  assumes "hash_ok H"
  shows "\<exists>m. identifier_mac H key si = Ok m \<and> length m = hash_len H"
  by (rule hmac_new_ok [OF assms, of key]) (auto simp: identifier_mac_Ok_iff)

definition sigma_view ::
    "role \<Rightarrow> serialized_context \<Rightarrow> serialized_identifiers \<Rightarrow> serialized_credential_request \<Rightarrow>
     ke1_message_iter \<Rightarrow> serialized_credential_response \<Rightarrow> bytes \<Rightarrow> bytes \<Rightarrow> bytes \<Rightarrow> message" where
  "sigma_view role ctx sids req k1 resp n epk mac =
     \<lparr>msg_role = role, msg_context = ctx, msg_identifiers = sids,
      msg_cache = \<lparr>cm_credential_request = req, cm_ke1_message = k1, cm_credential_response = resp,
        cm_server_nonce = n, cm_server_e_pk = epk, cm_server_mac = mac\<rparr>\<rparr>"

lemma sigma_view_peer [simp]:
  "peer_message (sigma_view Server ctx sids req k1 resp n epk mac)
     = sigma_view Client ctx sids req k1 resp n epk mac"
  "peer_message (sigma_view Client ctx sids req k1 resp n epk mac)
     = sigma_view Server ctx sids req k1 resp n epk mac"
  "peer_builder (sigma_view Server ctx sids req k1 resp n epk mac)
     = \<lparr>mb_role = Client, mb_context = ctx, mb_identifier = sids_server sids\<rparr>"
  "peer_builder (sigma_view Client ctx sids req k1 resp n epk mac)
     = \<lparr>mb_role = Server, mb_context = ctx, mb_identifier = sids_client sids\<rparr>"
  by (simp_all add: peer_message_def peer_builder_def own_identifier_def sigma_view_def)

lemma sigma_ke2_builder_Ok_iff:
  "sigma_ke2_builder KG dh H req m1 resp cpk sids ctx r = (Ok b, r') \<longleftrightarrow>
     (\<exists>kp r1 n dk smac cmac epk. keypair_derive_random KG r = (Ok kp, r1) \<and>
        generate_nonce r1 = (n, r') \<and> epk = serialize_pk KG (kp_pk kp) \<and>
        derive_keys H [dh (kp_sk kp) (client_e_pk m1)]
          (hash_digest H (transcript ctx sids req (to_iter KG m1) resp n epk)) = Ok dk \<and>
        identifier_mac H (dk_km2 dk) (sids_server sids) = Ok smac \<and>
        identifier_mac H (dk_km3 dk) (sids_client sids) = Ok cmac \<and>
        b = \<lparr>sgb_transcript = sigma_view Server ctx sids req (to_iter KG m1) resp n epk smac,
             sgb_server_nonce = n, sgb_client_s_pk = cpk, sgb_server_e_pk = kp_pk kp,
             sgb_expected_mac = cmac, sgb_session_key = dk_session_key dk\<rparr>)"
  by (auto simp: sigma_ke2_builder_def bind_st_Ok_iff key_defs Let_def sigma_view_def)

text \<open>What a session of the contract is for this implementation.\<close>

lemma sigma_session:
  assumes "ke_session (sigma_i SP KG dh H) ids c_sk s_sk req resp sids ctx st1 m1 st2 m2"
  obtains r1 r1' r2 r2' kp n dk smac cmac epk view rs rs' sg vs where
    "from_identifier (id_client ids) (serialize_pk (sig_group SP) (public_key (sig_group SP) c_sk))
       = Ok (sids_client sids)"
    "shared_generate_ke1 KG r1 = (Ok (st1, m1), r1')"
    "keypair_derive_random KG r2 = (Ok kp, r2')" "length n = nonce_len"
    "epk = serialize_pk KG (kp_pk kp)"
    "derive_keys H [dh (kp_sk kp) (client_e_pk m1)]
       (hash_digest H (transcript ctx sids req (to_iter KG m1) resp n epk)) = Ok dk"
    "identifier_mac H (dk_km2 dk) (sids_server sids) = Ok smac"
    "identifier_mac H (dk_km3 dk) (sids_client sids) = Ok cmac"
    "view = (\<lambda>role. sigma_view role ctx sids req (to_iter KG m1) resp n epk smac)"
    "sig_sign SP s_sk (view Server) rs = ((sg, vs), rs')"
    "st2 = \<lparr>sgs_client_s_pk = public_key (sig_group SP) c_sk, sgs_session_key = dk_session_key dk,
       sgs_verify_state = vs, sgs_expected_mac = cmac\<rparr>"
    "m2 = \<lparr>sg2_server_nonce = n, sg2_server_e_pk = kp_pk kp, sg2_signature = sg, sg2_mac = smac\<rparr>"
proof -
  let ?G = "sig_group SP"
  from assms have sid: "from_identifier (id_client ids) (serialize_pk ?G (public_key ?G c_sk))
      = Ok (sids_client sids)"
    by (simp add: ke_session_def sigma_i_def from_identifiers_Ok_iff)
  from assms obtain r1 r1' where g1: "shared_generate_ke1 KG r1 = (Ok (st1, m1), r1')"
    by (auto simp: ke_session_def sigma_i_def sigma_generate_ke1_def)
  from assms obtain b r2 r3 input rs rs' where
    b: "sigma_ke2_builder KG dh H req m1 resp (public_key ?G c_sk) sids ctx r2 = (Ok b, r3)"
    and input: "sig_sign SP s_sk (sgb_transcript b) rs = (input, rs')"
    and build: "sigma_build_ke2 b input = Ok (st2, m2)"
    by (auto simp: ke_session_def sigma_i_def sigma_generate_ke2_input_def private_key_sign_def)
  from b obtain kp r n dk smac cmac where kp: "keypair_derive_random KG r2 = (Ok kp, r)"
    and n: "generate_nonce r = (n, r3)"
    and dk: "derive_keys H [dh (kp_sk kp) (client_e_pk m1)]
       (hash_digest H (transcript ctx sids req (to_iter KG m1) resp n (serialize_pk KG (kp_pk kp))))
       = Ok dk"
    and smac: "identifier_mac H (dk_km2 dk) (sids_server sids) = Ok smac"
    and cmac: "identifier_mac H (dk_km3 dk) (sids_client sids) = Ok cmac"
    and bdef: "b = \<lparr>sgb_transcript = sigma_view Server ctx sids req (to_iter KG m1) resp n
         (serialize_pk KG (kp_pk kp)) smac,
       sgb_server_nonce = n, sgb_client_s_pk = public_key ?G c_sk, sgb_server_e_pk = kp_pk kp,
       sgb_expected_mac = cmac, sgb_session_key = dk_session_key dk\<rparr>"
    by (auto simp: sigma_ke2_builder_Ok_iff)
  obtain sg vs where sv: "input = (sg, vs)" by fastforce
  from build bdef sv have
    "st2 = \<lparr>sgs_client_s_pk = public_key ?G c_sk, sgs_session_key = dk_session_key dk,
       sgs_verify_state = vs, sgs_expected_mac = cmac\<rparr>"
    "m2 = \<lparr>sg2_server_nonce = n, sg2_server_e_pk = kp_pk kp, sg2_signature = sg, sg2_mac = smac\<rparr>"
    by (simp_all add: sigma_build_ke2_def sigma_view_def)
  with that [OF sid g1 kp generate_nonce_length [OF n] refl dk smac cmac refl] input sv bdef
  show thesis by simp
qed

lemma sigma_session_ok:
  assumes S: "signature_ok SP wf_sk wf_pk wf_sig wf_vs
      (\<lambda>m. cached_message_ok ne OH (sig_group SP) KG H (msg_cache m))"
    and dh: "dh_ok KG dh wf_esk wf_epk" and H: "hash_ok H" and "wf_sk c_sk" "wf_sk s_sk"
    and lens: "length req = ne" "serialized_credential_response_ok ne OH (sig_group SP) resp"
    and "ke_session (sigma_i SP KG dh H) ids c_sk s_sk req resp sids ctx st1 m1 st2 m2"
  shows "sigma_ke2_state_ok H wf_pk wf_vs st2 \<and> sigma_ke2_message_ok H wf_epk wf_sig m2"
  using assms(8)
proof (rule sigma_session)
  fix r1 r1' r2 r2' kp n dk smac cmac epk view rs rs' sg vs
  assume g1: "shared_generate_ke1 KG r1 = (Ok (st1, m1), r1')"
    and kp: "keypair_derive_random KG r2 = (Ok kp, r2')" and n: "length n = nonce_len"
    and epk: "epk = serialize_pk KG (kp_pk kp)"
    and dk: "derive_keys H [dh (kp_sk kp) (client_e_pk m1)]
       (hash_digest H (transcript ctx sids req (to_iter KG m1) resp n epk)) = Ok dk"
    and mac: "identifier_mac H (dk_km2 dk) (sids_server sids) = Ok smac"
      "identifier_mac H (dk_km3 dk) (sids_client sids) = Ok cmac"
    and view: "view = (\<lambda>role. sigma_view role ctx sids req (to_iter KG m1) resp n epk smac)"
    and sg: "sig_sign SP s_sk (view Server) rs = ((sg, vs), rs')"
    and res: "st2 = \<lparr>sgs_client_s_pk = public_key (sig_group SP) c_sk,
         sgs_session_key = dk_session_key dk, sgs_verify_state = vs, sgs_expected_mac = cmac\<rparr>"
      "m2 = \<lparr>sg2_server_nonce = n, sg2_server_e_pk = kp_pk kp, sg2_signature = sg, sg2_mac = smac\<rparr>"
  note KG = dh_ok_group_ok [OF dh] and G = any_sig.sig_keys [OF S]
  have macs: "length smac = hash_len H" "length cmac = hash_len H"
    using identifier_mac_total [OF H] mac by (metis result.inject(1))+
  have e: "wf_epk (kp_pk kp)" using keypair_derive_random_wf [OF KG kp] by simp
  have "wf_epk (client_e_pk m1)" "length (k1m_client_nonce m1) = nonce_len"
    using generate_ke1_ok [OF KG g1] by (simp_all add: ke1_message_ok_def)
  then have "ke1_message_iter_ok KG (to_iter KG m1)"
    using any_group.pk_length [OF KG] by (simp add: ke1_message_iter_ok_def to_iter_def key_defs)
  then have "cached_message_ok ne OH (sig_group SP) KG H (msg_cache (view Server))"
    using lens n macs any_group.pk_length [OF KG e]
    by (simp add: view sigma_view_def cached_message_ok_def epk)
  with any_sig.sign_wf [OF S assms(5) sg] any_sig.state_wf [OF S assms(5) _ sg] show ?thesis
    using n macs e derive_keys_session_key_length [OF H dk] any_group.public_key_wf [OF G assms(4)]
    by (simp add: res sigma_ke2_state_ok_def sigma_ke2_message_ok_def)
qed

text \<open>
  The client's last step in a session, for any MAC and with the server's signature: the client
  computes the server's keys, both signatures verify.
\<close>

lemma sigma_agreement:
  assumes S: "signature_ok SP wf_sk wf_pk wf_sig wf_vs msg_ok"
    and dh: "dh_ok KG dh wf_esk wf_epk" and H: "hash_ok H" and "wf_sk c_sk" "wf_sk s_sk"
    and "ke_session (sigma_i SP KG dh H) ids c_sk s_sk req resp sids ctx st1 m1 st2 m2"
  shows "\<exists>m3 r'. sigma_ke3_message_ok H wf_sig m3 \<and> sg3_mac m3 = sgs_expected_mac st2 \<and>
    (\<forall>mac'. sigma_generate_ke3 SP KG dh H req m1 resp st1 (m2\<lparr>sg2_mac := mac'\<rparr>)
        (public_key (sig_group SP) s_sk) c_sk sids ctx r =
      (if mac' = sg2_mac m2 then (Ok (sgs_session_key st2, m3), r')
       else (Err InvalidLoginError, r))) \<and>
    (\<forall>mac'. sigma_finish_ke SP st2 (m3\<lparr>sg3_mac := mac'\<rparr>) ids ctx =
      (if mac' = sg3_mac m3 then Ok (sgs_session_key st2) else Err InvalidLoginError))"
  using assms(6)
proof (rule sigma_session)
  fix r1 r1' r2 r2' kp n dk smac cmac epk view rs rs' sg vs
  assume sid: "from_identifier (id_client ids)
       (serialize_pk (sig_group SP) (public_key (sig_group SP) c_sk)) = Ok (sids_client sids)"
    and g1: "shared_generate_ke1 KG r1 = (Ok (st1, m1), r1')"
    and kp: "keypair_derive_random KG r2 = (Ok kp, r2')"
    and epk: "epk = serialize_pk KG (kp_pk kp)"
    and dk: "derive_keys H [dh (kp_sk kp) (client_e_pk m1)]
       (hash_digest H (transcript ctx sids req (to_iter KG m1) resp n epk)) = Ok dk"
    and smac: "identifier_mac H (dk_km2 dk) (sids_server sids) = Ok smac"
    and cmac: "identifier_mac H (dk_km3 dk) (sids_client sids) = Ok cmac"
    and view: "view = (\<lambda>role. sigma_view role ctx sids req (to_iter KG m1) resp n epk smac)"
    and sg: "sig_sign SP s_sk (view Server) rs = ((sg, vs), rs')"
    and res: "st2 = \<lparr>sgs_client_s_pk = public_key (sig_group SP) c_sk,
         sgs_session_key = dk_session_key dk, sgs_verify_state = vs, sgs_expected_mac = cmac\<rparr>"
      "m2 = \<lparr>sg2_server_nonce = n, sg2_server_e_pk = kp_pk kp, sg2_signature = sg, sg2_mac = smac\<rparr>"
  let ?G = "sig_group SP"
  note KG = dh_ok_group_ok [OF dh]
  have "dh (client_e_sk st1) (kp_pk kp) = dh (kp_sk kp) (client_e_pk m1)"
    using any_dh.dh_agree [OF dh] generate_ke1_ok [OF KG g1]
      keypair_derive_random_wf [OF KG kp] keypair_derive_random_consistent [OF kp]
    by (simp add: keypair_consistent_def ke1_state_ok_def)
  with dk have dk': "derive_keys H [dh (client_e_sk st1) (kp_pk kp)]
      (hash_digest H (transcript ctx sids req (to_iter KG m1) resp n epk)) = Ok dk" by simp
  obtain sgc vsc r' where csig: "sig_sign SP c_sk (view Client) r = ((sgc, vsc), r')"
    by (metis surj_pair)
  have client: "sig_verify SP (public_key ?G s_sk)
      \<lparr>mb_role = Client, mb_context = ctx, mb_identifier = sids_server sids\<rparr> vsc sg = Ok ()"
    using any_sig.sign_verify [OF S assms(5) sg] csig by (simp add: view)
  have server: "sig_verify SP (public_key ?G c_sk)
      \<lparr>mb_role = Server, mb_context = ctx, mb_identifier = sids_client sids\<rparr> vs sgc = Ok ()"
    using any_sig.sign_verify [OF S assms(4) csig] sg by (simp add: view)
  have "sigma_generate_ke3 SP KG dh H req m1 resp st1 (m2\<lparr>sg2_mac := mac'\<rparr>)
        (public_key ?G s_sk) c_sk sids ctx r =
      (if mac' = smac then (Ok (dk_session_key dk, \<lparr>sg3_signature = sgc, sg3_mac = cmac\<rparr>), r')
       else (Err InvalidLoginError, r))" for mac'
    using dk' smac cmac csig client
    by (simp add: sigma_generate_ke3_def key_defs epk [symmetric] res Let_def run_st_apply
        private_key_sign_def public_key_verify_def sigma_view_def [symmetric] view)
  moreover have "sigma_finish_ke SP st2 \<lparr>sg3_signature = sgc, sg3_mac = mac'\<rparr> ids ctx =
      (if mac' = cmac then Ok (dk_session_key dk) else Err InvalidLoginError)" for mac'
    using sid server by (simp add: sigma_finish_ke_def res key_defs public_key_verify_def)
  moreover have "length cmac = hash_len H" "wf_sig sgc"
    using identifier_mac_total [OF H] cmac any_sig.sign_wf [OF S assms(4) csig]
    by (metis result.inject(1))+
  ultimately show ?thesis
    by (intro exI [of _ "\<lparr>sg3_signature = sgc, sg3_mac = cmac\<rparr>"] exI [of _ r'])
       (simp add: res sigma_ke3_message_ok_def)
qed

lemma sigma_ke2_builder_total:
  assumes "derive_total KG" "hash_ok H"
  shows "\<exists>b r'. sigma_ke2_builder KG dh H req m1 resp cpk sids ctx r = (Ok b, r')"
proof -
  obtain kp r1 where kp: "keypair_derive_random KG r = (Ok kp, r1)"
    using assms(1) by (rule keypair_derive_random_total)
  obtain n r' where n: "generate_nonce r1 = (n, r')" by fastforce
  obtain dk where dk: "derive_keys H [dh (kp_sk kp) (client_e_pk m1)]
     (hash_digest H (transcript ctx sids req (to_iter KG m1) resp n (serialize_pk KG (kp_pk kp))))
     = Ok dk"
    using derive_keys_total [OF assms(2)] hash_okD(3) [OF assms(2)] by metis
  obtain smac cmac where "identifier_mac H (dk_km2 dk) (sids_server sids) = Ok smac"
    "identifier_mac H (dk_km3 dk) (sids_client sids) = Ok cmac"
    using identifier_mac_total [OF assms(2)] by metis
  with kp n dk show ?thesis unfolding sigma_ke2_builder_Ok_iff by blast
qed

lemma sigma_i_grp [simp]: "ke_grp (sigma_i SP KG dh H) = sig_group SP"
  by (simp add: sigma_i_def)

section \<open>The contract\<close>

interpretation sigma: live_key_exchange "sigma_i SP KG dh H"
  "signature_ok SP wf_sk wf_pk wf_sig wf_vs
     (\<lambda>m. cached_message_ok ne OH (sig_group SP) KG H (msg_cache m)) \<and>
   dh_ok KG dh wf_esk wf_epk \<and> hash_ok H"
  ne OH wf_sk wf_pk "ke1_state_ok wf_esk" "ke1_message_ok wf_epk"
  "sigma_ke2_state_ok H wf_pk wf_vs" "sigma_ke2_message_ok H wf_epk wf_sig"
  "sigma_ke3_message_ok H wf_sig" "derive_total KG"
  for SP :: "('sk, 'pk, 'sig, 'vs) signature_protocol" and KG :: "('esk, 'epk) ke_group" and dh H
    and wf_sk wf_pk wf_sig wf_vs wf_esk wf_epk and ne :: nat and OH :: hash_fns
proof (unfold_locales, goal_cases)
  case 1
  then show ?case using any_sig.sig_keys by (fastforce simp: sigma_i_def)
next
  case 2
  then have "group_ok KG wf_esk wf_epk" by (blast intro: dh_ok_group_ok)
  with ke1_state_codec.wire_codec_axioms [of KG wf_esk wf_epk] show ?case
    by (simp add: sigma_i_def wire_ok_def)
next
  case 3
  then have "group_ok KG wf_esk wf_epk" by (blast intro: dh_ok_group_ok)
  with ke1_message_codec.wire_codec_axioms [of KG wf_esk wf_epk] show ?case
    by (simp add: sigma_i_def wire_ok_def)
next
  case 4
  with sigma_ke2_state_codec.wire_codec_axioms [of SP H wf_sk wf_pk wf_sig wf_vs
      "\<lambda>m. cached_message_ok ne OH (sig_group SP) KG H (msg_cache m)"]
  show ?case by (simp add: sigma_i_def wire_ok_def)
next
  case 5
  then have "group_ok KG wf_esk wf_epk" by (blast intro: dh_ok_group_ok)
  with 5 sigma_ke2_message_codec.wire_codec_axioms [of SP KG H wf_sk wf_pk wf_sig wf_vs
      "\<lambda>m. cached_message_ok ne OH (sig_group SP) KG H (msg_cache m)" wf_esk wf_epk]
  show ?case by (simp add: sigma_i_def wire_ok_def)
next
  case 6
  with sigma_ke3_message_codec.wire_codec_axioms [of SP H wf_sk wf_pk wf_sig wf_vs
      "\<lambda>m. cached_message_ok ne OH (sig_group SP) KG H (msg_cache m)"]
  show ?case by (simp add: sigma_i_def wire_ok_def)
next
  case (7 r st1 m1 r')
  then have "group_ok KG wf_esk wf_epk" by (blast intro: dh_ok_group_ok)
  with 7 show ?case
    using generate_ke1_ok [of KG wf_esk wf_epk r st1 m1 r']
    by (simp add: sigma_i_def sigma_generate_ke1_def)
next
  case (8 c_sk s_sk req resp ids sids ctx st1 m1 st2 m2)
  then show ?case
    using sigma_session_ok [of SP wf_sk wf_pk wf_sig wf_vs ne OH KG H dh wf_esk wf_epk] by simp
next
  case (9 c_sk s_sk ids req resp sids ctx st1 m1 st2 m2 r)
  then have S: "signature_ok SP wf_sk wf_pk wf_sig wf_vs
      (\<lambda>m. cached_message_ok ne OH (sig_group SP) KG H (msg_cache m))"
    and dh: "dh_ok KG dh wf_esk wf_epk" and H: "hash_ok H" by blast+
  obtain m3 r' where ok: "sigma_ke3_message_ok H wf_sig m3" and m3: "sg3_mac m3 = sgs_expected_mac st2"
    and ke3: "\<And>mac'. sigma_generate_ke3 SP KG dh H req m1 resp st1 (m2\<lparr>sg2_mac := mac'\<rparr>)
        (public_key (sig_group SP) s_sk) c_sk sids ctx r =
      (if mac' = sg2_mac m2 then (Ok (sgs_session_key st2, m3), r')
       else (Err InvalidLoginError, r))"
    and fin: "\<And>mac'. sigma_finish_ke SP st2 (m3\<lparr>sg3_mac := mac'\<rparr>) ids ctx =
      (if mac' = sg3_mac m3 then Ok (sgs_session_key st2) else Err InvalidLoginError)"
    using sigma_agreement [OF S dh H 9(2,3,4)] by blast
  from ok ke3 [of "sg2_mac m2"] fin [of "sg3_mac m3"] show ?case by (simp add: sigma_i_def)
next
  case (10 r)
  then show ?case by (simp add: sigma_i_def sigma_generate_ke1_def generate_ke1_total)
next
  case (11 r st1 m1 r' req resp cpk sids ctx r2)
  then obtain b r2' where "sigma_ke2_builder KG dh H req m1 resp cpk sids ctx r2 = (Ok b, r2')"
    using sigma_ke2_builder_total by metis
  then show ?case by (simp add: sigma_i_def sigma_build_ke2_def)
qed

end
