(* ===== verification/Elliptic_Curve.thy ===== *)
theory Elliptic_Curve
  imports Concrete_Suite
begin

text \<open>
  \<open>src/key_exchange/group/elliptic_curve.rs\<close>: the NIST curves as key-exchange groups. Types and
  arithmetic are those of the \<open>elliptic-curve\<close> crate (\<open>'sc\<close> is \<open>Scalar\<close>, \<open>'nz\<close> \<open>NonZeroScalar\<close>,
  \<open>'sk\<close> \<open>SecretKey\<close>, \<open>'pt\<close> \<open>NonIdentity<ProjectivePoint>\<close>), \<open>derive_key\<close> is that of the \<open>voprf\<close>
  crate: a parameter.
\<close>

record ('sc, 'nz, 'sk, 'pt) curve_arithmetic =
  compressed_point_size :: nat
  field_bytes_size :: nat
  to_sec1_compressed :: "'pt \<Rightarrow> bytes"
  point_from_bytes :: "bytes \<Rightarrow> 'pt option"
  generate_from_rng :: "rng \<Rightarrow> 'sk \<times> rng"
  ec_derive_key :: "bytes \<Rightarrow> bytes \<Rightarrow> (voprf_error, 'sc) result"
  non_zero_scalar_new :: "'sc \<Rightarrow> 'nz option"
  secret_key_from :: "'nz \<Rightarrow> 'sk"
  to_nonzero_scalar :: "'sk \<Rightarrow> 'nz"
  mul_by_generator :: "'nz \<Rightarrow> 'pt"
  point_mul :: "'pt \<Rightarrow> 'nz \<Rightarrow> 'pt"
  secret_key_to_bytes :: "'sk \<Rightarrow> bytes"
  secret_key_from_bytes :: "bytes \<Rightarrow> 'sk option"

section \<open>Keys\<close>

definition ec_serialize_pk :: "('sc, 'nz, 'sk, 'pt) curve_arithmetic \<Rightarrow> 'pt \<Rightarrow> bytes" where
  "ec_serialize_pk C pk = to_sec1_compressed C pk"

definition ec_deserialize_take_pk ::
    "('sc, 'nz, 'sk, 'pt) curve_arithmetic \<Rightarrow> (bytes, protocol_error, 'pt) st" where
  "ec_deserialize_take_pk C =
     bind_st (take_array (compressed_point_size C) ''public key'') (\<lambda>bytes.
     lift_st (ok_or SerializationError (point_from_bytes C bytes)))"

definition ec_random_sk ::
    "('sc, 'nz, 'sk, 'pt) curve_arithmetic \<Rightarrow> rng \<Rightarrow> ('sk \<times> rng) option" where
  "ec_random_sk C rng = Some (generate_from_rng C rng)"

text \<open>\<open>expect\<close> on \<open>NonZeroScalar::new\<close> panics on a zero scalar.\<close>

definition ec_derive_scalar ::
    "('sc, 'nz, 'sk, 'pt) curve_arithmetic \<Rightarrow> bytes \<Rightarrow> (internal_error, 'sk) result" where
  "ec_derive_scalar C seed =
     map_err internal_from_voprf
       (bind_result (ec_derive_key C seed STR_OPAQUE_DERIVE_AUTH_KEY_PAIR) (\<lambda>scalar.
        case non_zero_scalar_new C scalar of
          None \<Rightarrow> Panic
        | Some nz \<Rightarrow> Ok (secret_key_from C nz)))"

definition ec_public_key :: "('sc, 'nz, 'sk, 'pt) curve_arithmetic \<Rightarrow> 'sk \<Rightarrow> 'pt" where
  "ec_public_key C sk = mul_by_generator C (to_nonzero_scalar C sk)"

definition ec_serialize_sk :: "('sc, 'nz, 'sk, 'pt) curve_arithmetic \<Rightarrow> 'sk \<Rightarrow> bytes" where
  "ec_serialize_sk C sk = secret_key_to_bytes C sk"

definition ec_deserialize_take_sk ::
    "('sc, 'nz, 'sk, 'pt) curve_arithmetic \<Rightarrow> (bytes, protocol_error, 'sk) st" where
  "ec_deserialize_take_sk C =
     bind_st (take_array (field_bytes_size C) ''secret key'') (\<lambda>bytes.
     lift_st (ok_or SerializationError (secret_key_from_bytes C bytes)))"

definition ec_diffie_hellman ::
    "('sc, 'nz, 'sk, 'pt) curve_arithmetic \<Rightarrow> ('sk, 'pt) diffie_hellman" where
  "ec_diffie_hellman C sk pk = to_sec1_compressed C (point_mul C pk (to_nonzero_scalar C sk))"

definition elliptic_curve ::
    "('sc, 'nz, 'sk, 'pt) curve_arithmetic \<Rightarrow> ('sk, 'pt) ke_group" where
  "elliptic_curve C =
     \<lparr>pk_len = compressed_point_size C, sk_len = field_bytes_size C,
      serialize_pk = ec_serialize_pk C,
      deserialize_take_pk = ec_deserialize_take_pk C,
      random_sk = ec_random_sk C,
      derive_scalar = ec_derive_scalar C,
      public_key = ec_public_key C,
      serialize_sk = ec_serialize_sk C,
      deserialize_take_sk = ec_deserialize_take_sk C\<rparr>"

section \<open>Facts\<close>

text \<open>
  What the code relies on: encodings of fixed lengths that are read back, and a commutative action.
  Nothing is said of other byte strings that the crates may accept. The types exclude the identity
  and zero, so every value of \<open>'pt\<close> and \<open>'sk\<close> is a key.
\<close>

definition curve_arithmetic_ok :: "('sc, 'nz, 'sk, 'pt) curve_arithmetic \<Rightarrow> bool" where
  "curve_arithmetic_ok C \<longleftrightarrow>
     (\<forall>p. length (to_sec1_compressed C p) = compressed_point_size C) \<and>
     (\<forall>p. point_from_bytes C (to_sec1_compressed C p) = Some p) \<and>
     (\<forall>s. length (secret_key_to_bytes C s) = field_bytes_size C) \<and>
     (\<forall>s. secret_key_from_bytes C (secret_key_to_bytes C s) = Some s) \<and>
     (\<forall>s t. point_mul C (mul_by_generator C t) s = point_mul C (mul_by_generator C s) t)"

lemma curve_arithmetic_okD:
  assumes "curve_arithmetic_ok C"
  shows "length (to_sec1_compressed C p) = compressed_point_size C"
    and "point_from_bytes C (to_sec1_compressed C p) = Some p"
    and "length (secret_key_to_bytes C s) = field_bytes_size C"
    and "secret_key_from_bytes C (secret_key_to_bytes C s) = Some s"
    and "point_mul C (mul_by_generator C t) x = point_mul C (mul_by_generator C x) t"
  using assms unfolding curve_arithmetic_ok_def by - (elim conjE; simp)+

lemmas ec_defs = elliptic_curve_def ec_serialize_pk_def ec_deserialize_take_pk_def
  ec_random_sk_def ec_derive_scalar_def ec_public_key_def ec_serialize_sk_def
  ec_deserialize_take_sk_def ec_diffie_hellman_def

interpretation ec: dh_group "elliptic_curve C" "curve_arithmetic_ok C" "\<lambda>_. True" "\<lambda>_. True"
  "ec_diffie_hellman C"
  for C :: "('sc, 'nz, 'sk, 'pt) curve_arithmetic"
proof (unfold_locales, goal_cases)
  case (13 s t)
  then show ?case
    using curve_arithmetic_okD(5) [OF 13(1), of "to_nonzero_scalar C t" "to_nonzero_scalar C s"]
    by (simp add: ec_defs)
qed (auto simp: ec_defs curve_arithmetic_okD(1-4) bind_st_Ok_iff bind_st_Panic_iff take_array_Ok_iff)

lemma ec_dh_ok:
  "curve_arithmetic_ok C \<Longrightarrow> dh_ok (elliptic_curve C) (ec_diffie_hellman C) (\<lambda>_. True) (\<lambda>_. True)"
  using ec.dh_group_axioms [of C] by (simp add: dh_ok_def)

section \<open>A concrete curve\<close>




section \<open>Properties\<close>



end
