(* ===== verification/Signatures.thy ===== *)
theory Signatures
  imports Sigma_I Elliptic_Curve
begin

text \<open>
  The three \<open>SignatureProtocol\<close>s of \<open>src/key_exchange/sigma_i\<close>: \<open>PureEddsa\<close> (\<open>pure_eddsa.rs\<close>) and
  \<open>HashEddsa\<close> (\<open>hash_eddsa.rs\<close>), which forward to an implementation trait of the group (a record
  here; \<open>Ed25519\<close> provides both), and \<open>Ecdsa\<close> (\<open>ecdsa.rs\<close>) over the NIST curves.
\<close>

section \<open>PureEdDSA\<close>

record ('sk, 'pk, 'sig) pure_eddsa_impl =
  pe_group :: "('sk, 'pk) ke_group"
  pe_sig_len :: nat
  pe_sign :: "'sk \<Rightarrow> message \<Rightarrow> 'sig \<times> cached_message"
  pe_verify :: "'pk \<Rightarrow> message_builder \<Rightarrow> cached_message \<Rightarrow> 'sig \<Rightarrow> (protocol_error, unit) result"
  pe_serialize_signature :: "'sig \<Rightarrow> bytes"
  pe_deserialize_take_signature :: "(bytes, protocol_error, 'sig) st"

text \<open>The verification state is serialized for the suite: \<open>ne\<close>, \<open>OH\<close>, \<open>KG\<close>, \<open>H\<close>.\<close>

definition pure_eddsa ::
    "('sk, 'pk, 'sig) pure_eddsa_impl \<Rightarrow> nat \<Rightarrow> hash_fns \<Rightarrow> ('esk, 'epk) ke_group \<Rightarrow> hash_fns \<Rightarrow>
     ('sk, 'pk, 'sig, cached_message) signature_protocol" where
  "pure_eddsa I ne OH KG H =
     \<lparr>sig_group = pe_group I, sig_len = pe_sig_len I,
      sig_sign = (\<lambda>sk message rng. (pe_sign I sk message, rng)),
      sig_verify = (\<lambda>pk message_builder state signature.
        pe_verify I pk message_builder state signature),
      serialize_signature = pe_serialize_signature I,
      deserialize_take_signature = pe_deserialize_take_signature I,
      verify_state_wire =
        \<lparr>wire_len = cached_message_len ne OH (pe_group I) KG H,
         wire_serialize = cached_message_serialize,
         wire_deserialize_take = cached_message_deserialize_take ne OH (pe_group I) KG H\<rparr>\<rparr>"

section \<open>HashEdDSA\<close>

record ('sk, 'pk, 'sig, 'vs) hash_eddsa_impl =
  he_group :: "('sk, 'pk) ke_group"
  he_sig_len :: nat
  he_sign :: "'sk \<Rightarrow> message \<Rightarrow> 'sig \<times> 'vs"
  he_verify :: "'pk \<Rightarrow> 'vs \<Rightarrow> 'sig \<Rightarrow> (protocol_error, unit) result"
  he_serialize_signature :: "'sig \<Rightarrow> bytes"
  he_deserialize_take_signature :: "(bytes, protocol_error, 'sig) st"
  he_state_wire :: "'vs wire"

definition hash_eddsa ::
    "('sk, 'pk, 'sig, 'vs) hash_eddsa_impl \<Rightarrow> ('sk, 'pk, 'sig, 'vs) signature_protocol" where
  "hash_eddsa I =
     \<lparr>sig_group = he_group I, sig_len = he_sig_len I,
      sig_sign = (\<lambda>sk message rng. (he_sign I sk message, rng)),
      sig_verify = (\<lambda>pk _ state signature. he_verify I pk state signature),
      serialize_signature = he_serialize_signature I,
      deserialize_take_signature = he_deserialize_take_signature I,
      verify_state_wire = he_state_wire I\<rparr>"

section \<open>ECDSA\<close>

text \<open>
  The \<open>ecdsa\<close> crate: \<open>sign_prehashed_rfc6979\<close> (key, pre-hash, additional data; the signature of the
  returned pair), \<open>verify_prehashed\<close>, and the encoding of signatures.
\<close>

record ('nz, 'pt, 'sig) ecdsa_fns =
  signature_size :: nat
  sign_prehashed_rfc6979 :: "'nz \<Rightarrow> bytes \<Rightarrow> bytes \<Rightarrow> 'sig"
  verify_prehashed :: "'pt \<Rightarrow> bytes \<Rightarrow> 'sig \<Rightarrow> bool"
  signature_to_bytes :: "'sig \<Rightarrow> bytes"
  signature_from_bytes :: "bytes \<Rightarrow> 'sig option"

definition ecdsa_sign ::
    "('sc, 'nz, 'sk, 'pt) curve_arithmetic \<Rightarrow> ('nz, 'pt, 'sig) ecdsa_fns \<Rightarrow> 'sk \<Rightarrow> bytes \<Rightarrow> rng \<Rightarrow>
     'sig \<times> rng" where
  "ecdsa_sign C E sk pre_hash rng =
     (case fill_bytes (field_bytes_size C) rng of (ad, rng') \<Rightarrow>
        (sign_prehashed_rfc6979 E (to_nonzero_scalar C sk) pre_hash ad, rng'))"

definition ecdsa_verify ::
    "('nz, 'pt, 'sig) ecdsa_fns \<Rightarrow> 'pt \<Rightarrow> bytes \<Rightarrow> 'sig \<Rightarrow> (protocol_error, unit) result" where
  "ecdsa_verify E pk pre_hash signature =
     (if verify_prehashed E pk pre_hash signature then Ok () else Err InvalidLoginError)"

definition ecdsa_protocol_sign ::
    "('sc, 'nz, 'sk, 'pt) curve_arithmetic \<Rightarrow> ('nz, 'pt, 'sig) ecdsa_fns \<Rightarrow> hash_fns \<Rightarrow> 'sk \<Rightarrow>
     message \<Rightarrow> rng \<Rightarrow> ('sig \<times> pre_hash) \<times> rng" where
  "ecdsa_protocol_sign C E SH sk message rng =
     (let hash = message_hash message in
      case ecdsa_sign C E sk (hash_digest SH (ho_sign hash)) rng of (signature, rng') \<Rightarrow>
        ((signature, hash_digest SH (ho_verify hash)), rng'))"

definition ecdsa_deserialize_take_signature ::
    "('nz, 'pt, 'sig) ecdsa_fns \<Rightarrow> (bytes, protocol_error, 'sig) st" where
  "ecdsa_deserialize_take_signature E =
     bind_st (take_array (signature_size E) ''signature'') (\<lambda>bytes.
     lift_st (ok_or SerializationError (signature_from_bytes E bytes)))"

definition ecdsa ::
    "('sc, 'nz, 'sk, 'pt) curve_arithmetic \<Rightarrow> ('nz, 'pt, 'sig) ecdsa_fns \<Rightarrow> hash_fns \<Rightarrow>
     ('sk, 'pt, 'sig, pre_hash) signature_protocol" where
  "ecdsa C E SH =
     \<lparr>sig_group = elliptic_curve C, sig_len = signature_size E,
      sig_sign = ecdsa_protocol_sign C E SH,
      sig_verify = (\<lambda>pk _ state signature. ecdsa_verify E pk state signature),
      serialize_signature = signature_to_bytes E,
      deserialize_take_signature = ecdsa_deserialize_take_signature E,
      verify_state_wire = \<lparr>wire_len = hash_len SH, wire_serialize = pre_hash_serialize,
        wire_deserialize_take = pre_hash_deserialize_take (hash_len SH)\<rparr>\<rparr>"

section \<open>Facts\<close>

definition ecdsa_ok ::
    "('sc, 'nz, 'sk, 'pt) curve_arithmetic \<Rightarrow> ('nz, 'pt, 'sig) ecdsa_fns \<Rightarrow> hash_fns \<Rightarrow> bool" where
  "ecdsa_ok C E SH \<longleftrightarrow>
     curve_arithmetic_ok C \<and>
     (\<forall>x. length (hash_digest SH x) = hash_len SH) \<and>
     (\<forall>sg. length (signature_to_bytes E sg) = signature_size E \<and>
           signature_from_bytes E (signature_to_bytes E sg) = Some sg) \<and>
     (\<forall>k h ad. verify_prehashed E (mul_by_generator C k) h (sign_prehashed_rfc6979 E k h ad))"

lemma ecdsa_okD:
  assumes "ecdsa_ok C E SH"
  shows "curve_arithmetic_ok C" "length (hash_digest SH x) = hash_len SH"
    and "length (signature_to_bytes E sg) = signature_size E"
    and "signature_from_bytes E (signature_to_bytes E sg) = Some sg"
    and "verify_prehashed E (mul_by_generator C k) h (sign_prehashed_rfc6979 E k h ad)"
  using assms unfolding ecdsa_ok_def by - (elim conjE; simp)+

interpretation ecdsa: signature_scheme "ecdsa C E SH" "ecdsa_ok C E SH" "\<lambda>_. True" "\<lambda>_. True"
  "\<lambda>_. True" "\<lambda>x. length x = hash_len SH" msg_ok
  for C :: "('sc, 'nz, 'sk, 'pt) curve_arithmetic" and E :: "('nz, 'pt, 'sig) ecdsa_fns" and SH
    and msg_ok
proof (rule signature_scheme.intro, goal_cases)
  case 1
  then show ?case
    using ec_dh_ok [OF ecdsa_okD(1) [OF 1]] by (simp add: ecdsa_def dh_ok_group_ok)
next
  case 2
  then show ?case
    by unfold_locales (simp_all add: ecdsa_def ecdsa_deserialize_take_signature_def ecdsa_okD(3,4))
next
  case 3
  show ?case using pre_hash_codec.wire_codec_axioms by (simp add: ecdsa_def wire_ok_def)
next
  case (5 sk m r sg vs r')
  then show ?case
    using ecdsa_okD(2) [OF 5(1)]
    by (auto simp: ecdsa_def ecdsa_protocol_sign_def Let_def split: prod.splits)
next
  case (6 sk m r1 sg vs r1' sk' r2 sg' vs' r2')
  then show ?case
    using ecdsa_okD(5) [OF 6(1)]
    by (auto simp: ecdsa_def ecdsa_protocol_sign_def ecdsa_sign_def ecdsa_verify_def Let_def
        message_hash_peer elliptic_curve_def ec_public_key_def split: prod.splits)
qed simp

end
