(* ===== verification/Ed25519.thy ===== *)
theory Ed25519
  imports Signatures
begin

text \<open>
  \<open>src/key_exchange/group/ed25519.rs\<close>: Ed25519 as a group, with the crate's own EdDSA signing and
  verification. Scalars \<open>'sc\<close>, points \<open>'pt\<close>, their arithmetic and the key expansion are those of
  \<open>curve25519-dalek\<close> and \<open>ed25519-dalek\<close>, SHA-512 is external: a parameter.
\<close>

record ('sc, 'pt) edwards =
  ed_sha512 :: "bytes \<Rightarrow> bytes"
  scalar_from_hash :: "bytes \<Rightarrow> 'sc"
  ed_sc_mul :: "'sc \<Rightarrow> 'sc \<Rightarrow> 'sc"
  ed_sc_add :: "'sc \<Rightarrow> 'sc \<Rightarrow> 'sc"
  ed_sc_to_bytes :: "'sc \<Rightarrow> bytes"
  ed_sc_from_canonical_bytes :: "bytes \<Rightarrow> 'sc option"
  ed_mul_base :: "'sc \<Rightarrow> 'pt"
  ed_neg :: "'pt \<Rightarrow> 'pt"
  vartime_double_scalar_mul_basepoint :: "'sc \<Rightarrow> 'pt \<Rightarrow> 'sc \<Rightarrow> 'pt"
  ed_compress :: "'pt \<Rightarrow> bytes"
  ed_decompress :: "bytes \<Rightarrow> 'pt option"
  ed_is_identity :: "'pt \<Rightarrow> bool"
  expanded_secret_key :: "bytes \<Rightarrow> 'sc \<times> bytes"

section \<open>Keys\<close>

record 'pt verifying_key =
  vk_point :: 'pt
  vk_compressed :: bytes

record ('sc, 'pt) signing_key =
  sgk_sk :: bytes
  sgk_verifying_key :: "'pt verifying_key"
  sgk_scalar :: 'sc
  sgk_hash_prefix :: bytes

definition verifying_key_from_bytes ::
    "('sc, 'pt) edwards \<Rightarrow> bytes \<Rightarrow> (protocol_error, 'pt verifying_key) result" where
  "verifying_key_from_bytes E bytes =
     (let compressed = bytes in
      case (case ed_decompress E compressed of
              Some point \<Rightarrow> if \<not> ed_is_identity E point then Some point else None
            | None \<Rightarrow> None) of
        Some point \<Rightarrow> Ok \<lparr>vk_point = point, vk_compressed = compressed\<rparr>
      | None \<Rightarrow> Err SerializationError)"

definition signing_key_from_bytes :: "('sc, 'pt) edwards \<Rightarrow> bytes \<Rightarrow> ('sc, 'pt) signing_key" where
  "signing_key_from_bytes E sk =
     (case expanded_secret_key E sk of (scalar, hash_prefix) \<Rightarrow>
        let point = ed_mul_base E scalar;
            verifying_key = \<lparr>vk_point = point, vk_compressed = ed_compress E point\<rparr>
        in \<lparr>sgk_sk = sk, sgk_verifying_key = verifying_key, sgk_scalar = scalar,
            sgk_hash_prefix = hash_prefix\<rparr>)"

definition ed_serialize_pk :: "'pt verifying_key \<Rightarrow> bytes" where
  "ed_serialize_pk pk = vk_compressed pk"

definition ed_deserialize_take_pk ::
    "('sc, 'pt) edwards \<Rightarrow> (bytes, protocol_error, 'pt verifying_key) st" where
  "ed_deserialize_take_pk E =
     bind_st (take_array 32 ''public key'') (\<lambda>bytes. lift_st (verifying_key_from_bytes E bytes))"

definition ed_random_sk ::
    "('sc, 'pt) edwards \<Rightarrow> rng \<Rightarrow> (('sc, 'pt) signing_key \<times> rng) option" where
  "ed_random_sk E rng =
     (case fill_bytes 32 rng of (sk, rng') \<Rightarrow> Some (signing_key_from_bytes E sk, rng'))"

definition ed_derive_scalar ::
    "('sc, 'pt) edwards \<Rightarrow> bytes \<Rightarrow> (internal_error, ('sc, 'pt) signing_key) result" where
  "ed_derive_scalar E seed = Ok (signing_key_from_bytes E seed)"

definition ed_public_key :: "('sc, 'pt) signing_key \<Rightarrow> 'pt verifying_key" where
  "ed_public_key sk = sgk_verifying_key sk"

definition ed_serialize_sk :: "('sc, 'pt) signing_key \<Rightarrow> bytes" where
  "ed_serialize_sk sk = sgk_sk sk"

definition ed_deserialize_take_sk ::
    "('sc, 'pt) edwards \<Rightarrow> (bytes, protocol_error, ('sc, 'pt) signing_key) st" where
  "ed_deserialize_take_sk E =
     bind_st (take_array 32 ''secret key'') (\<lambda>bytes. return_st (signing_key_from_bytes E bytes))"

definition ed25519 :: "('sc, 'pt) edwards \<Rightarrow> (('sc, 'pt) signing_key, 'pt verifying_key) ke_group" where
  "ed25519 E =
     \<lparr>pk_len = 32, sk_len = 32,
      serialize_pk = ed_serialize_pk,
      deserialize_take_pk = ed_deserialize_take_pk E,
      random_sk = ed_random_sk E,
      derive_scalar = ed_derive_scalar E,
      public_key = ed_public_key,
      serialize_sk = ed_serialize_sk,
      deserialize_take_sk = ed_deserialize_take_sk E\<rparr>"

section \<open>Signatures\<close>

record 'sc ed_signature =
  sig_R :: bytes
  sig_s :: 'sc

definition ed_signature_deserialize_take ::
    "('sc, 'pt) edwards \<Rightarrow> (bytes, protocol_error, 'sc ed_signature) st" where
  "ed_signature_deserialize_take E =
     bind_st (take_array 32 ''signature R'') (\<lambda>R.
     bind_st (take_array 32 ''signature s'') (\<lambda>s_bytes.
     bind_st (lift_st (ok_or SerializationError (ed_sc_from_canonical_bytes E s_bytes))) (\<lambda>s.
     return_st \<lparr>sig_R = R, sig_s = s\<rparr>)))"

definition ed_signature_from_slice ::
    "('sc, 'pt) edwards \<Rightarrow> bytes \<Rightarrow> (protocol_error, 'sc ed_signature) result" where
  "ed_signature_from_slice E bytes = eval_st (ed_signature_deserialize_take E) bytes"

definition ed_signature_serialize :: "('sc, 'pt) edwards \<Rightarrow> 'sc ed_signature \<Rightarrow> bytes" where
  "ed_signature_serialize E self = cat (sig_R self) (ed_sc_to_bytes E (sig_s self))"

definition ed_sign ::
    "('sc, 'pt) edwards \<Rightarrow> ('sc, 'pt) signing_key \<Rightarrow> bool \<Rightarrow> bytes list \<Rightarrow> 'sc ed_signature" where
  "ed_sign E sk pre_hash message =
     (let h = [];
          h = (if pre_hash
               then h @ map of_char ''SigEd25519 no Ed25519 collisions'' @ [1] @ [0] else h);
          h = h @ sgk_hash_prefix sk;
          h = update_iter (@) h message;
          r = scalar_from_hash E h;
          R = ed_compress E (ed_mul_base E r);
          h = [];
          h = (if pre_hash
               then h @ map of_char ''SigEd25519 no Ed25519 collisions'' @ [1] @ [0] else h);
          h = h @ R;
          h = h @ vk_compressed (sgk_verifying_key sk);
          h = update_iter (@) h message;
          k = scalar_from_hash E h;
          s = ed_sc_add E (ed_sc_mul E k (sgk_scalar sk)) r
      in \<lparr>sig_R = R, sig_s = s\<rparr>)"

definition ed_verify ::
    "('sc, 'pt) edwards \<Rightarrow> 'pt verifying_key \<Rightarrow> bool \<Rightarrow> bytes list \<Rightarrow> 'sc ed_signature \<Rightarrow>
     (protocol_error, unit) result" where
  "ed_verify E pk pre_hash message signature =
     (let h = [];
          h = (if pre_hash
               then h @ map of_char ''SigEd25519 no Ed25519 collisions'' @ [1] @ [0] else h);
          h = h @ sig_R signature;
          h = h @ vk_compressed pk;
          h = update_iter (@) h message;
          k = scalar_from_hash E h;
          minus_A = ed_neg E (vk_point pk);
          expected_R = ed_compress E
            (vartime_double_scalar_mul_basepoint E k minus_A (sig_s signature))
      in if expected_R = sig_R signature then Ok () else Err InvalidLoginError)"

text \<open>\<open>impl PureEddsaImpl for Ed25519\<close>.\<close>

definition ed_pure_sign ::
    "('sc, 'pt) edwards \<Rightarrow> ('sc, 'pt) signing_key \<Rightarrow> message \<Rightarrow> 'sc ed_signature \<times> cached_message"
  where
  "ed_pure_sign E sk message = (ed_sign E sk False (sign_message message), to_cached message)"

definition ed_pure_verify ::
    "('sc, 'pt) edwards \<Rightarrow> 'pt verifying_key \<Rightarrow> message_builder \<Rightarrow> cached_message \<Rightarrow>
     'sc ed_signature \<Rightarrow> (protocol_error, unit) result" where
  "ed_pure_verify E pk message_builder state signature =
     ed_verify E pk False (verify_message_iter (message_builder_build message_builder state))
       signature"

definition ed25519_pure ::
    "('sc, 'pt) edwards \<Rightarrow>
     (('sc, 'pt) signing_key, 'pt verifying_key, 'sc ed_signature) pure_eddsa_impl" where
  "ed25519_pure E =
     \<lparr>pe_group = ed25519 E, pe_sig_len = 64, pe_sign = ed_pure_sign E,
      pe_verify = ed_pure_verify E,
      pe_serialize_signature = ed_signature_serialize E,
      pe_deserialize_take_signature = ed_signature_deserialize_take E\<rparr>"

text \<open>\<open>impl HashEddsaImpl for Ed25519\<close>.\<close>

definition ed_hash_sign ::
    "('sc, 'pt) edwards \<Rightarrow> ('sc, 'pt) signing_key \<Rightarrow> message \<Rightarrow> 'sc ed_signature \<times> pre_hash" where
  "ed_hash_sign E sk message =
     (let hash = message_hash message in
      (ed_sign E sk True [ed_sha512 E (ho_sign hash)], ed_sha512 E (ho_verify hash)))"

definition ed_hash_verify ::
    "('sc, 'pt) edwards \<Rightarrow> 'pt verifying_key \<Rightarrow> pre_hash \<Rightarrow> 'sc ed_signature \<Rightarrow>
     (protocol_error, unit) result" where
  "ed_hash_verify E pk state signature = ed_verify E pk True [state] signature"

definition ed25519_hash ::
    "('sc, 'pt) edwards \<Rightarrow>
     (('sc, 'pt) signing_key, 'pt verifying_key, 'sc ed_signature, pre_hash) hash_eddsa_impl" where
  "ed25519_hash E =
     \<lparr>he_group = ed25519 E, he_sig_len = 64, he_sign = ed_hash_sign E,
      he_verify = ed_hash_verify E,
      he_serialize_signature = ed_signature_serialize E,
      he_deserialize_take_signature = ed_signature_deserialize_take E,
      he_state_wire = \<lparr>wire_len = 64, wire_serialize = pre_hash_serialize,
        wire_deserialize_take = pre_hash_deserialize_take 64\<rparr>\<rparr>"

section \<open>Serde\<close>

text \<open>
  The hand-written serde implementations, on the bytes that the newtype struct wraps. \<open>Scalar\<close>'s own
  \<open>Deserialize\<close> accepts canonical encodings only; \<open>None\<close> is a deserialization error.
\<close>

definition serde_serialize_verifying_key :: "'pt verifying_key \<Rightarrow> bytes" where
  "serde_serialize_verifying_key self = vk_compressed self"

definition serde_deserialize_verifying_key ::
    "('sc, 'pt) edwards \<Rightarrow> bytes \<Rightarrow> 'pt verifying_key option" where
  "serde_deserialize_verifying_key E compressed =
     (case verifying_key_from_bytes E compressed of Ok vk \<Rightarrow> Some vk | _ \<Rightarrow> None)"

definition serde_serialize_signing_key :: "('sc, 'pt) signing_key \<Rightarrow> bytes" where
  "serde_serialize_signing_key self = sgk_sk self"

definition serde_deserialize_signing_key ::
    "('sc, 'pt) edwards \<Rightarrow> bytes \<Rightarrow> ('sc, 'pt) signing_key option" where
  "serde_deserialize_signing_key E bytes =
     (case ed_sc_from_canonical_bytes E bytes of
        Some sk \<Rightarrow> Some (signing_key_from_bytes E (ed_sc_to_bytes E sk))
      | None \<Rightarrow> None)"

section \<open>Facts\<close>

text \<open>
  What the crates document: encodings, expanded keys that are not the identity, and the group laws
  that relate the operations (with addition and scalar multiplication of points, which the source
  uses only through the double multiplication).
\<close>

definition edwards_ok :: "('sc, 'pt) edwards \<Rightarrow> bool" where
  "edwards_ok E \<longleftrightarrow>
     (\<forall>x. length (ed_sha512 E x) = 64) \<and>
     (\<forall>p. length (ed_compress E p) = 32 \<and> ed_decompress E (ed_compress E p) = Some p) \<and>
     (\<forall>s. length (ed_sc_to_bytes E s) = 32) \<and>
     (\<forall>s bs. ed_sc_from_canonical_bytes E bs = Some s \<longleftrightarrow> bs = ed_sc_to_bytes E s) \<and>
     (\<forall>sk. \<not> ed_is_identity E (ed_mul_base E (fst (expanded_secret_key E sk)))) \<and>
     (\<exists>add smul.
        (\<forall>k A b. vartime_double_scalar_mul_basepoint E k A b = add (smul k A) (ed_mul_base E b)) \<and>
        (\<forall>k a. smul k (ed_neg E (ed_mul_base E a)) = ed_neg E (ed_mul_base E (ed_sc_mul E k a))) \<and>
        (\<forall>a b. ed_mul_base E (ed_sc_add E a b) = add (ed_mul_base E a) (ed_mul_base E b)) \<and>
        (\<forall>p q. add (ed_neg E p) (add p q) = q))"

lemma edwards_okD:
  assumes "edwards_ok E"
  shows "length (ed_sha512 E x) = 64"
    and "length (ed_compress E p) = 32" "ed_decompress E (ed_compress E p) = Some p"
    and "length (ed_sc_to_bytes E s) = 32"
    and "ed_sc_from_canonical_bytes E bs = Some s \<longleftrightarrow> bs = ed_sc_to_bytes E s"
    and "\<not> ed_is_identity E (ed_mul_base E (fst (expanded_secret_key E sk)))"
  using assms unfolding edwards_ok_def by - (elim conjE; simp)+

lemma edwards_verification_point:
  assumes "edwards_ok E"
  shows "vartime_double_scalar_mul_basepoint E k (ed_neg E (ed_mul_base E a))
      (ed_sc_add E (ed_sc_mul E k a) r) = ed_mul_base E r"
proof -
  from assms obtain add smul where
    "\<And>k A b. vartime_double_scalar_mul_basepoint E k A b = add (smul k A) (ed_mul_base E b)"
    "\<And>k a. smul k (ed_neg E (ed_mul_base E a)) = ed_neg E (ed_mul_base E (ed_sc_mul E k a))"
    "\<And>a b. ed_mul_base E (ed_sc_add E a b) = add (ed_mul_base E a) (ed_mul_base E b)"
    "\<And>p q. add (ed_neg E p) (add p q) = q"
    unfolding edwards_ok_def by (elim conjE exE) simp
  then show ?thesis by simp
qed

definition ed_sk_ok :: "('sc, 'pt) edwards \<Rightarrow> ('sc, 'pt) signing_key \<Rightarrow> bool" where
  "ed_sk_ok E sk \<longleftrightarrow> length (sgk_sk sk) = 32 \<and> sk = signing_key_from_bytes E (sgk_sk sk)"

definition ed_pk_ok :: "('sc, 'pt) edwards \<Rightarrow> 'pt verifying_key \<Rightarrow> bool" where
  "ed_pk_ok E pk \<longleftrightarrow> length (vk_compressed pk) = 32 \<and>
     ed_decompress E (vk_compressed pk) = Some (vk_point pk) \<and> \<not> ed_is_identity E (vk_point pk)"

definition ed_signature_ok :: "'sc ed_signature \<Rightarrow> bool" where
  "ed_signature_ok sg \<longleftrightarrow> length (sig_R sg) = 32"

lemmas ed_defs = ed25519_def ed_serialize_pk_def ed_deserialize_take_pk_def ed_random_sk_def
  ed_derive_scalar_def ed_public_key_def ed_serialize_sk_def ed_deserialize_take_sk_def

lemma signing_key_sel [simp]:
  "sgk_sk (signing_key_from_bytes E bs) = bs"
  "sgk_scalar (signing_key_from_bytes E bs) = fst (expanded_secret_key E bs)"
  "sgk_verifying_key (signing_key_from_bytes E bs) =
     (let point = ed_mul_base E (fst (expanded_secret_key E bs))
      in \<lparr>vk_point = point, vk_compressed = ed_compress E point\<rparr>)"
  by (simp_all add: signing_key_from_bytes_def Let_def split: prod.split)

lemma ed_sk_okD:
  "ed_sk_ok E sk \<Longrightarrow> vk_point (sgk_verifying_key sk) = ed_mul_base E (sgk_scalar sk)"
  unfolding ed_sk_ok_def by (metis select_convs(1) signing_key_sel(2,3) verifying_key.select_convs(1))

lemma verifying_key_from_bytes_Ok_iff:
  "verifying_key_from_bytes E bs = Ok pk \<longleftrightarrow>
     vk_compressed pk = bs \<and> ed_decompress E bs = Some (vk_point pk) \<and>
     \<not> ed_is_identity E (vk_point pk)"
  by (cases pk) (auto simp: verifying_key_from_bytes_def Let_def split: option.splits if_splits)

lemma verifying_key_from_bytes_not_Panic: "verifying_key_from_bytes E bs \<noteq> Panic"
  by (auto simp: verifying_key_from_bytes_def Let_def split: option.split)

lemma ed_pk_Ok_iff:
  "deserialize_take_pk (ed25519 E) input = (Ok pk, rest) \<longleftrightarrow>
     ed_pk_ok E pk \<and> input = vk_compressed pk @ rest"
  by (auto simp: ed_defs ed_pk_ok_def bind_st_Ok_iff take_array_Ok_iff
      verifying_key_from_bytes_Ok_iff)

lemma ed_sk_Ok_iff:
  "deserialize_take_sk (ed25519 E) input = (Ok sk, rest) \<longleftrightarrow>
     ed_sk_ok E sk \<and> input = sgk_sk sk @ rest"
  by (auto simp: ed_defs ed_sk_ok_def bind_st_Ok_iff take_array_Ok_iff)

interpretation ed: canonical_key_group "ed25519 E" "edwards_ok E" "ed_sk_ok E" "ed_pk_ok E"
  for E :: "('sc, 'pt) edwards"
proof (unfold_locales, goal_cases)
  case (4 input rest)
  then show ?case by (auto simp: ed_defs bind_st_Panic_iff verifying_key_from_bytes_not_Panic)
next
  case (8 input rest)
  then show ?case by (auto simp: ed_defs bind_st_Panic_iff)
next
  case (9 s)
  then have "s = signing_key_from_bytes E (sgk_sk s)" by (simp add: ed_sk_ok_def)
  then show ?case
    using edwards_okD(2,3,6) [OF 9(1)]
    by (metis (no_types, lifting) ed_pk_ok_def ed_public_key_def ed25519_def ke_group.select_convs(7)
        signing_key_sel(3) verifying_key.select_convs(1,2))
next
  case (10 seed s)
  then show ?case by (auto simp: ed_defs ed_sk_ok_def)
next
  case (11 r s r')
  then show ?case by (auto simp: ed_defs ed_sk_ok_def length_fill_bytes split: prod.splits)
qed (auto simp: ed_pk_Ok_iff ed_sk_Ok_iff ed_pk_ok_def ed_sk_ok_def,
     auto simp: ed_defs)

lemma ed_verify_sign:
  assumes "edwards_ok E" "ed_sk_ok E sk"
  shows "ed_verify E (sgk_verifying_key sk) pre_hash message (ed_sign E sk pre_hash message) = Ok ()"
  using edwards_verification_point [OF assms(1)] ed_sk_okD [OF assms(2)]
  by (simp add: ed_verify_def ed_sign_def Let_def)

lemma ed_sign_ok: "edwards_ok E \<Longrightarrow> ed_signature_ok (ed_sign E sk pre_hash message)"
  by (simp add: ed_sign_def ed_signature_ok_def Let_def edwards_okD(2))

interpretation ed_signature_codec: canonical_codec
  "ed_signature_serialize E" "ed_signature_deserialize_take E" 64
  "\<lambda>sg. edwards_ok E \<and> ed_signature_ok sg" "edwards_ok E"
  for E :: "('sc, 'pt) edwards"
proof (unfold_locales, goal_cases)
  case (1 sg)
  then show ?case
    by (auto simp: ed_signature_serialize_def ed_signature_ok_def cat_def edwards_okD(4))
next
  case (2 sg rest)
  then have "edwards_ok E" by simp
  from 2 edwards_okD(5) [OF this, of "ed_sc_to_bytes E (sig_s sg)" "sig_s sg"]
    edwards_okD(4) [OF this, of "sig_s sg"]
  show ?case
    by (simp add: ed_signature_serialize_def ed_signature_deserialize_take_def ed_signature_ok_def
        cat_def)
next
  case (3 input sg rest)
  from 3(2) obtain s_bytes where "input = sig_R sg @ s_bytes @ rest" "length (sig_R sg) = 32"
    and "ed_sc_from_canonical_bytes E s_bytes = Some (sig_s sg)"
    by (cases sg) (auto simp: ed_signature_deserialize_take_def bind_st_Ok_iff take_array_Ok_iff)
  moreover from this have "s_bytes = ed_sc_to_bytes E (sig_s sg)"
    using edwards_okD(5) [OF 3(1)] by blast
  ultimately show ?case
    using 3(1) by (simp add: ed_signature_serialize_def ed_signature_ok_def cat_def)
qed

lemma ed_signature_codec_ok:
  "edwards_ok E \<Longrightarrow> wire_codec (ed_signature_serialize E) (ed_signature_deserialize_take E) 64
     ed_signature_ok"
  using ed_signature_codec.wire_codec_axioms [of E] by simp

lemma ed_group_ok: "edwards_ok E \<Longrightarrow> group_ok (ed25519 E) (ed_sk_ok E) (ed_pk_ok E)"
  using ed.key_group_axioms [of E] by (simp add: group_ok_def)

lemma ed_derive_total: "derive_total (ed25519 E)"
  by (simp add: derive_total_def ed_defs)

lemma ed_public_key_eq: "public_key (ed25519 E) sk = sgk_verifying_key sk"
  by (simp add: ed25519_def ed_public_key_def)

interpretation ed_pure: signature_scheme "pure_eddsa (ed25519_pure E) ne OH KG H" "edwards_ok E"
  "ed_sk_ok E" "ed_pk_ok E" ed_signature_ok "cached_message_ok ne OH (ed25519 E) KG H"
  "\<lambda>m. cached_message_ok ne OH (ed25519 E) KG H (msg_cache m)"
  for E :: "('sc, 'pt) edwards" and ne OH and KG :: "('esk, 'epk) ke_group" and H
proof (rule signature_scheme.intro, goal_cases)
  case 1
  then show ?case by (simp add: pure_eddsa_def ed25519_pure_def ed_group_ok)
next
  case 2
  then show ?case by (simp add: pure_eddsa_def ed25519_pure_def ed_signature_codec_ok)
next
  case 3
  show ?case using cached_message_codec.wire_codec_axioms
    by (simp add: pure_eddsa_def ed25519_pure_def wire_ok_def)
next
  case (4 sk m r sg vs r')
  then show ?case by (auto simp: pure_eddsa_def ed25519_pure_def ed_pure_sign_def ed_sign_ok)
next
  case (5 sk m r sg vs r')
  then show ?case
    by (auto simp: pure_eddsa_def ed25519_pure_def ed_pure_sign_def to_cached_def)
next
  case (6 sk m r1 sg vs r1' sk' r2 sg' vs' r2')
  then show ?case
    using ed_verify_sign [OF 6(1,2)] verify_message_peer [of m]
    by (simp add: pure_eddsa_def ed25519_pure_def ed_pure_sign_def ed_pure_verify_def
        ed_public_key_eq) blast
qed

interpretation ed_hash: signature_scheme "hash_eddsa (ed25519_hash E)" "edwards_ok E"
  "ed_sk_ok E" "ed_pk_ok E" ed_signature_ok "\<lambda>x. length x = 64" msg_ok
  for E :: "('sc, 'pt) edwards" and msg_ok
proof (rule signature_scheme.intro, goal_cases)
  case 1
  then show ?case by (simp add: hash_eddsa_def ed25519_hash_def ed_group_ok)
next
  case 2
  then show ?case by (simp add: hash_eddsa_def ed25519_hash_def ed_signature_codec_ok)
next
  case 3
  show ?case using pre_hash_codec.wire_codec_axioms
    by (simp add: hash_eddsa_def ed25519_hash_def wire_ok_def)
next
  case (4 sk m r sg vs r')
  then show ?case
    by (auto simp: hash_eddsa_def ed25519_hash_def ed_hash_sign_def ed_sign_ok Let_def)
next
  case (5 sk m r sg vs r')
  then show ?case
    by (auto simp: hash_eddsa_def ed25519_hash_def ed_hash_sign_def Let_def edwards_okD(1))
next
  case (6 sk m r1 sg vs r1' sk' r2 sg' vs' r2')
  then show ?case
    using ed_verify_sign [OF 6(1,2)]
    by (auto simp: hash_eddsa_def ed25519_hash_def ed_hash_sign_def ed_hash_verify_def
        ed_public_key_eq message_hash_peer Let_def)
qed

section \<open>A concrete curve\<close>

text \<open>
  The additive group of bytes, where the odd bytes are the expanded keys; for the concrete runs only.
\<close>

definition mini_edwards :: "(byte, byte) edwards" where
  "mini_edwards =
     \<lparr>ed_sha512 = (\<lambda>x. replicate 64 (checksum x)), scalar_from_hash = checksum,
      ed_sc_mul = (*), ed_sc_add = (+), ed_sc_to_bytes = (\<lambda>s. s # zeros 31),
      ed_sc_from_canonical_bytes = (\<lambda>bs. if bs = hd bs # zeros 31 then Some (hd bs) else None),
      ed_mul_base = (\<lambda>s. s), ed_neg = uminus,
      vartime_double_scalar_mul_basepoint = (\<lambda>k A b. k * A + b),
      ed_compress = (\<lambda>p. p # zeros 31),
      ed_decompress = (\<lambda>bs. if bs = hd bs # zeros 31 then Some (hd bs) else None),
      ed_is_identity = (\<lambda>p. p = 0),
      expanded_secret_key = (\<lambda>sk. (2 * hd sk + 1, take 32 sk))\<rparr>"

lemma mini_edwards_ok: "edwards_ok mini_edwards"
proof -
  have "2 * x + 1 \<noteq> (0 :: byte)" for x
  proof
    assume "2 * x + 1 = 0"
    then have "even (2 * x + 1)" by (metis even_zero)
    then show False by simp
  qed
  moreover have "(if bs = hd bs # zeros 31 then Some (hd bs) else None) = Some s \<longleftrightarrow> bs = s # zeros 31"
    for bs and s :: byte by auto
  moreover have "\<exists>add smul.
      (\<forall>k A b. vartime_double_scalar_mul_basepoint mini_edwards k A b
         = add (smul k A) (ed_mul_base mini_edwards b)) \<and>
      (\<forall>k a. smul k (ed_neg mini_edwards (ed_mul_base mini_edwards a))
         = ed_neg mini_edwards (ed_mul_base mini_edwards (ed_sc_mul mini_edwards k a))) \<and>
      (\<forall>a b. ed_mul_base mini_edwards (ed_sc_add mini_edwards a b)
         = add (ed_mul_base mini_edwards a) (ed_mul_base mini_edwards b)) \<and>
      (\<forall>p q. add (ed_neg mini_edwards p) (add p q) = q)"
    by (rule exI [of _ "(+)"], rule exI [of _ "(*)"]) (simp add: mini_edwards_def)
  ultimately show ?thesis unfolding edwards_ok_def by (simp add: mini_edwards_def)
qed

section \<open>Properties\<close>

text \<open>
  C35. The crate's EdDSA is correct in both variants: a signature made with a key verifies under its
  public key for the same message, its encoding has 64 bytes and is read back as the same
  signature, and the key itself survives its own encoding.
\<close>

theorem ed25519_sign_verify:
  assumes "edwards_ok E" "derive_scalar (ed25519 E) seed = Ok sk" "length seed = 32"
  shows "ed_verify E (public_key (ed25519 E) sk) pre_hash message (ed_sign E sk pre_hash message)
      = Ok () \<and>
    length (ed_signature_serialize E (ed_sign E sk pre_hash message)) = 64 \<and>
    ed_signature_from_slice E (ed_signature_serialize E (ed_sign E sk pre_hash message))
      = Ok (ed_sign E sk pre_hash message) \<and>
    deserialize_take_sk (ed25519 E) (serialize_sk (ed25519 E) sk @ rest) = (Ok sk, rest)"
proof -
  have sk: "ed_sk_ok E sk"
    using ed.derive_scalar_wf [OF assms(1) _ assms(2)] assms(3) by (simp add: ed25519_def)
  note ok = ed_sign_ok [OF assms(1), of sk pre_hash message]
  show ?thesis
    using ed_verify_sign [OF assms(1) sk] ed_signature_codec.enc_length [of E] assms(1) ok
      ed_signature_codec.dec_enc_exact [of E] ed.sk_roundtrip [OF assms(1) sk]
    by (simp add: ed_public_key_eq ed_signature_from_slice_def eval_st_def)
qed

theorem ed25519_sign_verify_witness:
  "\<exists>sk. derive_scalar (ed25519 mini_edwards) (5 # zeros 31) = Ok sk \<and>
    ed_verify mini_edwards (public_key (ed25519 mini_edwards) sk) True [[1], [2]]
      (ed_sign mini_edwards sk True [[1], [2]]) = Ok ()"
proof -
  have "derive_scalar (ed25519 mini_edwards) (5 # zeros 31)
      = Ok (signing_key_from_bytes mini_edwards (5 # zeros 31))"
    by (simp add: ed_defs)
  with ed25519_sign_verify [OF mini_edwards_ok this] show ?thesis by auto
qed

text \<open>
  C36. The serde form of an Ed25519 signing key is its 32 seed bytes, but reading it back goes through
  a scalar: it returns the key exactly when the seed happens to be the canonical encoding of a
  scalar and fails for every other key. The serde form of a verifying key is always read back.
\<close>

theorem ed25519_serde_keys:
  assumes "edwards_ok E" "ed_sk_ok E sk" "ed_pk_ok E pk"
  shows "serde_deserialize_signing_key E (serde_serialize_signing_key sk) =
      (if \<exists>s. sgk_sk sk = ed_sc_to_bytes E s then Some sk else None) \<and>
    serde_deserialize_verifying_key E (serde_serialize_verifying_key pk) = Some pk"
proof (intro conjI)
  have sk: "signing_key_from_bytes E (sgk_sk sk) = sk" using assms(2) by (simp add: ed_sk_ok_def)
  show "serde_deserialize_signing_key E (serde_serialize_signing_key sk) =
      (if \<exists>s. sgk_sk sk = ed_sc_to_bytes E s then Some sk else None)"
  proof (cases "ed_sc_from_canonical_bytes E (sgk_sk sk)")
    case None
    then have "sgk_sk sk \<noteq> ed_sc_to_bytes E s" for s
      using edwards_okD(5) [OF assms(1), of "sgk_sk sk" s] by simp
    with None show ?thesis
      by (simp add: serde_deserialize_signing_key_def serde_serialize_signing_key_def)
  next
    case (Some s)
    then have "sgk_sk sk = ed_sc_to_bytes E s" using edwards_okD(5) [OF assms(1)] by blast
    with Some sk show ?thesis
      by (auto simp: serde_deserialize_signing_key_def serde_serialize_signing_key_def)
  qed
  have "verifying_key_from_bytes E (vk_compressed pk) = Ok pk"
    using assms(3) by (simp add: verifying_key_from_bytes_Ok_iff ed_pk_ok_def)
  then show "serde_deserialize_verifying_key E (serde_serialize_verifying_key pk) = Some pk"
    by (simp add: serde_deserialize_verifying_key_def serde_serialize_verifying_key_def)
qed

theorem ed25519_serde_keys_witness:
  "serde_deserialize_signing_key mini_edwards
     (serde_serialize_signing_key (signing_key_from_bytes mini_edwards (replicate 32 1))) = None"
proof -
  let ?sk = "signing_key_from_bytes mini_edwards (replicate 32 1)"
  have ok: "ed_sk_ok mini_edwards ?sk" by (simp add: ed_sk_ok_def)
  have pk: "ed_pk_ok mini_edwards (public_key (ed25519 mini_edwards) ?sk)"
    by (rule ed.public_key_wf [OF mini_edwards_ok ok])
  have "sgk_sk ?sk \<noteq> ed_sc_to_bytes mini_edwards s" for s
    by (simp add: mini_edwards_def zeros_def numeral_eq_Suc)
  with ed25519_serde_keys [OF mini_edwards_ok ok pk] show ?thesis by simp
qed

end
