(* ===== verification/Suites.thy ===== *)
theory Suites
  imports Login_Correctness Triple_Dh_Kem Ed25519
begin

text \<open>
  Cipher suites built from the key exchanges, as interpretations of \<open>live_opaque_suite\<close>, and the
  end-to-end properties of the protocol over them.
\<close>

section \<open>3DH\<close>

definition tdh_suite ::
    "('e, 'oc) oprf_suite \<Rightarrow> ('sk, 'pk) ke_group \<Rightarrow> ('sk, 'pk) diffie_hellman \<Rightarrow> hash_fns \<Rightarrow> ksf \<Rightarrow>
     ('e, 'oc, 'sk, 'pk, 'sk ke1_state, 'pk ke1_message, ke2_state, 'pk ke2_builder, 'pk, bytes,
      'pk ke2_message, ke3_message) cipher_suite" where
  "tdh_suite P G dh H ksf = \<lparr>cs_oprf = P, cs_ke = triple_dh G dh H, cs_ksf = ksf\<rparr>"

lemma tdh_suite_simps [simp]:
  "cs_oprf (tdh_suite P G dh H ksf) = P" "cs_ke (tdh_suite P G dh H ksf) = triple_dh G dh H"
  "cs_ksf (tdh_suite P G dh H ksf) = ksf" "ke_grp (triple_dh G dh H) = G"
  by (simp_all add: tdh_suite_def triple_dh_def)

interpretation tdh_opaque: live_opaque_suite "tdh_suite P G dh H ksf"
  "oprf_ok P wf_e wf_oc \<and> dh_ok G dh wf_sk wf_pk \<and> hash_ok H" wf_e wf_oc wf_sk wf_pk
  "ke1_state_ok wf_sk" "ke1_message_ok wf_pk" "ke2_state_ok H" "ke2_message_ok H wf_pk"
  "ke3_message_ok H" "derive_total G"
  for P :: "('e, 'oc) oprf_suite" and G :: "('sk, 'pk) ke_group" and dh H ksf
    and wf_e wf_oc wf_sk wf_pk
proof (intro live_opaque_suite.intro opaque_suite.intro live_opaque_suite_axioms.intro, goal_cases)
  case 1
  then show ?case by simp
next
  case 2
  then show ?case
    using tdh.key_exchange_protocol_axioms [of G dh H wf_sk wf_pk "elem_len P" "oprf_hash P"]
    by simp
next
  case 3
  then show ?case
    using tdh.live_key_exchange_axioms [of G dh H wf_sk wf_pk "elem_len P" "oprf_hash P"]
    by simp
next
  case 4
  then show ?case by simp
qed

section \<open>3DH with a KEM\<close>

definition kem_suite ::
    "('e, 'oc) oprf_suite \<Rightarrow> ('sk, 'pk) ke_group \<Rightarrow> ('sk, 'pk) diffie_hellman \<Rightarrow> hash_fns \<Rightarrow>
     ('dk, 'ek) kem_core_wrapper \<Rightarrow> ksf \<Rightarrow>
     ('e, 'oc, 'sk, 'pk, ('sk, 'dk) kem_ke1_state, 'pk kem_ke1_message, kem_ke2_state,
      'pk kem_builder, 'pk \<times> bytes, bytes, 'pk kem_ke2_message, kem_ke3_message) cipher_suite"
  where
  "kem_suite P G dh H K ksf = \<lparr>cs_oprf = P, cs_ke = triple_dh_kem G dh H K, cs_ksf = ksf\<rparr>"

lemma kem_suite_simps [simp]:
  "cs_oprf (kem_suite P G dh H K ksf) = P" "cs_ke (kem_suite P G dh H K ksf) = triple_dh_kem G dh H K"
  "cs_ksf (kem_suite P G dh H K ksf) = ksf" "ke_grp (triple_dh_kem G dh H K) = G"
  by (simp_all add: kem_suite_def triple_dh_kem_def)

interpretation kem_opaque: live_opaque_suite "kem_suite P G dh H K ksf"
  "oprf_ok P wf_e wf_oc \<and> dh_ok G dh wf_sk wf_pk \<and> hash_ok H \<and> kem_ok K wf_dk wf_ek"
  wf_e wf_oc wf_sk wf_pk "kem_ke1_state_ok wf_sk wf_dk" "kem_ke1_message_ok K wf_pk"
  "kem_ke2_state_ok H K" "kem_ke2_message_ok H K wf_pk" "ke3_message_ok H" "derive_total G"
  for P :: "('e, 'oc) oprf_suite" and G :: "('sk, 'pk) ke_group" and dh H
    and K :: "('dk, 'ek) kem_core_wrapper" and ksf and wf_e wf_oc wf_sk wf_pk wf_dk wf_ek
proof (intro live_opaque_suite.intro opaque_suite.intro live_opaque_suite_axioms.intro, goal_cases)
  case 1
  then show ?case by simp
next
  case 2
  then show ?case
    using tdh_kem.key_exchange_protocol_axioms [of G dh H K wf_sk wf_pk wf_dk wf_ek
        "elem_len P" "oprf_hash P"] by simp
next
  case 3
  then show ?case
    using tdh_kem.live_key_exchange_axioms [of G dh H K wf_sk wf_pk wf_dk wf_ek
        "elem_len P" "oprf_hash P"] by simp
next
  case 4
  then show ?case by simp
qed

section \<open>SIGMA-I\<close>

text \<open>
  \<open>sigma_messages\<close> are the messages of the suite, what a signature protocol may have to keep.
\<close>

definition sigma_suite ::
    "('e, 'oc) oprf_suite \<Rightarrow> ('sk, 'pk, 'sig, 'vs) signature_protocol \<Rightarrow> ('esk, 'epk) ke_group \<Rightarrow>
     ('esk, 'epk) diffie_hellman \<Rightarrow> hash_fns \<Rightarrow> ksf \<Rightarrow>
     ('e, 'oc, 'sk, 'pk, 'esk ke1_state, 'epk ke1_message, ('pk, 'vs) sigma_ke2_state,
      ('pk, 'epk) sigma_builder, message, 'sig \<times> 'vs, ('epk, 'sig) sigma_ke2_message,
      'sig sigma_ke3_message) cipher_suite"
  where
  "sigma_suite P SP KG dh H ksf = \<lparr>cs_oprf = P, cs_ke = sigma_i SP KG dh H, cs_ksf = ksf\<rparr>"

lemma sigma_suite_simps [simp]:
  "cs_oprf (sigma_suite P SP KG dh H ksf) = P"
  "cs_ke (sigma_suite P SP KG dh H ksf) = sigma_i SP KG dh H"
  "cs_ksf (sigma_suite P SP KG dh H ksf) = ksf"
  by (simp_all add: sigma_suite_def)

definition sigma_messages ::
    "('e, 'oc) oprf_suite \<Rightarrow> ('sk, 'pk, 'sig, 'vs) signature_protocol \<Rightarrow> ('esk, 'epk) ke_group \<Rightarrow>
     hash_fns \<Rightarrow> message \<Rightarrow> bool" where
  "sigma_messages P SP KG H m \<longleftrightarrow>
     cached_message_ok (elem_len P) (oprf_hash P) (sig_group SP) KG H (msg_cache m)"

interpretation sigma_opaque: live_opaque_suite "sigma_suite P SP KG dh H ksf"
  "oprf_ok P wf_e wf_oc \<and> signature_ok SP wf_sk wf_pk wf_sig wf_vs (sigma_messages P SP KG H) \<and>
   dh_ok KG dh wf_esk wf_epk \<and> hash_ok H"
  wf_e wf_oc wf_sk wf_pk "ke1_state_ok wf_esk" "ke1_message_ok wf_epk"
  "sigma_ke2_state_ok H wf_pk wf_vs" "sigma_ke2_message_ok H wf_epk wf_sig"
  "sigma_ke3_message_ok H wf_sig" "derive_total KG \<and> derive_total (sig_group SP)"
  for P :: "('e, 'oc) oprf_suite" and SP :: "('sk, 'pk, 'sig, 'vs) signature_protocol"
    and KG :: "('esk, 'epk) ke_group" and dh H ksf
    and wf_e wf_oc wf_sk wf_pk wf_sig wf_vs wf_esk wf_epk
proof (intro live_opaque_suite.intro opaque_suite.intro live_opaque_suite_axioms.intro, goal_cases)
  case 1
  then show ?case by simp
next
  case 2
  then show ?case
    using sigma.key_exchange_protocol_axioms [of SP KG dh H wf_sk wf_pk wf_sig wf_vs
        "elem_len P" "oprf_hash P" wf_esk wf_epk]
    by (simp add: sigma_messages_def [abs_def])
next
  case 3
  then show ?case
    using sigma.live_key_exchange_axioms [of SP KG dh H wf_sk wf_pk wf_sig wf_vs
        "elem_len P" "oprf_hash P" wf_esk wf_epk]
    by (simp add: sigma_messages_def [abs_def])
next
  case 4
  then show ?case by simp
qed

section \<open>Concrete suites\<close>

abbreviation mini_tdh_suite where
  "mini_tdh_suite \<equiv> tdh_suite (mini_oprf 2) mini_group mini_dh (mini_hash 2) ksf_identity"

abbreviation mini_kem_suite where
  "mini_kem_suite \<equiv> kem_suite (mini_oprf 2) mini_group mini_dh (mini_hash 2) mini_kem ksf_identity"

abbreviation mini_pure_eddsa where
  "mini_pure_eddsa \<equiv> pure_eddsa (ed25519_pure mini_edwards) 1 (mini_hash 2) mini_group (mini_hash 2)"

abbreviation mini_sigma_suite where
  "mini_sigma_suite \<equiv>
     sigma_suite (mini_oprf 2) mini_pure_eddsa mini_group mini_dh (mini_hash 2) ksf_identity"

abbreviation mini_setup :: "(bytes, byte, byte) server_setup" where
  "mini_setup \<equiv> \<lparr>ss_oprf_seed = [1, 2], ss_keypair = \<lparr>kp_pk = 18, kp_sk = 6\<rparr>, ss_dummy_pk = 9\<rparr>"

abbreviation mini_signing_key :: "(byte, byte) signing_key" where
  "mini_signing_key \<equiv> signing_key_from_bytes mini_edwards (6 # zeros 31)"

abbreviation mini_signing_setup ::
    "(bytes, (byte, byte) signing_key, byte verifying_key) server_setup" where
  "mini_signing_setup \<equiv>
     \<lparr>ss_oprf_seed = [1, 2],
      ss_keypair = \<lparr>kp_pk = public_key (ed25519 mini_edwards) mini_signing_key,
                    kp_sk = mini_signing_key\<rparr>,
      ss_dummy_pk = public_key (ed25519 mini_edwards) mini_signing_key\<rparr>"

lemma mini_suite_ok:
  "oprf_ok (mini_oprf 2) (\<lambda>_. True) (\<lambda>_. True)"
  "dh_ok mini_group mini_dh (\<lambda>_. True) (\<lambda>_. True)" "hash_ok (mini_hash 2)"
  by (simp_all add: mini_oprf_ok mini_dh_ok mini_hash_ok)

lemma mini_signature_ok:
  "signature_ok mini_pure_eddsa (ed_sk_ok mini_edwards) (ed_pk_ok mini_edwards) ed_signature_ok
     (cached_message_ok 1 (mini_hash 2) (ed25519 mini_edwards) mini_group (mini_hash 2))
     (sigma_messages (mini_oprf 2) mini_pure_eddsa mini_group (mini_hash 2))"
  using ed_pure.signature_scheme_axioms [of mini_edwards 1 "mini_hash 2" mini_group "mini_hash 2"]
  by (simp add: signature_ok_def mini_edwards_ok sigma_messages_def [abs_def] pure_eddsa_def
      ed25519_pure_def)

lemma mini_setup_ok:
  "server_setup_ok mini_tdh_suite (\<lambda>_. True) (\<lambda>_. True) mini_setup"
  "server_setup_ok mini_kem_suite (\<lambda>_. True) (\<lambda>_. True) mini_setup"
  by (simp_all add: server_setup_ok_def keypair_consistent_def)

lemma pure_sig_group [simp]: "sig_group (pure_eddsa (ed25519_pure E) ne OH KG H) = ed25519 E"
  by (simp add: pure_eddsa_def ed25519_pure_def)

lemma mini_signing_setup_ok:
  "server_setup_ok mini_sigma_suite (ed_sk_ok mini_edwards) (ed_pk_ok mini_edwards)
     mini_signing_setup"
proof -
  have "ed_sk_ok mini_edwards mini_signing_key" by (simp add: ed_sk_ok_def)
  with ed.public_key_wf [OF mini_edwards_ok this] show ?thesis
    by (simp add: server_setup_ok_def keypair_consistent_def)
qed

lemma mini_evaluation:
  assumes "cs_oprf CS = mini_oprf 2"
  shows "server_evaluation CS [1, 2] [7] = Ok ((*) 35)"
  using assms
  by (simp add: server_evaluation_def oprf_key_material_def oprf_key_from_key_material_def
      hkdf_expand_multi_info_def checksum_def STR_OPRF_KEY_def)
     (rule arg_cong [of _ _ "(*)"], simp)

lemma mini_blind:
  "oprf_blind (mini_oprf 2) pw (counter_rng 0) = (Ok (- 1, - checksum pw), counter_rng 1)"
  by simp

lemma mini_not_reflected: "- checksum [3, 1] \<noteq> 35 * (- checksum [3, 1])"
  by (simp add: checksum_def)

lemma mini_password_key:
  assumes "cs_oprf CS = mini_oprf 2" "cs_ksf CS = ksf_identity"
  obtains p h where "get_password_derived_key CS pw c e None = Ok (p, h)"
  using assms by (simp add: get_password_derived_key_def ksf_identity_def Let_def)

abbreviation mini_params where
  "mini_params \<equiv> \<lparr>slp_context = Some [8], slp_identifiers = sample_ids\<rparr>"

lemma mini_suites_ok:
  "live_opaque_suite mini_tdh_suite True (\<lambda>_. True) (\<lambda>_. True) (\<lambda>_. True) (\<lambda>_. True)
     (ke1_state_ok (\<lambda>_. True)) (ke1_message_ok (\<lambda>_. True)) (ke2_state_ok (mini_hash 2))
     (ke2_message_ok (mini_hash 2) (\<lambda>_. True)) (ke3_message_ok (mini_hash 2)) True"
  "live_opaque_suite mini_kem_suite True (\<lambda>_. True) (\<lambda>_. True) (\<lambda>_. True) (\<lambda>_. True)
     (kem_ke1_state_ok (\<lambda>_. True) (\<lambda>_. True)) (kem_ke1_message_ok mini_kem (\<lambda>_. True))
     (kem_ke2_state_ok (mini_hash 2) mini_kem)
     (kem_ke2_message_ok (mini_hash 2) mini_kem (\<lambda>_. True)) (ke3_message_ok (mini_hash 2)) True"
  "live_opaque_suite mini_sigma_suite True (\<lambda>_. True) (\<lambda>_. True) (ed_sk_ok mini_edwards)
     (ed_pk_ok mini_edwards) (ke1_state_ok (\<lambda>_. True)) (ke1_message_ok (\<lambda>_. True))
     (sigma_ke2_state_ok (mini_hash 2) (ed_pk_ok mini_edwards)
       (cached_message_ok 1 (mini_hash 2) (ed25519 mini_edwards) mini_group (mini_hash 2)))
     (sigma_ke2_message_ok (mini_hash 2) (\<lambda>_. True) ed_signature_ok)
     (sigma_ke3_message_ok (mini_hash 2) ed_signature_ok) True"
  using tdh_opaque.live_opaque_suite_axioms [of "mini_oprf 2" mini_group mini_dh "mini_hash 2"
      ksf_identity "\<lambda>_. True" "\<lambda>_. True" "\<lambda>_. True" "\<lambda>_. True"]
    kem_opaque.live_opaque_suite_axioms [of "mini_oprf 2" mini_group mini_dh "mini_hash 2" mini_kem
      ksf_identity "\<lambda>_. True" "\<lambda>_. True" "\<lambda>_. True" "\<lambda>_. True" "\<lambda>_. True" "\<lambda>k. k \<noteq> 255"]
    sigma_opaque.live_opaque_suite_axioms [of "mini_oprf 2" mini_pure_eddsa mini_group mini_dh
      "mini_hash 2" ksf_identity "\<lambda>_. True" "\<lambda>_. True" "ed_sk_ok mini_edwards"
      "ed_pk_ok mini_edwards" ed_signature_ok
      "cached_message_ok 1 (mini_hash 2) (ed25519 mini_edwards) mini_group (mini_hash 2)"
      "\<lambda>_. True" "\<lambda>_. True"]
    mini_signature_ok
  by (simp_all add: mini_suite_ok mini_kem_ok mini_derive_total ed_derive_total)

lemma mini_sigma_ok:
  "live_key_exchange (sigma_i mini_pure_eddsa mini_group mini_dh (mini_hash 2)) True 1 (mini_hash 2)
     (ed_sk_ok mini_edwards) (ed_pk_ok mini_edwards) (ke1_state_ok (\<lambda>_. True))
     (ke1_message_ok (\<lambda>_. True))
     (sigma_ke2_state_ok (mini_hash 2) (ed_pk_ok mini_edwards)
       (cached_message_ok 1 (mini_hash 2) (ed25519 mini_edwards) mini_group (mini_hash 2)))
     (sigma_ke2_message_ok (mini_hash 2) (\<lambda>_. True) ed_signature_ok)
     (sigma_ke3_message_ok (mini_hash 2) ed_signature_ok) True"
  using live_opaque_suite.live_ke [OF mini_suites_ok(3) TrueI TrueI] by simp

text \<open>A suite over the concrete OPRF has an honest run.\<close>

lemma mini_run:
  assumes suite: "live_opaque_suite CS True wf_e wf_oc wf_sk wf_pk ok_k1s ok_k1m ok_k2s ok_k2m ok_k3m
      True"
    and "cs_oprf CS = mini_oprf 2" "cs_ksf CS = ksf_identity"
    and "server_setup_ok CS wf_sk wf_pk setup" "ss_oprf_seed setup = [1, 2]"
    and "sk_len (cs_group CS) \<le> 32" "pk_len (cs_group CS) \<le> 32"
  obtains pf ek creq cst cresp sst where
    "registered CS setup [7] [3, 1] \<lparr>crp_identifiers = sample_ids, crp_ksf = None\<rparr> pf ek"
    "login_started CS setup [7] [3, 1] pf mini_params creq cst cresp sst"
    "crs_evaluation_element cresp \<noteq> cr_blinded_element creq"
proof -
  obtain p h where pdk: "get_password_derived_key CS [3, 1] (- 1) (35 * (- checksum [3, 1])) None
      = Ok (p, h)" by (rule mini_password_key [OF assms(2,3)])
  have blind: "oprf_blind (cs_oprf CS) [3, 1] (counter_rng 0)
      = (Ok (- 1, - checksum [3, 1]), counter_rng 1)"
    using mini_blind assms(2) by simp
  have ev: "server_evaluation CS (ss_oprf_seed setup) [7] = Ok ((*) 35)"
    using mini_evaluation assms(2,5) by simp
  show thesis
    by (rule live_opaque_suite.honest_run [OF suite TrueI TrueI assms(4) blind ev mini_not_reflected
          pdk, where ids = sample_ids and ctxt = "Some [8]"])
       (use assms that in
         \<open>simp_all add: effective_identifier_def masked_response_len_def nonce_len_def
           envelope_len_def\<close>)
qed

section \<open>Properties\<close>

text \<open>
  C1. OPAQUE with 3DH is correct: after an honest registration, an honest login with the same
  password, identifiers, key stretching and context succeeds on both sides. Client and server end
  with the same session key, the client recovers the export key of the registration and learns the
  server's public key. The condition that the server's evaluation is not the blinded element is
  the client's reflection check; the curve, the hash and the OPRF are assumed to behave as
  documented.
\<close>

theorem triple_dh_login_correct:
  assumes "oprf_ok P wf_e wf_oc" "dh_ok G dh wf_sk wf_pk" "hash_ok H"
    and "server_setup_ok (tdh_suite P G dh H default_ksf) wf_sk wf_pk setup"
    and "registered (tdh_suite P G dh H default_ksf) setup cid pw
      \<lparr>crp_identifiers = ids, crp_ksf = ksf\<rparr> file ek"
    and "login_started (tdh_suite P G dh H default_ksf) setup cid pw file
      \<lparr>slp_context = c, slp_identifiers = ids\<rparr> creq cst cresp sst"
    and "crs_evaluation_element cresp \<noteq> cr_blinded_element creq"
  shows "\<exists>res r'. client_login_finish (tdh_suite P G dh H default_ksf) cst pw cresp
      \<lparr>clp_context = c, clp_identifiers = ids, clp_ksf = ksf\<rparr> r = (Ok res, r') \<and>
    clf_export_key res = ek \<and> clf_server_s_pk res = kp_pk (ss_keypair setup) \<and>
    server_login_finish (tdh_suite P G dh H default_ksf) sst (clf_message res)
      \<lparr>slp_context = c, slp_identifiers = ids\<rparr> = Ok (clf_session_key res)"
  using tdh_opaque.login_correct [of P wf_e wf_oc G dh wf_sk wf_pk H] assms by blast

theorem triple_dh_login_correct_witness:
  "\<exists>pf ek creq cst cresp sst res r'.
    registered mini_tdh_suite mini_setup [7] [3, 1]
      \<lparr>crp_identifiers = sample_ids, crp_ksf = None\<rparr> pf ek \<and>
    login_started mini_tdh_suite mini_setup [7] [3, 1] pf
      \<lparr>slp_context = Some [8], slp_identifiers = sample_ids\<rparr> creq cst cresp sst \<and>
    client_login_finish mini_tdh_suite cst [3, 1] cresp
      \<lparr>clp_context = Some [8], clp_identifiers = sample_ids, clp_ksf = None\<rparr> (counter_rng 5)
      = (Ok res, r') \<and>
    clf_export_key res = ek \<and>
    server_login_finish mini_tdh_suite sst (clf_message res)
      \<lparr>slp_context = Some [8], slp_identifiers = sample_ids\<rparr> = Ok (clf_session_key res)"
proof -
  obtain pf ek creq cst cresp sst where
    reg: "registered mini_tdh_suite mini_setup [7] [3, 1]
      \<lparr>crp_identifiers = sample_ids, crp_ksf = None\<rparr> pf ek"
    and login: "login_started mini_tdh_suite mini_setup [7] [3, 1] pf mini_params creq cst cresp sst"
    and ne: "crs_evaluation_element cresp \<noteq> cr_blinded_element creq"
    by (rule mini_run [OF mini_suites_ok(1) _ _ mini_setup_ok(1)]) simp_all
  from triple_dh_login_correct [OF mini_suite_ok mini_setup_ok(1) reg login ne, of "counter_rng 5"]
    reg login show ?thesis by blast
qed

text \<open>
  C2. The same for the KEM variant: OPAQUE with 3DH and a KEM is correct in honest runs.
\<close>

theorem kem_login_correct:
  assumes "oprf_ok P wf_e wf_oc" "dh_ok G dh wf_sk wf_pk" "hash_ok H" "kem_ok K wf_dk wf_ek"
    and "server_setup_ok (kem_suite P G dh H K default_ksf) wf_sk wf_pk setup"
    and "registered (kem_suite P G dh H K default_ksf) setup cid pw
      \<lparr>crp_identifiers = ids, crp_ksf = ksf\<rparr> file ek"
    and "login_started (kem_suite P G dh H K default_ksf) setup cid pw file
      \<lparr>slp_context = c, slp_identifiers = ids\<rparr> creq cst cresp sst"
    and "crs_evaluation_element cresp \<noteq> cr_blinded_element creq"
  shows "\<exists>res r'. client_login_finish (kem_suite P G dh H K default_ksf) cst pw cresp
      \<lparr>clp_context = c, clp_identifiers = ids, clp_ksf = ksf\<rparr> r = (Ok res, r') \<and>
    clf_export_key res = ek \<and> clf_server_s_pk res = kp_pk (ss_keypair setup) \<and>
    server_login_finish (kem_suite P G dh H K default_ksf) sst (clf_message res)
      \<lparr>slp_context = c, slp_identifiers = ids\<rparr> = Ok (clf_session_key res)"
  using kem_opaque.login_correct [of P wf_e wf_oc G dh wf_sk wf_pk H K wf_dk wf_ek] assms by blast

theorem kem_login_correct_witness:
  "\<exists>pf ek creq cst cresp sst res r'.
    registered mini_kem_suite mini_setup [7] [3, 1]
      \<lparr>crp_identifiers = sample_ids, crp_ksf = None\<rparr> pf ek \<and>
    login_started mini_kem_suite mini_setup [7] [3, 1] pf mini_params creq cst cresp sst \<and>
    client_login_finish mini_kem_suite cst [3, 1] cresp
      \<lparr>clp_context = Some [8], clp_identifiers = sample_ids, clp_ksf = None\<rparr> (counter_rng 5)
      = (Ok res, r') \<and>
    clf_export_key res = ek \<and>
    server_login_finish mini_kem_suite sst (clf_message res) mini_params = Ok (clf_session_key res)"
proof -
  obtain pf ek creq cst cresp sst where
    reg: "registered mini_kem_suite mini_setup [7] [3, 1]
      \<lparr>crp_identifiers = sample_ids, crp_ksf = None\<rparr> pf ek"
    and login: "login_started mini_kem_suite mini_setup [7] [3, 1] pf mini_params creq cst cresp sst"
    and ne: "crs_evaluation_element cresp \<noteq> cr_blinded_element creq"
    by (rule mini_run [OF mini_suites_ok(2) _ _ mini_setup_ok(2)]) simp_all
  from kem_login_correct [OF mini_suite_ok mini_kem_ok mini_setup_ok(2) reg login ne,
      of "counter_rng 5"] reg login show ?thesis by blast
qed

text \<open>
  C3. The same for SIGMA-I with any signature protocol whose signatures verify at the other party
  (\<open>PureEddsa\<close>, \<open>HashEddsa\<close> and \<open>Ecdsa\<close> do): OPAQUE with SIGMA-I is correct in honest runs.
\<close>

theorem sigma_login_correct:
  assumes "oprf_ok P wf_e wf_oc"
    and "signature_ok SP wf_sk wf_pk wf_sig wf_vs (sigma_messages P SP KG H)"
    and "dh_ok KG dh wf_esk wf_epk" "hash_ok H"
    and "server_setup_ok (sigma_suite P SP KG dh H default_ksf) wf_sk wf_pk setup"
    and "registered (sigma_suite P SP KG dh H default_ksf) setup cid pw
      \<lparr>crp_identifiers = ids, crp_ksf = ksf\<rparr> file ek"
    and "login_started (sigma_suite P SP KG dh H default_ksf) setup cid pw file
      \<lparr>slp_context = c, slp_identifiers = ids\<rparr> creq cst cresp sst"
    and "crs_evaluation_element cresp \<noteq> cr_blinded_element creq"
  shows "\<exists>res r'. client_login_finish (sigma_suite P SP KG dh H default_ksf) cst pw cresp
      \<lparr>clp_context = c, clp_identifiers = ids, clp_ksf = ksf\<rparr> r = (Ok res, r') \<and>
    clf_export_key res = ek \<and> clf_server_s_pk res = kp_pk (ss_keypair setup) \<and>
    server_login_finish (sigma_suite P SP KG dh H default_ksf) sst (clf_message res)
      \<lparr>slp_context = c, slp_identifiers = ids\<rparr> = Ok (clf_session_key res)"
  using sigma_opaque.login_correct [of P wf_e wf_oc SP wf_sk wf_pk wf_sig wf_vs KG H dh
      wf_esk wf_epk] assms by blast

theorem sigma_login_correct_witness:
  "\<exists>pf ek creq cst cresp sst res r'.
    registered mini_sigma_suite mini_signing_setup [7] [3, 1]
      \<lparr>crp_identifiers = sample_ids, crp_ksf = None\<rparr> pf ek \<and>
    login_started mini_sigma_suite mini_signing_setup [7] [3, 1] pf mini_params creq cst cresp sst \<and>
    client_login_finish mini_sigma_suite cst [3, 1] cresp
      \<lparr>clp_context = Some [8], clp_identifiers = sample_ids, clp_ksf = None\<rparr> (counter_rng 5)
      = (Ok res, r') \<and>
    clf_export_key res = ek \<and>
    server_login_finish mini_sigma_suite sst (clf_message res) mini_params
      = Ok (clf_session_key res)"
proof -
  obtain pf ek creq cst cresp sst where
    reg: "registered mini_sigma_suite mini_signing_setup [7] [3, 1]
      \<lparr>crp_identifiers = sample_ids, crp_ksf = None\<rparr> pf ek"
    and login: "login_started mini_sigma_suite mini_signing_setup [7] [3, 1] pf mini_params
      creq cst cresp sst"
    and ne: "crs_evaluation_element cresp \<noteq> cr_blinded_element creq"
    by (rule mini_run [OF mini_suites_ok(3) _ _ mini_signing_setup_ok])
       (simp_all add: ed25519_def)
  from sigma_login_correct [OF mini_suite_ok(1) mini_signature_ok mini_suite_ok(2,3)
      mini_signing_setup_ok reg login ne, of "counter_rng 5"] reg login show ?thesis by blast
qed

text \<open>
  C23. Two honest SIGMA-I parties agree. Whatever MAC arrives in the second message, the client
  accepts it exactly when it is the server's MAC and then has the server's session key; whatever
  MAC arrives with the client's signature, the server accepts it exactly when it is the client's.
  Everything else ends in \<open>InvalidLoginError\<close>.
\<close>

theorem sigma_i_agreement:
  assumes "signature_ok SP wf_sk wf_pk wf_sig wf_vs msg_ok" "dh_ok KG dh wf_esk wf_epk" "hash_ok H"
    and "wf_sk c_sk" "wf_sk s_sk"
    and "ke_session (sigma_i SP KG dh H) ids c_sk s_sk req resp sids ctx st1 m1 st2 m2"
  shows "\<exists>key m3 r'.
    (\<forall>mac'. generate_ke3 (sigma_i SP KG dh H) req m1 resp st1 (m2\<lparr>sg2_mac := mac'\<rparr>)
        (public_key (sig_group SP) s_sk) c_sk sids ctx r =
      (if mac' = sg2_mac m2 then (Ok (key, m3), r') else (Err InvalidLoginError, r))) \<and>
    (\<forall>mac'. finish_ke (sigma_i SP KG dh H) st2 (m3\<lparr>sg3_mac := mac'\<rparr>) ids ctx =
      (if mac' = sg3_mac m3 then Ok key else Err InvalidLoginError))"
proof -
  obtain m3 r' where
    "\<forall>mac'. sigma_generate_ke3 SP KG dh H req m1 resp st1 (m2\<lparr>sg2_mac := mac'\<rparr>)
        (public_key (sig_group SP) s_sk) c_sk sids ctx r =
      (if mac' = sg2_mac m2 then (Ok (sgs_session_key st2, m3), r')
       else (Err InvalidLoginError, r))"
    "\<forall>mac'. sigma_finish_ke SP st2 (m3\<lparr>sg3_mac := mac'\<rparr>) ids ctx =
      (if mac' = sg3_mac m3 then Ok (sgs_session_key st2) else Err InvalidLoginError)"
    using sigma_agreement [OF assms, of r] by blast
  then show ?thesis by (intro exI conjI) (simp_all add: sigma_i_def)
qed

theorem sigma_i_agreement_witness:
  "\<exists>req resp sids ctx st1 m1 st2 m2 key m3 r'.
    ke_session (sigma_i mini_pure_eddsa mini_group mini_dh (mini_hash 2)) sample_ids
      mini_signing_key mini_signing_key req resp sids ctx st1 m1 st2 m2 \<and>
    generate_ke3 (sigma_i mini_pure_eddsa mini_group mini_dh (mini_hash 2)) req m1 resp st1 m2
      (public_key (ed25519 mini_edwards) mini_signing_key) mini_signing_key sids ctx (counter_rng 0)
      = (Ok (key, m3), r') \<and>
    finish_ke (sigma_i mini_pure_eddsa mini_group mini_dh (mini_hash 2)) st2 m3 sample_ids ctx
      = Ok key"
proof -
  let ?KE = "sigma_i mini_pure_eddsa mini_group mini_dh (mini_hash 2)"
  let ?pk = "public_key (ed25519 mini_edwards) mini_signing_key"
  have sk: "ed_sk_ok mini_edwards mini_signing_key" by (simp add: ed_sk_ok_def)
  let ?spk = "serialize_pk (ke_grp ?KE) (public_key (ke_grp ?KE) mini_signing_key)"
  have "length ?spk = 32"
    using any_group.pk_length [OF ed_group_ok [OF mini_edwards_ok]
        ed.public_key_wf [OF mini_edwards_ok sk]]
    by (simp only: sigma_i_grp pure_sig_group) (simp add: ed25519_def)
  then have "length (effective_identifier (id_client sample_ids) ?spk) < 65536"
    "length (effective_identifier (id_server sample_ids) ?spk) < 65536"
    by (simp_all only: effective_identifier_def) simp_all
  then obtain sids where "from_identifiers sample_ids ?spk ?spk = Ok sids"
    by (rule from_identifiers_total)
  then have "\<exists>st1 m1 st2 m2. ke_session ?KE sample_ids mini_signing_key mini_signing_key req resp
      sids ctx st1 m1 st2 m2" for req resp ctx
    by (rule live_key_exchange.session_exists [OF mini_sigma_ok TrueI TrueI])
  then obtain req resp ctx st1 m1 st2 m2 where session: "ke_session ?KE sample_ids mini_signing_key
      mini_signing_key req resp sids ctx st1 m1 st2 m2" by blast
  obtain key m3 r' where
    ke3: "\<And>mac'. generate_ke3 ?KE req m1 resp st1 (m2\<lparr>sg2_mac := mac'\<rparr>) ?pk mini_signing_key sids ctx
        (counter_rng 0) = (if mac' = sg2_mac m2 then (Ok (key, m3), r')
          else (Err InvalidLoginError, counter_rng 0))"
    and fin: "\<And>mac'. finish_ke ?KE st2 (m3\<lparr>sg3_mac := mac'\<rparr>) sample_ids ctx =
      (if mac' = sg3_mac m3 then Ok key else Err InvalidLoginError)"
    using sigma_i_agreement [OF mini_signature_ok mini_suite_ok(2,3) sk sk session,
        of "counter_rng 0"] by (simp only: pure_sig_group) blast
  have "m2\<lparr>sg2_mac := sg2_mac m2\<rparr> = m2" "m3\<lparr>sg3_mac := sg3_mac m3\<rparr> = m3" by simp_all
  then have "generate_ke3 ?KE req m1 resp st1 m2 ?pk mini_signing_key sids ctx (counter_rng 0)
      = (Ok (key, m3), r')" "finish_ke ?KE st2 m3 sample_ids ctx = Ok key"
    using ke3 [of "sg2_mac m2"] fin [of "sg3_mac m3"] by (simp_all only: refl if_True)
  with session show ?thesis by blast
qed

end
