(* ===== verification/Over_Wire.thy ===== *)
theory Over_Wire
  imports Suites
begin

text \<open>
  What the two example programs (\<open>examples/simple_login.rs\<close>, \<open>examples/digital_locker.rs\<close>) share: the
  default parameters they pass, the reading of two strings from the command line, and the facts
  that the protocol works over serialized messages for a server that meets \<open>service_ok\<close>, with a
  concrete such server. The command line is the list of what \<open>readline\<close> returns (\<open>None\<close> is an
  error: Ctrl-C or end of input; after the list ends, every read is an error).
\<close>

section \<open>Default parameters and unwrapping\<close>

definition unwrap_st :: "('s, 'e, 'a) st \<Rightarrow> ('s, 'f, 'a) st" where
  "unwrap_st m s = (case m s of (r, s') \<Rightarrow> (unwrap r, s'))"

abbreviation unwrap_lift :: "('e, 'a) result \<Rightarrow> ('s, 'f, 'a) st" where
  "unwrap_lift r \<equiv> lift_st (unwrap r)"

definition default_identifiers :: identifiers where
  "default_identifiers = \<lparr>id_client = None, id_server = None\<rparr>"

definition default_registration_parameters :: client_registration_finish_parameters where
  "default_registration_parameters = \<lparr>crp_identifiers = default_identifiers, crp_ksf = None\<rparr>"

definition default_client_login_parameters :: client_login_finish_parameters where
  "default_client_login_parameters =
     \<lparr>clp_context = None, clp_identifiers = default_identifiers, clp_ksf = None\<rparr>"

definition default_server_login_parameters :: server_login_parameters where
  "default_server_login_parameters =
     \<lparr>slp_context = None, slp_identifiers = default_identifiers\<rparr>"

lemmas default_parameters = default_identifiers_def default_registration_parameters_def
  default_client_login_parameters_def default_server_login_parameters_def

lemma default_parameter_fields:
  "slp_context default_server_login_parameters = None"
  "slp_identifiers default_server_login_parameters = default_identifiers"
  "clp_context default_client_login_parameters = None"
  "clp_identifiers default_client_login_parameters = default_identifiers"
  by (simp_all add: default_parameters)

section \<open>Two strings from the command line\<close>

fun get_two_strings ::
    "bytes option \<Rightarrow> bytes option list \<Rightarrow> ((bytes \<times> bytes) \<times> bytes option list) option" where
  "get_two_strings string1 [] = None"
| "get_two_strings string1 (None # lines) = None"
| "get_two_strings None (Some line # lines) = get_two_strings (Some line) lines"
| "get_two_strings (Some x) (Some line # lines) = Some ((x, line), lines)"

lemma get_two_strings_shorter:
  "get_two_strings s lines = Some (x, lines') \<Longrightarrow> length lines' < length lines"
  by (induction s lines rule: get_two_strings.induct) auto

lemma get_two_strings_None_iff:
  "get_two_strings None lines = Some ((x, y), lines') \<longleftrightarrow> lines = Some x # Some y # lines'"
  by (cases lines; cases "hd lines"; cases "tl lines"; cases "hd (tl lines)") auto

text \<open>The two options of both programs, and a line of output before what follows.\<close>

abbreviation option_1 :: bytes where "option_1 \<equiv> [49]"
abbreviation option_2 :: bytes where "option_2 \<equiv> [50]"

definition emit :: "'o \<Rightarrow> 'o list \<times> 'r \<Rightarrow> 'o list \<times> 'r" where
  "emit out run = (case run of (outs, fin) \<Rightarrow> (out # outs, fin))"

lemma emit_eq: "emit out run = (outs, fin) \<longleftrightarrow> (\<exists>outs'. run = (outs', fin) \<and> outs = out # outs')"
  by (auto simp: emit_def split: prod.splits)

section \<open>The protocol over serialized messages\<close>

lemma unwrap_st_Ok [simp]: "m s = (Ok a, s') \<Longrightarrow> unwrap_st m s = (Ok a, s')"
  by (simp add: unwrap_st_def)

text \<open>
  What a server needs so that the strings of \<open>I\<close> can be credential identifiers and those of \<open>W\<close>
  passwords: the sizes of the
  suite fit its hash, and for these strings the OPRF and the key stretching do not fail and no
  evaluation is the blinded element itself (the client's reflection check).
\<close>

definition service_ok ::
    "('e, 'oc, 'sk, 'pk, _, _, _, _, _, _, _, _) cipher_suite \<Rightarrow> (bytes, 'sk, 'pk) server_setup \<Rightarrow>
     bytes set \<Rightarrow> bytes set \<Rightarrow> bool" where
  "service_ok CS setup I W \<longleftrightarrow>
     sk_len (cs_group CS) \<le> 255 * hash_len (cs_hash CS) \<and> pk_len (cs_group CS) < 65536 \<and>
     masked_response_len (cs_hash CS) (cs_group CS) \<le> 255 * hash_len (cs_hash CS) \<and>
     (\<forall>cid\<in>I. \<exists>ev. server_evaluation CS (ss_oprf_seed setup) cid = Ok ev \<and>
       (\<forall>pw\<in>W. \<forall>r. \<exists>c be r'. oprf_blind (cs_oprf CS) pw r = (Ok (c, be), r') \<and> be \<noteq> ev be \<and>
         is_ok (get_password_derived_key CS pw c (ev be) None)))"

lemma service_okD:
  assumes "service_ok CS setup I W" "cid \<in> I" "pw \<in> W"
  obtains ev c be r' p h where "server_evaluation CS (ss_oprf_seed setup) cid = Ok ev"
    "oprf_blind (cs_oprf CS) pw r = (Ok (c, be), r')" "be \<noteq> ev be"
    "get_password_derived_key CS pw c (ev be) None = Ok (p, h)"
  using assms unfolding service_ok_def is_ok_def by (metis surj_pair)

text \<open>The encoding of an identifier has a two-byte length prefix.\<close>

definition identifiers_fit :: "identifiers \<Rightarrow> bool" where
  "identifiers_fit ids \<longleftrightarrow> length (effective_identifier (id_client ids) []) < 65536 \<and>
     length (effective_identifier (id_server ids) []) < 65536"

lemma default_identifiers_fit: "identifiers_fit default_identifiers"
  by (simp add: identifiers_fit_def effective_identifier_def default_identifiers_def)

text \<open>The steps of an honest registration and login, whatever each call finds in the generator.\<close>

context live_opaque_suite
begin

lemma served_registration:
  assumes "trusted" "live" "server_setup_ok CS wf_sk wf_pk SS"
    and service: "service_ok CS SS I W" "cid \<in> I" "pw \<in> W" and ids: "identifiers_fit ids"
  shows "\<exists>req st r1 resp. client_registration_start CS pw r = (Ok (req, st), r1) \<and>
    server_registration_start CS SS req cid = Ok resp \<and>
    (\<forall>s. \<exists>res s'. client_registration_finish CS st pw resp
        \<lparr>crp_identifiers = ids, crp_ksf = None\<rparr> s = (Ok res, s') \<and>
      crf_server_s_pk res = kp_pk (ss_keypair SS) \<and>
      registered CS SS cid pw \<lparr>crp_identifiers = ids, crp_ksf = None\<rparr> (crf_message res)
        (crf_export_key res) \<and>
      server_registration_deserialize CS (server_registration_serialize CS (crf_message res))
        = Ok (crf_message res))"
proof -
  obtain ev c be r' p h where ev: "server_evaluation CS (ss_oprf_seed SS) cid = Ok ev"
    and b: "oprf_blind (cs_oprf CS) pw r = (Ok (c, be), r')" and ne: "be \<noteq> ev be"
    and pdk: "get_password_derived_key CS pw c (ev be) None = Ok (p, h)"
    using service by (rule service_okD)
  have sizes: "sk_len (cs_group CS) \<le> 255 * hash_len (cs_hash CS)" "pk_len (cs_group CS) < 65536"
    using service(1) by (simp_all add: service_ok_def)
  note total = registration_steps_total [OF assms(1-3) b ev ne pdk sizes
      ids [unfolded identifiers_fit_def, THEN conjunct1]
      ids [unfolded identifiers_fit_def, THEN conjunct2]]
  obtain req st resp where
    start: "client_registration_start CS pw r = (Ok (req, st), r')"
      "server_registration_start CS SS req cid = Ok resp" "rsp_server_s_pk resp = kp_pk (ss_keypair SS)"
    by (rule total)
  have "\<exists>res s'. client_registration_finish CS st pw resp
        \<lparr>crp_identifiers = ids, crp_ksf = None\<rparr> s = (Ok res, s')" for s
    using total [of s] start(1,2) by (metis Pair_inject result.inject(1))
  moreover have "registered CS SS cid pw \<lparr>crp_identifiers = ids, crp_ksf = None\<rparr> (crf_message res)
        (crf_export_key res) \<and>
      crf_server_s_pk res = kp_pk (ss_keypair SS) \<and>
      server_registration_deserialize CS (server_registration_serialize CS (crf_message res))
        = Ok (crf_message res)"
    if fin: "client_registration_finish CS st pw resp
        \<lparr>crp_identifiers = ids, crp_ksf = None\<rparr> s = (Ok res, s')" for s res s'
  proof (intro conjI)
    show reg: "registered CS SS cid pw \<lparr>crp_identifiers = ids, crp_ksf = None\<rparr> (crf_message res)
        (crf_export_key res)"
      unfolding registered_def server_registration_finish_def using start fin by blast
    show "crf_server_s_pk res = kp_pk (ss_keypair SS)"
      using fin start(3) by (auto simp: client_registration_finish_Ok_iff)
    show "server_registration_deserialize CS (server_registration_serialize CS (crf_message res))
        = Ok (crf_message res)"
      using registration_upload_rt(2) [OF grp [OF assms(1)] registered_file_ok [OF assms(1) reg],
          of "[]"]
      by (simp add: server_registration_deserialize_def server_registration_serialize_def)
  qed
  ultimately show ?thesis using start by metis
qed

lemma served_login:
  assumes "trusted" "live" "server_setup_ok CS wf_sk wf_pk SS"
    and service: "service_ok CS SS I W" "cid \<in> I" "pw \<in> W" and ids: "identifiers_fit ids"
    and ctx: "length (case ctx of Some x \<Rightarrow> x | None \<Rightarrow> []) < 65536"
    and reg: "registered CS SS cid pw \<lparr>crp_identifiers = ids, crp_ksf = None\<rparr> file ek"
  shows "\<exists>creq cst r1. client_login_start CS pw r = (Ok (creq, cst), r1) \<and>
    (\<forall>s. \<exists>cresp sst s'. server_login_start CS SS (Some file) creq cid
        \<lparr>slp_context = ctx, slp_identifiers = ids\<rparr> s = (Ok (cresp, sst), s') \<and>
      (\<forall>t. \<exists>res t'. client_login_finish CS cst pw cresp
          \<lparr>clp_context = ctx, clp_identifiers = ids, clp_ksf = None\<rparr> t = (Ok res, t') \<and>
        clf_export_key res = ek \<and> clf_server_s_pk res = kp_pk (ss_keypair SS) \<and>
        ok_k3m (cf_ke3_message (clf_message res)) \<and>
        server_login_finish CS sst (clf_message res)
          \<lparr>slp_context = ctx, slp_identifiers = ids\<rparr> = Ok (clf_session_key res)))"
proof -
  obtain ev c be r' p h where ev: "server_evaluation CS (ss_oprf_seed SS) cid = Ok ev"
    and b: "oprf_blind (cs_oprf CS) pw r = (Ok (c, be), r')" and ne: "be \<noteq> ev be"
    using service by (rule service_okD)
  have sizes: "masked_response_len (cs_hash CS) (cs_group CS) \<le> 255 * hash_len (cs_hash CS)"
    "pk_len (cs_group CS) < 65536"
    using service(1) by (simp_all add: service_ok_def)
  note fok = registered_file_ok [OF assms(1) reg]
  note total = login_start_total [OF assms(1-3) b ev fok(1,2) envelope_codec.enc_length [OF fok(3)]
      _ _ sizes ids [unfolded identifiers_fit_def, THEN conjunct1]
      ids [unfolded identifiers_fit_def, THEN conjunct2] ctx, of "Some file"]
  obtain creq cst r1 where start: "client_login_start CS pw r = (Ok (creq, cst), r1)"
    using total by fastforce
  have "\<exists>cresp sst s'. server_login_start CS SS (Some file) creq cid
        \<lparr>slp_context = ctx, slp_identifiers = ids\<rparr> s = (Ok (cresp, sst), s') \<and>
      crs_evaluation_element cresp \<noteq> cr_blinded_element creq" for s
    using total [of s] start ne by auto
  moreover have "\<exists>res t'. client_login_finish CS cst pw cresp
          \<lparr>clp_context = ctx, clp_identifiers = ids, clp_ksf = None\<rparr> t = (Ok res, t') \<and>
        clf_export_key res = ek \<and> clf_server_s_pk res = kp_pk (ss_keypair SS) \<and>
        ok_k3m (cf_ke3_message (clf_message res)) \<and>
        server_login_finish CS sst (clf_message res)
          \<lparr>slp_context = ctx, slp_identifiers = ids\<rparr> = Ok (clf_session_key res)"
    if "server_login_start CS SS (Some file) creq cid \<lparr>slp_context = ctx, slp_identifiers = ids\<rparr> s
        = (Ok (cresp, sst), s')"
      and "crs_evaluation_element cresp \<noteq> cr_blinded_element creq" for cresp sst s s' t
  proof -
    have "login_started CS SS cid pw file \<lparr>slp_context = ctx, slp_identifiers = ids\<rparr> creq cst cresp sst"
      unfolding login_started_def using start that(1) by blast
    from login_correct [OF assms(1,3) reg this that(2)] show ?thesis by blast
  qed
  ultimately show ?thesis using start by meson
qed

text \<open>With the default parameters, and the messages passed as bytes.\<close>

lemma registration_over_wire:
  assumes "trusted" "live" "server_setup_ok CS wf_sk wf_pk setup"
    and service: "service_ok CS setup I W" "cid \<in> I" "pw \<in> W"
  obtains req st r1 resp res r2 where
    "client_registration_start CS pw r = (Ok (req, st), r1)"
    "server_registration_start CS setup req cid = Ok resp"
    "client_registration_finish CS st pw resp default_registration_parameters r1 = (Ok res, r2)"
    "registration_request_deserialize CS (registration_request_serialize CS req) = Ok req"
    "registration_response_deserialize CS (registration_response_serialize CS resp) = Ok resp"
    "registration_upload_deserialize CS (registration_upload_serialize CS (crf_message res))
      = Ok (crf_message res)"
    "registered CS setup cid pw default_registration_parameters (crf_message res)
      (crf_export_key res)"
proof -
  note P = oprf [OF assms(1)] and G = grp [OF assms(1)]
  obtain req st r1 resp res r2 where start: "client_registration_start CS pw r = (Ok (req, st), r1)"
    and srv: "server_registration_start CS setup req cid = Ok resp"
    and fin: "client_registration_finish CS st pw resp default_registration_parameters r1 = (Ok res, r2)"
    and reg: "registered CS setup cid pw default_registration_parameters (crf_message res)
      (crf_export_key res)"
    using served_registration [OF assms default_identifiers_fit, of r]
    unfolding default_registration_parameters_def by meson
  from start obtain c where b: "oprf_blind (cs_oprf CS) pw r = (Ok (c, rr_blinded_element req), r1)"
    by (auto simp: client_registration_start_Ok_iff)
  from srv obtain ev where ev: "server_evaluation CS (ss_oprf_seed setup) cid = Ok ev"
    and resp: "rsp_evaluation_element resp = ev (rr_blinded_element req)"
      "rsp_server_s_pk resp = kp_pk (ss_keypair setup)"
    by (auto simp: server_registration_start_eq bind_result_Ok_iff)
  obtain k where "oprf_new_with_key (cs_oprf CS) k = Ok ev" using server_evaluation_Ok [OF ev] by blast
  with oprf_okD(8) [OF P b] oprf_okD(9) [OF P] resp(1)
  have wf: "wf_e (rr_blinded_element req)" "wf_e (rsp_evaluation_element resp)" by simp_all
  have "registration_request_deserialize CS (registration_request_serialize CS req) = Ok req"
    using registration_request_rt(2) [OF P] wf(1) by simp
  moreover have "registration_response_deserialize CS (registration_response_serialize CS resp)
      = Ok resp"
    using registration_response_rt(2) [OF P G, of resp "[]"] wf(2) resp(2)
      server_key_ok(2) [OF assms(1,3)] by simp
  moreover have "registration_upload_deserialize CS (registration_upload_serialize CS (crf_message res))
      = Ok (crf_message res)"
    using registration_upload_rt(2) [OF G registered_file_ok [OF assms(1) reg], of "[]"] by simp
  ultimately show thesis using that start srv fin reg by blast
qed

text \<open>
  The messages of a login survive the wire, and with the registered password the two session keys
  are equal and the client finds the export key of the registration.
\<close>

lemma login_over_wire:
  assumes "trusted" "live" "server_setup_ok CS wf_sk wf_pk setup"
    and service: "service_ok CS setup I W" "cid \<in> I" "pw \<in> W"
    and reg: "registered CS setup cid pw default_registration_parameters pf ek"
  obtains creq cst r1 cresp sst r2 res r3 where
    "client_login_start CS pw r = (Ok (creq, cst), r1)"
    "server_registration_deserialize CS (server_registration_serialize CS pf) = Ok pf"
    "credential_request_deserialize CS (credential_request_serialize CS creq) = Ok creq"
    "server_login_start CS setup (Some pf) creq cid default_server_login_parameters r1
      = (Ok (cresp, sst), r2)"
    "credential_response_deserialize CS (credential_response_serialize CS cresp) = Ok cresp"
    "client_login_finish CS cst pw cresp default_client_login_parameters r2 = (Ok res, r3)"
    "credential_finalization_deserialize CS (credential_finalization_serialize CS (clf_message res))
      = Ok (clf_message res)"
    "server_login_finish CS sst (clf_message res) default_server_login_parameters
      = Ok (clf_session_key res)"
    "clf_export_key res = ek" "clf_server_s_pk res = kp_pk (ss_keypair setup)"
proof -
  note P = oprf [OF assms(1)] and G = grp [OF assms(1)] and K = ke [OF assms(1)]
  have ctx: "length (case (None :: bytes option) of Some x \<Rightarrow> x | None \<Rightarrow> []) < 65536" by simp
  obtain creq cst r1 cresp sst r2 res r3 where
    start: "client_login_start CS pw r = (Ok (creq, cst), r1)"
      "server_login_start CS setup (Some pf) creq cid default_server_login_parameters r1
        = (Ok (cresp, sst), r2)"
    and fin: "client_login_finish CS cst pw cresp default_client_login_parameters r2 = (Ok res, r3)"
      "clf_export_key res = ek" "clf_server_s_pk res = kp_pk (ss_keypair setup)"
    and k3m: "ok_k3m (cf_ke3_message (clf_message res))"
    and srv: "server_login_finish CS sst (clf_message res) default_server_login_parameters
      = Ok (clf_session_key res)"
    using served_login [OF assms(1-6) default_identifiers_fit ctx
        reg [unfolded default_registration_parameters_def], of r]
    unfolding default_client_login_parameters_def default_server_login_parameters_def by meson
  then have "login_started CS setup cid pw pf
      \<lparr>slp_context = None, slp_identifiers = default_identifiers\<rparr> creq cst cresp sst"
    unfolding login_started_def default_server_login_parameters_def by blast
  note ok = login_messages_ok [OF assms(1,3) reg this]
  have "server_registration_deserialize CS (server_registration_serialize CS pf) = Ok pf"
    using registration_upload_rt(2) [OF G registered_file_ok [OF assms(1) reg], of "[]"]
    by (simp add: server_registration_deserialize_def server_registration_serialize_def)
  moreover have "credential_request_deserialize CS (credential_request_serialize CS creq) = Ok creq"
    using credential_request_rt(3) [OF P key_exchange_protocol.k1m_wire [OF K TrueI] ok(3,5), of "[]"]
    by simp
  moreover have "credential_response_deserialize CS (credential_response_serialize CS cresp)
      = Ok cresp"
    using credential_response_rt(2) [OF P key_exchange_protocol.k2m_wire [OF K TrueI] ok(6-9),
        of "[]"] by simp
  moreover have "credential_finalization_deserialize CS
      (credential_finalization_serialize CS (clf_message res)) = Ok (clf_message res)"
    using credential_finalization_rt(2) [OF key_exchange_protocol.k3m_wire [OF K TrueI] k3m, of "[]"]
    by simp
  ultimately show thesis using that start fin srv by blast
qed

end

section \<open>A concrete service\<close>

definition mini_key :: "bytes \<Rightarrow> bytes \<Rightarrow> byte" where
  "mini_key seed cid = checksum (checksum seed # cid @ STR_OPRF_KEY) + 2"

lemma mini_server_evaluation:
  assumes "cs_oprf CS = mini_oprf nh" "nh \<le> length seed" "0 < nh"
  shows "server_evaluation CS seed cid = Ok ((*) (mini_key seed cid))"
  using assms
  by (simp add: server_evaluation_def oprf_key_material_def oprf_key_from_key_material_def
      hkdf_expand_multi_info_def mini_key_def)

lemma mini_service_ok:
  assumes "cs_oprf CS = mini_oprf nh" "cs_ksf CS = ksf_identity" "0 < nh"
    and "nh \<le> length (ss_oprf_seed setup)"
    and "sk_len (cs_group CS) \<le> 255 * nh" "pk_len (cs_group CS) < 65536"
    and "masked_response_len (mini_hash nh) (cs_group CS) \<le> 255 * nh"
    and moves: "\<And>cid pw. cid \<in> I \<Longrightarrow> pw \<in> W \<Longrightarrow>
      mini_key (ss_oprf_seed setup) cid * checksum pw \<noteq> checksum pw"
  shows "service_ok CS setup I W"
proof -
  have "\<exists>c be r'. oprf_blind (mini_oprf nh) pw r = (Ok (c, be), r') \<and>
      be \<noteq> mini_key (ss_oprf_seed setup) cid * be \<and>
      is_ok (get_password_derived_key CS pw c (mini_key (ss_oprf_seed setup) cid * be) None)"
    if "cid \<in> I" "pw \<in> W" for cid pw r
  proof -
    obtain bs r' where "fill_bytes 1 r = (bs, r')" by fastforce
    then obtain b where "b = 1 \<or> b = - 1" "oprf_blind (mini_oprf nh) pw r = (Ok (b, b * checksum pw), r')"
      by (auto simp: mini_oprf_def Let_def)
    moreover from this(1) moves [OF that] have
      "b * checksum pw \<noteq> mini_key (ss_oprf_seed setup) cid * (b * checksum pw)"
      by (auto simp: eq_commute [of "checksum pw"])
    moreover obtain p h where "get_password_derived_key CS pw b
        (mini_key (ss_oprf_seed setup) cid * (b * checksum pw)) None = Ok (p, h)"
      using assms(1,2) by (simp add: get_password_derived_key_def ksf_identity_def Let_def)
    ultimately show ?thesis by (metis is_ok_simps(1))
  qed
  with assms(1-7) show ?thesis
    unfolding service_ok_def using mini_server_evaluation [OF assms(1,4,3)] by auto
qed

abbreviation mini_tdh_suite_32 where
  "mini_tdh_suite_32 \<equiv> tdh_suite (mini_oprf 32) mini_group mini_dh (mini_hash 32) ksf_identity"

lemma mini_32_ok:
  "oprf_ok (mini_oprf 32) (\<lambda>_. True) (\<lambda>_. True)"
  "dh_ok mini_group mini_dh (\<lambda>_. True) (\<lambda>_. True)" "hash_ok (mini_hash 32)"
  by (simp_all add: mini_oprf_ok mini_dh_ok mini_hash_ok)

text \<open>The seed that \<open>ServerSetup::new\<close> draws from the counter.\<close>

abbreviation mini_seed :: bytes where
  "mini_seed \<equiv> map (\<lambda>i. of_nat (Suc i)) [0..<32]"

abbreviation mini_setup_32 :: "(bytes, byte, byte) server_setup" where
  "mini_setup_32 \<equiv> \<lparr>ss_oprf_seed = mini_seed, ss_keypair = \<lparr>kp_pk = 0, kp_sk = 0\<rparr>, ss_dummy_pk = 99\<rparr>"

lemma mini_setup_new:
  "server_setup_new mini_tdh_suite_32 (counter_rng 0) = Some (mini_setup_32, counter_rng 34)"
  by (simp add: server_setup_new_def new_with_key_pair_def new_with_key_pair_and_seed_def
      keypair_random_def key_defs)

text \<open>User names, locker numbers and passwords that this server can handle.\<close>

definition mini_identifiers :: "bytes list" where
  "mini_identifiers = [[49], [50]] @ map (\<lambda>i. zeros 7 @ [of_nat i]) [0..<6]"

definition mini_passwords :: "bytes list" where
  "mini_passwords = [[48], [49], [50]]"

lemma be_digits_0: "be_digits k 0 = zeros k"
  by (induction k) (simp_all add: zeros_def replicate_append_same)

lemma to_be_bytes_small: "n < 256 \<Longrightarrow> to_be_bytes (of_nat n) = zeros 7 @ [of_nat n]"
  using be_digits.simps(2) [of 7 n]
  by (simp add: to_be_bytes_def sizeof_usize_def unat_of_nat be_digits_0)

lemma mini_locker_id: "i < 6 \<Longrightarrow> to_be_bytes (of_nat i) \<in> set mini_identifiers"
  by (simp add: mini_identifiers_def to_be_bytes_small)

lemma mini_checksum_seed: "checksum mini_seed = 151"
  by code_simp

lemma mini_keys: "map (mini_key mini_seed) mini_identifiers = [160, 43, 236, 119, 2, 141, 24, 163]"
  unfolding mini_key_def mini_checksum_seed by code_simp

lemma mini_keys_move:
  assumes "cid \<in> set mini_identifiers" "pw \<in> set mini_passwords"
  shows "mini_key mini_seed cid * checksum pw \<noteq> checksum pw"
proof -
  have "mini_key mini_seed cid \<in> set (map (mini_key mini_seed) mini_identifiers)"
    using assms(1) by simp
  moreover have "list_all (\<lambda>k. list_all (\<lambda>pw. k * checksum pw \<noteq> checksum pw) mini_passwords)
      [160, 43, 236, 119, 2, 141, 24, 163]"
    by code_simp
  ultimately show ?thesis using assms(2) unfolding mini_keys list_all_iff by blast
qed

lemma mini_setup_32_ok: "server_setup_ok mini_tdh_suite_32 (\<lambda>_. True) (\<lambda>_. True) mini_setup_32"
  by (simp add: server_setup_ok_def keypair_consistent_def)

lemma mini_service_32:
  assumes "I \<subseteq> set mini_identifiers" "W \<subseteq> set mini_passwords"
  shows "service_ok mini_tdh_suite_32 mini_setup_32 I W"
proof (rule mini_service_ok [where nh = 32])
  show "mini_key (ss_oprf_seed mini_setup_32) cid * checksum pw \<noteq> checksum pw"
    if "cid \<in> I" "pw \<in> W" for cid pw
    using that assms mini_keys_move unfolding server_setup.simps by blast
qed (simp_all add: masked_response_len_def envelope_len_def nonce_len_def)

text \<open>The same service over a KEM, and one over SIGMA-I.\<close>

abbreviation mini_kem_suite_32 where
  "mini_kem_suite_32 \<equiv>
     kem_suite (mini_oprf 32) mini_group mini_dh (mini_hash 32) mini_kem ksf_identity"

lemma mini_kem_service_32:
  "server_setup_ok mini_kem_suite_32 (\<lambda>_. True) (\<lambda>_. True) mini_setup_32"
  "service_ok mini_kem_suite_32 mini_setup_32 {[49]} {[50]}"
  using mini_service_32 [of "{[49]}" "{[50]}"]
  by (simp_all add: server_setup_ok_def keypair_consistent_def service_ok_def mini_identifiers_def
      mini_passwords_def server_evaluation_def oprf_key_material_def oprf_key_from_key_material_def
      get_password_derived_key_def)

lemma mini_signing_service: "service_ok mini_sigma_suite mini_signing_setup {[49]} {[50]}"
proof (rule mini_service_ok [where nh = 2])
  have move: "mini_key [1, 2] [49] * checksum [50] \<noteq> checksum [50]" by code_simp
  show "mini_key (ss_oprf_seed mini_signing_setup) cid * checksum pw \<noteq> checksum pw"
    if "cid \<in> {[49]}" "pw \<in> {[50]}" for cid pw
    using that move by (simp only: server_setup.simps singleton_iff not_False_eq_True)
qed (simp_all add: masked_response_len_def envelope_len_def nonce_len_def ed25519_def)

end
