(* ===== verification/Sessions.thy ===== *)
theory Sessions
  imports Over_Wire
begin

text \<open>
  A server with many users and sessions: registrations and the four steps of every login happen in
  any order, with any randomness, and passwords may be changed while logins are under way. The steps
  are those of \<open>src/opaque.rs\<close>; the system is a step relation over them.
\<close>

section \<open>The system\<close>

text \<open>
  A session remembers what the parties hold between the steps. \<open>Answered\<close> and what follows it carry
  a flag that no party sees: the record that the server answered from was registered with the
  password that the client entered, and the evaluation was not the blinded element itself.
\<close>

datatype ('creq, 'cst, 'cresp, 'sst, 'm3) session =
  Started bytes bytes 'creq 'cst
| Answered bytes bytes bool 'creq 'cst 'cresp 'sst
| Client_Done bytes bytes bool bytes bytes 'm3 'sst
| Client_Rejected bool
| Both_Done bool bytes bytes
| Server_Rejected bool

text \<open>The password of an account is kept for the specification; the server stores the file only.\<close>

record ('file, 'session) system =
  accounts :: "bytes \<rightharpoonup> bytes \<times> 'file"
  sessions :: "nat \<rightharpoonup> 'session"

definition no_sessions :: "('file, 'session) system" where
  "no_sessions = \<lparr>accounts = Map.empty, sessions = Map.empty\<rparr>"

inductive session_step ::
    "('e, 'oc, 'sk, 'pk, 'k1s, 'k1m, 'k2s, 'k2b, 'k2d, 'k2i, 'k2m, 'k3m) cipher_suite \<Rightarrow>
     (bytes, 'sk, 'pk) server_setup \<Rightarrow> identifiers \<Rightarrow> bytes option \<Rightarrow> ksf option \<Rightarrow>
     ('pk server_registration, (('e, 'k1m) credential_request, ('oc, 'k1s, 'e, 'k1m) client_login,
       ('e, 'k2m) credential_response, 'k2s server_login, 'k3m credential_finalization) session)
       system \<Rightarrow>
     ('pk server_registration, (('e, 'k1m) credential_request, ('oc, 'k1s, 'e, 'k1m) client_login,
       ('e, 'k2m) credential_response, 'k2s server_login, 'k3m credential_finalization) session)
       system \<Rightarrow> bool"
  for CS :: "('e, 'oc, 'sk, 'pk, 'k1s, 'k1m, 'k2s, 'k2b, 'k2d, 'k2i, 'k2m, 'k3m) cipher_suite"
    and SS :: "(bytes, 'sk, 'pk) server_setup" and ids c ksf
  where
  register:
  "client_registration_start CS pw r1 = (Ok (req, st), r1') \<Longrightarrow>
   server_registration_start CS SS req user = Ok resp \<Longrightarrow>
   client_registration_finish CS st pw resp \<lparr>crp_identifiers = ids, crp_ksf = ksf\<rparr> r2
     = (Ok res, r2') \<Longrightarrow>
   session_step CS SS ids c ksf sys (sys\<lparr>accounts := (accounts sys)
     (user \<mapsto> (pw, server_registration_finish (crf_message res)))\<rparr>)"
| start:
  "client_login_start CS pw r = (Ok (creq, cst), r') \<Longrightarrow> sessions sys i = None \<Longrightarrow>
   session_step CS SS ids c ksf sys
     (sys\<lparr>sessions := (sessions sys)(i \<mapsto> Started user pw creq cst)\<rparr>)"
| answer:
  "sessions sys i = Some (Started user pw creq cst) \<Longrightarrow>
   server_login_start CS SS (map_option snd (accounts sys user)) creq user
     \<lparr>slp_context = c, slp_identifiers = ids\<rparr> r = (Ok (cresp, sst), r') \<Longrightarrow>
   session_step CS SS ids c ksf sys (sys\<lparr>sessions := (sessions sys)(i \<mapsto>
     Answered user pw (map_option fst (accounts sys user) = Some pw \<and>
       crs_evaluation_element cresp \<noteq> cr_blinded_element creq) creq cst cresp sst)\<rparr>)"
| client_accepts:
  "sessions sys i = Some (Answered user pw right creq cst cresp sst) \<Longrightarrow>
   client_login_finish CS cst pw cresp \<lparr>clp_context = c, clp_identifiers = ids, clp_ksf = ksf\<rparr> r
     = (Ok res, r') \<Longrightarrow>
   session_step CS SS ids c ksf sys (sys\<lparr>sessions := (sessions sys)(i \<mapsto>
     Client_Done user pw right (clf_session_key res) (clf_export_key res) (clf_message res) sst)\<rparr>)"
| client_rejects:
  "sessions sys i = Some (Answered user pw right creq cst cresp sst) \<Longrightarrow>
   client_login_finish CS cst pw cresp \<lparr>clp_context = c, clp_identifiers = ids, clp_ksf = ksf\<rparr> r
     = (Err e, r') \<Longrightarrow>
   session_step CS SS ids c ksf sys
     (sys\<lparr>sessions := (sessions sys)(i \<mapsto> Client_Rejected right)\<rparr>)"
| server_accepts:
  "sessions sys i = Some (Client_Done user pw right key ek m3 sst) \<Longrightarrow>
   server_login_finish CS sst m3 \<lparr>slp_context = c, slp_identifiers = ids\<rparr> = Ok key' \<Longrightarrow>
   session_step CS SS ids c ksf sys
     (sys\<lparr>sessions := (sessions sys)(i \<mapsto> Both_Done right key key')\<rparr>)"
| server_rejects:
  "sessions sys i = Some (Client_Done user pw right key ek m3 sst) \<Longrightarrow>
   server_login_finish CS sst m3 \<lparr>slp_context = c, slp_identifiers = ids\<rparr> = Err e \<Longrightarrow>
   session_step CS SS ids c ksf sys
     (sys\<lparr>sessions := (sessions sys)(i \<mapsto> Server_Rejected right)\<rparr>)"

section \<open>The invariant\<close>

text \<open>What a session with the right password has achieved.\<close>

fun session_good ::
    "('e, 'oc, 'sk, 'pk, 'k1s, 'k1m, 'k2s, 'k2b, 'k2d, 'k2i, 'k2m, 'k3m) cipher_suite \<Rightarrow>
     (bytes, 'sk, 'pk) server_setup \<Rightarrow> identifiers \<Rightarrow> bytes option \<Rightarrow> ksf option \<Rightarrow>
     (('e, 'k1m) credential_request, ('oc, 'k1s, 'e, 'k1m) client_login,
       ('e, 'k2m) credential_response, 'k2s server_login, 'k3m credential_finalization) session \<Rightarrow>
     bool" where
  "session_good CS SS ids c ksf (Started user pw creq cst) \<longleftrightarrow>
     (\<exists>r r'. client_login_start CS pw r = (Ok (creq, cst), r'))"
| "session_good CS SS ids c ksf (Answered user pw right creq cst cresp sst) \<longleftrightarrow>
     (right \<longrightarrow> crs_evaluation_element cresp \<noteq> cr_blinded_element creq \<and>
       (\<exists>pf ek. registered CS SS user pw \<lparr>crp_identifiers = ids, crp_ksf = ksf\<rparr> pf ek \<and>
         login_started CS SS user pw pf \<lparr>slp_context = c, slp_identifiers = ids\<rparr>
           creq cst cresp sst))"
| "session_good CS SS ids c ksf (Client_Done user pw right key ek m3 sst) \<longleftrightarrow>
     (right \<longrightarrow>
       server_login_finish CS sst m3 \<lparr>slp_context = c, slp_identifiers = ids\<rparr> = Ok key \<and>
       (\<exists>pf. registered CS SS user pw \<lparr>crp_identifiers = ids, crp_ksf = ksf\<rparr> pf ek))"
| "session_good CS SS ids c ksf (Client_Rejected right) \<longleftrightarrow> \<not> right"
| "session_good CS SS ids c ksf (Both_Done right key key') \<longleftrightarrow> (right \<longrightarrow> key = key')"
| "session_good CS SS ids c ksf (Server_Rejected right) \<longleftrightarrow> \<not> right"

definition system_good ::
    "('e, 'oc, 'sk, 'pk, 'k1s, 'k1m, 'k2s, 'k2b, 'k2d, 'k2i, 'k2m, 'k3m) cipher_suite \<Rightarrow>
     (bytes, 'sk, 'pk) server_setup \<Rightarrow> identifiers \<Rightarrow> bytes option \<Rightarrow> ksf option \<Rightarrow>
     ('pk server_registration, (('e, 'k1m) credential_request, ('oc, 'k1s, 'e, 'k1m) client_login,
       ('e, 'k2m) credential_response, 'k2s server_login, 'k3m credential_finalization) session)
       system \<Rightarrow> bool" where
  "system_good CS SS ids c ksf sys \<longleftrightarrow>
     (\<forall>user pw pf. accounts sys user = Some (pw, pf) \<longrightarrow>
       (\<exists>ek. registered CS SS user pw \<lparr>crp_identifiers = ids, crp_ksf = ksf\<rparr> pf ek)) \<and>
     (\<forall>i s. sessions sys i = Some s \<longrightarrow> session_good CS SS ids c ksf s)"

lemma system_goodD:
  "system_good CS SS ids c ksf sys \<Longrightarrow> accounts sys user = Some (pw, pf) \<Longrightarrow>
     \<exists>ek. registered CS SS user pw \<lparr>crp_identifiers = ids, crp_ksf = ksf\<rparr> pf ek"
  "system_good CS SS ids c ksf sys \<Longrightarrow> sessions sys i = Some s \<Longrightarrow>
     session_good CS SS ids c ksf s"
  unfolding system_good_def by blast+

lemma system_good_session:
  "system_good CS SS ids c ksf sys \<Longrightarrow> session_good CS SS ids c ksf s \<Longrightarrow>
   system_good CS SS ids c ksf (sys\<lparr>sessions := (sessions sys)(i \<mapsto> s)\<rparr>)"
  by (auto simp: system_good_def)

context opaque_suite
begin

lemma answered_login_correct:
  assumes "trusted" "server_setup_ok CS wf_sk wf_pk SS"
    and "session_good CS SS ids c ksf (Answered user pw True creq cst cresp sst)"
  shows "\<exists>res r' pf. client_login_finish CS cst pw cresp
      \<lparr>clp_context = c, clp_identifiers = ids, clp_ksf = ksf\<rparr> r = (Ok res, r') \<and>
    server_login_finish CS sst (clf_message res) \<lparr>slp_context = c, slp_identifiers = ids\<rparr>
      = Ok (clf_session_key res) \<and>
    registered CS SS user pw \<lparr>crp_identifiers = ids, crp_ksf = ksf\<rparr> pf (clf_export_key res)"
  using assms(3) login_correct [OF assms(1,2)] by fastforce

lemma session_step_good:
  assumes "session_step CS SS ids c ksf sys sys'"
    and "trusted" "server_setup_ok CS wf_sk wf_pk SS" "system_good CS SS ids c ksf sys"
  shows "system_good CS SS ids c ksf sys'"
  using assms(1)
proof cases
  case (register pw r1 req st r1' user resp r2 res r2')
  then have "registered CS SS user pw \<lparr>crp_identifiers = ids, crp_ksf = ksf\<rparr>
      (server_registration_finish (crf_message res)) (crf_export_key res)"
    unfolding registered_def by blast
  with register(1) assms(4) show ?thesis by (auto simp: system_good_def)
next
  case (start pw r creq cst r' i user)
  then have "session_good CS SS ids c ksf (Started user pw creq cst)" by auto
  with start(1) assms(4) show ?thesis by (simp add: system_good_session)
next
  case (answer i user pw creq cst r cresp sst r')
  from system_goodD(2) [OF assms(4) answer(2)] obtain r0 r0' where
    "client_login_start CS pw r0 = (Ok (creq, cst), r0')" by auto
  with answer(3) have "login_started CS SS user pw pf
      \<lparr>slp_context = c, slp_identifiers = ids\<rparr> creq cst cresp sst"
    if "accounts sys user = Some (pw', pf)" for pw' pf
    using that unfolding login_started_def by fastforce
  with system_goodD(1) [OF assms(4), of user pw] have "session_good CS SS ids c ksf
      (Answered user pw (map_option fst (accounts sys user) = Some pw \<and>
         crs_evaluation_element cresp \<noteq> cr_blinded_element creq) creq cst cresp sst)"
    by fastforce
  with answer(1) assms(4) show ?thesis by (simp add: system_good_session)
next
  case (client_accepts i user pw right creq cst cresp sst r res r')
  have "session_good CS SS ids c ksf (Client_Done user pw right (clf_session_key res)
      (clf_export_key res) (clf_message res) sst)"
    using system_goodD(2) [OF assms(4) client_accepts(2)] client_accepts(3)
      answered_login_correct [OF assms(2,3), of ids c ksf user pw creq cst cresp sst r]
    by (cases right) auto
  with assms(4) show ?thesis unfolding client_accepts(1) by (rule system_good_session)
next
  case (client_rejects i user pw right creq cst cresp sst r e r')
  have "session_good CS SS ids c ksf (Client_Rejected right)"
    using system_goodD(2) [OF assms(4) client_rejects(2)] client_rejects(3)
      answered_login_correct [OF assms(2,3), of ids c ksf user pw creq cst cresp sst r]
    by (cases right) auto
  with assms(4) show ?thesis unfolding client_rejects(1) by (rule system_good_session)
next
  case (server_accepts i user pw right key ek m3 sst key')
  with system_goodD(2) [OF assms(4) server_accepts(2)] assms(4) show ?thesis
    by (auto intro!: system_good_session)
next
  case (server_rejects i user pw right key ek m3 sst e)
  with system_goodD(2) [OF assms(4) server_rejects(2)] assms(4) show ?thesis
    by (auto intro!: system_good_session)
qed

lemma reachable_good:
  assumes "(session_step CS SS ids c ksf)\<^sup>*\<^sup>* no_sessions sys"
    and "trusted" "server_setup_ok CS wf_sk wf_pk SS"
  shows "system_good CS SS ids c ksf sys"
  using assms(1)
proof induction
  case base
  show ?case by (simp add: system_good_def no_sessions_def)
next
  case (step sys sys')
  then show ?case using session_step_good assms(2,3) by blast
qed

text \<open>A session with the right password that has its answer can finish, and then both keys agree.\<close>

lemma answered_session_completes:
  assumes "trusted" "server_setup_ok CS wf_sk wf_pk SS" "system_good CS SS ids c ksf sys"
    and i: "sessions sys i = Some (Answered user pw True creq cst cresp sst)"
  shows "\<exists>sys' key. (session_step CS SS ids c ksf)\<^sup>*\<^sup>* sys sys' \<and>
    sessions sys' i = Some (Both_Done True key key)"
proof -
  fix r
  obtain res r' where fin: "client_login_finish CS cst pw cresp
      \<lparr>clp_context = c, clp_identifiers = ids, clp_ksf = ksf\<rparr> r = (Ok res, r')"
    and srv: "server_login_finish CS sst (clf_message res) \<lparr>slp_context = c, slp_identifiers = ids\<rparr>
      = Ok (clf_session_key res)"
    using answered_login_correct [OF assms(1,2) system_goodD(2) [OF assms(3) i], of r] by blast
  let ?key = "clf_session_key res"
  let ?sys1 = "sys\<lparr>sessions := (sessions sys)(i \<mapsto>
    Client_Done user pw True ?key (clf_export_key res) (clf_message res) sst)\<rparr>"
  let ?sys2 = "?sys1\<lparr>sessions := (sessions ?sys1)(i \<mapsto> Both_Done True ?key ?key)\<rparr>"
  have "session_step CS SS ids c ksf sys ?sys1" using i fin by (rule session_step.client_accepts)
  moreover have "session_step CS SS ids c ksf ?sys1 ?sys2"
    by (rule session_step.server_accepts [OF _ srv]) simp
  ultimately have "(session_step CS SS ids c ksf)\<^sup>*\<^sup>* sys ?sys2" by simp
  moreover have "sessions ?sys2 i = Some (Both_Done True ?key ?key)" by simp
  ultimately show ?thesis by blast
qed

end

text \<open>A registration, the start of a login and its answer are three steps of the system.\<close>

lemma answered_reachable:
  assumes "registered CS SS user pw \<lparr>crp_identifiers = ids, crp_ksf = ksf\<rparr> pf ek"
    and "login_started CS SS user pw pf \<lparr>slp_context = c, slp_identifiers = ids\<rparr> creq cst cresp sst"
    and "crs_evaluation_element cresp \<noteq> cr_blinded_element creq"
    and "sessions sys0 i = None"
  shows "\<exists>sys. (session_step CS SS ids c ksf)\<^sup>*\<^sup>* sys0 sys \<and>
    sessions sys i = Some (Answered user pw True creq cst cresp sst)"
proof -
  obtain ra ra' rb rb' req st resp res where
    reg: "client_registration_start CS pw ra = (Ok (req, st), ra')"
      "server_registration_start CS SS req user = Ok resp"
      "client_registration_finish CS st pw resp \<lparr>crp_identifiers = ids, crp_ksf = ksf\<rparr> rb
        = (Ok res, rb')"
    and pf: "pf = server_registration_finish (crf_message res)"
    using assms(1) unfolding registered_def by blast
  have "session_step CS SS ids c ksf sys0
      (sys0\<lparr>accounts := (accounts sys0)(user \<mapsto> (pw, pf))\<rparr>)"
    (is "session_step _ _ _ _ _ _ ?sys1")
    unfolding pf by (rule session_step.register [OF reg])
  moreover obtain r1 r1' r2 r2' where
    start: "client_login_start CS pw r1 = (Ok (creq, cst), r1')"
    and answer: "server_login_start CS SS (Some pf) creq user
      \<lparr>slp_context = c, slp_identifiers = ids\<rparr> r2 = (Ok (cresp, sst), r2')"
    using assms(2) unfolding login_started_def by blast
  have "session_step CS SS ids c ksf ?sys1
      (?sys1\<lparr>sessions := (sessions ?sys1)(i \<mapsto> Started user pw creq cst)\<rparr>)"
    (is "session_step _ _ _ _ _ _ ?sys2")
    by (rule session_step.start [OF start]) (simp add: assms(4))
  moreover have "session_step CS SS ids c ksf ?sys2 (?sys2\<lparr>sessions := (sessions ?sys2)(i \<mapsto>
      Answered user pw (map_option fst (accounts ?sys2 user) = Some pw \<and>
        crs_evaluation_element cresp \<noteq> cr_blinded_element creq) creq cst cresp sst)\<rparr>)"
    (is "session_step _ _ _ _ _ _ ?sys3")
    by (rule session_step.answer) (use answer in simp_all)
  ultimately have "(session_step CS SS ids c ksf)\<^sup>*\<^sup>* sys0 ?sys3"
    by (meson rtranclp.rtrancl_into_rtrancl rtranclp.rtrancl_refl)
  moreover have "sessions ?sys3 i = Some (Answered user pw True creq cst cresp sst)"
    using assms(3) by simp
  ultimately show ?thesis by blast
qed

section \<open>Properties\<close>

text \<open>
  C4. Sessions do not disturb each other. Take any interleaving of registrations (also of passwords
  that are changed while a login is under way), login starts, answers and finishes of any number of
  users of an OPAQUE-3DH server, with any randomness. In every reachable system, a session whose
  record was registered with the password of its client is never rejected by either side, it can be
  finished as soon as it is answered, and when both sides have finished their session keys are equal.
\<close>

theorem sessions_agree:
  assumes "oprf_ok P wf_e wf_oc" "dh_ok G dh wf_sk wf_pk" "hash_ok H"
    and "server_setup_ok (tdh_suite P G dh H k) wf_sk wf_pk SS"
    and "(session_step (tdh_suite P G dh H k) SS ids c ksf)\<^sup>*\<^sup>* no_sessions sys"
    and "sessions sys i = Some session"
  shows "case session of
      Answered user pw right creq cst cresp sst \<Rightarrow> right \<longrightarrow>
        (\<exists>sys' key. (session_step (tdh_suite P G dh H k) SS ids c ksf)\<^sup>*\<^sup>* sys sys' \<and>
          sessions sys' i = Some (Both_Done True key key))
    | Client_Done user pw right key ek m3 sst \<Rightarrow> right \<longrightarrow>
        server_login_finish (tdh_suite P G dh H k) sst m3
          \<lparr>slp_context = c, slp_identifiers = ids\<rparr> = Ok key
    | Both_Done right key key' \<Rightarrow> right \<longrightarrow> key = key'
    | Client_Rejected right \<Rightarrow> \<not> right
    | Server_Rejected right \<Rightarrow> \<not> right
    | Started user pw creq cst \<Rightarrow> True"
proof -
  have ok: "oprf_ok P wf_e wf_oc \<and> dh_ok G dh wf_sk wf_pk \<and> hash_ok H" using assms(1-3) by simp
  note good = tdh_opaque.reachable_good [OF assms(5) ok assms(4)]
  note completes = tdh_opaque.answered_session_completes [OF ok assms(4) good]
  from system_goodD(2) [OF good assms(6)] completes assms(6) show ?thesis
    by (cases session) auto
qed

theorem sessions_agree_witness:
  "\<exists>sys creq cst cresp sst sys' key.
    (session_step mini_tdh_suite mini_setup sample_ids (Some [8]) None)\<^sup>*\<^sup>* no_sessions sys \<and>
    sessions sys 4 = Some (Answered [7] [3, 1] True creq cst cresp sst) \<and>
    (session_step mini_tdh_suite mini_setup sample_ids (Some [8]) None)\<^sup>*\<^sup>* sys sys' \<and>
    sessions sys' 4 = Some (Both_Done True key key)"
proof -
  obtain pf ek creq cst cresp sst where
    run: "registered mini_tdh_suite mini_setup [7] [3, 1]
      \<lparr>crp_identifiers = sample_ids, crp_ksf = None\<rparr> pf ek"
      "login_started mini_tdh_suite mini_setup [7] [3, 1] pf mini_params creq cst cresp sst"
      "crs_evaluation_element cresp \<noteq> cr_blinded_element creq"
    by (rule mini_run [OF mini_suites_ok(1) _ _ mini_setup_ok(1)]) simp_all
  have "sessions no_sessions 4 = None" by (simp add: no_sessions_def)
  from answered_reachable [OF run this] obtain sys where
    sys: "(session_step mini_tdh_suite mini_setup sample_ids (Some [8]) None)\<^sup>*\<^sup>* no_sessions sys"
      "sessions sys 4 = Some (Answered [7] [3, 1] True creq cst cresp sst)" by blast
  from sessions_agree [OF mini_suite_ok mini_setup_ok(1) sys] sys show ?thesis by fastforce
qed

end
