(* ===== verification/Simple_Login.thy ===== *)
theory Simple_Login
  imports Over_Wire
begin

text \<open>
  \<open>examples/simple_login.rs\<close>: a server with a table of password files and its clients, run in one
  process over serialized messages. The system's random generator is one stream that client and
  server draw from in program order. The banner with the registered user names is not modelled.
\<close>

section \<open>Registration and login\<close>

definition account_registration ::
    "('e, 'oc, 'sk, 'pk, _, _, _, _, _, _, _, _) cipher_suite \<Rightarrow> (bytes, 'sk, 'pk) server_setup \<Rightarrow>
     bytes \<Rightarrow> bytes \<Rightarrow> (rng, unit, bytes) st" where
  "account_registration CS server_setup username password =
     bind_st (unwrap_st (client_registration_start CS password)) (\<lambda>(message, state).
     let registration_request_bytes = registration_request_serialize CS message in
     bind_st (unwrap_lift (registration_request_deserialize CS registration_request_bytes))
       (\<lambda>request.
     bind_st (unwrap_lift (server_registration_start CS server_setup request username))
       (\<lambda>response.
     let registration_response_bytes = registration_response_serialize CS response in
     bind_st (unwrap_lift (registration_response_deserialize CS registration_response_bytes))
       (\<lambda>response.
     bind_st (unwrap_st (client_registration_finish CS state password response
       default_registration_parameters)) (\<lambda>result.
     let message_bytes = registration_upload_serialize CS (crf_message result) in
     bind_st (unwrap_lift (registration_upload_deserialize CS message_bytes)) (\<lambda>upload.
     let password_file = server_registration_finish upload in
     return_st (server_registration_serialize CS password_file)))))))"

definition account_login ::
    "('e, 'oc, 'sk, 'pk, _, _, _, _, _, _, _, _) cipher_suite \<Rightarrow> (bytes, 'sk, 'pk) server_setup \<Rightarrow>
     bytes \<Rightarrow> bytes \<Rightarrow> bytes \<Rightarrow> (rng, unit, bool) st" where
  "account_login CS server_setup username password password_file_bytes =
     bind_st (unwrap_st (client_login_start CS password)) (\<lambda>(message, client_state).
     let credential_request_bytes = credential_request_serialize CS message in
     bind_st (unwrap_lift (server_registration_deserialize CS password_file_bytes))
       (\<lambda>password_file.
     bind_st (unwrap_lift (credential_request_deserialize CS credential_request_bytes))
       (\<lambda>request.
     bind_st (unwrap_st (server_login_start CS server_setup (Some password_file) request username
       default_server_login_parameters)) (\<lambda>(response, server_state).
     let credential_response_bytes = credential_response_serialize CS response in
     bind_st (unwrap_lift (credential_response_deserialize CS credential_response_bytes))
       (\<lambda>response rng.
     case client_login_finish CS client_state password response default_client_login_parameters rng
     of
       (Panic, rng') \<Rightarrow> (Panic, rng')
     | (Err _, rng') \<Rightarrow> (Ok False, rng')
     | (Ok result, rng') \<Rightarrow>
         bind_st (unwrap_lift (credential_finalization_deserialize CS
           (credential_finalization_serialize CS (clf_message result)))) (\<lambda>finalization.
         bind_st (unwrap_lift (server_login_finish CS server_state finalization
           default_server_login_parameters)) (\<lambda>session_key.
         return_st (clf_session_key result = session_key))) rng')))))"

section \<open>The command line\<close>

datatype login_output =
  Invalid_Option | Login_Success | Incorrect_Password | Username_Not_Found

text \<open>
  The loop of \<open>main\<close>: what it prints, and the table when the process exits, or a panic.
\<close>

function login_loop ::
    "('e, 'oc, 'sk, 'pk, 'k1s, 'k1m, 'k2s, 'k2b, 'k2d, 'k2i, 'k2m, 'k3m) cipher_suite \<Rightarrow>
     (bytes, 'sk, 'pk) server_setup \<Rightarrow> bytes option list \<Rightarrow> (bytes \<rightharpoonup> bytes) \<Rightarrow> rng \<Rightarrow>
     login_output list \<times> (unit, bytes \<rightharpoonup> bytes) result" where
  "login_loop CS setup lines registered_users rng =
     (case lines of
        Some line # lines \<Rightarrow>
          if line \<noteq> option_1 \<and> line \<noteq> option_2
          then emit Invalid_Option (login_loop CS setup lines registered_users rng)
          else (case get_two_strings None lines of
              None \<Rightarrow> ([], Ok registered_users)
            | Some ((username, password), lines) \<Rightarrow>
                if line = option_1
                then (case account_registration CS setup username password rng of
                    (Ok password_file, rng) \<Rightarrow>
                      login_loop CS setup lines (registered_users(username \<mapsto> password_file)) rng
                  | (Err e, _) \<Rightarrow> ([], Err e)
                  | (Panic, _) \<Rightarrow> ([], Panic))
                else (case registered_users username of
                    Some password_file_bytes \<Rightarrow>
                      (case account_login CS setup username password password_file_bytes rng of
                        (Ok success, rng) \<Rightarrow>
                          emit (if success then Login_Success else Incorrect_Password)
                            (login_loop CS setup lines registered_users rng)
                      | (Err e, _) \<Rightarrow> ([], Err e)
                      | (Panic, _) \<Rightarrow> ([], Panic))
                  | None \<Rightarrow> emit Username_Not_Found
                      (login_loop CS setup lines registered_users rng)))
      | _ \<Rightarrow> ([], Ok registered_users))"
  by pat_completeness auto
termination
  by (relation "measure (\<lambda>(_, _, lines, _, _). length lines)")
     (auto dest: get_two_strings_shorter)

declare login_loop.simps [simp del]

text \<open>\<open>main\<close>; \<open>None\<close> when \<open>ServerSetup::new\<close> samples for ever.\<close>

definition simple_login_main ::
    "('e, 'oc, 'sk, 'pk, 'k1s, 'k1m, 'k2s, 'k2b, 'k2d, 'k2i, 'k2m, 'k3m) cipher_suite \<Rightarrow>
     bytes option list \<Rightarrow> rng \<Rightarrow> (login_output list \<times> (unit, bytes \<rightharpoonup> bytes) result) option" where
  "simple_login_main CS lines rng =
     (case server_setup_new CS rng of
        None \<Rightarrow> None
      | Some (setup, rng) \<Rightarrow> Some (login_loop CS setup lines Map.empty rng))"

section \<open>Honest users\<close>

context live_opaque_suite
begin

lemma account_registration_ok:
  assumes "trusted" "live" "server_setup_ok CS wf_sk wf_pk setup"
    and service: "service_ok CS setup I W" "cid \<in> I" "pw \<in> W"
  obtains pf ek r' where
    "registered CS setup cid pw default_registration_parameters pf ek"
    "account_registration CS setup cid pw r = (Ok (server_registration_serialize CS pf), r')"
proof (rule registration_over_wire [OF assms, where r = r])
  fix req st r1 resp res r2
  assume *: "client_registration_start CS pw r = (Ok (req, st), r1)"
    "server_registration_start CS setup req cid = Ok resp"
    "client_registration_finish CS st pw resp default_registration_parameters r1 = (Ok res, r2)"
    "registration_request_deserialize CS (registration_request_serialize CS req) = Ok req"
    "registration_response_deserialize CS (registration_response_serialize CS resp) = Ok resp"
    "registration_upload_deserialize CS (registration_upload_serialize CS (crf_message res))
      = Ok (crf_message res)"
    and reg: "registered CS setup cid pw default_registration_parameters (crf_message res)
      (crf_export_key res)"
  from * have "account_registration CS setup cid pw r
      = (Ok (server_registration_serialize CS (crf_message res)), r2)"
    by (simp add: account_registration_def server_registration_finish_def Let_def)
  with reg show thesis by (rule that)
qed

lemma account_login_ok:
  assumes "trusted" "live" "server_setup_ok CS wf_sk wf_pk setup"
    and service: "service_ok CS setup I W" "cid \<in> I" "pw \<in> W"
    and reg: "registered CS setup cid pw default_registration_parameters pf ek"
  shows "\<exists>r'. account_login CS setup cid pw (server_registration_serialize CS pf) r = (Ok True, r')"
  by (rule login_over_wire [OF assms, where r = r]) (simp add: account_login_def Let_def)

end

section \<open>What the program promises\<close>

text \<open>
  The abstract program keeps passwords: a run from the table \<open>pws\<close> prints \<open>outs\<close> and ends with a table
  (\<open>Some\<close>) or a panic (\<open>None\<close>). With the right password a login succeeds; nothing is promised for a
  wrong one, where acceptance or a failure of the server's last step would need a collision of the
  external primitives.
\<close>

inductive login_spec ::
    "bytes option list \<Rightarrow> (bytes \<rightharpoonup> bytes) \<Rightarrow> login_output list \<Rightarrow> (bytes \<rightharpoonup> bytes) option \<Rightarrow> bool"
  where
  eof: "login_spec [] pws [] (Some pws)"
| read_error: "login_spec (None # lines) pws [] (Some pws)"
| invalid: "line \<noteq> option_1 \<Longrightarrow> line \<noteq> option_2 \<Longrightarrow> login_spec lines pws outs fin \<Longrightarrow>
    login_spec (Some line # lines) pws (Invalid_Option # outs) fin"
| quit: "line = option_1 \<or> line = option_2 \<Longrightarrow> get_two_strings None lines = None \<Longrightarrow>
    login_spec (Some line # lines) pws [] (Some pws)"
| register: "login_spec lines (pws(username \<mapsto> password)) outs fin \<Longrightarrow>
    login_spec (Some option_1 # Some username # Some password # lines) pws outs fin"
| unknown: "pws username = None \<Longrightarrow> login_spec lines pws outs fin \<Longrightarrow>
    login_spec (Some option_2 # Some username # Some password # lines) pws
      (Username_Not_Found # outs) fin"
| right: "pws username = Some password \<Longrightarrow> login_spec lines pws outs fin \<Longrightarrow>
    login_spec (Some option_2 # Some username # Some password # lines) pws
      (Login_Success # outs) fin"
| wrong: "pws username = Some password' \<Longrightarrow> password' \<noteq> password \<Longrightarrow>
    out \<in> {Login_Success, Incorrect_Password} \<Longrightarrow> login_spec lines pws outs fin \<Longrightarrow>
    login_spec (Some option_2 # Some username # Some password # lines) pws (out # outs) fin"
| wrong_panic: "pws username = Some password' \<Longrightarrow> password' \<noteq> password \<Longrightarrow>
    login_spec (Some option_2 # Some username # Some password # lines) pws [] None"

inductive_cases login_spec_Nil: "login_spec [] pws outs fin"
inductive_cases login_spec_register:
  "login_spec (Some option_1 # Some username # Some password # lines) pws outs fin"
inductive_cases login_spec_login:
  "login_spec (Some option_2 # Some username # Some password # lines) pws outs fin"

text \<open>The table of password files that stands for a table of passwords.\<close>

definition files_of ::
    "('e, 'oc, 'sk, 'pk, 'k1s, 'k1m, 'k2s, 'k2b, 'k2d, 'k2i, 'k2m, 'k3m) cipher_suite \<Rightarrow>
     (bytes, 'sk, 'pk) server_setup \<Rightarrow> (bytes \<rightharpoonup> bytes) \<Rightarrow> (bytes \<rightharpoonup> bytes) \<Rightarrow> bool" where
  "files_of CS setup pws registered_users \<longleftrightarrow>
     dom registered_users = dom pws \<and>
     (\<forall>username password. pws username = Some password \<longrightarrow>
       (\<exists>pf ek. registered CS setup username password default_registration_parameters pf ek \<and>
          registered_users username = Some (server_registration_serialize CS pf)))"

lemma files_of_empty: "files_of CS setup Map.empty Map.empty"
  by (simp add: files_of_def)

lemma files_of_insert:
  "files_of CS setup pws users \<Longrightarrow>
   registered CS setup username password default_registration_parameters pf ek \<Longrightarrow>
   files_of CS setup (pws(username \<mapsto> password))
     (users(username \<mapsto> server_registration_serialize CS pf))"
  unfolding files_of_def by auto

text \<open>The credentials that a command line enters.\<close>

fun credentials :: "bytes option list \<Rightarrow> bytes set" where
  "credentials (Some line # Some username # Some password # lines) =
     (if line = option_1 \<or> line = option_2
      then {username, password} \<union> credentials lines
      else credentials (Some username # Some password # lines))"
| "credentials (Some line # lines) =
     (if line = option_1 \<or> line = option_2 then {} else credentials lines)"
| "credentials _ = {}"

lemma credentials_invalid:
  "line \<noteq> option_1 \<Longrightarrow> line \<noteq> option_2 \<Longrightarrow> credentials (Some line # lines) = credentials lines"
  by (cases lines; cases "hd lines"; cases "tl lines"; cases "hd (tl lines)") auto

lemma login_loop_simps:
  "login_loop CS setup [] users rng = ([], Ok users)"
  "login_loop CS setup (None # lines) users rng = ([], Ok users)"
  "line \<noteq> option_1 \<Longrightarrow> line \<noteq> option_2 \<Longrightarrow>
     login_loop CS setup (Some line # lines) users rng
       = emit Invalid_Option (login_loop CS setup lines users rng)"
  "line = option_1 \<or> line = option_2 \<Longrightarrow> get_two_strings None lines = None \<Longrightarrow>
     login_loop CS setup (Some line # lines) users rng = ([], Ok users)"
  "account_registration CS setup u pw rng = (Ok pf, rng') \<Longrightarrow>
     login_loop CS setup (Some option_1 # Some u # Some pw # lines) users rng
       = login_loop CS setup lines (users(u \<mapsto> pf)) rng'"
  "users u = None \<Longrightarrow> login_loop CS setup (Some option_2 # Some u # Some pw # lines) users rng
       = emit Username_Not_Found (login_loop CS setup lines users rng)"
  "users u = Some pf \<Longrightarrow> login_loop CS setup (Some option_2 # Some u # Some pw # lines) users rng
       = (case account_login CS setup u pw pf rng of
            (Ok success, rng) \<Rightarrow> emit (if success then Login_Success else Incorrect_Password)
                (login_loop CS setup lines users rng)
          | (Err e, _) \<Rightarrow> ([], Err e)
          | (Panic, _) \<Rightarrow> ([], Panic))"
  by (subst login_loop.simps, auto split: result.split)+

text \<open>The shapes of a command line.\<close>

lemma command_line_cases [case_names eof read_error invalid quit register login]:
  assumes "lines = [] \<Longrightarrow> P" "\<And>rest. lines = None # rest \<Longrightarrow> P"
    and "\<And>line rest. lines = Some line # rest \<Longrightarrow> line \<noteq> option_1 \<Longrightarrow> line \<noteq> option_2 \<Longrightarrow> P"
    and "\<And>line rest. lines = Some line # rest \<Longrightarrow> line = option_1 \<or> line = option_2 \<Longrightarrow>
      get_two_strings None rest = None \<Longrightarrow> P"
    and "\<And>u pw rest. lines = Some option_1 # Some u # Some pw # rest \<Longrightarrow> P"
    and "\<And>u pw rest. lines = Some option_2 # Some u # Some pw # rest \<Longrightarrow> P"
  shows P
proof (cases lines)
  case Nil
  with assms(1) show P .
next
  case (Cons a rest)
  then show P
  proof (cases a)
    case None
    with Cons assms(2) show P by simp
  next
    case (Some line)
    show P
    proof (cases "get_two_strings None rest")
      case None
      with Cons Some assms(3,4) show P by blast
    next
      case (Some r)
      then obtain u pw rest' where "rest = Some u # Some pw # rest'"
        by (cases r) (auto simp: get_two_strings_None_iff)
      with Cons \<open>a = Some line\<close> assms(3,5,6) show P by blast
    qed
  qed
qed

definition ends_as ::
    "('e, 'oc, 'sk, 'pk, 'k1s, 'k1m, 'k2s, 'k2b, 'k2d, 'k2i, 'k2m, 'k3m) cipher_suite \<Rightarrow>
     (bytes, 'sk, 'pk) server_setup \<Rightarrow> (unit, bytes \<rightharpoonup> bytes) result \<Rightarrow> (bytes \<rightharpoonup> bytes) option \<Rightarrow> bool"
  where
  "ends_as CS setup fin pws \<longleftrightarrow>
     (case fin of Ok users \<Rightarrow> \<exists>p. pws = Some p \<and> files_of CS setup p users | _ \<Rightarrow> pws = None)"

lemma files_of_None: "files_of CS setup pws users \<Longrightarrow> users u = None \<longleftrightarrow> pws u = None"
  unfolding files_of_def by (metis domIff)

lemma files_ofE:
  assumes "files_of CS setup pws users" "pws u = Some pw"
  obtains pf ek where "registered CS setup u pw default_registration_parameters pf ek"
    "users u = Some (server_registration_serialize CS pf)"
  using assms unfolding files_of_def by blast

context live_opaque_suite
begin

lemma login_loop_refines:
  assumes "trusted" "live" "server_setup_ok CS wf_sk wf_pk setup" "service_ok CS setup W W"
    and "credentials lines \<subseteq> W" "files_of CS setup pws users"
    and "login_loop CS setup lines users rng = (outs, fin)"
  shows "\<exists>pws'. login_spec lines pws outs pws' \<and> ends_as CS setup fin pws'"
  using assms(5-7)
proof (induction "length lines" arbitrary: lines pws users rng outs rule: less_induct)
  case less
  note ok = assms(1-4)
  show ?case
  proof (cases lines rule: command_line_cases)
    case eof
    with less.prems show ?thesis
      by (auto simp: login_loop_simps ends_as_def intro: login_spec.eof)
  next
    case (read_error rest)
    with less.prems show ?thesis
      by (auto simp: login_loop_simps ends_as_def intro: login_spec.read_error)
  next
    case (invalid line rest)
    with less.prems(3) obtain outs' where run: "login_loop CS setup rest users rng = (outs', fin)"
      and outs: "outs = Invalid_Option # outs'"
      by (auto simp: login_loop_simps emit_eq)
    have "credentials rest \<subseteq> W" using less.prems(1) invalid by (simp add: credentials_invalid)
    from less.hyps [OF _ this less.prems(2) run] invalid outs show ?thesis
      by (auto intro: login_spec.invalid)
  next
    case (quit line rest)
    with less.prems show ?thesis
      by (auto simp: login_loop_simps ends_as_def intro: login_spec.quit)
  next
    case (register u pw rest)
    with less.prems(1) have W: "u \<in> W" "pw \<in> W" "credentials rest \<subseteq> W" by auto
    obtain pf ek rng' where reg: "registered CS setup u pw default_registration_parameters pf ek"
      and run: "account_registration CS setup u pw rng
        = (Ok (server_registration_serialize CS pf), rng')"
      by (rule account_registration_ok [OF ok W(1,2)])
    from less.prems(3) register have "login_loop CS setup rest
        (users(u \<mapsto> server_registration_serialize CS pf)) rng' = (outs, fin)"
      by (simp add: login_loop_simps(5) [OF run])
    from less.hyps [OF _ W(3) files_of_insert [OF less.prems(2) reg] this] register show ?thesis
      by (auto intro: login_spec.register)
  next
    case (login u pw rest)
    with less.prems(1) have W: "u \<in> W" "pw \<in> W" "credentials rest \<subseteq> W" by auto
    note IH = less.hyps [OF _ W(3) less.prems(2), unfolded login, simplified]
    note out = less.prems(3) [unfolded login]
    show ?thesis
    proof (cases "pws u")
      case None
      with out less.prems(2) obtain outs' where "login_loop CS setup rest users rng = (outs', fin)"
        and "outs = Username_Not_Found # outs'"
        by (auto simp: files_of_None login_loop_simps(6) emit_eq)
      with IH None login show ?thesis by (blast intro: login_spec.unknown)
    next
      case (Some pw')
      then obtain pf ek where reg: "registered CS setup u pw' default_registration_parameters pf ek"
        and pf: "users u = Some (server_registration_serialize CS pf)"
        using less.prems(2) by (elim files_ofE)
      show ?thesis
      proof (cases "pw' = pw")
        case True
        obtain rng' where "account_login CS setup u pw (server_registration_serialize CS pf) rng
            = (Ok True, rng')"
          using account_login_ok [OF ok W(1,2) reg [unfolded True]] by blast
        with out obtain outs' where "login_loop CS setup rest users rng' = (outs', fin)"
          and "outs = Login_Success # outs'"
          by (auto simp: login_loop_simps(7) [where users = users and u = u, OF pf] emit_eq)
        with IH Some True login show ?thesis by (blast intro: login_spec.right)
      next
        case False
        obtain r rng' where r: "account_login CS setup u pw (server_registration_serialize CS pf) rng
            = (r, rng')" by fastforce
        show ?thesis
        proof (cases r)
          case (Ok success)
          with out r obtain outs' where "login_loop CS setup rest users rng' = (outs', fin)"
            and outs: "outs = (if success then Login_Success else Incorrect_Password) # outs'"
            by (auto simp: login_loop_simps(7) [where users = users and u = u, OF pf] emit_eq)
          with IH obtain pws' where spec: "login_spec rest pws outs' pws'"
            and "ends_as CS setup fin pws'" by blast
          moreover have "login_spec lines pws outs pws'"
            unfolding outs login by (rule login_spec.wrong [OF _ False _ spec]) (simp_all add: Some)
          ultimately show ?thesis by blast
        next
          case (Err e)
          with out r Some False login show ?thesis
            by (auto simp: login_loop_simps(7) [where users = users and u = u, OF pf] ends_as_def intro: login_spec.wrong_panic)
        next
          case Panic
          with out r Some False login show ?thesis
            by (auto simp: login_loop_simps(7) [where users = users and u = u, OF pf] ends_as_def intro: login_spec.wrong_panic)
        qed
      qed
    qed
  qed
qed

end

section \<open>Properties\<close>

text \<open>
  Registering an account and logging in with the same password works over the wire: no \<open>unwrap\<close>
  of the program fails, the password file that registration returns is accepted, every message
  survives serialization, and the login returns \<open>true\<close> whatever the generator produces.
\<close>

theorem simple_login_accepts:
  assumes "oprf_ok P wf_e wf_oc" "dh_ok G dh wf_sk wf_pk" "hash_ok H" "derive_total G"
    and "server_setup_ok (tdh_suite P G dh H default_ksf) wf_sk wf_pk setup"
    and "service_ok (tdh_suite P G dh H default_ksf) setup I W" "username \<in> I" "password \<in> W"
  shows "\<exists>file r'. account_registration (tdh_suite P G dh H default_ksf) setup username password r
      = (Ok file, r') \<and>
    (\<forall>r2. \<exists>r2'. account_login (tdh_suite P G dh H default_ksf) setup username password file r2
      = (Ok True, r2'))"
proof -
  have ok: "oprf_ok P wf_e wf_oc \<and> dh_ok G dh wf_sk wf_pk \<and> hash_ok H" using assms(1-3) by simp
  note reg = tdh_opaque.account_registration_ok [OF ok assms(4-8)]
    and login = tdh_opaque.account_login_ok [OF ok assms(4-8)]
  show ?thesis by (rule reg) (use login in blast)
qed

theorem simple_login_accepts_witness:
  "\<exists>file r' r2'. account_registration mini_tdh_suite_32 mini_setup_32 [49] [50] (counter_rng 0)
      = (Ok file, r') \<and>
    account_login mini_tdh_suite_32 mini_setup_32 [49] [50] file (counter_rng 9) = (Ok True, r2')"
  using simple_login_accepts [OF mini_32_ok mini_derive_total mini_setup_32_ok mini_service_32,
      of "{[49]}" "{[50]}" "[49]" "[50]" "counter_rng 0"]
  by (fastforce simp: mini_identifiers_def mini_passwords_def)

text \<open>
  The same over OPAQUE with a KEM: no step of registration or login fails, whatever the
  generator produces, every message, the encapsulation key and ciphertext included, survives the
  wire, and the login with the registered password returns \<open>true\<close>.
\<close>

theorem kem_login_accepts:
  assumes "oprf_ok P wf_e wf_oc" "dh_ok G dh wf_sk wf_pk" "hash_ok H" "kem_ok K wf_dk wf_ek"
    and "derive_total G" "server_setup_ok (kem_suite P G dh H K default_ksf) wf_sk wf_pk setup"
    and "service_ok (kem_suite P G dh H K default_ksf) setup I W" "username \<in> I" "password \<in> W"
  shows "\<exists>file r'. account_registration (kem_suite P G dh H K default_ksf) setup username password r
      = (Ok file, r') \<and>
    (\<forall>r2. \<exists>r2'. account_login (kem_suite P G dh H K default_ksf) setup username password file r2
      = (Ok True, r2'))"
proof -
  have ok: "oprf_ok P wf_e wf_oc \<and> dh_ok G dh wf_sk wf_pk \<and> hash_ok H \<and> kem_ok K wf_dk wf_ek"
    using assms(1-4) by simp
  note reg = kem_opaque.account_registration_ok [OF ok assms(5-9)]
    and login = kem_opaque.account_login_ok [OF ok assms(5-9)]
  show ?thesis by (rule reg) (use login in blast)
qed

theorem kem_login_accepts_witness:
  "\<exists>file r' r2'.
    account_registration mini_kem_suite_32 mini_setup_32 [49] [50] (counter_rng 0) = (Ok file, r') \<and>
    account_login mini_kem_suite_32 mini_setup_32 [49] [50] file (counter_rng 9) = (Ok True, r2')"
  using kem_login_accepts [OF mini_32_ok mini_kem_ok mini_derive_total mini_kem_service_32,
      of "[49]" "[50]" "counter_rng 0"] by blast

text \<open>
  The same over OPAQUE with SIGMA-I and any lawful signature protocol: no step of registration
  or login fails, every message, the signatures included, survives the wire, and the login with
  the registered password returns \<open>true\<close>.
\<close>

theorem sigma_login_accepts:
  assumes "oprf_ok P wf_e wf_oc"
    and "signature_ok SP wf_sk wf_pk wf_sig wf_vs (sigma_messages P SP KG H)"
    and "dh_ok KG dh wf_esk wf_epk" "hash_ok H" "derive_total KG" "derive_total (sig_group SP)"
    and "server_setup_ok (sigma_suite P SP KG dh H default_ksf) wf_sk wf_pk setup"
    and "service_ok (sigma_suite P SP KG dh H default_ksf) setup I W"
    and "username \<in> I" "password \<in> W"
  shows "\<exists>file r'. account_registration (sigma_suite P SP KG dh H default_ksf) setup username
      password r = (Ok file, r') \<and>
    (\<forall>r2. \<exists>r2'. account_login (sigma_suite P SP KG dh H default_ksf) setup username password file r2
      = (Ok True, r2'))"
proof -
  have ok: "oprf_ok P wf_e wf_oc \<and>
      signature_ok SP wf_sk wf_pk wf_sig wf_vs (sigma_messages P SP KG H) \<and>
      dh_ok KG dh wf_esk wf_epk \<and> hash_ok H" "derive_total KG \<and> derive_total (sig_group SP)"
    using assms(1-6) by simp_all
  note reg = sigma_opaque.account_registration_ok [OF ok assms(7-10)]
    and login = sigma_opaque.account_login_ok [OF ok assms(7-10)]
  show ?thesis by (rule reg) (use login in blast)
qed

theorem sigma_login_accepts_witness:
  "\<exists>file r' r2'.
    account_registration mini_sigma_suite mini_signing_setup [49] [50] (counter_rng 0)
      = (Ok file, r') \<and>
    account_login mini_sigma_suite mini_signing_setup [49] [50] file (counter_rng 9)
      = (Ok True, r2')"
proof -
  from sigma_login_accepts [OF mini_suite_ok(1) mini_signature_ok mini_suite_ok(2,3)
      mini_derive_total _ mini_signing_setup_ok mini_signing_service,
      of "[49]" "[50]" "counter_rng 0"]
  show ?thesis by (simp add: ed_derive_total) blast
qed

text \<open>
  C5. The program refines its abstract specification, a table of passwords: on every command line
  \<open>main\<close> returns, what it prints is what the abstract program may print, and the password files at
  the end are those of the abstract table. In particular a login with the password registered last
  always succeeds, an unregistered name is reported, and no registration panics.
\<close>

theorem simple_login_refines:
  assumes "oprf_ok P wf_e wf_oc" "dh_ok G dh wf_sk wf_pk" "hash_ok H" "derive_total G"
    and "server_setup_new (tdh_suite P G dh H default_ksf) rng = Some (setup, rng')"
    and "service_ok (tdh_suite P G dh H default_ksf) setup (credentials lines)
      (credentials lines)"
  shows "\<exists>outs fin pws. simple_login_main (tdh_suite P G dh H default_ksf) lines rng
      = Some (outs, fin) \<and>
    login_spec lines Map.empty outs pws \<and> ends_as (tdh_suite P G dh H default_ksf) setup fin pws"
proof -
  have ok: "oprf_ok P wf_e wf_oc \<and> dh_ok G dh wf_sk wf_pk \<and> hash_ok H" using assms(1-3) by simp
  have "group_ok (cs_group (tdh_suite P G dh H default_ksf)) wf_sk wf_pk"
    using assms(2) by (simp add: dh_ok_group_ok)
  note sok = server_setup_new_ok [OF this assms(5)]
  obtain outs fin where "login_loop (tdh_suite P G dh H default_ksf) setup lines Map.empty rng'
      = (outs, fin)" by fastforce
  with tdh_opaque.login_loop_refines [OF ok assms(4) sok assms(6) subset_refl files_of_empty this]
    assms(5) show ?thesis by (auto simp: simple_login_main_def)
qed

theorem simple_login_refines_witness:
  "\<exists>fin. simple_login_main mini_tdh_suite_32
      [Some [49], Some [49], Some [50], Some [50], Some [49], Some [50], Some [50], Some [50], Some [50]]
      (counter_rng 0) = Some ([Login_Success, Username_Not_Found], fin)"
proof -
  let ?lines = "[Some option_1, Some [49], Some [50], Some option_2, Some [49], Some [50],
    Some option_2, Some [50], Some [50]]"
  have "credentials ?lines = {[49], [50]}" by auto
  with mini_service_32 [of "credentials ?lines" "credentials ?lines"]
  have "service_ok mini_tdh_suite_32 mini_setup_32 (credentials ?lines)
    (credentials ?lines)" by (simp add: mini_identifiers_def mini_passwords_def)
  from simple_login_refines [OF mini_32_ok mini_derive_total mini_setup_new this]
  obtain outs fin pws where "simple_login_main mini_tdh_suite_32 ?lines (counter_rng 0)
      = Some (outs, fin)" and "login_spec ?lines Map.empty outs pws"
    by blast
  moreover from this(2) have "outs = [Login_Success, Username_Not_Found]"
    by (auto elim!: login_spec_register login_spec_login login_spec_Nil)
  ultimately show ?thesis by simp
qed

end
