(* ===== verification/Digital_Locker.thy ===== *)
theory Digital_Locker
  imports Over_Wire
begin

text \<open>
  \<open>examples/digital_locker.rs\<close>: lockers whose contents are encrypted under the export key of a
  password. The AEAD of the \<open>chacha20poly1305\<close> crate is a parameter; strings are their UTF-8 bytes.
  The numbers of the lockers, which \<open>display_lockers\<close> prints before every option, are part of the
  output.
\<close>

section \<open>Strings and numbers\<close>

text \<open>\<open>String::from_utf8\<close> accepts the well-formed byte sequences of RFC 3629.\<close>

definition utf8_continuation :: "byte \<Rightarrow> bool" where
  "utf8_continuation b \<longleftrightarrow> 0x80 \<le> b \<and> b \<le> 0xBF"

definition utf8_second :: "byte \<Rightarrow> byte \<Rightarrow> bool" where
  "utf8_second a b \<longleftrightarrow> utf8_continuation b \<and> (a = 0xE0 \<longrightarrow> 0xA0 \<le> b) \<and> (a = 0xED \<longrightarrow> b \<le> 0x9F) \<and>
     (a = 0xF0 \<longrightarrow> 0x90 \<le> b) \<and> (a = 0xF4 \<longrightarrow> b \<le> 0x8F)"

fun utf8_valid :: "bytes \<Rightarrow> bool" where
  "utf8_valid [] = True"
| "utf8_valid (a # bs) =
     (if a < 0x80 then utf8_valid bs
      else if 0xC2 \<le> a \<and> a \<le> 0xDF then
        (case bs of b # rest \<Rightarrow> utf8_continuation b \<and> utf8_valid rest | _ \<Rightarrow> False)
      else if 0xE0 \<le> a \<and> a \<le> 0xEF then
        (case bs of b # c # rest \<Rightarrow> utf8_second a b \<and> utf8_continuation c \<and> utf8_valid rest
         | _ \<Rightarrow> False)
      else if 0xF0 \<le> a \<and> a \<le> 0xF4 then
        (case bs of b # c # d # rest \<Rightarrow> utf8_second a b \<and> utf8_continuation c \<and>
           utf8_continuation d \<and> utf8_valid rest
         | _ \<Rightarrow> False)
      else False)"

text \<open>\<open>str::parse::<usize>\<close>: decimal digits with an optional plus sign, no overflow.\<close>

fun parse_digits :: "nat \<Rightarrow> bytes \<Rightarrow> usize option" where
  "parse_digits acc [] = Some (of_nat acc)"
| "parse_digits acc (c # cs) =
     (if 48 \<le> c \<and> c \<le> 57 \<and> acc * 10 + unat (c - 48) < 2 ^ 64
      then parse_digits (acc * 10 + unat (c - 48)) cs else None)"

definition parse_usize :: "bytes \<Rightarrow> usize option" where
  "parse_usize s =
     (case s of
        [] \<Rightarrow> None
      | c # cs \<Rightarrow> if c = 43 then (if cs = [] then None else parse_digits 0 cs)
          else parse_digits 0 s)"

section \<open>Authenticated encryption\<close>

text \<open>Key, nonce and text; \<open>None\<close> is an error of the crate.\<close>

record aead =
  aead_encrypt :: "bytes \<Rightarrow> bytes \<Rightarrow> bytes \<Rightarrow> bytes option"
  aead_decrypt :: "bytes \<Rightarrow> bytes \<Rightarrow> bytes \<Rightarrow> bytes option"

definition encrypt :: "aead \<Rightarrow> bytes \<Rightarrow> bytes \<Rightarrow> (rng, unit, bytes) st" where
  "encrypt A key plaintext =
     bind_st (lift_st (if length key < 32 then Panic else Ok (take 32 key))) (\<lambda>cipher.
     bind_st (run_st (fill_bytes 12)) (\<lambda>nonce_bytes.
     bind_st (unwrap_lift (ok_or () (aead_encrypt A cipher nonce_bytes plaintext))) (\<lambda>ciphertext.
     return_st (nonce_bytes @ ciphertext))))"

definition decrypt :: "aead \<Rightarrow> bytes \<Rightarrow> bytes \<Rightarrow> (unit, bytes) result" where
  "decrypt A key ciphertext =
     bind_result (if length key < 32 then Panic else Ok (take 32 key)) (\<lambda>cipher.
     if length ciphertext < 12 then Panic
     else unwrap (ok_or () (aead_decrypt A cipher (take 12 ciphertext) (drop 12 ciphertext))))"

section \<open>Lockers\<close>

record locker =
  contents :: bytes
  password_file :: bytes

definition register_locker ::
    "('e, 'oc, 'sk, 'pk, _, _, _, _, _, _, _, _) cipher_suite \<Rightarrow> aead \<Rightarrow>
     (bytes, 'sk, 'pk) server_setup \<Rightarrow> usize \<Rightarrow> bytes \<Rightarrow> bytes \<Rightarrow> (rng, unit, locker) st" where
  "register_locker CS A server_setup locker_id password secret_message =
     bind_st (unwrap_st (client_registration_start CS password)) (\<lambda>(message, state).
     let registration_request_bytes = registration_request_serialize CS message in
     bind_st (unwrap_lift (registration_request_deserialize CS registration_request_bytes))
       (\<lambda>request.
     bind_st (unwrap_lift (server_registration_start CS server_setup request
       (to_be_bytes locker_id))) (\<lambda>response.
     let registration_response_bytes = registration_response_serialize CS response in
     bind_st (unwrap_lift (registration_response_deserialize CS registration_response_bytes))
       (\<lambda>response.
     bind_st (unwrap_st (client_registration_finish CS state password response
       default_registration_parameters)) (\<lambda>result.
     let message_bytes = registration_upload_serialize CS (crf_message result) in
     bind_st (encrypt A (crf_export_key result) secret_message) (\<lambda>ciphertext.
     bind_st (unwrap_lift (registration_upload_deserialize CS message_bytes)) (\<lambda>upload.
     let pf = server_registration_finish upload in
     return_st \<lparr>contents = ciphertext,
       password_file = server_registration_serialize CS pf\<rparr>)))))))"

datatype locker_error = Incorrect_Locker_Password | Utf8_Error

definition open_locker ::
    "('e, 'oc, 'sk, 'pk, _, _, _, _, _, _, _, _) cipher_suite \<Rightarrow> aead \<Rightarrow>
     (bytes, 'sk, 'pk) server_setup \<Rightarrow> usize \<Rightarrow> bytes \<Rightarrow> locker \<Rightarrow>
     (rng, unit, locker_error + bytes) st" where
  "open_locker CS A server_setup locker_id password locker =
     bind_st (unwrap_st (client_login_start CS password)) (\<lambda>(message, client_state).
     let credential_request_bytes = credential_request_serialize CS message in
     bind_st (unwrap_lift (server_registration_deserialize CS (password_file locker)))
       (\<lambda>pf.
     bind_st (unwrap_lift (credential_request_deserialize CS credential_request_bytes))
       (\<lambda>request.
     bind_st (unwrap_st (server_login_start CS server_setup (Some pf) request
       (to_be_bytes locker_id) default_server_login_parameters)) (\<lambda>(response, server_state).
     let credential_response_bytes = credential_response_serialize CS response in
     bind_st (unwrap_lift (credential_response_deserialize CS credential_response_bytes))
       (\<lambda>response rng.
     case client_login_finish CS client_state password response default_client_login_parameters rng
     of
       (Panic, rng') \<Rightarrow> (Panic, rng')
     | (Err _, rng') \<Rightarrow> (Ok (Inl Incorrect_Locker_Password), rng')
     | (Ok result, rng') \<Rightarrow>
         bind_st (unwrap_lift (credential_finalization_deserialize CS
           (credential_finalization_serialize CS (clf_message result)))) (\<lambda>finalization.
         bind_st (unwrap_lift (server_login_finish CS server_state finalization
           default_server_login_parameters)) (\<lambda>server_session_key.
         bind_st (encrypt A server_session_key (contents locker)) (\<lambda>encrypted_locker_contents.
         bind_st (lift_st (decrypt A (clf_session_key result) encrypted_locker_contents))
           (\<lambda>locker_contents.
         bind_st (lift_st (decrypt A (clf_export_key result) locker_contents)) (\<lambda>plaintext.
         return_st (if utf8_valid plaintext then Inr plaintext else Inl Utf8_Error))))))
           rng')))))"

section \<open>The command line\<close>

datatype locker_output =
  Lockers "nat list" | Bad_Option | No_Locker | Contents bytes | Not_Opened locker_error

definition display_lockers :: "locker list \<Rightarrow> locker_output" where
  "display_lockers lockers = Lockers (map fst (enumerate 0 lockers))"

text \<open>The loop of \<open>main\<close>: what it prints, and the lockers when the process exits, or a panic.\<close>

function locker_loop ::
    "('e, 'oc, 'sk, 'pk, 'k1s, 'k1m, 'k2s, 'k2b, 'k2d, 'k2i, 'k2m, 'k3m) cipher_suite \<Rightarrow> aead \<Rightarrow>
     (bytes, 'sk, 'pk) server_setup \<Rightarrow> bytes option list \<Rightarrow> locker list \<Rightarrow> rng \<Rightarrow>
     locker_output list \<times> (unit, locker list) result" where
  "locker_loop CS A setup lines registered_lockers rng =
     emit (display_lockers registered_lockers)
     (case lines of
        Some line # lines \<Rightarrow>
          if line \<noteq> option_1 \<and> line \<noteq> option_2
          then emit Bad_Option (locker_loop CS A setup lines registered_lockers rng)
          else (case get_two_strings None lines of
              None \<Rightarrow> ([], Ok registered_lockers)
            | Some ((s1, s2), lines) \<Rightarrow>
                if line = option_1
                then (case register_locker CS A setup (usize_len registered_lockers) s1 s2 rng of
                    (Ok locker, rng) \<Rightarrow>
                      locker_loop CS A setup lines (registered_lockers @ [locker]) rng
                  | (Err e, _) \<Rightarrow> ([], Err e)
                  | (Panic, _) \<Rightarrow> ([], Panic))
                else (case parse_usize s1 of
                    None \<Rightarrow> emit No_Locker (locker_loop CS A setup lines registered_lockers rng)
                  | Some locker_index \<Rightarrow>
                      if locker_index \<ge> usize_len registered_lockers
                      then emit No_Locker (locker_loop CS A setup lines registered_lockers rng)
                      else (case open_locker CS A setup locker_index s2
                          (registered_lockers ! unat locker_index) rng of
                        (Ok result, rng) \<Rightarrow>
                          emit (case result of Inr c \<Rightarrow> Contents c | Inl e \<Rightarrow> Not_Opened e)
                            (locker_loop CS A setup lines registered_lockers rng)
                      | (Err e, _) \<Rightarrow> ([], Err e)
                      | (Panic, _) \<Rightarrow> ([], Panic))))
      | _ \<Rightarrow> ([], Ok registered_lockers))"
  by pat_completeness auto
termination
  by (relation "measure (\<lambda>(_, _, _, lines, _, _). length lines)")
     (auto dest: get_two_strings_shorter)

declare locker_loop.simps [simp del]

text \<open>\<open>main\<close>; \<open>None\<close> when \<open>ServerSetup::new\<close> samples for ever.\<close>

definition digital_locker_main ::
    "('e, 'oc, 'sk, 'pk, 'k1s, 'k1m, 'k2s, 'k2b, 'k2d, 'k2i, 'k2m, 'k3m) cipher_suite \<Rightarrow> aead \<Rightarrow>
     bytes option list \<Rightarrow> rng \<Rightarrow> (locker_output list \<times> (unit, locker list) result) option" where
  "digital_locker_main CS A lines rng =
     (case server_setup_new CS rng of
        None \<Rightarrow> None
      | Some (setup, rng) \<Rightarrow> Some (locker_loop CS A setup lines [] rng))"

section \<open>Facts\<close>

text \<open>
  What RFC 8439 and the crate promise for keys of 32 and nonces of 12 bytes: short texts encrypt, to
  16 bytes more, and decryption returns them.
\<close>

definition aead_ok :: "aead \<Rightarrow> bool" where
  "aead_ok A \<longleftrightarrow> (\<forall>k n p. length k = 32 \<longrightarrow> length n = 12 \<longrightarrow> length p < 2 ^ 32 \<longrightarrow>
     (\<exists>c. aead_encrypt A k n p = Some c \<and> length c = length p + 16 \<and>
        aead_decrypt A k n c = Some p))"

lemma aead_okD:
  "aead_ok A \<Longrightarrow> length k = 32 \<Longrightarrow> length n = 12 \<Longrightarrow> length p < 2 ^ 32 \<Longrightarrow>
   \<exists>c. aead_encrypt A k n p = Some c \<and> length c = length p + 16 \<and> aead_decrypt A k n c = Some p"
  unfolding aead_ok_def by blast

lemma encrypt_decrypt:
  assumes "aead_ok A" "32 \<le> length key" "length p < 2 ^ 32"
  obtains c r' where "encrypt A key p r = (Ok c, r')" "length c = length p + 28"
    "decrypt A key c = Ok p"
proof -
  obtain nonce r' where fill: "fill_bytes 12 r = (nonce, r')" by fastforce
  have "length (take 32 key) = 32" using assms(2) by simp
  from aead_okD [OF assms(1) this length_fill_bytes [OF fill] assms(3)] obtain c where
    "aead_encrypt A (take 32 key) nonce p = Some c" "length c = length p + 16"
    "aead_decrypt A (take 32 key) nonce c = Some p" by blast
  with that [of "nonce @ c" r'] assms(2) fill length_fill_bytes [OF fill] show thesis
    by (simp add: encrypt_def decrypt_def run_st_apply bind_st_Ok [OF run_st_apply])
qed

text \<open>Export and session keys are long enough for the cipher.\<close>

definition long_keys ::
    "('e, 'oc, 'sk, 'pk, 'k1s, 'k1m, 'k2s, 'k2b, 'k2d, 'k2i, 'k2m, 'k3m) cipher_suite \<Rightarrow> bool" where
  "long_keys CS \<longleftrightarrow> 32 \<le> hash_len (cs_hash CS) \<and>
     (\<forall>state password response params r res r'.
        client_login_finish CS state password response params r = (Ok res, r') \<longrightarrow>
        32 \<le> length (clf_session_key res))"

lemma long_keysD:
  "long_keys CS \<Longrightarrow> 32 \<le> hash_len (cs_hash CS)"
  "long_keys CS \<Longrightarrow> client_login_finish CS state password response params r = (Ok res, r') \<Longrightarrow>
     32 \<le> length (clf_session_key res)"
  unfolding long_keys_def by blast+

context live_opaque_suite
begin

lemma registered_export_key_length:
  assumes "trusted" "registered CS setup cid pw params pf ek"
  shows "length ek = hash_len (cs_hash CS)"
proof -
  from assms(2) obtain r1 r1' c be ev r2 r2' p h mk env cpk where
    pdk: "get_password_derived_key CS pw c (ev be) (crp_ksf params) = Ok (p, h)"
    and sealed: "seal (cs_hash CS) (cs_group CS) h (kp_pk (ss_keypair setup))
      (crp_identifiers params) r2 = (Ok (env, cpk, ek), r2')"
    by (rule registeredD)
  have h: "hkdf_ok (hash_len (cs_hash CS)) h"
    using get_password_derived_key_hkdf_ok [OF hash [OF assms(1)] pdk] .
  from sealed show ?thesis by (auto simp: seal_Ok_iff dest: hkdf_expand_length [OF h])
qed

end

text \<open>The locker with number \<open>i\<close> hides \<open>msg\<close> behind \<open>pw\<close>.\<close>

definition hides ::
    "('e, 'oc, 'sk, 'pk, 'k1s, 'k1m, 'k2s, 'k2b, 'k2d, 'k2i, 'k2m, 'k3m) cipher_suite \<Rightarrow> aead \<Rightarrow>
     (bytes, 'sk, 'pk) server_setup \<Rightarrow> usize \<Rightarrow> locker \<Rightarrow> bytes \<times> bytes \<Rightarrow> bool" where
  "hides CS A setup i locker = (\<lambda>(pw, msg). \<exists>pf ek.
     registered CS setup (to_be_bytes i) pw default_registration_parameters pf ek \<and>
     password_file locker = server_registration_serialize CS pf \<and>
     length (contents locker) < 2 ^ 32 \<and> decrypt A ek (contents locker) = Ok msg)"

context live_opaque_suite
begin

lemma register_locker_ok:
  assumes "trusted" "live" "server_setup_ok CS wf_sk wf_pk setup"
    and "service_ok CS setup I W" "to_be_bytes i \<in> I" "pw \<in> W"
    and "aead_ok A" "long_keys CS" "length msg < 2 ^ 31"
  obtains locker r' where "register_locker CS A setup i pw msg r = (Ok locker, r')"
    "hides CS A setup i locker (pw, msg)"
proof (rule registration_over_wire [OF assms(1-6), where r = r])
  fix req st r1 resp res r2
  assume *: "client_registration_start CS pw r = (Ok (req, st), r1)"
    "server_registration_start CS setup req (to_be_bytes i) = Ok resp"
    "client_registration_finish CS st pw resp default_registration_parameters r1 = (Ok res, r2)"
    "registration_request_deserialize CS (registration_request_serialize CS req) = Ok req"
    "registration_response_deserialize CS (registration_response_serialize CS resp) = Ok resp"
    "registration_upload_deserialize CS (registration_upload_serialize CS (crf_message res))
      = Ok (crf_message res)"
    and reg: "registered CS setup (to_be_bytes i) pw default_registration_parameters
      (crf_message res) (crf_export_key res)"
  have key: "32 \<le> length (crf_export_key res)"
    using registered_export_key_length [OF assms(1) reg] long_keysD(1) [OF assms(8)] by simp
  have short: "length msg < 2 ^ 32" using assms(9) by simp
  obtain c r3 where c: "encrypt A (crf_export_key res) msg r2 = (Ok c, r3)"
    "length c = length msg + 28" "decrypt A (crf_export_key res) c = Ok msg"
    using encrypt_decrypt [OF assms(7) key short, of r2] by blast
  from * c(1) have "register_locker CS A setup i pw msg r
      = (Ok \<lparr>contents = c, password_file = server_registration_serialize CS (crf_message res)\<rparr>, r3)"
    by (simp add: register_locker_def server_registration_finish_def Let_def)
  with reg c assms(9) that show thesis by (fastforce simp: hides_def)
qed

lemma open_locker_ok:
  assumes "trusted" "live" "server_setup_ok CS wf_sk wf_pk setup"
    and "service_ok CS setup I W" "to_be_bytes i \<in> I" "pw \<in> W"
    and "aead_ok A" "long_keys CS" "utf8_valid msg" "hides CS A setup i locker (pw, msg)"
  obtains r' where "open_locker CS A setup i pw locker r = (Ok (Inr msg), r')"
proof -
  from assms(10) obtain pf ek where
    reg: "registered CS setup (to_be_bytes i) pw default_registration_parameters pf ek"
    and pf: "password_file locker = server_registration_serialize CS pf"
    and short: "length (contents locker) < 2 ^ 32" and msg: "decrypt A ek (contents locker) = Ok msg"
    by (auto simp: hides_def)
  show thesis
  proof (rule login_over_wire [OF assms(1-6) reg, where r = r])
    fix creq cst r1 cresp sst r2 res r3
    assume *: "client_login_start CS pw r = (Ok (creq, cst), r1)"
      "server_registration_deserialize CS (server_registration_serialize CS pf) = Ok pf"
      "credential_request_deserialize CS (credential_request_serialize CS creq) = Ok creq"
      "server_login_start CS setup (Some pf) creq (to_be_bytes i) default_server_login_parameters r1
        = (Ok (cresp, sst), r2)"
      "credential_response_deserialize CS (credential_response_serialize CS cresp) = Ok cresp"
      "client_login_finish CS cst pw cresp default_client_login_parameters r2 = (Ok res, r3)"
      "credential_finalization_deserialize CS
        (credential_finalization_serialize CS (clf_message res)) = Ok (clf_message res)"
      "server_login_finish CS sst (clf_message res) default_server_login_parameters
        = Ok (clf_session_key res)"
      "clf_export_key res = ek"
    have "32 \<le> length (clf_session_key res)" using assms(8) *(6) by (rule long_keysD)
    from encrypt_decrypt [OF assms(7) this short, of r3] obtain c r4 where
      "encrypt A (clf_session_key res) (contents locker) r3 = (Ok c, r4)"
      "decrypt A (clf_session_key res) c = Ok (contents locker)" by blast
    with * pf msg assms(9) have "open_locker CS A setup i pw locker r = (Ok (Inr msg), r4)"
      by (simp add: open_locker_def Let_def)
    then show thesis by (rule that)
  qed
qed

end

section \<open>What the program promises\<close>

text \<open>
  The abstract program keeps passwords and messages: a run from the lockers \<open>lks\<close> prints \<open>outs\<close> and
  ends with lockers (\<open>Some\<close>) or a panic (\<open>None\<close>). The right password opens a locker, a number out of
  range is refused; for a wrong password only what kind of line is printed is said.
\<close>

definition stops :: "bytes option list \<Rightarrow> bool" where
  "stops lines \<longleftrightarrow>
     (case lines of
        Some line # rest \<Rightarrow> (line = option_1 \<or> line = option_2) \<and> get_two_strings None rest = None
      | _ \<Rightarrow> True)"

inductive locker_spec ::
    "bytes option list \<Rightarrow> (bytes \<times> bytes) list \<Rightarrow> locker_output list \<Rightarrow>
     (bytes \<times> bytes) list option \<Rightarrow> bool"
  where
  stop: "stops lines \<Longrightarrow> locker_spec lines lks [Lockers [0..<length lks]] (Some lks)"
| invalid: "line \<noteq> option_1 \<Longrightarrow> line \<noteq> option_2 \<Longrightarrow> locker_spec lines lks outs fin \<Longrightarrow>
    locker_spec (Some line # lines) lks (Lockers [0..<length lks] # Bad_Option # outs) fin"
| register: "locker_spec lines (lks @ [(pw, msg)]) outs fin \<Longrightarrow>
    locker_spec (Some option_1 # Some pw # Some msg # lines) lks
      (Lockers [0..<length lks] # outs) fin"
| no_locker: "(\<forall>i. parse_usize num = Some i \<longrightarrow> length lks \<le> unat i) \<Longrightarrow>
    locker_spec lines lks outs fin \<Longrightarrow>
    locker_spec (Some option_2 # Some num # Some pw # lines) lks
      (Lockers [0..<length lks] # No_Locker # outs) fin"
| right: "parse_usize num = Some i \<Longrightarrow> unat i < length lks \<Longrightarrow> lks ! unat i = (pw, msg) \<Longrightarrow>
    locker_spec lines lks outs fin \<Longrightarrow>
    locker_spec (Some option_2 # Some num # Some pw # lines) lks
      (Lockers [0..<length lks] # Contents msg # outs) fin"
| wrong: "parse_usize num = Some i \<Longrightarrow> unat i < length lks \<Longrightarrow> fst (lks ! unat i) \<noteq> pw \<Longrightarrow>
    (\<exists>msg. out = Contents msg) \<or> (\<exists>e. out = Not_Opened e) \<Longrightarrow> locker_spec lines lks outs fin \<Longrightarrow>
    locker_spec (Some option_2 # Some num # Some pw # lines) lks
      (Lockers [0..<length lks] # out # outs) fin"
| wrong_panic: "parse_usize num = Some i \<Longrightarrow> unat i < length lks \<Longrightarrow> fst (lks ! unat i) \<noteq> pw \<Longrightarrow>
    locker_spec (Some option_2 # Some num # Some pw # lines) lks [Lockers [0..<length lks]] None"

inductive_cases locker_spec_Nil: "locker_spec [] lks outs fin"
inductive_cases locker_spec_register:
  "locker_spec (Some option_1 # Some pw # Some msg # lines) lks outs fin"
inductive_cases locker_spec_open:
  "locker_spec (Some option_2 # Some num # Some pw # lines) lks outs fin"

text \<open>The lockers that stand for a list of passwords and messages.\<close>

definition lockers_of ::
    "('e, 'oc, 'sk, 'pk, 'k1s, 'k1m, 'k2s, 'k2b, 'k2d, 'k2i, 'k2m, 'k3m) cipher_suite \<Rightarrow> aead \<Rightarrow>
     (bytes, 'sk, 'pk) server_setup \<Rightarrow> (bytes \<times> bytes) list \<Rightarrow> locker list \<Rightarrow> bool" where
  "lockers_of CS A setup lks lockers \<longleftrightarrow>
     length lockers = length lks \<and>
     (\<forall>i<length lks. hides CS A setup (of_nat i) (lockers ! i) (lks ! i) \<and>
        utf8_valid (snd (lks ! i)))"

lemma lockers_of_append:
  "lockers_of CS A setup lks lockers \<Longrightarrow>
   hides CS A setup (usize_len lockers) locker (pw, msg) \<Longrightarrow> utf8_valid msg \<Longrightarrow>
   lockers_of CS A setup (lks @ [(pw, msg)]) (lockers @ [locker])"
  by (auto simp: lockers_of_def usize_len_def nth_append less_Suc_eq)

definition lockers_end ::
    "('e, 'oc, 'sk, 'pk, 'k1s, 'k1m, 'k2s, 'k2b, 'k2d, 'k2i, 'k2m, 'k3m) cipher_suite \<Rightarrow> aead \<Rightarrow>
     (bytes, 'sk, 'pk) server_setup \<Rightarrow> (unit, locker list) result \<Rightarrow>
     (bytes \<times> bytes) list option \<Rightarrow> bool" where
  "lockers_end CS A setup fin lks \<longleftrightarrow>
     (case fin of Ok lockers \<Rightarrow> \<exists>l. lks = Some l \<and> lockers_of CS A setup l lockers
      | _ \<Rightarrow> lks = None)"

lemma display_lockers_eq: "display_lockers lockers = Lockers [0..<length lockers]"
  by (simp add: display_lockers_def)

lemma locker_loop_simps:
  "stops lines \<Longrightarrow>
     locker_loop CS A setup lines lockers rng = ([display_lockers lockers], Ok lockers)"
  "line \<noteq> option_1 \<Longrightarrow> line \<noteq> option_2 \<Longrightarrow>
     locker_loop CS A setup (Some line # lines) lockers rng
       = emit (display_lockers lockers)
           (emit Bad_Option (locker_loop CS A setup lines lockers rng))"
  "register_locker CS A setup (usize_len lockers) pw msg rng = (Ok locker, rng') \<Longrightarrow>
     locker_loop CS A setup (Some option_1 # Some pw # Some msg # lines) lockers rng
       = emit (display_lockers lockers) (locker_loop CS A setup lines (lockers @ [locker]) rng')"
  "parse_usize num = None \<or> parse_usize num = Some i \<and> usize_len lockers \<le> i \<Longrightarrow>
     locker_loop CS A setup (Some option_2 # Some num # Some pw # lines) lockers rng
       = emit (display_lockers lockers)
           (emit No_Locker (locker_loop CS A setup lines lockers rng))"
  "parse_usize num = Some i \<Longrightarrow> i < usize_len lockers \<Longrightarrow>
     locker_loop CS A setup (Some option_2 # Some num # Some pw # lines) lockers rng
       = emit (display_lockers lockers)
          (case open_locker CS A setup i pw (lockers ! unat i) rng of
            (Ok result, rng) \<Rightarrow>
              emit (case result of Inr c \<Rightarrow> Contents c | Inl e \<Rightarrow> Not_Opened e)
                (locker_loop CS A setup lines lockers rng)
          | (Err e, _) \<Rightarrow> ([], Err e)
          | (Panic, _) \<Rightarrow> ([], Panic))"
  by (subst locker_loop.simps,
      auto simp: emit_def stops_def split: result.split option.splits list.splits if_splits)+

text \<open>The shapes of a command line.\<close>

lemma locker_line_cases:
  assumes "stops lines \<Longrightarrow> P"
    and "\<And>line rest. lines = Some line # rest \<Longrightarrow> line \<noteq> option_1 \<Longrightarrow> line \<noteq> option_2 \<Longrightarrow> P"
    and "\<And>pw msg rest. lines = Some option_1 # Some pw # Some msg # rest \<Longrightarrow> P"
    and "\<And>num pw rest. lines = Some option_2 # Some num # Some pw # rest \<Longrightarrow> P"
  shows P
proof (cases "stops lines")
  case True
  then show P by (rule assms(1))
next
  case False
  then obtain line rest where lines: "lines = Some line # rest"
    and more: "line = option_1 \<or> line = option_2 \<Longrightarrow> get_two_strings None rest \<noteq> None"
    by (auto simp: stops_def split: list.splits option.splits)
  show P
  proof (cases "line = option_1 \<or> line = option_2")
    case True
    with more obtain x y rest' where "get_two_strings None rest = Some ((x, y), rest')" by auto
    with lines True show P using assms(3,4) by (auto simp: get_two_strings_None_iff)
  next
    case False
    with lines show P using assms(2) by blast
  qed
qed

lemma locker_number_cases:
  assumes "length lockers = length lks" "length lockers < 2 ^ 64"
  obtains "\<forall>i. parse_usize num = Some i \<longrightarrow> length lks \<le> unat i"
      "parse_usize num = None \<or>
       parse_usize num = Some (the (parse_usize num)) \<and> usize_len lockers \<le> the (parse_usize num)"
  | i where "parse_usize num = Some i" "i < usize_len lockers" "unat i < length lks"
  using assms by (cases "parse_usize num") (force simp: word_le_nat_alt word_less_nat_alt unat_usize_len not_le)+

text \<open>The strings of a command line and the numbers that it can give to lockers.\<close>

definition locker_input ::
    "bytes set \<Rightarrow> bytes set \<Rightarrow> nat \<Rightarrow> bytes option list \<Rightarrow> bool" where
  "locker_input I W n lines \<longleftrightarrow>
     n + length lines < 2 ^ 64 \<and> (\<forall>i<n + length lines. to_be_bytes (of_nat i) \<in> I) \<and>
     (\<forall>line. Some line \<in> set lines \<longrightarrow> line \<in> W \<and> utf8_valid line \<and> length line < 2 ^ 31)"

lemma locker_input_mono:
  assumes "locker_input I W n lines" "n' + length lines' \<le> n + length lines"
    and "set lines' \<subseteq> set lines"
  shows "locker_input I W n' lines'"
  using assms unfolding locker_input_def
  by (intro conjI allI impI) (blast | linarith | use less_le_trans in blast)+

context live_opaque_suite
begin

lemma locker_loop_refines:
  assumes "trusted" "live" "server_setup_ok CS wf_sk wf_pk setup" "service_ok CS setup I W"
    and A: "aead_ok A" and K: "long_keys CS"
    and "locker_input I W (length lockers) lines" "lockers_of CS A setup lks lockers"
    and "locker_loop CS A setup lines lockers rng = (outs, fin)"
  shows "\<exists>lks'. locker_spec lines lks outs lks' \<and> lockers_end CS A setup fin lks'"
  using assms(7-9)
proof (induction "length lines" arbitrary: lines lks lockers rng outs rule: less_induct)
  case less
  note ok = assms(1-4)
  have len: "length lockers = length lks" "length lockers < 2 ^ 64"
    using less.prems(1,2) by (auto simp: lockers_of_def locker_input_def)
  note banner = display_lockers_eq [of lockers, unfolded len(1)]
  show ?case
  proof (cases lines rule: locker_line_cases)
    case 1
    with less.prems(2,3) show ?thesis
      by (auto simp: locker_loop_simps banner lockers_end_def intro: locker_spec.stop)
  next
    case (2 line rest)
    with less.prems(3) obtain outs' where run: "locker_loop CS A setup rest lockers rng = (outs', fin)"
      and outs: "outs = Lockers [0..<length lks] # Bad_Option # outs'"
      by (auto simp: locker_loop_simps banner emit_eq)
    have "locker_input I W (length lockers) rest"
      by (rule locker_input_mono [OF less.prems(1)]) (auto simp: 2)
    from less.hyps [OF _ this less.prems(2) run] 2 outs show ?thesis
      by (auto intro: locker_spec.invalid)
  next
    case (3 pw msg rest)
    let ?i = "usize_len lockers"
    have "to_be_bytes ?i \<in> I" "pw \<in> W" "utf8_valid msg" "length msg < 2 ^ 31"
      using less.prems(1) unfolding 3 locker_input_def usize_len_def by auto
    then obtain locker rng' where
      reg: "register_locker CS A setup ?i pw msg rng = (Ok locker, rng')"
      and "hides CS A setup ?i locker (pw, msg)" and "utf8_valid msg"
      using register_locker_ok [OF ok _ _ A K, of ?i pw msg rng] by blast
    note hidden = lockers_of_append [OF less.prems(2) this(2,3)]
    from less.prems(3) obtain outs' where
      run: "locker_loop CS A setup rest (lockers @ [locker]) rng' = (outs', fin)"
      and outs: "outs = Lockers [0..<length lks] # outs'"
      unfolding 3 by (auto simp: locker_loop_simps(3) [OF reg] banner emit_eq)
    have "locker_input I W (length (lockers @ [locker])) rest"
      by (rule locker_input_mono [OF less.prems(1)]) (auto simp: 3)
    from less.hyps [OF _ this hidden run] 3 outs show ?thesis
      by (auto intro: locker_spec.register)
  next
    case (4 num pw rest)
    have input: "locker_input I W (length lockers) rest"
      by (rule locker_input_mono [OF less.prems(1)]) (auto simp: 4)
    note IH = less.hyps [OF _ input less.prems(2), unfolded 4, simplified]
    note out = less.prems(3) [unfolded 4]
    show ?thesis
    proof (cases rule: locker_number_cases [OF len, of num])
      case 1
      with out obtain outs' where run: "locker_loop CS A setup rest lockers rng = (outs', fin)"
        and outs: "outs = Lockers [0..<length lks] # No_Locker # outs'"
        by (auto simp: locker_loop_simps(4) banner emit_eq)
      from IH [OF run] 1(1) 4 outs show ?thesis by (blast intro: locker_spec.no_locker)
    next
      case (2 i)
      note loop = out [unfolded locker_loop_simps(5) [OF 2(1,2)] banner]
      have lock: "hides CS A setup i (lockers ! unat i) (lks ! unat i)"
        "utf8_valid (snd (lks ! unat i))"
        using less.prems(2) 2(3) by (auto simp: lockers_of_def dest: spec [of _ "unat i"])
      have cid: "to_be_bytes i \<in> I" "pw \<in> W"
        using less.prems(1) 2(3) len(1) unfolding 4 locker_input_def
        by (auto dest: spec [of _ "unat i"])
      obtain r rng' where r: "open_locker CS A setup i pw (lockers ! unat i) rng = (r, rng')"
        by fastforce
      show ?thesis
      proof (cases "fst (lks ! unat i) = pw")
        case True
        then obtain msg where msg: "lks ! unat i = (pw, msg)" by (metis prod.collapse)
        obtain rng'' where "open_locker CS A setup i pw (lockers ! unat i) rng
            = (Ok (Inr msg), rng'')"
          using open_locker_ok [OF ok cid A K, of msg "lockers ! unat i" rng] lock
          unfolding msg by auto
        with loop obtain outs' where run: "locker_loop CS A setup rest lockers rng'' = (outs', fin)"
          and outs: "outs = Lockers [0..<length lks] # Contents msg # outs'"
          by (auto simp: emit_eq)
        from IH [OF run] 2 msg 4 outs show ?thesis by (blast intro: locker_spec.right)
      next
        case False
        show ?thesis
        proof (cases r)
          case (Ok result)
          with loop r obtain outs' where run: "locker_loop CS A setup rest lockers rng' = (outs', fin)"
            and outs: "outs = Lockers [0..<length lks] #
              (case result of Inr c \<Rightarrow> Contents c | Inl e \<Rightarrow> Not_Opened e) # outs'"
            by (auto simp: emit_eq)
          from IH [OF run] obtain lks' where "locker_spec rest lks outs' lks'"
            and "lockers_end CS A setup fin lks'" by blast
          with locker_spec.wrong [OF 2(1,3) False _ this(1)] 4 outs show ?thesis
            by (auto split: sum.splits)
        next
          case (Err e)
          with loop r 4 locker_spec.wrong_panic [OF 2(1,3) False] show ?thesis
            by (auto simp: emit_eq lockers_end_def)
        next
          case Panic
          with loop r 4 locker_spec.wrong_panic [OF 2(1,3) False] show ?thesis
            by (auto simp: emit_eq lockers_end_def)
        qed
      qed
    qed
  qed
qed

end

section \<open>OPAQUE-3DH has long keys\<close>

lemma tdh_long_keys:
  assumes "hash_ok H" "32 \<le> hash_len H" "32 \<le> hash_len (oprf_hash P)"
  shows "long_keys (tdh_suite P G dh H ksf)"
proof -
  have "length key = hash_len H"
    if "tdh_generate_ke3 G dh H req m1 resp st m2 spk csk sids ctx r = (Ok (key, m3), r')"
    for req m1 resp st m2 spk csk sids ctx r key m3 r'
    using that derive_keys_session_key_length [OF assms(1)]
    by (auto simp: tdh_generate_ke3_def bind_st_Ok_iff eval_st_Ok_iff finalize_ke3_Ok_iff Let_def
        split: prod.splits)
  with assms show ?thesis
    by (auto simp: long_keys_def client_login_finish_def bind_st_Ok_iff triple_dh_def
        split: if_splits prod.splits)
qed

section \<open>A concrete service\<close>

definition mini_aead :: aead where
  "mini_aead =
     \<lparr>aead_encrypt = (\<lambda>k n p. Some (p @ replicate 16 (checksum (k @ n @ p)))),
      aead_decrypt = (\<lambda>k n c.
        let p = take (length c - 16) c in
        if drop (length c - 16) c = replicate 16 (checksum (k @ n @ p)) then Some p else None)\<rparr>"

lemma mini_aead_ok: "aead_ok mini_aead"
  by (simp add: aead_ok_def mini_aead_def)

section \<open>Properties\<close>

text \<open>
  A message stored in a locker is returned to the holder of the password: registration does not
  panic, and whenever the locker is opened with its number and password, it returns exactly the
  registered message; client and server agree on the session key under which the contents travel.
\<close>

theorem locker_opens:
  assumes "oprf_ok P wf_e wf_oc" "dh_ok G dh wf_sk wf_pk" "hash_ok H" "derive_total G" "aead_ok A"
    and "32 \<le> hash_len H" "32 \<le> hash_len (oprf_hash P)"
    and "server_setup_ok (tdh_suite P G dh H ksf_identity) wf_sk wf_pk setup"
    and "service_ok (tdh_suite P G dh H ksf_identity) setup I W"
    and "to_be_bytes locker_id \<in> I" "password \<in> W"
    and "utf8_valid secret_message" "length secret_message < 2 ^ 31"
  shows "\<exists>locker r'. register_locker (tdh_suite P G dh H ksf_identity) A setup locker_id password
      secret_message r = (Ok locker, r') \<and>
    (\<forall>r2. \<exists>r2'. open_locker (tdh_suite P G dh H ksf_identity) A setup locker_id password locker r2
      = (Ok (Inr secret_message), r2'))"
proof -
  have ok: "oprf_ok P wf_e wf_oc \<and> dh_ok G dh wf_sk wf_pk \<and> hash_ok H" using assms(1-3) by simp
  note keys = tdh_long_keys [OF assms(3,6,7)]
  show ?thesis
  proof (rule tdh_opaque.register_locker_ok [OF ok assms(4,8-11,5) keys assms(13), where r = r])
    fix locker r'
    assume reg: "register_locker (tdh_suite P G dh H ksf_identity) A setup locker_id password
        secret_message r = (Ok locker, r')"
      and hides: "hides (tdh_suite P G dh H ksf_identity) A setup locker_id locker
        (password, secret_message)"
    have "\<exists>r2'. open_locker (tdh_suite P G dh H ksf_identity) A setup locker_id password locker r2
        = (Ok (Inr secret_message), r2')" for r2
      by (rule tdh_opaque.open_locker_ok [OF ok assms(4,8-11,5) keys assms(12) hides, where r = r2])
        (rule exI)
    with reg show ?thesis by blast
  qed
qed

theorem locker_opens_witness:
  "\<exists>locker r' r2'. register_locker mini_tdh_suite_32 mini_aead mini_setup_32 0 [49] [50]
      (counter_rng 0) = (Ok locker, r') \<and>
    open_locker mini_tdh_suite_32 mini_aead mini_setup_32 0 [49] locker (counter_rng 7)
      = (Ok (Inr [50]), r2')"
proof -
  have "to_be_bytes 0 \<in> set mini_identifiers" "[49] \<in> set mini_passwords"
    using mini_locker_id [of 0] by (simp_all add: mini_passwords_def)
  with locker_opens [OF mini_32_ok mini_derive_total mini_aead_ok _ _ mini_setup_32_ok
      mini_service_32 [OF subset_refl subset_refl], of 0 "[49]" "[50]" "counter_rng 0"]
  show ?thesis by fastforce
qed

text \<open>
  C6. The program refines its abstract specification, a list of passwords and messages: on every
  command line of valid strings \<open>main\<close> returns, prints what the abstract program may print, the
  numbers of the lockers before every option included, and ends with lockers that hide the abstract
  messages. A number out of range, however written, never reaches the lockers; the right password
  opens, and no registration panics.
\<close>

theorem digital_locker_refines:
  assumes "oprf_ok P wf_e wf_oc" "dh_ok G dh wf_sk wf_pk" "hash_ok H" "derive_total G" "aead_ok A"
    and "32 \<le> hash_len H" "32 \<le> hash_len (oprf_hash P)"
    and "server_setup_new (tdh_suite P G dh H ksf_identity) rng = Some (setup, rng')"
    and "service_ok (tdh_suite P G dh H ksf_identity) setup I W" "locker_input I W 0 lines"
  shows "\<exists>outs fin lks. digital_locker_main (tdh_suite P G dh H ksf_identity) A lines rng
      = Some (outs, fin) \<and>
    locker_spec lines [] outs lks \<and> lockers_end (tdh_suite P G dh H ksf_identity) A setup fin lks"
proof -
  let ?CS = "tdh_suite P G dh H ksf_identity"
  have ok: "oprf_ok P wf_e wf_oc \<and> dh_ok G dh wf_sk wf_pk \<and> hash_ok H" using assms(1-3) by simp
  have "group_ok (cs_group ?CS) wf_sk wf_pk" using assms(2) by (simp add: dh_ok_group_ok)
  note sok = server_setup_new_ok [OF this assms(8)]
  obtain outs fin where run: "locker_loop ?CS A setup lines [] rng' = (outs, fin)" by fastforce
  have "locker_input I W (length []) lines" "lockers_of ?CS A setup [] []"
    using assms(10) by (simp_all add: lockers_of_def)
  from tdh_opaque.locker_loop_refines [OF ok assms(4) sok assms(9,5) tdh_long_keys [OF assms(3,6,7)]
      this run] assms(8) run
  show ?thesis by (auto simp: digital_locker_main_def)
qed

theorem digital_locker_refines_witness:
  "\<exists>fin. digital_locker_main mini_tdh_suite_32 mini_aead
      [Some [49], Some [49], Some [50], Some [50], Some [48], Some [49]] (counter_rng 0)
    = Some ([Lockers [], Lockers [0], Contents [50], Lockers [0]], fin)"
proof -
  let ?lines = "[Some option_1, Some [49], Some [50], Some option_2, Some [48], Some [49]]"
  have "locker_input (set mini_identifiers) (set mini_passwords) 0 ?lines"
    unfolding locker_input_def
    by (intro conjI allI impI) (auto intro: mini_locker_id simp: mini_passwords_def)
  from digital_locker_refines [OF mini_32_ok mini_derive_total mini_aead_ok _ _ mini_setup_new
      mini_service_32 [OF subset_refl subset_refl] this]
  obtain outs fin lks where "digital_locker_main mini_tdh_suite_32 mini_aead ?lines (counter_rng 0)
      = Some (outs, fin)" and "locker_spec ?lines [] outs lks"
    by auto
  moreover have "parse_usize [48] = Some 0" by (simp add: parse_usize_def)
  with \<open>locker_spec ?lines [] outs lks\<close>
  have "outs = [Lockers [], Lockers [0], Contents [50], Lockers [0]]"
    by (auto elim!: locker_spec_register locker_spec_open locker_spec_Nil simp: stops_def)
  ultimately show ?thesis by simp
qed

end
