(* ===== verification/Remote_Server.thy ===== *)
theory Remote_Server
  imports Over_Wire
begin

text \<open>
  A server whose private key or OPRF seed lives elsewhere (the tests \<open>remote_key\<close> and \<open>remote_seed\<close>
  of \<open>src/keypair.rs\<close>): the library sees an opaque value in their place, \<open>ServerLogin::builder\<close> hands
  out what the holder of the key has to compute on, and \<open>build\<close> finishes the response. The system's
  generator is one stream that all calls draw from in program order.
\<close>

datatype 'sk remote_key = RemoteKey (remote_sk: 'sk)

datatype remote_seed = RemoteSeed (remote_seed_bytes: bytes)

definition PASSWORD :: bytes where
  "PASSWORD = map of_char ''password''"

section \<open>Setups\<close>

text \<open>\<open>None\<close>: a sampling loop never leaves.\<close>

definition remote_key_pair ::
    "('sk, 'pk) ke_group \<Rightarrow> rng \<Rightarrow> (('pk, 'sk remote_key) keypair \<times> rng) option" where
  "remote_key_pair G rng =
     (case random_sk G rng of
        None \<Rightarrow> None
      | Some (sk, rng) \<Rightarrow>
          let pk = private_key_public_key G sk;
              sk = RemoteKey sk in
          Some (keypair_new sk pk, rng))"

definition remote_key_setup ::
    "('e, 'oc, 'sk, 'pk, _, _, _, _, _, _, _, _) cipher_suite \<Rightarrow> rng \<Rightarrow>
     ((bytes, 'sk remote_key, 'pk) server_setup \<times> rng) option" where
  "remote_key_setup CS rng =
     (case remote_key_pair (cs_group CS) rng of
        None \<Rightarrow> None
      | Some (keypair, rng) \<Rightarrow> new_with_key_pair CS rng keypair)"

definition remote_seed_setup ::
    "('e, 'oc, 'sk, 'pk, _, _, _, _, _, _, _, _) cipher_suite \<Rightarrow> rng \<Rightarrow>
     ((remote_seed, 'sk remote_key, 'pk) server_setup \<times> rng) option" where
  "remote_seed_setup CS rng =
     (case fill_bytes (hash_len (cs_hash CS)) rng of (seed, rng) \<Rightarrow>
        let oprf_seed = RemoteSeed seed in
        case remote_key_pair (cs_group CS) rng of
          None \<Rightarrow> None
        | Some (keypair, rng) \<Rightarrow> new_with_key_pair_and_seed CS rng keypair oprf_seed)"

section \<open>Runs\<close>

definition remote_key_test ::
    "('e, 'oc, 'sk, 'pk, 'k1s, 'k1m, 'k2s, 'k2b, 'pk, bytes, 'k2m, 'k3m) cipher_suite \<Rightarrow>
     ('sk, 'pk) diffie_hellman \<Rightarrow> (bytes, 'sk remote_key, 'pk) server_setup \<Rightarrow>
     (rng, unit, unit) st" where
  "remote_key_test CS dh server_setup =
     bind_st (unwrap_st (client_registration_start CS PASSWORD)) (\<lambda>(message, client).
     bind_st (unwrap_lift (server_registration_start CS server_setup message [])) (\<lambda>message.
     bind_st (unwrap_st (client_registration_finish CS client PASSWORD message
       default_registration_parameters)) (\<lambda>result.
     let file = server_registration_finish (crf_message result) in
     bind_st (unwrap_st (client_login_start CS PASSWORD)) (\<lambda>(message, client).
     bind_st (unwrap_st (server_login_builder_new CS server_setup (Some file) message []
       default_server_login_parameters)) (\<lambda>builder.
     let shared_secret = ke_diffie_hellman dh (remote_sk (builder_private_key builder))
           (builder_data CS builder) in
     bind_st (unwrap_lift (builder_build CS builder shared_secret)) (\<lambda>(message, server).
     bind_st (unwrap_st (client_login_finish CS client PASSWORD message
       default_client_login_parameters)) (\<lambda>result.
     bind_st (unwrap_lift (server_login_finish CS server (clf_message result)
       default_server_login_parameters)) (\<lambda>_.
     return_st ()))))))))"

text \<open>The holder of the seed expands it to the key material that the library asks for.\<close>

definition remote_key_material ::
    "('e, 'oc, 'sk, 'pk, _, _, _, _, _, _, _, _) cipher_suite \<Rightarrow> remote_seed key_material \<Rightarrow>
     (unit, bytes) result" where
  "remote_key_material CS km =
     bind_result (unwrap (ok_or () (hkdf_from_prk (cs_hash CS) (remote_seed_bytes (kmi_ikm km)))))
       (\<lambda>hkdf.
     unwrap (ok_or () (hkdf_expand_multi_info hkdf (kmi_info km) (scalar_len (cs_oprf CS)))))"

definition remote_seed_test ::
    "('e, 'oc, 'sk, 'pk, 'k1s, 'k1m, 'k2s, 'k2b, 'pk, bytes, 'k2m, 'k3m) cipher_suite \<Rightarrow>
     ('sk, 'pk) diffie_hellman \<Rightarrow> (remote_seed, 'sk remote_key, 'pk) server_setup \<Rightarrow>
     (rng, unit, unit) st" where
  "remote_seed_test CS dh server_setup =
     bind_st (unwrap_st (client_registration_start CS PASSWORD)) (\<lambda>(message, client).
     let km = key_material_info server_setup [] in
     bind_st (lift_st (remote_key_material CS km)) (\<lambda>ikm.
     bind_st (unwrap_lift (server_registration_start_with_key_material CS server_setup ikm message))
       (\<lambda>message.
     bind_st (unwrap_st (client_registration_finish CS client PASSWORD message
       default_registration_parameters)) (\<lambda>result.
     let file = server_registration_finish (crf_message result) in
     bind_st (unwrap_st (client_login_start CS PASSWORD)) (\<lambda>(message, client).
     let km = key_material_info server_setup [] in
     bind_st (lift_st (remote_key_material CS km)) (\<lambda>ikm.
     bind_st (unwrap_st (builder_with_key_material CS server_setup ikm (Some file) message
       default_server_login_parameters)) (\<lambda>builder.
     let shared_secret = ke_diffie_hellman dh (remote_sk (builder_private_key builder))
           (builder_data CS builder) in
     bind_st (unwrap_lift (builder_build CS builder shared_secret)) (\<lambda>(message, server).
     bind_st (unwrap_st (client_login_finish CS client PASSWORD message
       default_client_login_parameters)) (\<lambda>result.
     bind_st (unwrap_lift (server_login_finish CS server (clf_message result)
       default_server_login_parameters)) (\<lambda>_.
     return_st ()))))))))))"

section \<open>Facts\<close>

text \<open>The setup that a server with the key and the seed at hand would have.\<close>

definition held_remotely ::
    "('os \<Rightarrow> 'os') \<Rightarrow> ('k \<Rightarrow> 'k') \<Rightarrow> ('os, 'k, 'pk) server_setup \<Rightarrow> ('os', 'k', 'pk) server_setup" where
  "held_remotely seed key SS =
     \<lparr>ss_oprf_seed = seed (ss_oprf_seed SS),
      ss_keypair = \<lparr>kp_pk = kp_pk (ss_keypair SS), kp_sk = key (kp_sk (ss_keypair SS))\<rparr>,
      ss_dummy_pk = ss_dummy_pk SS\<rparr>"

lemma held_remotely_sel [simp]:
  "ss_oprf_seed (held_remotely seed key SS) = seed (ss_oprf_seed SS)"
  "kp_pk (ss_keypair (held_remotely seed key SS)) = kp_pk (ss_keypair SS)"
  "kp_sk (ss_keypair (held_remotely seed key SS)) = key (kp_sk (ss_keypair SS))"
  "ss_dummy_pk (held_remotely seed key SS) = ss_dummy_pk SS"
  by (simp_all add: held_remotely_def)

lemma remote_key_setup_eq:
  "remote_key_setup CS r = map_option (map_prod (held_remotely id RemoteKey) id) (server_setup_new CS r)"
  by (auto simp: remote_key_setup_def remote_key_pair_def server_setup_new_def keypair_random_def
      new_with_key_pair_def new_with_key_pair_and_seed_def held_remotely_def key_defs
      split: option.splits prod.splits)

lemma remote_seed_setup_held:
  assumes "group_ok (cs_group CS) wf_sk wf_pk" "remote_seed_setup CS r = Some (RS, r')"
  obtains SS where "RS = held_remotely RemoteSeed RemoteKey SS" "server_setup_ok CS wf_sk wf_pk SS"
proof -
  from assms(2) obtain seed r1 sk r2 d where seed: "fill_bytes (hash_len (cs_hash CS)) r = (seed, r1)"
    and sk: "random_sk (cs_group CS) r1 = Some (sk, r2)"
    and d: "keypair_random (cs_group CS) r2 = Some (d, r')"
    and RS: "RS = \<lparr>ss_oprf_seed = RemoteSeed seed,
      ss_keypair = \<lparr>kp_pk = public_key (cs_group CS) sk, kp_sk = RemoteKey sk\<rparr>,
      ss_dummy_pk = kp_pk d\<rparr>"
    by (auto simp: remote_seed_setup_def remote_key_pair_def new_with_key_pair_and_seed_def key_defs
        Let_def split: option.splits prod.splits)
  let ?SS = "\<lparr>ss_oprf_seed = seed, ss_keypair = \<lparr>kp_pk = public_key (cs_group CS) sk, kp_sk = sk\<rparr>,
      ss_dummy_pk = kp_pk d\<rparr>"
  have "server_setup_ok CS wf_sk wf_pk ?SS"
    using any_group.random_sk_wf [OF assms(1) sk] keypair_random_wf [OF assms(1) d]
      length_fill_bytes [OF seed] by (simp add: server_setup_ok_def keypair_consistent_def)
  then show thesis using that [of ?SS] by (simp add: RS held_remotely_def)
qed

text \<open>What the library does with the opaque key: it puts it into the builder.\<close>

definition builder_with_key :: "('k \<Rightarrow> 'k') \<Rightarrow> ('k, 'e, 'k2b) server_login_builder \<Rightarrow>
    ('k', 'e, 'k2b) server_login_builder" where
  "builder_with_key key b =
     \<lparr>slb_server_s_sk = key (slb_server_s_sk b),
      slb_evaluation_element = slb_evaluation_element b, slb_masking_nonce = slb_masking_nonce b,
      slb_masked_response = slb_masked_response b, slb_ke2_builder = slb_ke2_builder b\<rparr>"

lemma remote_builder:
  "builder_with_key_material CS (held_remotely seed key SS) km pf creq params =
     bind_st (builder_with_key_material CS SS km pf creq params) (\<lambda>b.
       return_st (builder_with_key key b))"
  by (simp add: builder_with_key_material_def server_registration_dummy_def
      registration_upload_dummy_def server_setup_keypair_def key_defs Let_def bind_st_assoc
      builder_with_key_def bind_st_def fun_eq_iff split: prod.split result.split)

lemma builder_with_key_build:
  "builder_build CS (builder_with_key key b) input = server_login_build CS b input"
  "builder_data CS (builder_with_key key b) = ke2_builder_data (cs_ke CS) (slb_ke2_builder b)"
  "builder_private_key (builder_with_key key b) = key (slb_server_s_sk b)"
  by (simp_all add: builder_build_def server_login_build_def builder_with_key_def builder_data_def
      builder_private_key_def)

lemma builder_holds_key:
  "builder_with_key_material CS SS km pf creq params r = (Ok b, r') \<Longrightarrow>
     slb_server_s_sk b = kp_sk (ss_keypair SS)"
  unfolding builder_with_key_material_Ok_iff by auto

text \<open>The library's part of a login is the same wherever the key and the seed are.\<close>

definition external_login ::
    "('e, 'oc, 'sk, 'pk, 'k1s, 'k1m, 'k2s, 'k2b, 'k2d, 'k2i, 'k2m, 'k3m) cipher_suite \<Rightarrow>
     ('os, 'k, 'pk) server_setup \<Rightarrow> ('k \<Rightarrow> 'k2b \<Rightarrow> rng \<Rightarrow> 'k2i \<times> rng) \<Rightarrow> bytes \<Rightarrow>
     'pk server_registration option \<Rightarrow> ('e, 'k1m) credential_request \<Rightarrow> server_login_parameters \<Rightarrow>
     (rng, protocol_error, ('e, 'k2m) credential_response \<times> 'k2s server_login) st" where
  "external_login CS SS answer km pf creq params =
     bind_st (builder_with_key_material CS SS km pf creq params) (\<lambda>builder.
     bind_st (run_st (answer (builder_private_key builder) (slb_ke2_builder builder))) (\<lambda>input.
     lift_st (builder_build CS builder input)))"

lemma server_login_start_external:
  "server_login_start CS SS pf creq cid params =
     bind_st (lift_st (map_err protocol_from_internal
       (oprf_key_material CS (ss_oprf_seed SS) [cid, STR_OPRF_KEY]))) (\<lambda>km.
     external_login CS SS (\<lambda>sk b. generate_ke2_input (cs_ke CS) b sk) km pf creq params)"
proof -
  have "bind_st (builder_with_key_material CS SS km pf creq params) (\<lambda>builder.
      bind_st (run_st (generate_ke2_input (cs_ke CS) (slb_ke2_builder builder)
        (kp_sk (ss_keypair SS)))) (\<lambda>input. lift_st (server_login_build CS builder input)))
    = external_login CS SS (\<lambda>sk b. generate_ke2_input (cs_ke CS) b sk) km pf creq params" for km
    unfolding external_login_def builder_build_def builder_private_key_def
    by (rule ext) (auto simp: bind_st_def [of "builder_with_key_material CS SS km pf creq params"]
        builder_holds_key split: prod.splits result.splits)
  then show ?thesis
    by (simp add: server_login_start_def server_login_builder_new_def key_material_info_def key_defs
        Let_def bind_st_assoc)
qed

lemma external_login_held:
  "external_login CS (held_remotely seed key SS) (\<lambda>k. answer (f k)) km pf creq params =
     external_login CS SS (\<lambda>sk. answer (f (key sk))) km pf creq params"
  unfolding external_login_def remote_builder bind_st_assoc
  by (rule arg_cong [of _ _ "bind_st _"], rule ext)
     (simp add: bind_st_def [of "return_st _"] builder_with_key_build builder_private_key_def fun_eq_iff
       builder_build_def server_login_build_def builder_with_key_def)


lemma remote_key_material_eq:
  "remote_key_material CS (key_material_info (held_remotely RemoteSeed key SS) cid) =
     unwrap (oprf_key_material CS (ss_oprf_seed SS) [cid, STR_OPRF_KEY])"
proof -
  have "unwrap (ok_or () x) = unwrap (ok_or HkdfError x)" for x :: "bytes option"
    by (cases x) simp_all
  then show ?thesis
    by (simp add: remote_key_material_def key_material_info_def oprf_key_material_def)
       (cases "hkdf_from_prk (cs_hash CS) (ss_oprf_seed SS)"; simp)
qed

lemma registration_held:
  "server_registration_start_with_key_material CS (held_remotely seed key SS) km msg =
     server_registration_start_with_key_material CS SS km msg"
  "server_registration_start CS (held_remotely id key SS) msg cid =
     server_registration_start CS SS msg cid"
  by (simp_all add: server_registration_start_def server_registration_start_with_key_material_def
      server_setup_keypair_def key_material_info_def key_defs)

lemma registration_with_key_material:
  "oprf_key_material CS (ss_oprf_seed SS) [cid, STR_OPRF_KEY] = Ok km \<Longrightarrow>
     server_registration_start_with_key_material CS SS km msg = server_registration_start CS SS msg cid"
  by (simp add: server_registration_start_def key_material_info_def)

text \<open>
  The key exchanges whose server answers with a Diffie-Hellman value of the data of the builder.
\<close>

definition answers_with_dh ::
    "('e, 'oc, 'sk, 'pk, 'k1s, 'k1m, 'k2s, 'k2b, 'pk, bytes, 'k2m, 'k3m) cipher_suite \<Rightarrow>
     ('sk, 'pk) diffie_hellman \<Rightarrow> bool" where
  "answers_with_dh CS dh \<longleftrightarrow> (\<forall>b sk r. generate_ke2_input (cs_ke CS) b sk r =
     (ke_diffie_hellman dh sk (ke2_builder_data (cs_ke CS) b), r))"

lemma tdh_answers_with_dh: "answers_with_dh (tdh_suite P G dh H k) dh"
  by (simp add: answers_with_dh_def triple_dh_def tdh_generate_ke2_input_def
      tdh_ke2_builder_data_def)

lemma remote_login_with_key_material:
  assumes "answers_with_dh CS dh"
    and "oprf_key_material CS (ss_oprf_seed SS) [cid, STR_OPRF_KEY] = Ok km"
  shows "bind_st (builder_with_key_material CS (held_remotely seed RemoteKey SS) km pf creq params)
      (\<lambda>builder. lift_st (builder_build CS builder (ke_diffie_hellman dh
        (remote_sk (builder_private_key builder)) (builder_data CS builder))))
    = server_login_start CS SS pf creq cid params"
proof -
  let ?answer = "\<lambda>sk b r. (ke_diffie_hellman dh sk (ke2_builder_data (cs_ke CS) b), r)"
  have "bind_st (builder_with_key_material CS (held_remotely seed RemoteKey SS) km pf creq params)
      (\<lambda>builder. lift_st (builder_build CS builder (ke_diffie_hellman dh
        (remote_sk (builder_private_key builder)) (builder_data CS builder))))
    = external_login CS (held_remotely seed RemoteKey SS) (\<lambda>k. ?answer (remote_sk k)) km pf creq params"
    unfolding external_login_def
    by (rule arg_cong [of _ _ "bind_st _"], rule ext)
       (simp add: bind_st_def run_st_def builder_data_def fun_eq_iff)
  also have "\<dots> = external_login CS SS (\<lambda>sk. ?answer (remote_sk (RemoteKey sk))) km pf creq params"
    by (rule external_login_held)
  also have "\<dots> = server_login_start CS SS pf creq cid params"
  proof -
    have "?answer = (\<lambda>sk b. generate_ke2_input (cs_ke CS) b sk)"
      using assms(1) by (simp add: answers_with_dh_def fun_eq_iff)
    with assms(2) show ?thesis by (simp add: server_login_start_external bind_st_def fun_eq_iff)
  qed
  finally show ?thesis .
qed

lemma remote_login:
  assumes "answers_with_dh CS dh"
  shows "bind_st (server_login_builder_new CS (held_remotely id RemoteKey SS) pf creq cid params)
      (\<lambda>builder. lift_st (builder_build CS builder (ke_diffie_hellman dh
        (remote_sk (builder_private_key builder)) (builder_data CS builder))))
    = server_login_start CS SS pf creq cid params"
proof (cases "oprf_key_material CS (ss_oprf_seed SS) [cid, STR_OPRF_KEY]")
  case (Ok km)
  with remote_login_with_key_material [OF assms Ok, of id pf creq params] show ?thesis
    by (simp add: server_login_builder_new_def key_material_info_def Let_def bind_st_def fun_eq_iff)
qed (simp_all add: server_login_builder_new_def server_login_start_external key_material_info_def
      Let_def bind_st_def fun_eq_iff)


text \<open>Both runs of an honest user come to their end.\<close>

lemma remote_runs:
  fixes CS :: "('e, 'oc, 'sk, 'pk, 'k1s, 'k1m, 'k2s, 'k2b, 'pk, bytes, 'k2m, 'k3m) cipher_suite"
  assumes suite: "live_opaque_suite CS True wf_e wf_oc wf_sk wf_pk ok_k1s ok_k1m ok_k2s ok_k2m ok_k3m
      True"
    and dh: "answers_with_dh CS dh" and SS: "server_setup_ok CS wf_sk wf_pk SS"
    and service: "service_ok CS SS {[]} {PASSWORD}"
  shows "\<exists>r'. remote_key_test CS dh (held_remotely id RemoteKey SS) r = (Ok (), r')"
    and "\<exists>r'. remote_seed_test CS dh (held_remotely RemoteSeed RemoteKey SS) r = (Ok (), r')"
proof -
  have ids: "([] :: bytes) \<in> {[]}" "PASSWORD \<in> {PASSWORD}" by simp_all
  obtain req st r1 resp res r2 where
    reg: "client_registration_start CS PASSWORD r = (Ok (req, st), r1)"
      "server_registration_start CS SS req [] = Ok resp"
      "client_registration_finish CS st PASSWORD resp default_registration_parameters r1 = (Ok res, r2)"
    and regd: "registered CS SS [] PASSWORD default_registration_parameters (crf_message res)
      (crf_export_key res)"
    by (rule live_opaque_suite.registration_over_wire [OF suite TrueI TrueI SS service ids])
  obtain creq cst r3 cresp sst r4 fin r5 where
    login: "client_login_start CS PASSWORD r2 = (Ok (creq, cst), r3)"
      "server_login_start CS SS (Some (crf_message res)) creq [] default_server_login_parameters r3
        = (Ok (cresp, sst), r4)"
      "client_login_finish CS cst PASSWORD cresp default_client_login_parameters r4 = (Ok fin, r5)"
      "server_login_finish CS sst (clf_message fin) default_server_login_parameters
        = Ok (clf_session_key fin)"
    by (rule live_opaque_suite.login_over_wire [OF suite TrueI TrueI SS service ids regd])
  obtain ev where "server_evaluation CS (ss_oprf_seed SS) [] = Ok ev"
    using service by (auto simp: service_ok_def)
  then obtain km where km: "oprf_key_material CS (ss_oprf_seed SS) [[], STR_OPRF_KEY] = Ok km"
    by (auto simp: server_evaluation_def bind_result_Ok_iff)
  let ?build = "\<lambda>b. builder_build CS b (ke_diffie_hellman dh (remote_sk (builder_private_key b))
    (builder_data CS b))"
  obtain b where b: "server_login_builder_new CS (held_remotely id RemoteKey SS)
      (Some (crf_message res)) creq [] default_server_login_parameters r3 = (Ok b, r4)"
    "?build b = Ok (cresp, sst)"
    using login(2) [folded remote_login [OF dh]] by (auto simp: bind_st_Ok_iff)
  show "\<exists>r'. remote_key_test CS dh (held_remotely id RemoteKey SS) r = (Ok (), r')"
    using reg login b by (simp add: remote_key_test_def registration_held server_registration_finish_def)
  obtain b' where b': "builder_with_key_material CS (held_remotely RemoteSeed RemoteKey SS) km
      (Some (crf_message res)) creq default_server_login_parameters r3 = (Ok b', r4)"
    "?build b' = Ok (cresp, sst)"
    using login(2) [folded remote_login_with_key_material [OF dh km, of RemoteSeed]]
    by (auto simp: bind_st_Ok_iff)
  show "\<exists>r'. remote_seed_test CS dh (held_remotely RemoteSeed RemoteKey SS) r = (Ok (), r')"
    using reg login b' km
    by (simp add: remote_seed_test_def registration_held registration_with_key_material [OF km]
        remote_key_material_eq server_registration_finish_def)
qed

section \<open>Properties\<close>

text \<open>
  C19. A server that keeps its private key elsewhere answers as one that has it: the response and the
  state of the builder route, with the Diffie-Hellman value computed by the holder of the key from
  \<open>ServerLoginBuilder::data\<close>, are those of \<open>ServerLogin::start\<close>, errors and the generator
  included. With the seed elsewhere too, the same holds of registration and login from the key
  material that the holder of the seed expands, and the setup draws what \<open>ServerSetup::new\<close> draws.
\<close>

theorem remote_server_equivalent:
  fixes G :: "('sk, 'pk) ke_group" and P :: "('e, 'oc) oprf_suite" and dh H k
  defines "CS \<equiv> tdh_suite P G dh H k"
  shows "remote_key_setup CS r =
      map_option (map_prod (held_remotely id RemoteKey) id) (server_setup_new CS r) \<and>
    bind_st (server_login_builder_new CS (held_remotely id RemoteKey SS) pf creq cid params)
      (\<lambda>builder. lift_st (builder_build CS builder (ke_diffie_hellman dh
        (remote_sk (builder_private_key builder)) (builder_data CS builder))))
      = server_login_start CS SS pf creq cid params \<and>
    (\<forall>km. remote_key_material CS (key_material_info (held_remotely RemoteSeed RemoteKey SS) cid) = Ok km
       \<longrightarrow>
       server_registration_start_with_key_material CS (held_remotely RemoteSeed RemoteKey SS) km msg
         = server_registration_start CS SS msg cid \<and>
       bind_st (builder_with_key_material CS (held_remotely RemoteSeed RemoteKey SS) km pf creq params)
         (\<lambda>builder. lift_st (builder_build CS builder (ke_diffie_hellman dh
           (remote_sk (builder_private_key builder)) (builder_data CS builder))))
         = server_login_start CS SS pf creq cid params)"
  unfolding CS_def remote_key_material_eq unwrap_Ok_iff
  by (intro conjI allI impI remote_key_setup_eq remote_login [OF tdh_answers_with_dh]
      remote_login_with_key_material [OF tdh_answers_with_dh])
     (simp_all add: registration_held registration_with_key_material)

theorem remote_server_equivalent_witness:
  "\<exists>km. remote_key_material mini_tdh_suite_32
      (key_material_info (held_remotely RemoteSeed RemoteKey mini_setup_32) [50]) = Ok km \<and>
    server_registration_start_with_key_material mini_tdh_suite_32
      (held_remotely RemoteSeed RemoteKey mini_setup_32) km \<lparr>rr_blinded_element = 5\<rparr>
    = server_registration_start mini_tdh_suite_32 mini_setup_32 \<lparr>rr_blinded_element = 5\<rparr> [50]"
proof -
  obtain km where "remote_key_material mini_tdh_suite_32
      (key_material_info (held_remotely RemoteSeed RemoteKey mini_setup_32) [50]) = Ok km"
    by (simp add: remote_key_material_eq oprf_key_material_def hkdf_expand_multi_info_def)
  with remote_server_equivalent [of "mini_oprf 32" mini_group mini_dh "mini_hash 32" ksf_identity]
  show ?thesis by blast
qed

text \<open>
  The runs of the crate's own tests cannot fail: for every consistent setup that serves the
  empty identifier and the test's password, and whatever the generator produces, registration and
  login against a server with a remote key, or a remote key and a remote seed, unwrap no error and
  come to their end.
\<close>

theorem remote_runs_succeed:
  assumes "oprf_ok P wf_e wf_oc" "dh_ok G dh wf_sk wf_pk" "hash_ok H" "derive_total G"
    and "server_setup_ok (tdh_suite P G dh H k) wf_sk wf_pk SS"
    and "service_ok (tdh_suite P G dh H k) SS {[]} {PASSWORD}"
  shows "\<exists>r1 r2. remote_key_test (tdh_suite P G dh H k) dh (held_remotely id RemoteKey SS) r = (Ok (), r1) \<and>
    remote_seed_test (tdh_suite P G dh H k) dh (held_remotely RemoteSeed RemoteKey SS) r = (Ok (), r2)"
proof -
  have suite: "live_opaque_suite (tdh_suite P G dh H k) True wf_e wf_oc wf_sk wf_pk
      (ke1_state_ok wf_sk) (ke1_message_ok wf_pk) (ke2_state_ok H) (ke2_message_ok H wf_pk)
      (ke3_message_ok H) True"
    using tdh_opaque.live_opaque_suite_axioms [of P G dh H k wf_e wf_oc wf_sk wf_pk] assms(1-4)
    by simp
  show ?thesis
    using remote_runs [OF suite tdh_answers_with_dh assms(5,6), of r] by blast
qed

theorem remote_runs_succeed_witness:
  "\<exists>r1 r2. remote_key_test mini_tdh_suite_32 mini_dh (held_remotely id RemoteKey mini_setup_32)
      (counter_rng 0) = (Ok (), r1) \<and>
    remote_seed_test mini_tdh_suite_32 mini_dh (held_remotely RemoteSeed RemoteKey mini_setup_32)
      (counter_rng 0) = (Ok (), r2)"
proof -
  have "mini_key mini_seed [] * checksum PASSWORD \<noteq> checksum PASSWORD"
    unfolding mini_key_def mini_checksum_seed by code_simp
  then have "service_ok mini_tdh_suite_32 mini_setup_32 {[]} {PASSWORD}"
    by (intro mini_service_ok [where nh = 32])
       (simp_all add: masked_response_len_def envelope_len_def nonce_len_def)
  from remote_runs_succeed [OF mini_32_ok mini_derive_total mini_setup_32_ok this] show ?thesis .
qed

end
