(* ===== verification/Doc_Examples.thy ===== *)
theory Doc_Examples
  imports Remote_Server
begin

text \<open>
  The worked examples of the crate documentation (\<open>src/lib.rs\<close>). Each code block is a program that
  the documentation tests compile and run: \<open>?\<close> returns an error, a failed \<open>assert_eq!\<close> or \<open>unwrap\<close> is
  a panic. The blocks repeat the lines of the earlier blocks (hidden in the rendered text), so their
  models build on each other. Every \<open>UnwrapErr(SysRng)\<close> is a handle on the one generator of the system.
\<close>

section \<open>Runs\<close>

text \<open>\<open>None\<close>: a key sampling loop never leaves.\<close>

type_synonym 'a run = "rng \<Rightarrow> ((protocol_error, 'a) result \<times> rng) option"

definition bind_run :: "'a run \<Rightarrow> ('a \<Rightarrow> 'b run) \<Rightarrow> 'b run" where
  "bind_run m f rng =
     (case m rng of
        None \<Rightarrow> None
      | Some (Ok a, rng) \<Rightarrow> f a rng
      | Some (Err e, rng) \<Rightarrow> Some (Err e, rng)
      | Some (Panic, rng) \<Rightarrow> Some (Panic, rng))"

definition call_run :: "(rng, protocol_error, 'a) st \<Rightarrow> 'a run" where
  "call_run m rng = Some (m rng)"

abbreviation pure_run :: "(protocol_error, 'a) result \<Rightarrow> 'a run" where
  "pure_run r \<equiv> call_run (lift_st r)"

abbreviation return_run :: "'a \<Rightarrow> 'a run" where
  "return_run a \<equiv> pure_run (Ok a)"

definition sample_run :: "(rng \<Rightarrow> ('a \<times> rng) option) \<Rightarrow> 'a run" where
  "sample_run m rng = map_option (map_prod Ok id) (m rng)"

definition assert_eq :: "'a \<Rightarrow> 'a \<Rightarrow> ('e, unit) result" where
  "assert_eq a b = (if a = b then Ok () else Panic)"

lemma run_simps [simp]:
  "m r = Some (Ok a, r') \<Longrightarrow> bind_run m f r = f a r'"
  "call_run c r = Some (c r)"
  "s r = Some (b, r') \<Longrightarrow> sample_run s r = Some (Ok b, r')"
  "assert_eq b b = Ok ()"
  by (simp_all add: bind_run_def call_run_def sample_run_def assert_eq_def)

lemma bind_run_assoc: "bind_run (bind_run m f) g = bind_run m (\<lambda>a. bind_run (f a) g)"
  by (rule ext) (auto simp: bind_run_def split: option.splits prod.splits result.splits)

section \<open>The examples of the protocol\<close>

text \<open>The suite \<open>Default\<close> of every block: a group, its hash and no key stretching.\<close>

definition example_suite where
  "example_suite P G dh H = tdh_suite P G dh H ksf_identity"

definition alice :: bytes where
  "alice = map of_char ''alice@example.com''"

definition example_setup where
  "example_setup CS = sample_run (server_setup_new CS)"

definition example_client_registration_start where
  "example_client_registration_start CS = call_run (client_registration_start CS PASSWORD)"

definition example_server_registration_start where
  "example_server_registration_start CS =
     bind_run (example_client_registration_start CS) (\<lambda>(message, state).
     bind_run (example_setup CS) (\<lambda>server_setup.
     bind_run (pure_run (server_registration_start CS server_setup message alice)) (\<lambda>response.
     return_run (server_setup, state, response))))"

definition registration_with where
  "registration_with CS params =
     bind_run (example_server_registration_start CS) (\<lambda>(server_setup, state, response).
     bind_run (call_run (client_registration_finish CS state PASSWORD response params)) (\<lambda>result.
     return_run (server_setup, result)))"

definition example_client_registration_finish where
  "example_client_registration_finish CS = registration_with CS default_registration_parameters"

definition example_server_registration_finish where
  "example_server_registration_finish CS =
     bind_run (example_client_registration_finish CS) (\<lambda>(_, result).
     return_run (server_registration_finish (crf_message result)))"

definition example_client_login_start where
  "example_client_login_start CS = call_run (client_login_start CS PASSWORD)"

definition server_login_with where
  "server_login_with CS params slp =
     bind_run (registration_with CS params) (\<lambda>(server_setup, registration).
     let password_file_bytes =
           server_registration_serialize CS (server_registration_finish (crf_message registration)) in
     bind_run (example_client_login_start CS) (\<lambda>(request, state).
     bind_run (pure_run (server_registration_deserialize CS password_file_bytes)) (\<lambda>password_file.
     bind_run (call_run (server_login_start CS server_setup (Some password_file) request alice slp))
       (\<lambda>(response, server_state).
     return_run (registration, state, response, server_state)))))"

definition example_server_login_start where
  "example_server_login_start CS =
     server_login_with CS default_registration_parameters default_server_login_parameters"

definition client_login_with where
  "client_login_with CS params slp clp =
     bind_run (server_login_with CS params slp) (\<lambda>(registration, state, response, server_state).
     bind_run (call_run (client_login_finish CS state PASSWORD response clp)) (\<lambda>login.
     return_run (registration, login, server_state)))"

definition example_client_login_finish where
  "example_client_login_finish CS =
     client_login_with CS default_registration_parameters default_server_login_parameters
       default_client_login_parameters"

definition example_server_login_finish where
  "example_server_login_finish CS =
     bind_run (example_client_login_finish CS) (\<lambda>(_, login, server_state).
     bind_run (pure_run (server_login_finish CS server_state (clf_message login)
       default_server_login_parameters)) (\<lambda>session_key.
     pure_run (assert_eq (clf_session_key login) session_key)))"

definition example_server_consistency where
  "example_server_consistency CS =
     bind_run (example_client_login_finish CS) (\<lambda>(registration, login, _).
     pure_run (assert_eq (crf_server_s_pk registration) (clf_server_s_pk login)))"

definition example_export_key where
  "example_export_key CS =
     bind_run (example_client_login_finish CS) (\<lambda>(registration, login, _).
     pure_run (assert_eq (crf_export_key registration) (clf_export_key login)))"

section \<open>Custom identifiers\<close>

definition custom_identifiers :: identifiers where
  "custom_identifiers =
     \<lparr>id_client = Some (map of_char ''Alice_the_Cryptographer''),
      id_server = Some (map of_char ''Facebook'')\<rparr>"

abbreviation custom_registration_parameters where
  "custom_registration_parameters \<equiv> \<lparr>crp_identifiers = custom_identifiers, crp_ksf = None\<rparr>"

abbreviation custom_server_login_parameters where
  "custom_server_login_parameters \<equiv> \<lparr>slp_context = None, slp_identifiers = custom_identifiers\<rparr>"

abbreviation custom_client_login_parameters where
  "custom_client_login_parameters \<equiv>
     \<lparr>clp_context = None, clp_identifiers = custom_identifiers, clp_ksf = None\<rparr>"

definition custom_client_registration_finish where
  "custom_client_registration_finish CS = registration_with CS custom_registration_parameters"

definition custom_server_login_start where
  "custom_server_login_start CS =
     server_login_with CS custom_registration_parameters custom_server_login_parameters"

definition custom_client_login_finish where
  "custom_client_login_finish CS =
     client_login_with CS custom_registration_parameters custom_server_login_parameters
       custom_client_login_parameters"

definition custom_server_login_finish where
  "custom_server_login_finish CS =
     bind_run (custom_client_login_finish CS) (\<lambda>(_, login, server_state).
     pure_run (server_login_finish CS server_state (clf_message login)
       custom_server_login_parameters))"

section \<open>Remote private key, remote OPRF seed\<close>

text \<open>
  \<open>YourRemoteKey\<close> and \<open>YourRemoteSeed\<close>. Unlike the tests of \<open>keypair.rs\<close>, the blocks pass the public
  key through its encoding, and the seed has the size, and is expanded with, the hash of the key
  exchange.
\<close>

definition your_remote_key_pair where
  "your_remote_key_pair G =
     bind_run (sample_run (random_sk G)) (\<lambda>sk.
     let pk = serialize_pk G (public_key G sk) in
     bind_run (pure_run (unwrap (public_key_deserialize G pk))) (\<lambda>public_key.
     return_run (keypair_new (RemoteKey sk) public_key)))"

definition your_remote_dh where
  "your_remote_dh dh self pk = dh (remote_sk self) pk"

definition example_remote_key where
  "example_remote_key CS dh =
     bind_run (your_remote_key_pair (cs_group CS)) (\<lambda>keypair.
     bind_run (sample_run (\<lambda>rng. new_with_key_pair CS rng keypair)) (\<lambda>server_setup.
     bind_run (call_run (client_registration_start CS PASSWORD)) (\<lambda>(message, state).
     bind_run (pure_run (server_registration_start CS server_setup message alice)) (\<lambda>response.
     bind_run (call_run (client_registration_finish CS state PASSWORD response
       default_registration_parameters)) (\<lambda>registration.
     let password_file_bytes =
           server_registration_serialize CS (server_registration_finish (crf_message registration)) in
     bind_run (call_run (client_login_start CS PASSWORD)) (\<lambda>(request, state).
     bind_run (pure_run (server_registration_deserialize CS password_file_bytes)) (\<lambda>password_file.
     bind_run (call_run (server_login_builder_new CS server_setup (Some password_file) request alice
       default_server_login_parameters)) (\<lambda>builder.
     let client_e_public_key = builder_data CS builder;
         shared_secret = your_remote_dh dh (builder_private_key builder) client_e_public_key in
     pure_run (builder_build CS builder shared_secret)))))))))"

definition your_remote_hkdf where
  "your_remote_hkdf H n self info =
     bind_result (unwrap (ok_or () (hkdf_from_prk H (remote_seed_bytes self)))) (\<lambda>hkdf.
     unwrap (ok_or () (hkdf_expand_multi_info hkdf info n)))"

definition example_remote_seed where
  "example_remote_seed CS dh =
     bind_run (call_run (run_st (fill_bytes (hash_len (ke_hash (cs_ke CS)))))) (\<lambda>seed.
     let oprf_seed = RemoteSeed seed in
     bind_run (your_remote_key_pair (cs_group CS)) (\<lambda>keypair.
     bind_run (sample_run (\<lambda>rng. new_with_key_pair_and_seed CS rng keypair oprf_seed))
       (\<lambda>server_setup.
     bind_run (call_run (client_registration_start CS PASSWORD)) (\<lambda>(message, state).
     let info = key_material_info server_setup alice in
     bind_run (pure_run (your_remote_hkdf (ke_hash (cs_ke CS)) (scalar_len (cs_oprf CS))
       (kmi_ikm info) (kmi_info info))) (\<lambda>key_material.
     bind_run (pure_run (server_registration_start_with_key_material CS server_setup key_material
       message)) (\<lambda>response.
     bind_run (call_run (client_registration_finish CS state PASSWORD response
       default_registration_parameters)) (\<lambda>registration.
     let password_file_bytes =
           server_registration_serialize CS (server_registration_finish (crf_message registration)) in
     bind_run (call_run (client_login_start CS PASSWORD)) (\<lambda>(request, state).
     bind_run (pure_run (server_registration_deserialize CS password_file_bytes)) (\<lambda>password_file.
     let info = key_material_info server_setup alice in
     bind_run (pure_run (your_remote_hkdf (ke_hash (cs_ke CS)) (scalar_len (cs_oprf CS))
       (kmi_ikm info) (kmi_info info))) (\<lambda>key_material.
     bind_run (call_run (builder_with_key_material CS server_setup key_material (Some password_file)
       request default_server_login_parameters)) (\<lambda>builder.
     let client_e_public_key = builder_data CS builder;
         shared_secret = your_remote_dh dh (builder_private_key builder) client_e_public_key in
     pure_run (builder_build CS builder shared_secret))))))))))))"

section \<open>Custom key stretching\<close>

text \<open>
  \<open>CustomKsf\<close>: \<open>scrypt\<close> (password, salt, parameters, output length) is the external function, which
  writes the byte at each index of the output or fails.
\<close>

definition custom_ksf ::
    "(bytes \<Rightarrow> bytes \<Rightarrow> 'p \<Rightarrow> nat \<Rightarrow> ('f, nat \<Rightarrow> byte) result) \<Rightarrow> 'p \<Rightarrow> ksf" where
  "custom_ksf scrypt self input =
     bind_result (map_err (\<lambda>_. KsfError) (scrypt input [] self (length input))) (\<lambda>output.
     Ok (map output [0..<length input]))"

interpretation custom_ksf: key_stretching "custom_ksf scrypt self" for scrypt self
  by unfold_locales (auto simp: custom_ksf_def bind_result_Ok_iff)

text \<open>
  The block on Argon2: \<open>params_new\<close> and \<open>argon2_new\<close> are \<open>argon2::Params::new\<close> (memory, iterations,
  parallelism, output length) and \<open>argon2::Argon2::new\<close> for Argon2id, version 0x13.
\<close>

definition example_argon2 ::
    "('e, 'oc, 'sk, 'pk, 'k1s, 'k1m, 'k2s, 'k2b, 'k2d, 'k2i, 'k2m, 'k3m) cipher_suite \<Rightarrow>
     (nat \<Rightarrow> nat \<Rightarrow> nat \<Rightarrow> nat option \<Rightarrow> ('f, 'p) result) \<Rightarrow> ('p \<Rightarrow> ksf) \<Rightarrow>
     'pk client_registration_finish_result run" where
  "example_argon2 CS params_new argon2_new =
     bind_run (sample_run (server_setup_new CS)) (\<lambda>server_setup.
     bind_run (call_run (client_registration_start CS PASSWORD)) (\<lambda>(message, state).
     bind_run (pure_run (server_registration_start CS server_setup message alice)) (\<lambda>response.
     bind_run (pure_run (unwrap (params_new 131072 2 4 None))) (\<lambda>argon2_params.
     let argon2_params = argon2_new argon2_params;
         hash_params = default_registration_parameters\<lparr>crp_ksf := Some argon2_params\<rparr> in
     call_run (unwrap_st (client_registration_finish CS state PASSWORD response hash_params))))))"

section \<open>Facts\<close>

lemma custom_identifiers_fit: "identifiers_fit custom_identifiers"
  by (simp add: identifiers_fit_def effective_identifier_def custom_identifiers_def)

text \<open>All examples of the protocol are ends of this one run.\<close>

lemma example_run:
  fixes CS :: "('e, 'oc, 'sk, 'pk, 'k1s, 'k1m, 'k2s, 'k2b, 'k2d, 'k2i, 'k2m, 'k3m) cipher_suite"
  assumes suite: "live_opaque_suite CS True wf_e wf_oc wf_sk wf_pk ok_k1s ok_k1m ok_k2s ok_k2m ok_k3m
      True"
    and drawn: "server_setup_new CS (snd (client_registration_start CS PASSWORD r)) = Some (SS, r')"
    and service: "service_ok CS SS {alice} {PASSWORD}" and ids: "identifiers_fit ids"
  defines "params \<equiv> \<lparr>crp_identifiers = ids, crp_ksf = None\<rparr>"
    and "slp \<equiv> \<lparr>slp_context = None, slp_identifiers = ids\<rparr>"
    and "clp \<equiv> \<lparr>clp_context = None, clp_identifiers = ids, clp_ksf = None\<rparr>"
  obtains result login sst r1 r2 where
    "registration_with CS params r = Some (Ok (SS, result), r1)"
    "client_login_with CS params slp clp r = Some (Ok (result, login, sst), r2)"
    "crf_server_s_pk result = clf_server_s_pk login" "crf_export_key result = clf_export_key login"
    "server_login_finish CS sst (clf_message login) slp = Ok (clf_session_key login)"
proof -
  have G: "group_ok (cs_group CS) wf_sk wf_pk"
    using opaque_suite.grp [OF live_opaque_suite.axioms(1) [OF suite] TrueI] .
  have SS: "server_setup_ok CS wf_sk wf_pk SS" by (rule server_setup_new_ok [OF G drawn])
  have members: "alice \<in> {alice}" "PASSWORD \<in> {PASSWORD}" by simp_all
  obtain req st r1 resp where
    reg: "client_registration_start CS PASSWORD r = (Ok (req, st), r1)"
      "server_registration_start CS SS req alice = Ok resp"
    and fin: "\<And>s. \<exists>res s'. client_registration_finish CS st PASSWORD resp params s = (Ok res, s') \<and>
      crf_server_s_pk res = kp_pk (ss_keypair SS) \<and>
      registered CS SS alice PASSWORD params (crf_message res) (crf_export_key res) \<and>
      server_registration_deserialize CS (server_registration_serialize CS (crf_message res))
        = Ok (crf_message res)"
    using live_opaque_suite.served_registration [OF suite TrueI TrueI SS service members ids, of r]
    unfolding params_def by blast
  obtain res r2 where res: "client_registration_finish CS st PASSWORD resp params r' = (Ok res, r2)"
      "crf_server_s_pk res = kp_pk (ss_keypair SS)"
      "registered CS SS alice PASSWORD params (crf_message res) (crf_export_key res)"
      "server_registration_deserialize CS (server_registration_serialize CS (crf_message res))
        = Ok (crf_message res)"
    using fin by blast
  have ctx: "length (case (None :: bytes option) of Some x \<Rightarrow> x | None \<Rightarrow> []) < 65536" by simp
  obtain creq cst r3 cresp sst r4 login r5 where
    login: "client_login_start CS PASSWORD r2 = (Ok (creq, cst), r3)"
      "server_login_start CS SS (Some (crf_message res)) creq alice slp r3 = (Ok (cresp, sst), r4)"
      "client_login_finish CS cst PASSWORD cresp clp r4 = (Ok login, r5)"
      "clf_export_key login = crf_export_key res" "clf_server_s_pk login = kp_pk (ss_keypair SS)"
      "server_login_finish CS sst (clf_message login) slp = Ok (clf_session_key login)"
    using live_opaque_suite.served_login [OF suite TrueI TrueI SS service members ids ctx
        res(3) [unfolded params_def], of r2]
    unfolding slp_def clp_def by meson
  have run: "registration_with CS params r = Some (Ok (SS, res), r2)"
    using reg drawn res(1)
    by (simp add: registration_with_def example_server_registration_start_def bind_run_assoc
        example_client_registration_start_def example_setup_def split_def)
  moreover have "client_login_with CS params slp clp r = Some (Ok (res, login, sst), r5)"
    using run login(1-3) res(4)
    by (simp add: client_login_with_def server_login_with_def example_client_login_start_def Let_def
        server_registration_finish_def)
  ultimately show thesis using that login(4-6) res(2) by metis
qed

text \<open>The remote key pair is the one that \<open>KeyPair::random\<close> would have drawn.\<close>

lemma your_remote_key_pair_eq:
  assumes "group_ok G wf_sk wf_pk" "random_sk G r = Some (sk, r')"
  shows "your_remote_key_pair G r =
    Some (Ok \<lparr>kp_pk = public_key G sk, kp_sk = RemoteKey sk\<rparr>, r')"
proof -
  have "wf_pk (public_key G sk)"
    using any_group.random_sk_wf [OF assms] any_group.public_key_wf [OF assms(1)] by blast
  with any_group.pk_roundtrip [OF assms(1)]
  have "public_key_deserialize G (serialize_pk G (public_key G sk)) = Ok (public_key G sk)"
    by (metis append_Nil2 eval_st_def fst_conv public_key_deserialize_def public_key_deserialize_take_def)
  then show ?thesis
    using assms(2) by (simp add: your_remote_key_pair_def keypair_new_def)
qed

lemma example_remote_key_setup:
  assumes "group_ok (cs_group CS) wf_sk wf_pk" "server_setup_new CS r = Some (SS, r')"
  shows "bind_run (your_remote_key_pair (cs_group CS)) (\<lambda>keypair.
      bind_run (sample_run (\<lambda>rng. new_with_key_pair CS rng keypair)) f) r
    = f (held_remotely id RemoteKey SS) r'"
proof -
  from assms(2) obtain sk r1 where sk: "random_sk (cs_group CS) r = Some (sk, r1)"
    and new: "new_with_key_pair CS r1 \<lparr>kp_pk = public_key (cs_group CS) sk, kp_sk = sk\<rparr> = Some (SS, r')"
    by (auto simp: server_setup_new_def keypair_random_def key_defs Let_def split: option.splits prod.splits)
  from new have "new_with_key_pair CS r1 \<lparr>kp_pk = public_key (cs_group CS) sk, kp_sk = RemoteKey sk\<rparr>
      = Some (held_remotely id RemoteKey SS, r')"
    by (auto simp: new_with_key_pair_def new_with_key_pair_and_seed_def held_remotely_def
        split: option.splits prod.splits)
  with your_remote_key_pair_eq [OF assms(1) sk] show ?thesis by simp
qed

lemma example_remote_seed_setup:
  assumes "group_ok (cs_group CS) wf_sk wf_pk"
    and "remote_seed_setup CS r = Some (held_remotely RemoteSeed RemoteKey SS, r')"
    and "fill_bytes (hash_len (cs_hash CS)) r = (seed, r1)"
  shows "bind_run (your_remote_key_pair (cs_group CS)) (\<lambda>keypair.
      bind_run (sample_run (\<lambda>rng. new_with_key_pair_and_seed CS rng keypair (RemoteSeed seed))) f) r1
    = f (held_remotely RemoteSeed RemoteKey SS) r'"
proof -
  from assms(2,3) obtain sk r2 where sk: "random_sk (cs_group CS) r1 = Some (sk, r2)"
    and new: "new_with_key_pair_and_seed CS r2
      \<lparr>kp_pk = public_key (cs_group CS) sk, kp_sk = RemoteKey sk\<rparr> (RemoteSeed seed)
      = Some (held_remotely RemoteSeed RemoteKey SS, r')"
    by (auto simp: remote_seed_setup_def remote_key_pair_def key_defs Let_def
        split: option.splits prod.splits)
  with your_remote_key_pair_eq [OF assms(1) sk] show ?thesis by simp
qed

lemma unwrap_bind: "unwrap (bind_result m f) = bind_result (unwrap m) (\<lambda>a. unwrap (f a))"
  by (cases m) simp_all

lemma unwrap_unwrap: "unwrap (unwrap r) = unwrap r"
  by (cases r) simp_all

lemma your_remote_hkdf_eq:
  "your_remote_hkdf (cs_hash CS) (scalar_len (cs_oprf CS)) (kmi_ikm info) (kmi_info info)
     = unwrap (remote_key_material CS info)"
  by (simp add: your_remote_hkdf_def remote_key_material_def unwrap_bind unwrap_unwrap)

lemma remote_examples_run:
  fixes CS :: "('e, 'oc, 'sk, 'pk, 'k1s, 'k1m, 'k2s, 'k2b, 'pk, bytes, 'k2m, 'k3m) cipher_suite"
  assumes suite: "live_opaque_suite CS True wf_e wf_oc wf_sk wf_pk ok_k1s ok_k1m ok_k2s ok_k2m ok_k3m
      True"
    and dh: "answers_with_dh CS dh" and SS: "server_setup_ok CS wf_sk wf_pk SS"
    and service: "service_ok CS SS {alice} {PASSWORD}"
  shows "server_setup_new CS r = Some (SS, r') \<Longrightarrow>
      \<exists>result r2. example_remote_key CS dh r = Some (Ok result, r2)"
    and "ke_hash (cs_ke CS) = cs_hash CS \<Longrightarrow>
      remote_seed_setup CS r = Some (held_remotely RemoteSeed RemoteKey SS, r') \<Longrightarrow>
      \<exists>result r2. example_remote_seed CS dh r = Some (Ok result, r2)"
proof -
  have G: "group_ok (cs_group CS) wf_sk wf_pk"
    using opaque_suite.grp [OF live_opaque_suite.axioms(1) [OF suite] TrueI] .
  have members: "alice \<in> {alice}" "PASSWORD \<in> {PASSWORD}" by simp_all
  note ids = default_identifiers_fit
  obtain req st r1 resp res r2 where
    reg: "client_registration_start CS PASSWORD r' = (Ok (req, st), r1)"
      "server_registration_start CS SS req alice = Ok resp"
      "client_registration_finish CS st PASSWORD resp default_registration_parameters r1 = (Ok res, r2)"
      "server_registration_deserialize CS (server_registration_serialize CS (crf_message res))
        = Ok (crf_message res)"
    and regd: "registered CS SS alice PASSWORD default_registration_parameters (crf_message res)
      (crf_export_key res)"
    using live_opaque_suite.served_registration [OF suite TrueI TrueI SS service members ids, of r']
    unfolding default_registration_parameters_def by meson
  have ctx: "length (case (None :: bytes option) of Some x \<Rightarrow> x | None \<Rightarrow> []) < 65536" by simp
  obtain creq cst r3 cresp sst r4 where
    login: "client_login_start CS PASSWORD r2 = (Ok (creq, cst), r3)"
      "server_login_start CS SS (Some (crf_message res)) creq alice default_server_login_parameters r3
        = (Ok (cresp, sst), r4)"
    using live_opaque_suite.served_login [OF suite TrueI TrueI SS service members ids ctx
        regd [unfolded default_registration_parameters_def], of r2]
    unfolding default_server_login_parameters_def by meson
  obtain ev where "server_evaluation CS (ss_oprf_seed SS) alice = Ok ev"
    using service by (auto simp: service_ok_def)
  then obtain km where km: "oprf_key_material CS (ss_oprf_seed SS) [alice, STR_OPRF_KEY] = Ok km"
    by (auto simp: server_evaluation_def bind_result_Ok_iff)
  let ?build = "\<lambda>b. builder_build CS b (ke_diffie_hellman dh (remote_sk (builder_private_key b))
    (builder_data CS b))"
  obtain b where b: "server_login_builder_new CS (held_remotely id RemoteKey SS)
      (Some (crf_message res)) creq alice default_server_login_parameters r3 = (Ok b, r4)"
    "?build b = Ok (cresp, sst)"
    using login(2) [folded remote_login [OF dh]] by (auto simp: bind_st_Ok_iff)
  show "\<exists>result r2. example_remote_key CS dh r = Some (Ok result, r2)"
    if "server_setup_new CS r = Some (SS, r')"
    using reg login(1) b
    by (simp add: example_remote_key_def example_remote_key_setup [OF G that] registration_held
        server_registration_finish_def your_remote_dh_def ke_diffie_hellman_def)
  obtain b' where b': "builder_with_key_material CS (held_remotely RemoteSeed RemoteKey SS) km
      (Some (crf_message res)) creq default_server_login_parameters r3 = (Ok b', r4)"
    "?build b' = Ok (cresp, sst)"
    using login(2) [folded remote_login_with_key_material [OF dh km, of RemoteSeed]]
    by (auto simp: bind_st_Ok_iff)
  show "\<exists>result r2. example_remote_seed CS dh r = Some (Ok result, r2)"
    if "ke_hash (cs_ke CS) = cs_hash CS"
      and drawn: "remote_seed_setup CS r = Some (held_remotely RemoteSeed RemoteKey SS, r')"
  proof -
    obtain seed r0 where "fill_bytes (hash_len (cs_hash CS)) r = (seed, r0)" by fastforce
    with reg login(1) b' km that(1) show ?thesis
      by (simp add: example_remote_seed_def example_remote_seed_setup [OF G drawn]
          registration_held registration_with_key_material [OF km] your_remote_hkdf_eq
          remote_key_material_eq server_registration_finish_def your_remote_dh_def ke_diffie_hellman_def Let_def)
  qed
qed

text \<open>Overriding the key stretching of a suite is registering with a suite that has it.\<close>

lemma example_argon2_run:
  fixes G :: "('sk, 'pk) ke_group" and P :: "('e, 'oc) oprf_suite" and dh H k
  defines "CS \<equiv> tdh_suite P G dh H k"
  assumes ok: "oprf_ok P wf_e wf_oc" "dh_ok G dh wf_sk wf_pk" "hash_ok H" "derive_total G"
    and drawn: "server_setup_new CS r = Some (SS, r')"
    and params: "params_new 131072 2 4 None = Ok p"
    and service: "service_ok (tdh_suite P G dh H (argon2_new p)) SS {alice} {PASSWORD}"
  shows "\<exists>result r2. example_argon2 CS params_new argon2_new r = Some (Ok result, r2)"
proof -
  have suite: "live_opaque_suite CS True wf_e wf_oc wf_sk wf_pk
      (ke1_state_ok wf_sk) (ke1_message_ok wf_pk) (ke2_state_ok H) (ke2_message_ok H wf_pk)
      (ke3_message_ok H) True"
    unfolding CS_def
    using tdh_opaque.live_opaque_suite_axioms [of P G dh H k wf_e wf_oc wf_sk wf_pk] ok by simp
  have "group_ok (cs_group CS) wf_sk wf_pk"
    using opaque_suite.grp [OF live_opaque_suite.axioms(1) [OF suite] TrueI] .
  from server_setup_new_ok [OF this drawn] have SS: "server_setup_ok CS wf_sk wf_pk SS" .
  have members: "alice \<in> {alice}" "PASSWORD \<in> {PASSWORD}" by simp_all
  obtain ev c be r1 q h where
    ev: "server_evaluation (tdh_suite P G dh H (argon2_new p)) (ss_oprf_seed SS) alice = Ok ev"
    and b: "oprf_blind P PASSWORD r' = (Ok (c, be), r1)" and ne: "be \<noteq> ev be"
    and pdk: "get_password_derived_key (tdh_suite P G dh H (argon2_new p)) PASSWORD c (ev be) None
      = Ok (q, h)"
    by (rule service_okD [OF service members, of r']) auto
  have ev': "server_evaluation CS (ss_oprf_seed SS) alice = Ok ev"
    using ev by (simp add: CS_def server_evaluation_def oprf_key_material_def
        oprf_key_from_key_material_def)
  have b': "oprf_blind (cs_oprf CS) PASSWORD r' = (Ok (c, be), r1)" using b by (simp add: CS_def)
  have pdk': "get_password_derived_key CS PASSWORD c (ev be) (Some (argon2_new p)) = Ok (q, h)"
    using pdk by (simp add: CS_def get_password_derived_key_def)
  have sizes: "sk_len (cs_group CS) \<le> 255 * hash_len (cs_hash CS)" "pk_len (cs_group CS) < 65536"
    using service by (simp_all add: CS_def service_ok_def)
  have ids: "length (effective_identifier (id_client default_identifiers) []) < 65536"
    "length (effective_identifier (id_server default_identifiers) []) < 65536"
    using default_identifiers_fit by (simp_all add: identifiers_fit_def)
  obtain req st resp res r2 where
    "client_registration_start CS PASSWORD r' = (Ok (req, st), r1)"
    "server_registration_start CS SS req alice = Ok resp"
    "client_registration_finish CS st PASSWORD resp
      \<lparr>crp_identifiers = default_identifiers, crp_ksf = Some (argon2_new p)\<rparr> r1 = (Ok res, r2)"
    by (rule live_opaque_suite.registration_steps_total [OF suite TrueI TrueI SS b' ev' ne pdk'
        sizes ids])
  with drawn params show ?thesis
    by (simp add: example_argon2_def default_registration_parameters_def Let_def)
qed

text \<open>A custom key stretching that fails ends the registration with its error.\<close>

lemma custom_ksf_fails:
  assumes "oprf_finalize P c pw e = Ok y" "scrypt y [] self (length y) = Err f"
    and "creg_oprf_client st = c" "rsp_evaluation_element resp = e" "creg_blinded_element st \<noteq> e"
    and "crp_ksf params = None"
  shows "client_registration_finish (tdh_suite P G dh H (custom_ksf scrypt self)) st pw resp params r
    = (Err (LibraryError KsfError), r)"
  using assms by (simp add: client_registration_finish_def get_password_derived_key_def
      custom_ksf_def protocol_from_internal_def bind_st_def)

section \<open>The examples over the concrete suite\<close>

lemma mini_registration_rng:
  "snd (client_registration_start mini_tdh_suite_32 PASSWORD (counter_rng 0)) = counter_rng 1"
  by (simp add: client_registration_start_def blind_def bind_st_def map_err_st_def Let_def)

abbreviation mini_seed_from :: "nat \<Rightarrow> bytes" where
  "mini_seed_from n \<equiv> map (\<lambda>i. of_nat n + of_nat i) [0..<32]"

abbreviation mini_setup_1 :: "(bytes, byte, byte) server_setup" where
  "mini_setup_1 \<equiv>
     \<lparr>ss_oprf_seed = mini_seed_from 2, ss_keypair = \<lparr>kp_pk = 3, kp_sk = 1\<rparr>, ss_dummy_pk = 102\<rparr>"

abbreviation mini_setup_0 :: "(bytes, byte, byte) server_setup" where
  "mini_setup_0 \<equiv>
     \<lparr>ss_oprf_seed = mini_seed_from 0, ss_keypair = \<lparr>kp_pk = 96, kp_sk = 32\<rparr>, ss_dummy_pk = 99\<rparr>"

lemma mini_setups_drawn:
  "server_setup_new mini_tdh_suite_32 (counter_rng 1) = Some (mini_setup_1, counter_rng 35)"
  "remote_seed_setup mini_tdh_suite_32 (counter_rng 0)
    = Some (held_remotely RemoteSeed RemoteKey mini_setup_0, counter_rng 34)"
  by (simp_all add: server_setup_new_def remote_seed_setup_def remote_key_pair_def
      new_with_key_pair_def new_with_key_pair_and_seed_def keypair_random_def held_remotely_def
      key_defs)

lemma mini_seeds_move:
  "mini_key (mini_seed_from 2) alice * checksum PASSWORD \<noteq> checksum PASSWORD"
  "mini_key (mini_seed_from 0) alice * checksum PASSWORD \<noteq> checksum PASSWORD"
  "mini_key mini_seed alice * checksum PASSWORD \<noteq> checksum PASSWORD"
  by code_simp+

lemma mini_examples_served:
  "service_ok mini_tdh_suite_32 mini_setup_1 {alice} {PASSWORD}"
  "service_ok mini_tdh_suite_32 mini_setup_0 {alice} {PASSWORD}"
  "service_ok mini_tdh_suite_32 mini_setup_32 {alice} {PASSWORD}"
  using mini_seeds_move
  by (intro mini_service_ok [where nh = 32];
      simp add: masked_response_len_def envelope_len_def nonce_len_def)+

section \<open>Properties\<close>

text \<open>
  C7. The examples of the documentation do what the documentation says. Over OPAQUE-3DH with any
  lawful parts, whatever the generator produces and for the server setup that it yields, provided
  that the setup serves the examples' identifier and password: the password file is made, the login
  ends with equal session keys, the server's key seen at login is the one of the registration, the
  export keys agree, and the same run with custom identifiers ends with a session key. No \<open>?\<close>
  returns an error and no assertion fails.
\<close>

theorem doc_examples_succeed:
  fixes G :: "('sk, 'pk) ke_group" and P :: "('e, 'oc) oprf_suite" and dh H
  defines "CS \<equiv> example_suite P G dh H"
  assumes "oprf_ok P wf_e wf_oc" "dh_ok G dh wf_sk wf_pk" "hash_ok H" "derive_total G"
    and "server_setup_new CS (snd (client_registration_start CS PASSWORD r)) = Some (SS, r')"
    and "service_ok CS SS {alice} {PASSWORD}"
  shows "\<exists>file key r1 r2 r3 r4 r5.
    example_server_registration_finish CS r = Some (Ok file, r1) \<and>
    example_server_login_finish CS r = Some (Ok (), r2) \<and>
    example_server_consistency CS r = Some (Ok (), r3) \<and>
    example_export_key CS r = Some (Ok (), r4) \<and>
    custom_server_login_finish CS r = Some (Ok key, r5)"
proof -
  have suite: "live_opaque_suite CS True wf_e wf_oc wf_sk wf_pk
      (ke1_state_ok wf_sk) (ke1_message_ok wf_pk) (ke2_state_ok H) (ke2_message_ok H wf_pk)
      (ke3_message_ok H) True"
    unfolding CS_def example_suite_def
    using tdh_opaque.live_opaque_suite_axioms [of P G dh H ksf_identity wf_e wf_oc wf_sk wf_pk]
      assms(2-5) by simp
  note run = example_run [OF suite assms(6,7)]
  obtain result login sst r1 r2 where
    reg: "registration_with CS default_registration_parameters r = Some (Ok (SS, result), r1)"
    and login: "client_login_with CS default_registration_parameters default_server_login_parameters
      default_client_login_parameters r = Some (Ok (result, login, sst), r2)"
    and eqs: "crf_server_s_pk result = clf_server_s_pk login"
      "crf_export_key result = clf_export_key login"
      "server_login_finish CS sst (clf_message login) default_server_login_parameters
        = Ok (clf_session_key login)"
    unfolding default_registration_parameters_def default_server_login_parameters_def
      default_client_login_parameters_def by (rule run [OF default_identifiers_fit])
  have fin: "example_client_login_finish CS r = Some (Ok (result, login, sst), r2)"
    unfolding example_client_login_finish_def by (rule login)
  have "example_server_registration_finish CS r
      = Some (Ok (server_registration_finish (crf_message result)), r1)"
    using reg by (simp add: example_server_registration_finish_def example_client_registration_finish_def)
  moreover have "example_server_login_finish CS r = Some (Ok (), r2)"
    using fin eqs(3) by (simp add: example_server_login_finish_def)
  moreover have "example_server_consistency CS r = Some (Ok (), r2)"
    using fin eqs(1) by (simp add: example_server_consistency_def)
  moreover have "example_export_key CS r = Some (Ok (), r2)"
    using fin eqs(2) by (simp add: example_export_key_def)
  moreover obtain result' login' sst' r3 where custom:
    "client_login_with CS custom_registration_parameters custom_server_login_parameters
      custom_client_login_parameters r = Some (Ok (result', login', sst'), r3)"
    "server_login_finish CS sst' (clf_message login') custom_server_login_parameters
      = Ok (clf_session_key login')"
    by (rule run [OF custom_identifiers_fit])
  then have "custom_server_login_finish CS r = Some (Ok (clf_session_key login'), r3)"
    by (simp add: custom_server_login_finish_def custom_client_login_finish_def)
  ultimately show ?thesis by blast
qed

theorem doc_examples_succeed_witness:
  "\<exists>file key r1 r2 r3 r4 r5.
    example_server_registration_finish mini_tdh_suite_32 (counter_rng 0) = Some (Ok file, r1) \<and>
    example_server_login_finish mini_tdh_suite_32 (counter_rng 0) = Some (Ok (), r2) \<and>
    example_server_consistency mini_tdh_suite_32 (counter_rng 0) = Some (Ok (), r3) \<and>
    example_export_key mini_tdh_suite_32 (counter_rng 0) = Some (Ok (), r4) \<and>
    custom_server_login_finish mini_tdh_suite_32 (counter_rng 0) = Some (Ok key, r5)"
proof -
  have "server_setup_new mini_tdh_suite_32
      (snd (client_registration_start mini_tdh_suite_32 PASSWORD (counter_rng 0)))
    = Some (mini_setup_1, counter_rng 35)"
    unfolding mini_registration_rng by (rule mini_setups_drawn(1))
  from doc_examples_succeed [of "mini_oprf 32" _ _ mini_group mini_dh _ _ "mini_hash 32",
      unfolded example_suite_def, OF mini_32_ok mini_derive_total this mini_examples_served(1)]
  show ?thesis .
qed

text \<open>
  C20. The examples with secrets held elsewhere and with overridden key stretching run to their end:
  with the key remote, with key and seed remote (where, as in the examples, the key exchange and the
  OPRF have the same hash), and with custom Argon2 parameters, provided that the drawn setups serve
  the examples' identifier and password.
\<close>

theorem doc_remote_examples_succeed:
  fixes G :: "('sk, 'pk) ke_group" and P :: "('e, 'oc) oprf_suite" and dh H
  defines "CS \<equiv> example_suite P G dh H"
  assumes "oprf_ok P wf_e wf_oc" "dh_ok G dh wf_sk wf_pk" "hash_ok H" "derive_total G"
    and "server_setup_new CS r = Some (SS, r1)" "service_ok CS SS {alice} {PASSWORD}"
    and "remote_seed_setup CS r = Some (held_remotely RemoteSeed RemoteKey SS', r2)"
    and "service_ok CS SS' {alice} {PASSWORD}" "oprf_hash P = H"
    and "params_new 131072 2 4 None = Ok p"
    and "service_ok (tdh_suite P G dh H (argon2_new p)) SS {alice} {PASSWORD}"
  shows "\<exists>a b c r3 r4 r5. example_remote_key CS dh r = Some (Ok a, r3) \<and>
    example_remote_seed CS dh r = Some (Ok b, r4) \<and>
    example_argon2 (tdh_suite P G dh H argon2_default) params_new argon2_new r = Some (Ok c, r5)"
proof -
  have suite: "live_opaque_suite CS True wf_e wf_oc wf_sk wf_pk
      (ke1_state_ok wf_sk) (ke1_message_ok wf_pk) (ke2_state_ok H) (ke2_message_ok H wf_pk)
      (ke3_message_ok H) True"
    unfolding CS_def example_suite_def
    using tdh_opaque.live_opaque_suite_axioms [of P G dh H ksf_identity wf_e wf_oc wf_sk wf_pk]
      assms(2-5) by simp
  have G: "group_ok (cs_group CS) wf_sk wf_pk"
    using opaque_suite.grp [OF live_opaque_suite.axioms(1) [OF suite] TrueI] .
  have dh: "answers_with_dh CS dh" by (simp add: CS_def example_suite_def tdh_answers_with_dh)
  have hash: "ke_hash (cs_ke CS) = cs_hash CS"
    using assms(10) by (simp add: CS_def example_suite_def triple_dh_def)
  have "inj (held_remotely RemoteSeed (RemoteKey :: 'sk \<Rightarrow> _) :: (bytes, 'sk, 'pk) server_setup \<Rightarrow> _)"
    by (auto simp: inj_def held_remotely_def)
  then have "server_setup_ok CS wf_sk wf_pk SS'"
    using remote_seed_setup_held [OF G assms(8)] by (metis injD)
  from remote_examples_run(2) [OF suite dh this assms(9) hash assms(8)]
    remote_examples_run(1) [OF suite dh server_setup_new_ok [OF G assms(6)] assms(7,6)]
  have "\<exists>a b r3 r4. example_remote_key CS dh r = Some (Ok a, r3) \<and>
    example_remote_seed CS dh r = Some (Ok b, r4)" by blast
  moreover have "server_setup_new (tdh_suite P G dh H argon2_default) r = Some (SS, r1)"
    using assms(6) unfolding CS_def example_suite_def server_setup_new_def
      new_with_key_pair_def new_with_key_pair_and_seed_def
    by (simp cong: option.case_cong prod.case_cong)
  from example_argon2_run [where params_new = params_new and argon2_new = argon2_new,
      OF assms(2-5) this assms(11,12)]
  have "\<exists>c r5. example_argon2 (tdh_suite P G dh H argon2_default) params_new argon2_new r
    = Some (Ok c, r5)" .
  ultimately show ?thesis by blast
qed

theorem doc_remote_examples_succeed_witness:
  "\<exists>a b c r3 r4 r5.
    example_remote_key mini_tdh_suite_32 mini_dh (counter_rng 0) = Some (Ok a, r3) \<and>
    example_remote_seed mini_tdh_suite_32 mini_dh (counter_rng 0) = Some (Ok b, r4) \<and>
    example_argon2 mini_tdh_suite_32 (\<lambda>_ _ _ _. Ok ksf_identity :: (unit, ksf) result)
      (\<lambda>k. k) (counter_rng 0) = Some (Ok c, r5)"
  using doc_remote_examples_succeed [of "mini_oprf 32" _ _ mini_group mini_dh _ _ "mini_hash 32" _ _ _
      _ _ "\<lambda>_ _ _ _. Ok ksf_identity :: (unit, ksf) result" ksf_identity "\<lambda>k. k" ksf_identity,
      unfolded example_suite_def, OF mini_32_ok mini_derive_total mini_setup_new
      mini_examples_served(3) mini_setups_drawn(2) mini_examples_served(2) _ refl
      mini_examples_served(3)] by simp

end
