(* ===== verification/Key_Lengths.thy ===== *)
theory Key_Lengths
  imports Over_Wire
begin

text \<open>
  What the two sides of a login over OPAQUE-3DH get out of it: the lengths of the keys, and which of
  its parameters the server's last step depends on. Where \<open>lib.rs\<close> says otherwise, the code is
  modelled.
\<close>

section \<open>Lengths\<close>

lemma tdh_client_key_length:
  assumes "hash_ok H"
    and "generate_ke3 (triple_dh G dh H) req m1 resp st1 m2 spk csk sids ctx r = (Ok (key, m3), r')"
  shows "length key = hash_len H"
  using assms derive_keys_session_key_length [OF assms(1)]
  by (auto simp: triple_dh_def tdh_generate_ke3_def ok_iffs finalize_ke3_Ok_iff Let_def)

lemma tdh_server_key_length:
  assumes "hash_ok H" "build_ke2 (triple_dh G dh H) b input = Ok (st2, m2)"
    and "finish_ke (triple_dh G dh H) st2 m3 ids ctx = Ok key"
  shows "length key = hash_len H"
  using assms derive_keys_session_key_length [OF assms(1)]
  by (auto simp: triple_dh_def tdh_build_ke2_Ok_iff tdh_finish_ke_def split: if_splits)

lemma registration_export_key_length:
  assumes "hash_ok (cs_hash CS)" "client_registration_finish CS st pw resp params r = (Ok res, r')"
  shows "length (crf_export_key res) = hash_len (cs_hash CS)"
proof -
  from assms(2) obtain p h env cpk where
    "get_password_derived_key CS pw (creg_oprf_client st) (rsp_evaluation_element resp)
      (crp_ksf params) = Ok (p, h)"
    "seal (cs_hash CS) (cs_group CS) h (rsp_server_s_pk resp) (crp_identifiers params) r
       = (Ok (env, cpk, crf_export_key res), r')"
    by (auto simp: client_registration_finish_Ok_iff)
  then show ?thesis
    using hkdf_expand_length [OF get_password_derived_key_hkdf_ok [OF assms(1)]]
    by (auto simp: seal_Ok_iff)
qed

lemma login_export_key_length:
  assumes "hash_ok (cs_hash CS)" "client_login_finish CS cst pw cresp params r = (Ok res, r')"
  shows "length (clf_export_key res) = hash_len (cs_hash CS)"
proof -
  from assms(2) obtain p h env spk opened where
    "get_password_derived_key CS pw (cl_oprf_client cst) (crs_evaluation_element cresp)
      (clp_ksf params) = Ok (p, h)"
    "envelope_open (cs_hash CS) (cs_group CS) env h spk (clp_identifiers params) = Ok opened"
    "clf_export_key res = opened_export_key opened"
    by (auto simp: client_login_finish_def bind_st_Ok_iff split: if_splits)
  then show ?thesis
    using hkdf_expand_length [OF get_password_derived_key_hkdf_ok [OF assms(1)]]
    by (auto simp: open_Ok_iff)
qed

section \<open>The parameters of the server's last step\<close>

text \<open>
  \<open>ServerLogin::finish\<close> of 3DH looks at its parameters only for the length of the context, and that
  is its one error besides \<open>InvalidLoginError\<close>.
\<close>

lemma tdh_server_finish_parameters:
  "server_login_finish (tdh_suite P G dh H k) sst msg params =
     (if is_ok (serialized_context_from (slp_context params))
      then (if k2s_expected_mac (sl_ke2_state sst) = k3m_mac (cf_ke3_message msg)
            then Ok (k2s_session_key (sl_ke2_state sst)) else Err InvalidLoginError)
      else Err SerializationError)"
  by (cases "slp_context params")
     (auto simp: server_login_finish_def serialized_context_from_def triple_dh_def tdh_finish_ke_def
       i2osp_eq is_ok_def Let_def split: if_splits)

section \<open>A suite with two hashes\<close>

abbreviation mixed_suite where
  "mixed_suite \<equiv> tdh_suite (mini_oprf 32) mini_group mini_dh (mini_hash 2) ksf_identity"

lemma mixed_suite_parts:
  "oprf_ok (mini_oprf 32) (\<lambda>_. True) (\<lambda>_. True) \<and> dh_ok mini_group mini_dh (\<lambda>_. True) (\<lambda>_. True) \<and>
     hash_ok (mini_hash 2)"
  by (simp add: mini_oprf_ok mini_dh_ok mini_hash_ok)

lemma mixed_service:
  "server_setup_ok mixed_suite (\<lambda>_. True) (\<lambda>_. True) mini_setup_32"
  "service_ok mixed_suite mini_setup_32 {[49]} {[50]}"
  using mini_setup_32_ok mini_service_32 [of "{[49]}" "{[50]}"]
  by (simp_all add: server_setup_ok_def keypair_consistent_def service_ok_def mini_identifiers_def
      mini_passwords_def server_evaluation_def oprf_key_material_def oprf_key_from_key_material_def
      get_password_derived_key_def)

section \<open>Properties\<close>

text \<open>
  C29. The keys that OPAQUE-3DH hands out have fixed lengths: the session keys of both sides the output
  size of the hash of the key exchange, the export keys of registration and login that of the
  hash of the OPRF. The two hashes need not be the same.
\<close>

theorem key_lengths:
  fixes P :: "('e, 'oc) oprf_suite" and G :: "('sk, 'pk) ke_group" and dh H k
  defines "CS \<equiv> tdh_suite P G dh H k"
  assumes "hash_ok H" "hash_ok (oprf_hash P)"
    and "client_registration_finish CS st pw resp rparams r1 = (Ok reg, r1')"
    and "server_login_start CS SS pf creq cid slp r2 = (Ok (cresp, sst), r2')"
    and "client_login_finish CS cst pw' cresp' clp r3 = (Ok login, r3')"
    and "server_login_finish CS sst msg slp' = Ok key"
  shows "length (clf_session_key login) = hash_len H \<and> length key = hash_len H \<and>
    length (crf_export_key reg) = hash_len (oprf_hash P) \<and>
    length (clf_export_key login) = hash_len (oprf_hash P)"
proof (intro conjI)
  show "length (clf_session_key login) = hash_len H"
    using assms(6) tdh_client_key_length [OF assms(2)]
    by (auto simp: CS_def client_login_finish_def bind_st_Ok_iff split: if_splits)
  show "length key = hash_len H"
    using assms(5,7) tdh_server_key_length [OF assms(2)]
    by (auto simp: CS_def server_login_start_Ok_iff server_login_finish_def bind_result_Ok_iff)
  show "length (crf_export_key reg) = hash_len (oprf_hash P)"
    using registration_export_key_length [OF _ assms(4)] assms(3) by (simp add: CS_def)
  show "length (clf_export_key login) = hash_len (oprf_hash P)"
    using login_export_key_length [OF _ assms(6)] assms(3) by (simp add: CS_def)
qed

theorem key_lengths_witness:
  "\<exists>st resp reg r1' cst cresp login r3' sst key.
    client_registration_finish mixed_suite st [50] resp default_registration_parameters (counter_rng 0)
      = (Ok reg, r1') \<and>
    client_login_finish mixed_suite cst [50] cresp default_client_login_parameters (counter_rng 0)
      = (Ok login, r3') \<and>
    server_login_finish mixed_suite sst (clf_message login) default_server_login_parameters = Ok key \<and>
    length (clf_session_key login) = 2 \<and> length key = 2 \<and>
    length (crf_export_key reg) = 32 \<and> length (clf_export_key login) = 32"
proof -
  note honest = mixed_suite_parts mini_derive_total mixed_service
  have members: "[49] \<in> {[49 :: byte]}" "[50] \<in> {[50 :: byte]}"
    and ctx: "length (case (None :: bytes option) of Some x \<Rightarrow> x | None \<Rightarrow> []) < 65536" by simp_all
  obtain st resp reg r1' where
    reg: "client_registration_finish mixed_suite st [50] resp default_registration_parameters
      (counter_rng 0) = (Ok reg, r1')"
      "registered mixed_suite mini_setup_32 [49] [50] default_registration_parameters (crf_message reg)
        (crf_export_key reg)"
    using tdh_opaque.served_registration [OF honest members default_identifiers_fit, of "counter_rng 0"]
    unfolding default_registration_parameters_def by meson
  obtain cst creq cresp sst s s' login r3' where
    login: "server_login_start mixed_suite mini_setup_32 (Some (crf_message reg)) creq [49]
        default_server_login_parameters s = (Ok (cresp, sst), s')"
      "client_login_finish mixed_suite cst [50] cresp default_client_login_parameters (counter_rng 0)
        = (Ok login, r3')"
      "server_login_finish mixed_suite sst (clf_message login) default_server_login_parameters
        = Ok (clf_session_key login)"
    using tdh_opaque.served_login [OF honest members default_identifiers_fit ctx
        reg(2) [unfolded default_registration_parameters_def], of "counter_rng 0"]
    unfolding default_server_login_parameters_def default_client_login_parameters_def by meson
  from key_lengths [OF _ _ reg(1) login] reg(1) login(2,3) show ?thesis
    by (simp add: mini_hash_ok) blast
qed

end
