(* ===== verification/Outcomes.thy ===== *)
theory Outcomes
  imports Prelude
begin

text \<open>
  A calculus for the outcomes of fallible functions: \<open>yields E Q r\<close> says that \<open>r\<close> is not a panic,
  that its error satisfies \<open>E\<close> and its value \<open>Q\<close>; \<open>runs E Q m\<close> says the same of a state
  transformer from every state. The rules follow the combinators of \<open>Prelude\<close>, so that the outcome
  of an operation is read off its text; \<open>Robustness\<close> uses them for whole protocol steps.
\<close>

section \<open>Outcomes\<close>

definition yields :: "('e \<Rightarrow> bool) \<Rightarrow> ('a \<Rightarrow> bool) \<Rightarrow> ('e, 'a) result \<Rightarrow> bool" where
  "yields E Q r = (case r of Ok a \<Rightarrow> Q a | Err e \<Rightarrow> E e | Panic \<Rightarrow> False)"

definition runs :: "('e \<Rightarrow> bool) \<Rightarrow> ('a \<Rightarrow> bool) \<Rightarrow> ('s, 'e, 'a) st \<Rightarrow> bool" where
  "runs E Q m \<longleftrightarrow> (\<forall>s. yields E Q (fst (m s)))"

abbreviation any_error :: "'e \<Rightarrow> bool" where
  "any_error \<equiv> \<lambda>_. True"

abbreviation no_error :: "'e \<Rightarrow> bool" where
  "no_error \<equiv> \<lambda>_. False"

lemma yields_simps [simp]:
  "yields E Q (Ok a) = Q a" "yields E Q (Err e) = E e" "yields E Q Panic = False"
  by (simp_all add: yields_def)

lemma yieldsD:
  assumes "yields E Q r"
  shows "r \<noteq> Panic" "r = Ok a \<Longrightarrow> Q a" "r = Err e \<Longrightarrow> E e"
  using assms by (cases r; simp)+

lemma yields_no_errorE:
  assumes "yields no_error Q r"
  obtains a where "r = Ok a" "Q a"
  using assms that by (cases r) simp_all

lemma yields_mono:
  "yields E Q r \<Longrightarrow> (\<And>e. E e \<Longrightarrow> E' e) \<Longrightarrow> (\<And>a. Q a \<Longrightarrow> Q' a) \<Longrightarrow> yields E' Q' r"
  by (cases r) simp_all

lemma yieldsI_is_ok: "is_ok r \<Longrightarrow> yields E (\<lambda>_. True) r"
  by (auto simp: is_ok_def)

lemma yields_single_error:
  "yields (\<lambda>e. e = err) (\<lambda>_. True) r \<longleftrightarrow> r = Err err \<or> is_ok r"
  by (cases r) simp_all

lemma yields_any: "yields any_error (\<lambda>_. True) r \<longleftrightarrow> r \<noteq> Panic"
  by (cases r) simp_all

lemma yields_any_iff: "yields any_error Q r \<longleftrightarrow> r \<noteq> Panic \<and> (\<forall>a. r = Ok a \<longrightarrow> Q a)"
  by (cases r) simp_all

lemma yields_no_error_iff: "yields no_error Q r \<longleftrightarrow> (\<exists>a. r = Ok a \<and> Q a)"
  by (cases r) simp_all

lemma runsD: "runs E Q m \<Longrightarrow> yields E Q (fst (m s))"
  by (simp add: runs_def)

lemma runs_Ok: "runs E Q m \<Longrightarrow> m s = (Ok a, s') \<Longrightarrow> Q a"
  using runsD [of E Q m s] by simp

lemma runs_total: "(\<And>s. \<exists>a s'. m s = (Ok a, s')) \<Longrightarrow> runs no_error (\<lambda>_. True) m"
  unfolding runs_def yields_no_error_iff by (metis fst_conv)

lemma runs_mono:
  "runs E Q m \<Longrightarrow> (\<And>e. E e \<Longrightarrow> E' e) \<Longrightarrow> (\<And>a. Q a \<Longrightarrow> Q' a) \<Longrightarrow> runs E' Q' m"
  unfolding runs_def by (blast intro: yields_mono)

section \<open>Rules\<close>

named_theorems outcome_intros \<open>rules for the outcomes of the combinators\<close>

lemma yields_bind [outcome_intros]:
  "yields E P r \<Longrightarrow> (\<And>a. P a \<Longrightarrow> yields E Q (f a)) \<Longrightarrow> yields E Q (bind_result r f)"
  by (cases r) simp_all

lemma yields_map_err [outcome_intros]: "yields (\<lambda>e. E (f e)) Q r \<Longrightarrow> yields E Q (map_err f r)"
  by (cases r) simp_all

lemma yields_map_err_any: "yields any_error Q r \<Longrightarrow> yields any_error Q (map_err f r)"
  by (rule yields_map_err)

lemma yields_ok_or [outcome_intros]:
  "(x = None \<Longrightarrow> E e) \<Longrightarrow> (\<And>a. x = Some a \<Longrightarrow> Q a) \<Longrightarrow> yields E Q (ok_or e x)"
  by (cases x) simp_all

lemma yields_if [outcome_intros]:
  "(c \<Longrightarrow> yields E Q x) \<Longrightarrow> (\<not> c \<Longrightarrow> yields E Q y) \<Longrightarrow> yields E Q (if c then x else y)"
  by simp

lemma runs_if [outcome_intros]:
  "(c \<Longrightarrow> runs E Q x) \<Longrightarrow> (\<not> c \<Longrightarrow> runs E Q y) \<Longrightarrow> runs E Q (if c then x else y)"
  by simp

lemma yields_eval [outcome_intros]: "runs E Q m \<Longrightarrow> yields E Q (eval_st m s)"
  by (simp add: eval_st_def runsD)

lemma runs_return [outcome_intros]: "Q a \<Longrightarrow> runs E Q (return_st a)"
  by (simp add: runs_def)

lemma runs_lift [outcome_intros]: "yields E Q r \<Longrightarrow> runs E Q (lift_st r)"
  by (simp add: runs_def)

lemma runs_run [outcome_intros]: "(\<And>s. Q (fst (m s))) \<Longrightarrow> runs E Q (run_st m)"
  by (simp add: runs_def run_st_def split_beta)

lemma runs_map_err [outcome_intros]: "runs (\<lambda>e. E (f e)) Q m \<Longrightarrow> runs E Q (map_err_st f m)"
  by (auto simp: runs_def map_err_st_def split_beta intro: yields_map_err)

lemma runs_map_err_any: "runs any_error Q m \<Longrightarrow> runs any_error Q (map_err_st f m)"
  by (rule runs_map_err)

lemma runs_bind [outcome_intros]:
  assumes "runs E P m" "\<And>a. P a \<Longrightarrow> runs E Q (f a)"
  shows "runs E Q (bind_st m f)"
proof -
  have "yields E Q (fst (bind_st m f s))" for s
  proof (cases "m s")
    case (Pair r s')
    with assms runsD [OF assms(1), of s] show ?thesis
      by (cases r) (simp_all add: bind_st_def runsD)
  qed
  then show ?thesis by (simp add: runs_def)
qed

lemma runsI: "(\<And>s. yields E Q (fst (m s))) \<Longrightarrow> runs E Q m"
  by (simp add: runs_def)

text \<open>A first part that cannot fail, or that has a known value.\<close>

lemma bind_lift_Ok: "bind_st (lift_st (Ok a)) f = f a"
  by (simp add: fun_eq_iff)

lemma runs_no_error: "runs no_error Q m \<Longrightarrow> runs E Q m"
  by (erule runs_mono) simp_all

lemma yields_no_error: "yields no_error Q r \<Longrightarrow> yields E Q r"
  by (erule yields_mono) simp_all

lemmas runs_bind_total = runs_bind [OF runs_no_error]
lemmas yields_bind_total = yields_bind [OF yields_no_error]
lemmas runs_bind_lift_total = runs_bind [OF runs_lift [OF yields_no_error]]

end
