(* ===== verification/Robust_Exchange.thy ===== *)
theory Robust_Exchange
  imports Outcomes Triple_Dh_Kem Ed25519
begin

text \<open>
  What the steps of a key exchange do with messages that no honest party made: the locale
  \<open>robust_key_exchange\<close> adds to the contract of \<open>Key_Exchange\<close> that deserializers and steps end with
  a value or an error and never panic, that what they read is well formed, and that the client's
  last step has one error only. \<open>Triple_Dh\<close>, \<open>Triple_Dh_Kem\<close> and \<open>Sigma_I\<close> interpret it, from
  contracts of the KEM and of the signature protocol that \<open>ml_kem_wrapper\<close>, EdDSA and ECDSA
  provide.
\<close>

section \<open>Contract\<close>

text \<open>A deserializer yields well-formed values or errors, on every input.\<close>

definition parses :: "('a \<Rightarrow> bool) \<Rightarrow> (bytes, protocol_error, 'a) st \<Rightarrow> bool" where
  "parses ok dec \<longleftrightarrow> runs any_error ok dec"

locale robust_key_exchange = key_exchange_protocol +
  fixes live :: bool
  assumes k1s_parses: "trusted \<Longrightarrow> parses ok_k1s (wire_deserialize_take (ke1_state_wire KE))"
    and k1m_parses: "trusted \<Longrightarrow> parses ok_k1m (wire_deserialize_take (ke1_message_wire KE))"
    and k2s_parses: "trusted \<Longrightarrow> parses ok_k2s (wire_deserialize_take (ke2_state_wire KE))"
    and k2m_parses: "trusted \<Longrightarrow> parses ok_k2m (wire_deserialize_take (ke2_message_wire KE))"
    and k3m_parses: "trusted \<Longrightarrow> parses ok_k3m (wire_deserialize_take (ke3_message_wire KE))"
    and ke1_outcomes: "trusted \<Longrightarrow> live \<Longrightarrow> runs no_error (\<lambda>_. True) (generate_ke1 KE)"
    and ke2_outcomes: "trusted \<Longrightarrow> live \<Longrightarrow> ok_k1m m1 \<Longrightarrow>
          runs any_error (\<lambda>b. \<forall>s_sk r. yields no_error (\<lambda>_. True)
            (build_ke2 KE b (fst (generate_ke2_input KE b s_sk r))))
            (ke2_builder KE req m1 resp cpk sids ctx)"
    and ke3_outcomes: "trusted \<Longrightarrow> ok_k2m m2 \<Longrightarrow>
          runs (\<lambda>e. e = InvalidLoginError) (\<lambda>_. True)
            (generate_ke3 KE req m1 resp st1 m2 spk csk sids ctx)"
    and finish_outcomes: "trusted \<Longrightarrow>
          yields any_error (\<lambda>_. True) (finish_ke KE st2 m3 ids ctx)"

section \<open>Shared parts\<close>

lemma parses_take_array: "parses (\<lambda>xs. length xs = L) (take_array L name)"
  unfolding parses_def by (rule runsI) (simp add: take_array_def min_def)

lemma parses_return: "ok a \<Longrightarrow> parses ok (return_st a)"
  by (simp add: parses_def runs_return)

lemma parses_lift: "yields any_error ok r \<Longrightarrow> parses ok (lift_st r)"
  by (simp add: parses_def runs_lift)

lemma parses_bind:
  "parses ok m \<Longrightarrow> (\<And>a. ok a \<Longrightarrow> parses ok' (f a)) \<Longrightarrow> parses ok' (bind_st m f)"
  unfolding parses_def by (rule runs_bind)

lemma parses_mono: "parses ok m \<Longrightarrow> (\<And>a. ok a \<Longrightarrow> ok' a) \<Longrightarrow> parses ok' m"
  unfolding parses_def by (erule runs_mono) simp_all

lemma parses_eval: "parses ok m \<Longrightarrow> yields any_error ok (eval_st m s)"
  by (simp add: parses_def yields_eval)

lemmas parses_intros = parses_bind parses_take_array parses_return

text \<open>Keys of a group.\<close>

lemma parses_pk: "group_ok G wf_sk wf_pk \<Longrightarrow> parses wf_pk (deserialize_take_pk G)"
  unfolding parses_def runs_def yields_any_iff
  by (metis any_group.pk_no_panic any_group.pk_sound prod.collapse)

lemma parses_sk: "group_ok G wf_sk wf_pk \<Longrightarrow> parses wf_sk (deserialize_take_sk G)"
  unfolding parses_def runs_def yields_any_iff
  by (metis any_group.sk_no_panic any_group.sk_sound prod.collapse)

lemma parses_ke1_state:
  "group_ok G wf_sk wf_pk \<Longrightarrow> parses (ke1_state_ok wf_sk) (ke1_state_deserialize_take G)"
  unfolding ke1_state_deserialize_take_def key_defs
  by (rule parses_bind [OF parses_sk] parses_intros | assumption | simp add: ke1_state_ok_def)+

lemma parses_ke1_message:
  "group_ok G wf_sk wf_pk \<Longrightarrow> parses (ke1_message_ok wf_pk) (ke1_message_deserialize_take G)"
  unfolding ke1_message_deserialize_take_def key_defs
  by (rule parses_bind [OF parses_pk] parses_intros | assumption | simp add: ke1_message_ok_def)+

lemma parses_ke2_state: "parses (ke2_state_ok H) (ke2_state_deserialize_take H)"
  unfolding ke2_state_deserialize_take_def
  by (rule parses_intros | simp add: ke2_state_ok_def)+

lemma parses_ke2_message:
  "group_ok G wf_sk wf_pk \<Longrightarrow> parses (ke2_message_ok H wf_pk) (ke2_message_deserialize_take G H)"
  unfolding ke2_message_deserialize_take_def key_defs
  by (rule parses_bind [OF parses_take_array] parses_bind [OF parses_pk] parses_return
      | assumption | simp add: ke2_message_ok_def)+

lemma parses_ke3_message: "parses (ke3_message_ok H) (ke3_message_deserialize_take H)"
  unfolding ke3_message_deserialize_take_def
  by (rule parses_intros | simp add: ke3_message_ok_def)+


text \<open>The first steps of both sides, and the key schedule.\<close>

lemma shared_generate_ke1_outcome:
  assumes "derive_total G"
  shows "runs no_error (\<lambda>_. True) (shared_generate_ke1 G)"
  using generate_ke1_total [OF assms] by (intro runs_total) fast

lemma ke2_builder_common_outcome:
  assumes "derive_total G"
  shows "runs no_error (\<lambda>_. True) (shared_ke2_builder_common G dh req m1 resp cpk sids ctx)"
  using ke2_builder_common_total [OF assms] by (intro runs_total) fast

lemma derive_keys_outcome:
  assumes "hash_ok H"
  shows "yields no_error (\<lambda>_. True) (derive_keys H ikms (hash_digest H th))"
  using derive_keys_total [OF assms hash_okD(3) [OF assms]] by (simp add: yields_no_error_iff)

lemma finalize_ke3_outcome:
  assumes "hash_ok H"
  shows "yields (\<lambda>e. e = InvalidLoginError) (\<lambda>_. True)
    (eval_st (finalize_ke3_transcript H ss smac) th)"
proof -
  have "length (hash_digest H th) = hash_len H" using assms by (rule hash_okD)
  with derive_keys_total [OF assms] obtain dk where
    dk: "derive_keys H ss (hash_digest H th) = Ok dk" by metis
  obtain mac em where
    mac: "compute_ke2_macs H dk (hash_digest H th) th = (Ok (mac, em), th @ mac)"
    using compute_ke2_macs_total [OF assms] by metis
  show ?thesis
    using finalize_ke3_agrees [OF dk mac] finalize_ke3_rejects [OF dk mac, of smac]
    by (cases "smac = mac") (auto simp: eval_st_def)
qed

section \<open>3DH\<close>

lemma tdh_ke3_outcome:
  assumes "hash_ok H"
  shows "runs (\<lambda>e. e = InvalidLoginError) (\<lambda>_. True)
    (tdh_generate_ke3 G dh H req m1 resp st m2 spk csk sids ctx)"
  unfolding tdh_generate_ke3_def Let_def
  by (intro runs_bind [OF runs_lift [OF finalize_ke3_outcome [OF assms]]])
     (auto intro: runs_return)

interpretation robust_tdh: robust_key_exchange "triple_dh G dh H"
  "dh_ok G dh wf_sk wf_pk \<and> hash_ok H" ne OH wf_sk wf_pk
  "ke1_state_ok wf_sk" "ke1_message_ok wf_pk" "ke2_state_ok H" "ke2_message_ok H wf_pk"
  "ke3_message_ok H" "derive_total G"
  for G :: "('sk, 'pk) ke_group" and dh H wf_sk wf_pk and ne :: nat and OH :: hash_fns
proof (intro robust_key_exchange.intro robust_key_exchange_axioms.intro
    tdh.key_exchange_protocol_axioms, goal_cases)
  case 1
  then show ?case by (auto simp: triple_dh_def intro: parses_ke1_state dh_ok_group_ok)
next
  case 2
  then show ?case by (auto simp: triple_dh_def intro: parses_ke1_message dh_ok_group_ok)
next
  case 3
  show ?case by (simp add: triple_dh_def parses_ke2_state)
next
  case 4
  then show ?case by (auto simp: triple_dh_def intro: parses_ke2_message dh_ok_group_ok)
next
  case 5
  show ?case by (simp add: triple_dh_def parses_ke3_message)
next
  case 6
  then show ?case
    by (simp add: triple_dh_def tdh_generate_ke1_def shared_generate_ke1_outcome)
next
  case (7 m1 req resp cpk sids ctx)
  then have build: "yields no_error (\<lambda>_. True) (tdh_build_ke2 H b input)" for b input
    using tdh_build_ke2_total [of H b input] by (simp add: yields_no_error_iff)
  show ?case
    by (auto simp: triple_dh_def tdh_ke2_builder_def build
        intro!: runs_bind_total [OF ke2_builder_common_outcome [OF 7(2)]] runs_return)
next
  case 8
  then show ?case by (simp add: triple_dh_def tdh_ke3_outcome)
next
  case 9
  show ?case by (auto simp: triple_dh_def tdh_finish_ke_def intro: yields_ok_or)
qed

section \<open>3DH with a KEM\<close>

text \<open>Deserialized keys are keys, and decapsulation takes every ciphertext of the right length.\<close>

locale robust_kem = kem_contract +
  assumes ek_parses: "trusted \<Longrightarrow> parses wf_ek (deserialize_encapsulation_key K)"
    and dk_parses: "trusted \<Longrightarrow> parses wf_dk (deserialize_decapsulation_key K)"
    and decapsulate_total: "trusted \<Longrightarrow> length ct = ct_len K \<Longrightarrow>
          yields no_error (\<lambda>_. True) (kem_decapsulate K dk ct)"

definition kem_robust ::
    "('dk, 'ek) kem_core_wrapper \<Rightarrow> ('dk \<Rightarrow> bool) \<Rightarrow> ('ek \<Rightarrow> bool) \<Rightarrow> bool" where
  "kem_robust K wf_dk wf_ek \<longleftrightarrow> robust_kem K True wf_dk wf_ek"

lemma kem_robust_ok: "kem_robust K wf_dk wf_ek \<Longrightarrow> kem_ok K wf_dk wf_ek"
  by (simp add: kem_robust_def kem_ok_def robust_kem_def)

interpretation any_robust_kem: robust_kem K "kem_robust K wf_dk wf_ek" wf_dk wf_ek
  for K :: "('dk, 'ek) kem_core_wrapper" and wf_dk wf_ek
proof (cases "kem_robust K wf_dk wf_ek")
  case True
  then have "robust_kem K True wf_dk wf_ek" by (simp add: kem_robust_def)
  with True show "robust_kem K (kem_robust K wf_dk wf_ek) wf_dk wf_ek" by simp
qed (unfold_locales, simp_all)

lemma array_try_from_outcome:
  "yields any_error (\<lambda>x. length x = n) (array_try_from n bs)"
  by (simp add: array_try_from_def)

text \<open>
  The validation of \<open>ml-kem\<close>: \<open>TryKeyInit::new\<close> returns a key of the type, and every seed has a
  decapsulation key.
\<close>

definition ml_kem_validates :: "('dk, 'ek) ml_kem \<Rightarrow> ('dk \<Rightarrow> bool) \<Rightarrow> ('ek \<Rightarrow> bool) \<Rightarrow> bool" where
  "ml_kem_validates M wf_dk wf_ek \<longleftrightarrow>
     (\<forall>bs ek. length bs = mk_ek_len M \<longrightarrow> ek_try_new M bs = Some ek \<longrightarrow> wf_ek ek) \<and>
     (\<forall>seed. length seed = mk_dk_len M \<longrightarrow> wf_dk (dk_new M seed))"

interpretation robust_ml_kem: robust_kem "ml_kem_wrapper M"
  "ml_kem_ok M wf_dk wf_ek \<and> ml_kem_validates M wf_dk wf_ek" wf_dk wf_ek
  for M :: "('dk, 'ek) ml_kem" and wf_dk wf_ek
proof (cases "ml_kem_ok M wf_dk wf_ek \<and> ml_kem_validates M wf_dk wf_ek")
  case True
  then have ok: "ml_kem_ok M wf_dk wf_ek" and val: "ml_kem_validates M wf_dk wf_ek" by simp_all
  have "robust_kem (ml_kem_wrapper M) True wf_dk wf_ek"
  proof (intro robust_kem.intro robust_kem_axioms.intro, goal_cases)
    case 1
    show ?case using ml_kem.kem_contract_axioms [of M wf_dk wf_ek] ok by simp
  next
    case 2
    from val show ?case
      by (auto simp: ml_kem_wrapper_def ml_kem_deserialize_encapsulation_key_def
          ml_kem_validates_def intro!: parses_bind [OF parses_take_array]
          parses_bind [OF parses_lift [OF array_try_from_outcome]] parses_lift yields_ok_or)
  next
    case 3
    from val show ?case
      by (auto simp: ml_kem_wrapper_def ml_kem_deserialize_decapsulation_key_def
          ml_kem_validates_def intro!: parses_bind [OF parses_take_array]
          parses_bind [OF parses_lift [OF array_try_from_outcome]] parses_return)
  next
    case (4 ct dk)
    then show ?case by (simp add: ml_kem_defs)
  qed
  with True show "robust_kem (ml_kem_wrapper M)
    (ml_kem_ok M wf_dk wf_ek \<and> ml_kem_validates M wf_dk wf_ek) wf_dk wf_ek" by simp
qed (unfold_locales, simp_all)


lemma parses_kem_ke1_state:
  assumes "group_ok G wf_sk wf_pk" "parses wf_dk (deserialize_decapsulation_key K)"
  shows "parses (kem_ke1_state_ok wf_sk wf_dk) (kem_ke1_state_deserialize_take G K)"
  unfolding kem_ke1_state_deserialize_take_def
  by (rule parses_bind [OF parses_ke1_state] parses_bind [OF assms(2)] parses_return assms(1)
      | simp add: kem_ke1_state_ok_def)+

lemma parses_kem_ke1_message:
  "group_ok G wf_sk wf_pk \<Longrightarrow>
     parses (kem_ke1_message_ok K wf_pk) (kem_ke1_message_deserialize_take G K)"
  unfolding kem_ke1_message_deserialize_take_def
  by (rule parses_bind [OF parses_ke1_message] parses_intros
      | assumption | simp add: kem_ke1_message_ok_def)+

lemma parses_kem_ke2_state: "parses (kem_ke2_state_ok H K) (kem_ke2_state_deserialize_take H K)"
  unfolding kem_ke2_state_deserialize_take_def
  by (rule parses_bind [OF parses_ke2_state] parses_intros | simp add: kem_ke2_state_ok_def)+

lemma parses_kem_ke2_message:
  "group_ok G wf_sk wf_pk \<Longrightarrow>
     parses (kem_ke2_message_ok H K wf_pk) (kem_ke2_message_deserialize_take G H K)"
  unfolding kem_ke2_message_deserialize_take_def
  by (rule parses_bind [OF parses_ke2_message] parses_intros
      | assumption | simp add: kem_ke2_message_ok_def)+

lemma kem_ke3_outcome:
  assumes "hash_ok H" "yields no_error (\<lambda>_. True)
    (kem_decapsulate K (kem_decapsulation_key st) (kk2m_ciphertext m2))"
  shows "runs (\<lambda>e. e = InvalidLoginError) (\<lambda>_. True)
    (kem_generate_ke3 G dh H K req m1 resp st m2 spk csk sids ctx)"
  unfolding kem_generate_ke3_def Let_def
  by (rule runs_bind_lift_total [OF assms(2)],
      rule runs_bind [OF runs_lift [OF finalize_ke3_outcome [OF assms(1)]]])
     (auto intro: runs_return)

text \<open>The server's first step: a client's encapsulation key may be refused, nothing else fails.\<close>

lemma kem_ke2_builder_outcome:
  assumes K: "kem_robust K wf_dk wf_ek" and "derive_total G"
  shows "runs any_error (\<lambda>_. True) (kem_ke2_builder G dh K req m1 resp cpk sids ctx)"
proof -
  have enc: "runs no_error (\<lambda>_. True) (kem_encapsulate K ek)" if "wf_ek ek" for ek
    using any_kem.encapsulate_total [OF kem_robust_ok [OF K] that] by (intro runs_total) fast
  have ek: "yields any_error wf_ek (eval_st (deserialize_encapsulation_key K) bs)" for bs
    using any_robust_kem.ek_parses [OF K] by (rule parses_eval)
  show ?thesis
    unfolding kem_ke2_builder_def Let_def
    by (rule runs_bind_total [OF ke2_builder_common_outcome [OF assms(2)]],
        rule runs_bind [OF runs_lift [OF ek]], rule runs_bind_total [OF enc])
       (auto intro: runs_return)
qed

lemma kem_generate_ke1_outcome:
  assumes K: "kem_robust K wf_dk wf_ek" and "derive_total G"
  shows "runs no_error (\<lambda>_. True) (kem_generate_ke1 G K)"
proof -
  have gen: "runs no_error (\<lambda>_. True) (kem_generate K)"
    using any_kem.generate_total [OF kem_robust_ok [OF K]] by (intro runs_total) fast
  show ?thesis
    unfolding kem_generate_ke1_def tdh_generate_ke1_def Let_def
    by (rule runs_bind_total [OF shared_generate_ke1_outcome [OF assms(2)]], clarsimp,
        rule runs_bind_total [OF gen]) (auto intro: runs_return)
qed

interpretation robust_tdh_kem: robust_key_exchange "triple_dh_kem G dh H K"
  "dh_ok G dh wf_sk wf_pk \<and> hash_ok H \<and> kem_robust K wf_dk wf_ek" ne OH wf_sk wf_pk
  "kem_ke1_state_ok wf_sk wf_dk" "kem_ke1_message_ok K wf_pk" "kem_ke2_state_ok H K"
  "kem_ke2_message_ok H K wf_pk" "ke3_message_ok H" "derive_total G"
  for G :: "('sk, 'pk) ke_group" and dh H and K :: "('dk, 'ek) kem_core_wrapper"
    and wf_sk wf_pk wf_dk wf_ek and ne :: nat and OH :: hash_fns
proof (cases "dh_ok G dh wf_sk wf_pk \<and> hash_ok H \<and> kem_robust K wf_dk wf_ek")
  case True
  then have G: "group_ok G wf_sk wf_pk" and H: "hash_ok H" and K: "kem_robust K wf_dk wf_ek"
    by (auto intro: dh_ok_group_ok)
  have "robust_key_exchange (triple_dh_kem G dh H K) True ne OH wf_sk wf_pk
    (kem_ke1_state_ok wf_sk wf_dk) (kem_ke1_message_ok K wf_pk) (kem_ke2_state_ok H K)
    (kem_ke2_message_ok H K wf_pk) (ke3_message_ok H) (derive_total G)"
  proof (intro robust_key_exchange.intro robust_key_exchange_axioms.intro, goal_cases)
    case 1
    show ?case
      using tdh_kem.key_exchange_protocol_axioms [of G dh H K wf_sk wf_pk wf_dk wf_ek ne OH]
        True kem_robust_ok [OF K] by simp
  next
    case 2
    show ?case using parses_kem_ke1_state [OF G any_robust_kem.dk_parses [OF K]]
      by (simp add: triple_dh_kem_def)
  next
    case 3
    show ?case using parses_kem_ke1_message [OF G] by (simp add: triple_dh_kem_def)
  next
    case 4
    show ?case by (simp add: triple_dh_kem_def parses_kem_ke2_state)
  next
    case 5
    show ?case using parses_kem_ke2_message [OF G] by (simp add: triple_dh_kem_def)
  next
    case 6
    show ?case by (simp add: triple_dh_kem_def parses_ke3_message)
  next
    case 7
    then show ?case by (simp add: triple_dh_kem_def kem_generate_ke1_outcome [OF K])
  next
    case (8 m1 req resp cpk sids ctx)
    have build: "yields no_error (\<lambda>_. True) (kem_build_ke2 H b input)" for b input
      using kem_build_ke2_total [OF H] by (rule yieldsI_is_ok)
    show ?case
      using kem_ke2_builder_outcome [OF K 8(2)] by (simp add: triple_dh_kem_def build)
  next
    case (9 m2 req m1 resp st1 spk csk sids ctx)
    then have "length (kk2m_ciphertext m2) = ct_len K" by (simp add: kem_ke2_message_ok_def)
    then show ?case
      using kem_ke3_outcome [OF H any_robust_kem.decapsulate_total [OF K]]
      by (simp add: triple_dh_kem_def)
  next
    case 10
    show ?case by (auto simp: triple_dh_kem_def kem_finish_ke_def intro: yields_ok_or)
  qed
  with True show "robust_key_exchange (triple_dh_kem G dh H K)
    (dh_ok G dh wf_sk wf_pk \<and> hash_ok H \<and> kem_robust K wf_dk wf_ek) ne OH wf_sk wf_pk
    (kem_ke1_state_ok wf_sk wf_dk) (kem_ke1_message_ok K wf_pk) (kem_ke2_state_ok H K)
    (kem_ke2_message_ok H K wf_pk) (ke3_message_ok H) (derive_total G)" by simp
qed (unfold_locales, simp_all)


section \<open>SIGMA-I\<close>

text \<open>
  What is read is a signature or a verification state, and the only way for a signature to be
  refused is \<open>InvalidLoginError\<close>.
\<close>

locale robust_signature = signature_scheme +
  assumes sig_parses: "trusted \<Longrightarrow> parses wf_sig (deserialize_take_signature SP)"
    and vs_parses: "trusted \<Longrightarrow> parses wf_vs (wire_deserialize_take (verify_state_wire SP))"
    and verify_outcomes: "trusted \<Longrightarrow>
          yields (\<lambda>e. e = InvalidLoginError) (\<lambda>_. True) (sig_verify SP pk builder vs sg)"

definition signature_robust ::
    "('sk, 'pk, 'sig, 'vs) signature_protocol \<Rightarrow> ('sk \<Rightarrow> bool) \<Rightarrow> ('pk \<Rightarrow> bool) \<Rightarrow> ('sig \<Rightarrow> bool) \<Rightarrow>
     ('vs \<Rightarrow> bool) \<Rightarrow> (message \<Rightarrow> bool) \<Rightarrow> bool" where
  "signature_robust SP wf_sk wf_pk wf_sig wf_vs msg_ok \<longleftrightarrow>
     robust_signature SP True wf_sk wf_pk wf_sig wf_vs msg_ok"

lemma signature_robust_ok:
  "signature_robust SP wf_sk wf_pk wf_sig wf_vs msg_ok \<Longrightarrow>
     signature_ok SP wf_sk wf_pk wf_sig wf_vs msg_ok"
  by (simp add: signature_robust_def signature_ok_def robust_signature_def)

interpretation any_robust_sig: robust_signature SP
  "signature_robust SP wf_sk wf_pk wf_sig wf_vs msg_ok" wf_sk wf_pk wf_sig wf_vs msg_ok
  for SP :: "('sk, 'pk, 'sig, 'vs) signature_protocol" and wf_sk wf_pk wf_sig wf_vs msg_ok
proof (cases "signature_robust SP wf_sk wf_pk wf_sig wf_vs msg_ok")
  case True
  then have "robust_signature SP True wf_sk wf_pk wf_sig wf_vs msg_ok"
    by (simp add: signature_robust_def)
  with True show "robust_signature SP (signature_robust SP wf_sk wf_pk wf_sig wf_vs msg_ok)
    wf_sk wf_pk wf_sig wf_vs msg_ok" by simp
qed (intro robust_signature.intro signature_scheme.intro robust_signature_axioms.intro, simp_all)

text \<open>ECDSA and both variants of EdDSA.\<close>

lemma parses_pre_hash: "parses (\<lambda>x. length x = n) (pre_hash_deserialize_take n)"
  unfolding pre_hash_deserialize_take_def by (rule parses_take_array)

interpretation robust_ecdsa: robust_signature "ecdsa C E SH" "ecdsa_ok C E SH" "\<lambda>_. True"
  "\<lambda>_. True" "\<lambda>_. True" "\<lambda>x. length x = hash_len SH" msg_ok
  for C :: "('sc, 'nz, 'sk, 'pt) curve_arithmetic" and E :: "('nz, 'pt, 'sig) ecdsa_fns" and SH
    and msg_ok
proof (intro robust_signature.intro robust_signature_axioms.intro ecdsa.signature_scheme_axioms,
    goal_cases)
  case 1
  show ?case
    by (auto simp: ecdsa_def ecdsa_deserialize_take_signature_def
        intro!: parses_bind [OF parses_take_array] parses_lift yields_ok_or)
next
  case 2
  show ?case by (simp add: ecdsa_def parses_pre_hash)
next
  case 3
  show ?case by (simp add: ecdsa_def ecdsa_verify_def)
qed

lemma parses_ed_signature: "parses ed_signature_ok (ed_signature_deserialize_take E)"
  unfolding ed_signature_deserialize_take_def
  by (rule parses_bind [OF parses_take_array], rule parses_bind [OF parses_take_array],
      rule parses_bind [OF parses_lift [OF yields_ok_or [where Q = "\<lambda>_. True"]]])
     (simp_all add: parses_return ed_signature_ok_def)

lemma ed_verify_outcome:
  "yields (\<lambda>e. e = InvalidLoginError) (\<lambda>_. True) (ed_verify E pk ph m sg)"
  by (simp add: ed_verify_def Let_def)

lemma parses_masked_response: "parses (masked_response_ok H G) (masked_response_deserialize_take H G)"
  unfolding masked_response_deserialize_take_def
  by (rule parses_intros | simp add: masked_response_ok_def)+

lemma parses_credential_response:
  "parses (serialized_credential_response_ok ne H G)
     (serialized_credential_response_deserialize_take ne H G)"
  unfolding serialized_credential_response_deserialize_take_def
  by (rule parses_bind [OF parses_masked_response] parses_intros
      | simp add: serialized_credential_response_ok_def)+

lemma parses_ke1_message_iter: "parses (ke1_message_iter_ok G) (ke1_message_iter_deserialize_take G)"
  unfolding ke1_message_iter_deserialize_take_def
  by (rule parses_intros | simp add: ke1_message_iter_ok_def)+

lemma parses_cached_message:
  "parses (cached_message_ok ne OH G KG H) (cached_message_deserialize_take ne OH G KG H)"
  unfolding cached_message_deserialize_take_def serialized_credential_request_deserialize_take_def
  by (rule parses_bind [OF parses_credential_response] parses_bind [OF parses_ke1_message_iter]
      parses_bind [OF parses_take_array] parses_return | simp add: cached_message_ok_def)+


interpretation robust_ed_pure: robust_signature "pure_eddsa (ed25519_pure E) ne OH KG H"
  "edwards_ok E" "ed_sk_ok E" "ed_pk_ok E" ed_signature_ok
  "cached_message_ok ne OH (ed25519 E) KG H"
  "\<lambda>m. cached_message_ok ne OH (ed25519 E) KG H (msg_cache m)"
  for E :: "('sc, 'pt) edwards" and ne OH and KG :: "('esk, 'epk) ke_group" and H
proof (intro robust_signature.intro robust_signature_axioms.intro ed_pure.signature_scheme_axioms,
    goal_cases)
  case 1
  show ?case by (simp add: pure_eddsa_def ed25519_pure_def parses_ed_signature)
next
  case 2
  show ?case by (simp add: pure_eddsa_def ed25519_pure_def parses_cached_message)
next
  case 3
  show ?case
    by (simp add: pure_eddsa_def ed25519_pure_def ed_pure_verify_def ed_verify_outcome)
qed

interpretation robust_ed_hash: robust_signature "hash_eddsa (ed25519_hash E)" "edwards_ok E"
  "ed_sk_ok E" "ed_pk_ok E" ed_signature_ok "\<lambda>x. length x = 64" msg_ok
  for E :: "('sc, 'pt) edwards" and msg_ok
proof (intro robust_signature.intro robust_signature_axioms.intro ed_hash.signature_scheme_axioms,
    goal_cases)
  case 1
  show ?case by (simp add: hash_eddsa_def ed25519_hash_def parses_ed_signature)
next
  case 2
  show ?case by (simp add: hash_eddsa_def ed25519_hash_def parses_pre_hash)
next
  case 3
  show ?case by (simp add: hash_eddsa_def ed25519_hash_def ed_hash_verify_def ed_verify_outcome)
qed

text \<open>The steps.\<close>

lemma identifier_mac_outcome:
  assumes "hash_ok H"
  shows "yields no_error (\<lambda>_. True) (identifier_mac H k idt)"
proof -
  obtain f where "hmac_new_from_slice H k = Some f" using assms by (rule hmac_new_ok)
  then show ?thesis by (simp add: identifier_mac_def)
qed

lemma from_identifier_outcome: "yields any_error (\<lambda>_. True) (from_identifier idt pk)"
  by (auto simp: from_identifier_def yields_any_iff bind_result_Panic_iff split: option.split)

lemma parses_sigma_ke2_state:
  assumes "signature_robust SP wf_sk wf_pk wf_sig wf_vs msg_ok"
  shows "parses (sigma_ke2_state_ok H wf_pk wf_vs) (sigma_ke2_state_deserialize_take SP H)"
proof -
  note pk = parses_pk [OF any_sig.sig_keys [OF signature_robust_ok [OF assms]]]
  show ?thesis unfolding sigma_ke2_state_deserialize_take_def key_defs
    by (rule parses_bind [OF pk], rule parses_bind [OF parses_take_array],
        rule parses_bind [OF any_robust_sig.vs_parses [OF assms]],
        rule parses_bind [OF parses_take_array])
       (simp add: parses_return sigma_ke2_state_ok_def)
qed

lemma parses_sigma_ke2_message:
  assumes "signature_robust SP wf_sk wf_pk wf_sig wf_vs msg_ok" "group_ok KG wf_esk wf_epk"
  shows "parses (sigma_ke2_message_ok H wf_epk wf_sig) (sigma_ke2_message_deserialize_take SP KG H)"
  unfolding sigma_ke2_message_deserialize_take_def key_defs
  by (rule parses_bind [OF parses_take_array], rule parses_bind [OF parses_pk [OF assms(2)]],
      rule parses_bind [OF any_robust_sig.sig_parses [OF assms(1)]],
      rule parses_bind [OF parses_take_array])
     (simp add: parses_return sigma_ke2_message_ok_def)

lemma parses_sigma_ke3_message:
  assumes "signature_robust SP wf_sk wf_pk wf_sig wf_vs msg_ok"
  shows "parses (sigma_ke3_message_ok H wf_sig) (sigma_ke3_message_deserialize_take SP H)"
  unfolding sigma_ke3_message_deserialize_take_def
  by (rule parses_bind [OF any_robust_sig.sig_parses [OF assms]],
      rule parses_bind [OF parses_take_array])
     (simp add: parses_return sigma_ke3_message_ok_def)

lemma sigma_ke2_builder_outcome:
  assumes "hash_ok H" "derive_total KG"
  shows "runs any_error (\<lambda>_. True) (sigma_ke2_builder KG dh H req m1 resp cpk sids ctx)"
proof -
  have kp: "runs no_error (\<lambda>_. True) (keypair_derive_random KG)"
    using keypair_derive_random_total [OF assms(2)] by (intro runs_total) metis
  have nonce: "runs no_error (\<lambda>_. True) (run_st generate_nonce)" by (rule runs_run) simp
  show ?thesis
    unfolding sigma_ke2_builder_def Let_def
    by (rule runs_bind_total [OF kp], rule runs_bind_total [OF nonce],
        rule runs_bind_lift_total [OF derive_keys_outcome [OF assms(1)]],
        rule runs_bind_lift_total [OF identifier_mac_outcome [OF assms(1)]],
        rule runs_bind_lift_total [OF identifier_mac_outcome [OF assms(1)]])
       (simp add: runs_return)
qed

lemma sigma_ke3_outcome:
  assumes "hash_ok H" "\<And>pk builder vs sg.
    yields (\<lambda>e. e = InvalidLoginError) (\<lambda>_. True) (sig_verify SP pk builder vs sg)"
  shows "runs (\<lambda>e. e = InvalidLoginError) (\<lambda>_. True)
    (sigma_generate_ke3 SP KG dh H req m1 resp st1 m2 spk csk sids ctx)"
proof -
  have mac: "yields (\<lambda>e. e = InvalidLoginError) (\<lambda>_. True)
      (ok_or InvalidLoginError (if c then Some () else None))" for c
    by (rule yields_ok_or) simp_all
  have sign: "runs no_error (\<lambda>_. True) (run_st (private_key_sign SP csk m))" for m
    by (rule runs_run) simp
  note verify = assms(2) [folded public_key_verify_def]
  have last: "runs (\<lambda>e. e = InvalidLoginError) (\<lambda>_. True)
      (case x of (signature, state) \<Rightarrow>
        bind_st (lift_st (public_key_verify SP spk b state (sg2_signature m2)))
          (\<lambda>_. return_st (k, \<lparr>sg3_signature = signature, sg3_mac = c\<rparr>)))" for x b k c
    by (cases x) (simp add: runs_bind [OF runs_lift [OF verify]] runs_return)
  show ?thesis
    unfolding sigma_generate_ke3_def Let_def
    by (rule runs_bind_lift_total [OF derive_keys_outcome [OF assms(1)]],
        rule runs_bind_lift_total [OF identifier_mac_outcome [OF assms(1)]],
        rule runs_bind [OF runs_lift [OF mac]],
        rule runs_bind_lift_total [OF identifier_mac_outcome [OF assms(1)]],
        rule runs_bind_total [OF sign], rule last)
qed

lemma sigma_finish_outcome:
  assumes "\<And>pk builder vs sg.
    yields (\<lambda>e. e = InvalidLoginError) (\<lambda>_. True) (sig_verify SP pk builder vs sg)"
  shows "yields any_error (\<lambda>_. True) (sigma_finish_ke SP st2 m3 ids ctx)"
proof -
  have verify: "yields any_error (\<lambda>_. True) (public_key_verify SP pk builder vs sg)"
    for pk builder vs sg
    unfolding public_key_verify_def by (rule yields_mono [OF assms]) simp_all
  show ?thesis
    unfolding sigma_finish_ke_def
    by (rule yields_bind [OF from_identifier_outcome], rule yields_bind [OF verify],
        rule yields_ok_or) simp_all
qed

interpretation robust_sigma: robust_key_exchange "sigma_i SP KG dh H"
  "signature_robust SP wf_sk wf_pk wf_sig wf_vs
     (\<lambda>m. cached_message_ok ne OH (sig_group SP) KG H (msg_cache m)) \<and>
   dh_ok KG dh wf_esk wf_epk \<and> hash_ok H"
  ne OH wf_sk wf_pk "ke1_state_ok wf_esk" "ke1_message_ok wf_epk"
  "sigma_ke2_state_ok H wf_pk wf_vs" "sigma_ke2_message_ok H wf_epk wf_sig"
  "sigma_ke3_message_ok H wf_sig" "derive_total KG"
  for SP :: "('sk, 'pk, 'sig, 'vs) signature_protocol" and KG :: "('esk, 'epk) ke_group" and dh H
    and wf_sk wf_pk wf_sig wf_vs wf_esk wf_epk and ne :: nat and OH :: hash_fns
proof (cases "signature_robust SP wf_sk wf_pk wf_sig wf_vs
     (\<lambda>m. cached_message_ok ne OH (sig_group SP) KG H (msg_cache m)) \<and>
   dh_ok KG dh wf_esk wf_epk \<and> hash_ok H")
  case True
  let ?msg_ok = "\<lambda>m. cached_message_ok ne OH (sig_group SP) KG H (msg_cache m)"
  from True have S: "signature_robust SP wf_sk wf_pk wf_sig wf_vs ?msg_ok"
    and KG: "group_ok KG wf_esk wf_epk" and H: "hash_ok H"
    by (auto intro: dh_ok_group_ok)
  note verify = any_robust_sig.verify_outcomes [OF S]
  have "robust_key_exchange (sigma_i SP KG dh H) True ne OH wf_sk wf_pk (ke1_state_ok wf_esk)
    (ke1_message_ok wf_epk) (sigma_ke2_state_ok H wf_pk wf_vs)
    (sigma_ke2_message_ok H wf_epk wf_sig) (sigma_ke3_message_ok H wf_sig) (derive_total KG)"
  proof (intro robust_key_exchange.intro robust_key_exchange_axioms.intro, goal_cases)
    case 1
    show ?case
      using sigma.key_exchange_protocol_axioms [where SP = SP and KG = KG and wf_sk = wf_sk
          and wf_pk = wf_pk and wf_sig = wf_sig and wf_vs = wf_vs and ne = ne and OH = OH
          and H = H and dh = dh and wf_esk = wf_esk and wf_epk = wf_epk]
        True signature_robust_ok [OF S] by simp
  next
    case 2
    show ?case using parses_ke1_state [OF KG] by (simp add: sigma_i_def)
  next
    case 3
    show ?case using parses_ke1_message [OF KG] by (simp add: sigma_i_def)
  next
    case 4
    show ?case using parses_sigma_ke2_state [OF S] by (simp add: sigma_i_def)
  next
    case 5
    show ?case using parses_sigma_ke2_message [OF S KG] by (simp add: sigma_i_def)
  next
    case 6
    show ?case using parses_sigma_ke3_message [OF S] by (simp add: sigma_i_def)
  next
    case 7
    then show ?case
      by (simp add: sigma_i_def sigma_generate_ke1_def shared_generate_ke1_outcome)
  next
    case (8 m1 req resp cpk sids ctx)
    show ?case
      using sigma_ke2_builder_outcome [OF H 8(2), of dh req m1 resp cpk sids ctx]
      by (simp add: sigma_i_def sigma_build_ke2_def)
  next
    case (9 m2 req m1 resp st1 spk csk sids ctx)
    show ?case using sigma_ke3_outcome [OF H verify] by (simp add: sigma_i_def)
  next
    case 10
    show ?case using sigma_finish_outcome [OF verify] by (simp add: sigma_i_def)
  qed
  with True show "robust_key_exchange (sigma_i SP KG dh H)
    (signature_robust SP wf_sk wf_pk wf_sig wf_vs ?msg_ok \<and> dh_ok KG dh wf_esk wf_epk \<and> hash_ok H)
    ne OH wf_sk wf_pk (ke1_state_ok wf_esk) (ke1_message_ok wf_epk)
    (sigma_ke2_state_ok H wf_pk wf_vs) (sigma_ke2_message_ok H wf_epk wf_sig)
    (sigma_ke3_message_ok H wf_sig) (derive_total KG)" by simp
next
  case False
  then show "robust_key_exchange (sigma_i SP KG dh H)
    (signature_robust SP wf_sk wf_pk wf_sig wf_vs
       (\<lambda>m. cached_message_ok ne OH (sig_group SP) KG H (msg_cache m)) \<and>
     dh_ok KG dh wf_esk wf_epk \<and> hash_ok H)
    ne OH wf_sk wf_pk (ke1_state_ok wf_esk) (ke1_message_ok wf_epk)
    (sigma_ke2_state_ok H wf_pk wf_vs) (sigma_ke2_message_ok H wf_epk wf_sig)
    (sigma_ke3_message_ok H wf_sig) (derive_total KG)"
    by (intro robust_key_exchange.intro key_exchange_protocol.intro
        robust_key_exchange_axioms.intro) simp_all
qed

lemma mini_kem_robust: "kem_robust mini_kem (\<lambda>_. True) (\<lambda>k. k \<noteq> 255)"
proof -
  have "ml_kem_validates mini_ml_kem (\<lambda>_. True) (\<lambda>k. k \<noteq> 255)"
    by (auto simp: ml_kem_validates_def mini_ml_kem_def length_Suc_conv split: if_splits)
  with robust_ml_kem.robust_kem_axioms [of mini_ml_kem "\<lambda>_. True" "\<lambda>k. k \<noteq> 255"] show ?thesis
    by (simp add: kem_robust_def mini_ml_kem_ok)
qed

end
