(* ===== verification/Matching_Sessions.thy ===== *)
theory Matching_Sessions
  imports Robust_Exchange
begin

text \<open>
  Agreement without honest delivery: the two parties of a key exchange may hold different views of the
  session, and whatever stands between them may have changed any message. When the server accepts
  the client's third message, either both saw the same session, and have the same key, or two
  explicit inputs of the hash or of the MAC collide.
\<close>

section \<open>Views\<close>

text \<open>What a party hashes besides the messages of the key exchange.\<close>

record session_view =
  v_context :: "bytes option"
  v_ids :: identifiers
  v_client_pk :: bytes
  v_server_pk :: bytes
  v_request :: serialized_credential_request
  v_response :: serialized_credential_response

abbreviation view_context :: "session_view \<Rightarrow> bytes" where
  "view_context v \<equiv> case v_context v of Some x \<Rightarrow> x | None \<Rightarrow> []"

abbreviation view_client :: "session_view \<Rightarrow> bytes" where
  "view_client v \<equiv> effective_identifier (id_client (v_ids v)) (v_client_pk v)"

abbreviation view_server :: "session_view \<Rightarrow> bytes" where
  "view_server v \<equiv> effective_identifier (id_server (v_ids v)) (v_server_pk v)"

definition view_ok ::
    "nat \<Rightarrow> hash_fns \<Rightarrow> ('sk, 'pk) ke_group \<Rightarrow> session_view \<Rightarrow> serialized_identifiers \<Rightarrow>
     serialized_context \<Rightarrow> bool" where
  "view_ok ne OH G v sids ctx \<longleftrightarrow>
     serialized_context_from (v_context v) = Ok ctx \<and>
     from_identifiers (v_ids v) (v_client_pk v) (v_server_pk v) = Ok sids \<and>
     length (view_context v) < 2 ^ 64 \<and> length (view_client v) < 2 ^ 64 \<and>
     length (view_server v) < 2 ^ 64 \<and> length (v_request v) = ne \<and>
     serialized_credential_response_ok ne OH G (v_response v)"

definition same_view :: "session_view \<Rightarrow> session_view \<Rightarrow> bool" where
  "same_view v v' \<longleftrightarrow>
     view_context v = view_context v' \<and> view_client v = view_client v' \<and>
     view_server v = view_server v' \<and> v_request v = v_request v' \<and> v_response v = v_response v'"

text \<open>The transcript of a view, with the messages of the key exchange.\<close>

definition view_transcript ::
    "('sk, 'pk) ke_group \<Rightarrow> session_view \<Rightarrow> serialized_identifiers \<Rightarrow> serialized_context \<Rightarrow>
     'pk ke1_message \<Rightarrow> 'pk ke2_message \<Rightarrow> bytes" where
  "view_transcript G v sids ctx m1 m2 =
     transcript ctx sids (v_request v) (to_iter G m1) (v_response v) (k2m_server_nonce m2)
       (public_key_serialize G (k2m_server_e_pk m2))"

lemma view_transcript_inj:
  assumes "group_ok G wf_sk wf_pk" "view_ok ne OH KG v sids ctx" "view_ok ne OH KG v' sids' ctx'"
    and "ke1_message_ok wf_pk m1" "ke1_message_ok wf_pk m1'"
    and "ke2_message_ok H wf_pk m2" "ke2_message_ok H wf_pk m2'"
    and "view_transcript G v sids ctx m1 m2 = view_transcript G v' sids' ctx' m1' m2'"
  shows "same_view v v'" "m1 = m1'" "k2m_server_nonce m2 = k2m_server_nonce m2'"
    "k2m_server_e_pk m2 = k2m_server_e_pk m2'"
proof -
  note v = assms(2,3) [unfolded view_ok_def]
  note ctx = v [THEN conjunct1]
  note iter = to_iter_def ke1_message_iter_ok_def ke1_message_ok_def ke2_message_ok_def key_defs
  have "ke1_message_iter_ok G (to_iter G m1)" "ke1_message_iter_ok G (to_iter G m1')"
    "length (k2m_server_nonce m2) = nonce_len" "length (k2m_server_nonce m2') = nonce_len"
    using assms(4-7) any_group.pk_length [OF assms(1)] by (simp_all add: iter)
  then have eq: "ctx_context ctx = ctx_context ctx' \<and> view_client v = view_client v' \<and>
      view_server v = view_server v' \<and> v_request v = v_request v' \<and>
      to_iter G m1 = to_iter G m1' \<and> v_response v = v_response v' \<and>
      k2m_server_nonce m2 = k2m_server_nonce m2' \<and>
      public_key_serialize G (k2m_server_e_pk m2) = public_key_serialize G (k2m_server_e_pk m2')"
    using v assms(8) [unfolded view_transcript_def]
    by (intro transcript_inj [where ne = ne and OH = OH and KG = KG and G = G
          and c = "v_context v" and c' = "v_context v'" and ids = "v_ids v" and ids' = "v_ids v'"
          and cpk = "v_client_pk v" and cpk' = "v_client_pk v'"
          and spk = "v_server_pk v" and spk' = "v_server_pk v'"]) simp_all
  then show "same_view v v'" "k2m_server_nonce m2 = k2m_server_nonce m2'"
    using concat_context_iter(1) [OF ctx(1)] concat_context_iter(1) [OF ctx(2)]
    by (simp_all add: same_view_def)
  note inj = any_group.serialize_pk_inj [OF assms(1)]
  from eq assms(6,7) show "k2m_server_e_pk m2 = k2m_server_e_pk m2'"
    using inj by (simp add: iter)
  from eq assms(4,5) have "client_e_pk m1 = client_e_pk m1'"
    using inj [of "client_e_pk m1" "client_e_pk m1'"] by (simp add: iter)
  with eq show "m1 = m1'" by (simp add: iter)
qed

section \<open>Collisions\<close>

definition digest_collision :: "hash_fns \<Rightarrow> bytes \<Rightarrow> bytes \<Rightarrow> bool" where
  "digest_collision H x y \<longleftrightarrow> x \<noteq> y \<and> hash_digest H x = hash_digest H y"

definition mac_collision :: "hash_fns \<Rightarrow> bytes \<times> bytes \<Rightarrow> bytes \<times> bytes \<Rightarrow> bool" where
  "mac_collision H x y \<longleftrightarrow> x \<noteq> y \<and>
     (\<exists>f g. hmac_new_from_slice H (fst x) = Some f \<and> hmac_new_from_slice H (fst y) = Some g \<and>
        f (snd x) = g (snd y))"

text \<open>
  The confirmation of a server with transcript \<open>th\<close> by a client with transcript \<open>th'\<close>; \<open>mac\<close> is what
  the server sent, \<open>mac'\<close> what the client received.
\<close>

definition confirmation_collision ::
    "hash_fns \<Rightarrow> derived_keys \<Rightarrow> bytes \<Rightarrow> bytes \<Rightarrow> derived_keys \<Rightarrow> bytes \<Rightarrow> bytes \<Rightarrow> bool" where
  "confirmation_collision H dk th mac dk' th' mac' \<longleftrightarrow>
     digest_collision H (th @ mac) (th' @ mac') \<or>
     mac_collision H (dk_km3 dk, hash_digest H (th @ mac)) (dk_km3 dk', hash_digest H (th' @ mac'))"

lemma confirmed_transcripts:
  assumes "compute_ke2_macs H dk (hash_digest H th) th = (Ok (mac, em), s)"
    and "finalize_ke3_transcript H ss mac' th' = (Ok (dk', em), s')"
    and "length mac = length mac'"
  shows "th = th' \<and> mac = mac' \<or> confirmation_collision H dk th mac dk' th' mac'"
  using assms by (auto simp: compute_ke2_macs_Ok_iff finalize_ke3_Ok_iff mac_collision_def
      confirmation_collision_def digest_collision_def)

lemma compute_ke2_macs_length:
  "hash_ok H \<Longrightarrow> compute_ke2_macs H dk d th = (Ok (mac, em), s) \<Longrightarrow> length mac = hash_len H"
  using compute_ke2_macs_total [of H dk d th] by auto

text \<open>
  The argument of both key exchanges: \<open>P\<close> is what equal transcripts and MACs show of the two parties,
  \<open>Q\<close> that they hold each other's static keys.
\<close>

lemma confirmed_sessions:
  assumes "hash_ok H" "derive_keys H ss (hash_digest H th) = Ok dk"
    and "compute_ke2_macs H dk (hash_digest H th) th = (Ok (mac, em), s)"
    and "finalize_ke3_transcript H ss' mac' th' = (Ok (dk', em), s')" "length mac' = hash_len H"
    and "length mac = hash_len H \<Longrightarrow> th = th' \<Longrightarrow> mac = mac' \<Longrightarrow> P \<and> (Q \<longrightarrow> ss = ss')"
  shows "derive_keys H ss (hash_digest H th) = Ok dk \<and> derive_keys H ss' (hash_digest H th') = Ok dk' \<and>
    (P \<and> (Q \<longrightarrow> dk_session_key dk = dk_session_key dk') \<or>
     confirmation_collision H dk th mac dk' th' mac')"
proof -
  have len: "length mac = hash_len H" by (rule compute_ke2_macs_length [OF assms(1,3)])
  have dk': "derive_keys H ss' (hash_digest H th') = Ok dk'"
    using assms(4) by (simp add: finalize_ke3_Ok_iff)
  from confirmed_transcripts [OF assms(3,4)] len assms(5)
  have "th = th' \<and> mac = mac' \<or> confirmation_collision H dk th mac dk' th' mac'" by simp
  with assms(6) [OF len] dk' assms(2) show ?thesis by auto
qed

section \<open>3DH\<close>

text \<open>What the server of a 3DH session holds, and what a client that is accepted has done.\<close>

lemma tdh_server_side:
  assumes "group_ok G wf_sk wf_pk" "hash_ok H"
    and "ke2_builder (triple_dh G dh H) (v_request v) m1 (v_response v) cpk sids ctx r = (Ok b, r')"
    and "generate_ke2_input (triple_dh G dh H) b s_sk r1 = (input, r1')"
    and "build_ke2 (triple_dh G dh H) b input = Ok (st2, m2)"
  obtains kp r0 dk s where "keypair_derive_random G r = (Ok kp, r0)"
    "k2m_server_e_pk m2 = kp_pk kp" "ke2_message_ok H wf_pk m2"
    "k2b_shared_secret_1 b = dh (kp_sk kp) (client_e_pk m1)" "input = dh s_sk (client_e_pk m1)"
    "k2b_shared_secret_3 b = dh (kp_sk kp) cpk"
    "derive_keys H [k2b_shared_secret_1 b, input, k2b_shared_secret_3 b]
      (hash_digest H (view_transcript G v sids ctx m1 m2)) = Ok dk"
    "compute_ke2_macs H dk (hash_digest H (view_transcript G v sids ctx m1 m2))
      (view_transcript G v sids ctx m1 m2) = (Ok (k2m_mac m2, k2s_expected_mac st2), s)"
    "k2s_session_key st2 = dk_session_key dk"
  using assms(3-5) that keypair_derive_random_wf [OF assms(1)] compute_ke2_macs_length [OF assms(2)]
  by (fastforce simp: triple_dh_def tdh_ke2_builder_def tdh_generate_ke2_input_def tdh_build_ke2_def
      ke2_builder_common_Ok_iff ok_iffs Let_def view_transcript_def key_defs ke2_message_ok_def
      generate_nonce_length)

lemma tdh_accepted:
  assumes "generate_ke3 (triple_dh G dh H) (v_request v) m1 (v_response v) st1 m2 spk c_sk
      sids ctx r = (Ok (key', m3), r')"
    and "finish_ke (triple_dh G dh H) st2 m3 ids ctx0 = Ok key"
  obtains dk s where "finalize_ke3_transcript H
      [dh (client_e_sk st1) (k2m_server_e_pk m2), dh (client_e_sk st1) spk,
       dh c_sk (k2m_server_e_pk m2)] (k2m_mac m2) (view_transcript G v sids ctx m1 m2)
        = (Ok (dk, k2s_expected_mac st2), s)"
    "key' = dk_session_key dk" "key = k2s_session_key st2"
  using assms that
  by (auto simp: triple_dh_def tdh_generate_ke3_def tdh_finish_ke_def ok_iffs Let_def
      view_transcript_def key_defs split: if_splits)

section \<open>3DH with a KEM\<close>

text \<open>The encapsulation key and the ciphertext follow.\<close>

definition kem_view_transcript ::
    "('sk, 'pk) ke_group \<Rightarrow> session_view \<Rightarrow> serialized_identifiers \<Rightarrow> serialized_context \<Rightarrow>
     'pk kem_ke1_message \<Rightarrow> 'pk kem_ke2_message \<Rightarrow> bytes" where
  "kem_view_transcript G v sids ctx m1 m2 =
     view_transcript G v sids ctx (kk1m_dh_message m1) (kk2m_dh_message m2) @
     kk1m_encapsulation_key m1 @ kk2m_ciphertext m2"

lemma kem_view_transcript_inj:
  assumes "group_ok G wf_sk wf_pk" "view_ok ne OH KG v sids ctx" "view_ok ne OH KG v' sids' ctx'"
    and "kem_ke1_message_ok K wf_pk m1" "kem_ke1_message_ok K wf_pk m1'"
    and "kem_ke2_message_ok H K wf_pk m2" "kem_ke2_message_ok H K wf_pk m2'"
    and "kem_view_transcript G v sids ctx m1 m2 = kem_view_transcript G v' sids' ctx' m1' m2'"
    and "k2m_mac (kk2m_dh_message m2) = k2m_mac (kk2m_dh_message m2')"
  shows "same_view v v'" "m1 = m1'" "m2 = m2'"
proof -
  note ok = assms(4-7) [unfolded kem_ke1_message_ok_def kem_ke2_message_ok_def]
  from assms(8) ok have eq: "kk1m_encapsulation_key m1 = kk1m_encapsulation_key m1'"
    "kk2m_ciphertext m2 = kk2m_ciphertext m2'"
    "view_transcript G v sids ctx (kk1m_dh_message m1) (kk2m_dh_message m2)
      = view_transcript G v' sids' ctx' (kk1m_dh_message m1') (kk2m_dh_message m2')"
    by (simp_all add: kem_view_transcript_def append_eq_append_conv)
  note same = view_transcript_inj [OF assms(1-3) ok [THEN conjunct1] eq(3)]
  from same(1) show "same_view v v'" .
  from same(2) eq(1) show "m1 = m1'" by simp
  from same(3,4) eq(2) assms(9) show "m2 = m2'" by simp
qed

lemma kem_client_start:
  assumes "group_ok G wf_sk wf_pk" "kem_ok K wf_dk wf_ek"
    and "generate_ke1 (triple_dh_kem G dh H K) r = (Ok (st1, m1), r')"
  obtains r0 ek where
    "shared_generate_ke1 G r = (Ok (kk1s_dh_state st1, kk1m_dh_message m1), r0)"
    "kem_generate K r0 = (Ok (kem_decapsulation_key st1, ek), r')"
    "eval_st (deserialize_encapsulation_key K) (kk1m_encapsulation_key m1) = Ok ek"
    "kem_ke1_message_ok K wf_pk m1"
  using assms(3) that any_kem.sent_key [OF assms(2)] generate_ke1_ok(2) [OF assms(1)]
  by (fastforce simp: triple_dh_kem_def kem_generate_ke1_Ok_iff kem_ke1_message_ok_def)

lemma kem_server_side:
  assumes "group_ok G wf_sk wf_pk" "hash_ok H" "kem_robust K wf_dk wf_ek"
    and "ke2_builder (triple_dh_kem G dh H K) (v_request v) m1 (v_response v) cpk sids ctx r
      = (Ok b, r')"
    and "generate_ke2_input (triple_dh_kem G dh H K) b s_sk r1 = (input, r1')"
    and "build_ke2 (triple_dh_kem G dh H K) b input = Ok (st2, m2)"
  obtains kp r0 ek re re' dk s where "keypair_derive_random G r = (Ok kp, r0)"
    "k2m_server_e_pk (kk2m_dh_message m2) = kp_pk kp" "kem_ke2_message_ok H K wf_pk m2"
    "eval_st (deserialize_encapsulation_key K) (kk1m_encapsulation_key m1) = Ok ek"
    "kem_encapsulate K ek re = (Ok (kk2m_ciphertext m2, kk2b_kem_shared_secret b), re')"
    "kk2b_shared_secret_1 b = dh (kp_sk kp) (client_e_pk (kk1m_dh_message m1))"
    "input = dh s_sk (client_e_pk (kk1m_dh_message m1))"
    "kk2b_shared_secret_3 b = dh (kp_sk kp) cpk"
    "derive_keys H
      [kk2b_shared_secret_1 b, input, kk2b_shared_secret_3 b, kk2b_kem_shared_secret b]
      (hash_digest H (kem_view_transcript G v sids ctx m1 m2)) = Ok dk"
    "compute_ke2_macs H dk (hash_digest H (kem_view_transcript G v sids ctx m1 m2))
      (kem_view_transcript G v sids ctx m1 m2)
        = (Ok (k2m_mac (kk2m_dh_message m2), k2s_expected_mac (kk2s_base_state st2)), s)"
    "k2s_session_key (kk2s_base_state st2) = dk_session_key dk"
proof -
  from assms(4) obtain kp r0 n r2 ek ct kss where kp: "keypair_derive_random G r = (Ok kp, r0)"
    and n: "generate_nonce r0 = (n, r2)"
    and ek: "eval_st (deserialize_encapsulation_key K) (kk1m_encapsulation_key m1) = Ok ek"
    and enc: "kem_encapsulate K ek r2 = (Ok (ct, kss), r')"
    and b: "b = \<lparr>kk2b_server_nonce = n, kk2b_transcript_hasher = transcript ctx sids (v_request v)
          (to_iter G (kk1m_dh_message m1)) (v_response v) n (serialize_pk G (kp_pk kp)) @
          kk1m_encapsulation_key m1 @ ct,
        kk2b_client_e_pk = client_e_pk (kk1m_dh_message m1), kk2b_server_e_pk = kp_pk kp,
        kk2b_shared_secret_1 = dh (kp_sk kp) (client_e_pk (kk1m_dh_message m1)),
        kk2b_shared_secret_3 = dh (kp_sk kp) cpk,
        kk2b_encapsulation_key = kk1m_encapsulation_key m1, kk2b_ciphertext = ct,
        kk2b_kem_shared_secret = kss\<rparr>"
    by (auto simp: triple_dh_kem_def kem_ke2_builder_def bind_st_Ok_iff ke2_builder_common_Ok_iff
        Let_def)
  have "wf_ek ek"
    using any_robust_kem.ek_parses [OF assms(3)] ek
    by (auto simp: parses_def runs_def eval_st_Ok_iff dest!: spec [of _ "kk1m_encapsulation_key m1"])
  then have "length ct = ct_len K"
    using any_kem.encapsulate_length [OF kem_robust_ok [OF assms(3)] _ enc] by simp
  moreover from assms(6) obtain dk mac em th where
    "derive_keys H [kk2b_shared_secret_1 b, input, kk2b_shared_secret_3 b, kss]
      (hash_digest H (kk2b_transcript_hasher b)) = Ok dk"
    "compute_ke2_macs H dk (hash_digest H (kk2b_transcript_hasher b)) (kk2b_transcript_hasher b)
      = (Ok (mac, em), th)"
    "st2 = \<lparr>kk2s_base_state = \<lparr>k2s_session_key = dk_session_key dk, k2s_expected_mac = em\<rparr>,
       kk2s_encapsulation_key = kk1m_encapsulation_key m1, server_kem_ciphertext = ct\<rparr>"
    "m2 = \<lparr>kk2m_dh_message = \<lparr>k2m_server_nonce = n, k2m_server_e_pk = kp_pk kp, k2m_mac = mac\<rparr>,
       kk2m_ciphertext = ct\<rparr>"
    by (auto simp: triple_dh_kem_def kem_build_ke2_Ok_iff b)
  moreover have "input = dh s_sk (client_e_pk (kk1m_dh_message m1))"
    using assms(5) by (simp add: triple_dh_kem_def kem_generate_ke2_input_def key_defs b)
  ultimately show thesis
    using that [OF kp _ _ ek _ _ _ _ _ _ _] enc keypair_derive_random_wf [OF assms(1) kp]
      generate_nonce_length [OF n] compute_ke2_macs_length [OF assms(2)]
    by (simp add: b kem_view_transcript_def view_transcript_def key_defs kem_ke2_message_ok_def
        ke2_message_ok_def)
qed

lemma kem_accepted:
  assumes "generate_ke3 (triple_dh_kem G dh H K) (v_request v) m1 (v_response v) st1 m2 spk c_sk
      sids ctx r = (Ok (key', m3), r')"
    and "finish_ke (triple_dh_kem G dh H K) st2 m3 ids ctx0 = Ok key"
  obtains kss dk s where "kem_decapsulate K (kem_decapsulation_key st1) (kk2m_ciphertext m2) = Ok kss"
    "finalize_ke3_transcript H
      [dh (client_e_sk (kk1s_dh_state st1)) (k2m_server_e_pk (kk2m_dh_message m2)),
       dh (client_e_sk (kk1s_dh_state st1)) spk,
       dh c_sk (k2m_server_e_pk (kk2m_dh_message m2)), kss] (k2m_mac (kk2m_dh_message m2))
      (kem_view_transcript G v sids ctx m1 m2)
        = (Ok (dk, k2s_expected_mac (kk2s_base_state st2)), s)"
    "key' = dk_session_key dk" "key = k2s_session_key (kk2s_base_state st2)"
  using assms that
  by (auto simp: triple_dh_kem_def kem_generate_ke3_def kem_finish_ke_def ok_iffs Let_def
      kem_view_transcript_def view_transcript_def key_defs split: if_splits)

section \<open>Concrete sessions\<close>

definition mini_view :: session_view where
  "mini_view =
     \<lparr>v_context = None, v_ids = sample_ids, v_client_pk = [15], v_server_pk = [18], v_request = [4],
      v_response = \<lparr>scr_evaluation_element = [6], scr_masking_nonce = zeros nonce_len,
        scr_masked_response = \<lparr>mr_nonce = zeros nonce_len, mr_hash = [1, 2], mr_pk = [3]\<rparr>\<rparr>\<rparr>"

lemma mini_view_ok:
  obtains sids ctx where "view_ok 1 (mini_hash 2) mini_group mini_view sids ctx"
    "from_identifiers sample_ids [15] [18] = Ok sids"
proof -
  obtain ctx where "serialized_context_from None = Ok ctx"
    using serialized_context_from_Ok [of None] by auto
  moreover obtain sids where "from_identifiers sample_ids [15] [18] = Ok sids"
    by (rule sample_ids_total)
  ultimately show thesis
    using that by (simp add: view_ok_def mini_view_def effective_identifier_def
        serialized_credential_response_ok_def masked_response_ok_def)
qed

lemma mini_hash_2_ok: "hash_ok (mini_hash 2)"
  by (rule mini_hash_ok) simp_all

section \<open>Properties\<close>

text \<open>
  Matching sessions in 3DH. A client with its own first message and any view of the session answers
  a second message; a server that got some first message and has any view of its own accepts that
  answer. Then the contexts, the effective identifiers, the credential request and response and
  both messages are the same on both sides, and if the static keys are each other's the session
  keys are equal; or the hash collides on the two transcripts, or the MAC on the two confirmations.
\<close>

theorem tdh_matching_sessions:
  assumes "dh_ok G dh wf_sk wf_pk" "hash_ok H" "wf_sk c_sk" "wf_sk s_sk"
    and "view_ok ne OH KG v sids ctx" "view_ok ne OH KG v' sids' ctx'"
    and "ke1_message_ok wf_pk m1" "ke2_message_ok H wf_pk m2'"
    and "generate_ke1 (triple_dh G dh H) r1 = (Ok (st1, m1'), r1')"
    and "ke2_builder (triple_dh G dh H) (v_request v) m1 (v_response v) cpk sids ctx r2 = (Ok b, r2')"
    and "generate_ke2_input (triple_dh G dh H) b s_sk r3 = (input, r3')"
    and "build_ke2 (triple_dh G dh H) b input = Ok (st2, m2)"
    and "generate_ke3 (triple_dh G dh H) (v_request v') m1' (v_response v') st1 m2' spk c_sk
      sids' ctx' r4 = (Ok (key', m3), r4')"
    and "finish_ke (triple_dh G dh H) st2 m3 fids fctx = Ok key"
  shows "\<exists>dk dk'.
    derive_keys H [k2b_shared_secret_1 b, input, k2b_shared_secret_3 b]
      (hash_digest H (view_transcript G v sids ctx m1 m2)) = Ok dk \<and>
    derive_keys H [dh (client_e_sk st1) (k2m_server_e_pk m2'), dh (client_e_sk st1) spk,
        dh c_sk (k2m_server_e_pk m2')]
      (hash_digest H (view_transcript G v' sids' ctx' m1' m2')) = Ok dk' \<and>
    ((same_view v v' \<and> m1 = m1' \<and> m2 = m2') \<and>
       (spk = public_key G s_sk \<and> cpk = public_key G c_sk \<longrightarrow> key = key') \<or>
     confirmation_collision H dk (view_transcript G v sids ctx m1 m2) (k2m_mac m2)
       dk' (view_transcript G v' sids' ctx' m1' m2') (k2m_mac m2'))"
proof -
  note G = dh_ok_group_ok [OF assms(1)]
  have g1: "shared_generate_ke1 G r1 = (Ok (st1, m1'), r1')"
    using assms(9) by (simp add: triple_dh_def tdh_generate_ke1_def)
  obtain kp r0 dk s where kp: "keypair_derive_random G r2 = (Ok kp, r0)"
    and m2: "k2m_server_e_pk m2 = kp_pk kp" "ke2_message_ok H wf_pk m2"
    and ss: "k2b_shared_secret_1 b = dh (kp_sk kp) (client_e_pk m1)"
      "input = dh s_sk (client_e_pk m1)" "k2b_shared_secret_3 b = dh (kp_sk kp) cpk"
    and dk: "derive_keys H [k2b_shared_secret_1 b, input, k2b_shared_secret_3 b]
      (hash_digest H (view_transcript G v sids ctx m1 m2)) = Ok dk"
    and macs: "compute_ke2_macs H dk (hash_digest H (view_transcript G v sids ctx m1 m2))
      (view_transcript G v sids ctx m1 m2) = (Ok (k2m_mac m2, k2s_expected_mac st2), s)"
    and skey: "k2s_session_key st2 = dk_session_key dk"
    by (rule tdh_server_side [OF G assms(2,10-12)])
  obtain dk' s' where fin: "finalize_ke3_transcript H
      [dh (client_e_sk st1) (k2m_server_e_pk m2'), dh (client_e_sk st1) spk,
       dh c_sk (k2m_server_e_pk m2')] (k2m_mac m2') (view_transcript G v' sids' ctx' m1' m2')
        = (Ok (dk', k2s_expected_mac st2), s')"
    and keys: "key' = dk_session_key dk'" "key = k2s_session_key st2"
    by (rule tdh_accepted [OF assms(13,14)])
  have mac': "length (k2m_mac m2') = hash_len H" using assms(8) by (simp add: ke2_message_ok_def)
  note inj = view_transcript_inj [OF G assms(5-7) generate_ke1_ok(2) [OF G g1] m2(2) assms(8)]
  show ?thesis
    unfolding keys skey
    by (rule exI [of _ dk], rule exI [of _ dk'], rule confirmed_sessions [OF assms(2) dk macs fin mac'])
       (use inj m2(1) dh_secrets_agree [OF assms(1,3,4) g1 kp] in \<open>auto simp: ss\<close>)
qed

theorem tdh_matching_sessions_witness:
  "\<exists>sids ctx st1 m1 b input st2 m2 key m3 dk.
    view_ok 1 (mini_hash 2) mini_group mini_view sids ctx \<and>
    build_ke2 (triple_dh mini_group mini_dh (mini_hash 2)) b input = Ok (st2, m2) \<and>
    generate_ke3 (triple_dh mini_group mini_dh (mini_hash 2)) (v_request mini_view) m1
      (v_response mini_view) st1 m2 18 5 sids ctx (counter_rng 0) = (Ok (key, m3), counter_rng 0) \<and>
    finish_ke (triple_dh mini_group mini_dh (mini_hash 2)) st2 m3 sample_ids ctx = Ok key \<and>
    derive_keys (mini_hash 2) [k2b_shared_secret_1 b, input, k2b_shared_secret_3 b]
      (hash_digest (mini_hash 2) (view_transcript mini_group mini_view sids ctx m1 m2)) = Ok dk"
proof -
  let ?KE = "triple_dh mini_group mini_dh (mini_hash 2)"
  obtain sids ctx where v: "view_ok 1 (mini_hash 2) mini_group mini_view sids ctx"
    and "from_identifiers sample_ids [15] [18] = Ok sids" by (rule mini_view_ok)
  then have "from_identifiers sample_ids
      (serialize_pk (ke_grp ?KE) (public_key (ke_grp ?KE) 5))
      (serialize_pk (ke_grp ?KE) (public_key (ke_grp ?KE) 6)) = Ok sids"
    by (simp add: triple_dh_def)
  then obtain st1 m1 st2 m2 where session: "ke_session ?KE sample_ids 5 6 (v_request mini_view)
      (v_response mini_view) sids ctx st1 m1 st2 m2"
    using tdh.session_exists [OF conjI [OF mini_dh_ok mini_hash_2_ok] mini_derive_total] by blast
  then obtain r1 r1' b r2 r2' input r3 r3' where
    ops: "generate_ke1 ?KE r1 = (Ok (st1, m1), r1')"
      "ke2_builder ?KE (v_request mini_view) m1 (v_response mini_view) 15 sids ctx r2 = (Ok b, r2')"
      "generate_ke2_input ?KE b 6 r3 = (input, r3')" "build_ke2 ?KE b input = Ok (st2, m2)"
    by (auto simp: ke_session_def triple_dh_def)
  from tdh_agreement [OF mini_dh_ok mini_hash_2_ok _ _ session, of "counter_rng 0" sample_ids ctx]
  obtain key m3 where
    ke3: "generate_ke3 ?KE (v_request mini_view) m1 (v_response mini_view) st1 m2 18 5 sids ctx
      (counter_rng 0) = (Ok (key, m3), counter_rng 0)"
    and fin: "finish_ke ?KE st2 m3 sample_ids ctx = Ok key"
    by (auto simp: triple_dh_def)
  have wire: "ke1_message_ok (\<lambda>_. True) m1" "ke2_message_ok (mini_hash 2) (\<lambda>_. True) m2"
    using tdh_session_ok [OF mini_dh_ok mini_hash_2_ok _ session] ops(1)
      generate_ke1_ok(2) [OF dh_ok_group_ok [OF mini_dh_ok]]
    by (auto simp: triple_dh_def tdh_generate_ke1_def)
  obtain dk where "derive_keys (mini_hash 2) [k2b_shared_secret_1 b, input, k2b_shared_secret_3 b]
      (hash_digest (mini_hash 2) (view_transcript mini_group mini_view sids ctx m1 m2)) = Ok dk"
    using tdh_matching_sessions [OF mini_dh_ok mini_hash_2_ok _ _ v v wire ops ke3 fin] by blast
  with v ops(4) ke3 fin show ?thesis by blast
qed

text \<open>
  Matching sessions in 3DH with a KEM: the same, the client's encapsulation key and the server's
  ciphertext included. So nobody can exchange the key that the server encapsulates to or the
  ciphertext that the client decapsulates without being noticed by one of them.
\<close>

theorem kem_matching_sessions:
  assumes "dh_ok G dh wf_sk wf_pk" "hash_ok H" "kem_robust K wf_dk wf_ek" "wf_sk c_sk" "wf_sk s_sk"
    and "view_ok ne OH KG v sids ctx" "view_ok ne OH KG v' sids' ctx'"
    and "kem_ke1_message_ok K wf_pk m1" "kem_ke2_message_ok H K wf_pk m2'"
    and "generate_ke1 (triple_dh_kem G dh H K) r1 = (Ok (st1, m1'), r1')"
    and "ke2_builder (triple_dh_kem G dh H K) (v_request v) m1 (v_response v) cpk sids ctx r2
      = (Ok b, r2')"
    and "generate_ke2_input (triple_dh_kem G dh H K) b s_sk r3 = (input, r3')"
    and "build_ke2 (triple_dh_kem G dh H K) b input = Ok (st2, m2)"
    and "generate_ke3 (triple_dh_kem G dh H K) (v_request v') m1' (v_response v') st1 m2' spk c_sk
      sids' ctx' r4 = (Ok (key', m3), r4')"
    and "finish_ke (triple_dh_kem G dh H K) st2 m3 fids fctx = Ok key"
  shows "\<exists>dk dk' kss.
    derive_keys H
        [kk2b_shared_secret_1 b, input, kk2b_shared_secret_3 b, kk2b_kem_shared_secret b]
      (hash_digest H (kem_view_transcript G v sids ctx m1 m2)) = Ok dk \<and>
    kem_decapsulate K (kem_decapsulation_key st1) (kk2m_ciphertext m2') = Ok kss \<and>
    derive_keys H [dh (client_e_sk (kk1s_dh_state st1)) (k2m_server_e_pk (kk2m_dh_message m2')),
        dh (client_e_sk (kk1s_dh_state st1)) spk,
        dh c_sk (k2m_server_e_pk (kk2m_dh_message m2')), kss]
      (hash_digest H (kem_view_transcript G v' sids' ctx' m1' m2')) = Ok dk' \<and>
    ((same_view v v' \<and> m1 = m1' \<and> m2 = m2') \<and>
       (spk = public_key G s_sk \<and> cpk = public_key G c_sk \<longrightarrow> key = key') \<or>
     confirmation_collision H
       dk (kem_view_transcript G v sids ctx m1 m2) (k2m_mac (kk2m_dh_message m2))
       dk' (kem_view_transcript G v' sids' ctx' m1' m2') (k2m_mac (kk2m_dh_message m2')))"
proof -
  note G = dh_ok_group_ok [OF assms(1)] and K = kem_robust_ok [OF assms(3)]
  obtain rk ek' where g1: "shared_generate_ke1 G r1 = (Ok (kk1s_dh_state st1, kk1m_dh_message m1'), rk)"
    and gk: "kem_generate K rk = (Ok (kem_decapsulation_key st1, ek'), r1')"
    and own: "eval_st (deserialize_encapsulation_key K) (kk1m_encapsulation_key m1') = Ok ek'"
      "kem_ke1_message_ok K wf_pk m1'"
    by (rule kem_client_start [OF G K assms(10)])
  obtain kp r0 ek re re' dk s where kp: "keypair_derive_random G r2 = (Ok kp, r0)"
    and m2: "k2m_server_e_pk (kk2m_dh_message m2) = kp_pk kp" "kem_ke2_message_ok H K wf_pk m2"
    and ek: "eval_st (deserialize_encapsulation_key K) (kk1m_encapsulation_key m1) = Ok ek"
    and enc: "kem_encapsulate K ek re = (Ok (kk2m_ciphertext m2, kk2b_kem_shared_secret b), re')"
    and ss: "kk2b_shared_secret_1 b = dh (kp_sk kp) (client_e_pk (kk1m_dh_message m1))"
      "input = dh s_sk (client_e_pk (kk1m_dh_message m1))"
      "kk2b_shared_secret_3 b = dh (kp_sk kp) cpk"
    and dk: "derive_keys H
        [kk2b_shared_secret_1 b, input, kk2b_shared_secret_3 b, kk2b_kem_shared_secret b]
      (hash_digest H (kem_view_transcript G v sids ctx m1 m2)) = Ok dk"
    and macs: "compute_ke2_macs H dk (hash_digest H (kem_view_transcript G v sids ctx m1 m2))
      (kem_view_transcript G v sids ctx m1 m2)
        = (Ok (k2m_mac (kk2m_dh_message m2), k2s_expected_mac (kk2s_base_state st2)), s)"
    and skey: "k2s_session_key (kk2s_base_state st2) = dk_session_key dk"
    by (rule kem_server_side [OF G assms(2,3,11-13)])
  obtain kss dk' s' where dec: "kem_decapsulate K (kem_decapsulation_key st1) (kk2m_ciphertext m2') = Ok kss"
    and fin: "finalize_ke3_transcript H
      [dh (client_e_sk (kk1s_dh_state st1)) (k2m_server_e_pk (kk2m_dh_message m2')),
       dh (client_e_sk (kk1s_dh_state st1)) spk,
       dh c_sk (k2m_server_e_pk (kk2m_dh_message m2')), kss] (k2m_mac (kk2m_dh_message m2'))
      (kem_view_transcript G v' sids' ctx' m1' m2')
        = (Ok (dk', k2s_expected_mac (kk2s_base_state st2)), s')"
    and keys: "key' = dk_session_key dk'" "key = k2s_session_key (kk2s_base_state st2)"
    by (rule kem_accepted [OF assms(14,15)])
  have mac': "length (k2m_mac (kk2m_dh_message m2')) = hash_len H"
    using assms(9) by (simp add: kem_ke2_message_ok_def ke2_message_ok_def)
  note inj = kem_view_transcript_inj [OF G assms(6-8) own(2) m2(2) assms(9)]
  have kss: "kss = kk2b_kem_shared_secret b" if "m1 = m1'" "m2 = m2'"
    using any_kem.decapsulates [OF K gk] ek enc dec own(1) that by auto
  show ?thesis
    unfolding keys skey
    by (intro exI [of _ dk] exI [of _ dk'] exI [of _ kss] conjI [OF _ conjI [OF dec]];
        (rule confirmed_sessions [OF assms(2) dk macs fin mac', THEN conjunct2]
        | rule dk))
       (use inj m2(1) kss dh_secrets_agree [OF assms(1,4,5) g1 kp] in \<open>auto simp: ss\<close>)
qed

theorem kem_matching_sessions_witness:
  "\<exists>sids ctx st1 m1 b input st2 m2 key m3 dk.
    view_ok 1 (mini_hash 2) mini_group mini_view sids ctx \<and>
    build_ke2 (triple_dh_kem mini_group mini_dh (mini_hash 2) mini_kem) b input = Ok (st2, m2) \<and>
    generate_ke3 (triple_dh_kem mini_group mini_dh (mini_hash 2) mini_kem) (v_request mini_view) m1
      (v_response mini_view) st1 m2 18 5 sids ctx (counter_rng 0) = (Ok (key, m3), counter_rng 0) \<and>
    finish_ke (triple_dh_kem mini_group mini_dh (mini_hash 2) mini_kem) st2 m3 sample_ids ctx = Ok key \<and>
    derive_keys (mini_hash 2) [kk2b_shared_secret_1 b, input,
        kk2b_shared_secret_3 b, kk2b_kem_shared_secret b]
      (hash_digest (mini_hash 2) (kem_view_transcript mini_group mini_view sids ctx m1 m2)) = Ok dk"
proof -
  let ?KE = "triple_dh_kem mini_group mini_dh (mini_hash 2) mini_kem"
  obtain sids ctx where v: "view_ok 1 (mini_hash 2) mini_group mini_view sids ctx"
    and "from_identifiers sample_ids [15] [18] = Ok sids" by (rule mini_view_ok)
  then have "from_identifiers sample_ids
      (serialize_pk (ke_grp ?KE) (public_key (ke_grp ?KE) 5))
      (serialize_pk (ke_grp ?KE) (public_key (ke_grp ?KE) 6)) = Ok sids"
    by (simp add: triple_dh_kem_def)
  then obtain st1 m1 st2 m2 where session: "ke_session ?KE sample_ids 5 6 (v_request mini_view)
      (v_response mini_view) sids ctx st1 m1 st2 m2"
    using tdh_kem.session_exists [OF conjI [OF mini_dh_ok conjI [OF mini_hash_2_ok mini_kem_ok]]
      mini_derive_total] by blast
  then obtain r1 r1' b r2 r2' input r3 r3' where
    ops: "generate_ke1 ?KE r1 = (Ok (st1, m1), r1')"
      "ke2_builder ?KE (v_request mini_view) m1 (v_response mini_view) 15 sids ctx r2 = (Ok b, r2')"
      "generate_ke2_input ?KE b 6 r3 = (input, r3')" "build_ke2 ?KE b input = Ok (st2, m2)"
    by (auto simp: ke_session_def triple_dh_kem_def)
  from kem_generate_ke3 [OF mini_dh_ok mini_hash_2_ok mini_kem_ok TrueI TrueI session,
      of "counter_rng 0"]
  obtain key m3 where
    ke3: "generate_ke3 ?KE (v_request mini_view) m1 (v_response mini_view) st1 m2 18 5 sids ctx
      (counter_rng 0) = (Ok (key, m3), counter_rng 0)"
    and fin: "finish_ke ?KE st2 m3 sample_ids ctx = Ok key"
    by (auto simp: triple_dh_kem_def kem_finish_ke_def
        dest!: spec [of _ "k2m_mac (kk2m_dh_message m2)"])
  have wire: "kem_ke1_message_ok mini_kem (\<lambda>_. True) m1"
    "kem_ke2_message_ok (mini_hash 2) mini_kem (\<lambda>_. True) m2"
    using kem_session_ok [OF mini_dh_ok mini_hash_2_ok mini_kem_ok session]
      kem_client_start [OF dh_ok_group_ok [OF mini_dh_ok] mini_kem_ok ops(1)] by auto
  obtain dk where "derive_keys (mini_hash 2) [kk2b_shared_secret_1 b, input,
        kk2b_shared_secret_3 b, kk2b_kem_shared_secret b]
      (hash_digest (mini_hash 2) (kem_view_transcript mini_group mini_view sids ctx m1 m2)) = Ok dk"
    using kem_matching_sessions [OF mini_dh_ok mini_hash_2_ok mini_kem_robust _ _ v v wire ops ke3 fin] by blast
  with v ops(4) ke3 fin show ?thesis by blast
qed

end
