(* ===== verification/Robustness.thy ===== *)
theory Robustness
  imports Login_Correctness Robust_Exchange
begin

text \<open>
  The outcomes of registration and login on messages from anyone, over any key exchange that
  satisfies \<open>robust_key_exchange\<close>: the locale \<open>robust_opaque_suite\<close> proves that no bytes make a party
  panic. \<open>Robust_Logins\<close> interprets it for the three suites and states the properties.
\<close>

section \<open>What is needed of the suite\<close>

text \<open>
  The functions of the \<open>voprf\<close> crate return a \<open>Result\<close>: they do not panic, and an element that they
  decode is one of the group.
\<close>

definition oprf_robust :: "('e, 'oc) oprf_suite \<Rightarrow> ('e \<Rightarrow> bool) \<Rightarrow> bool" where
  "oprf_robust P wf_e \<longleftrightarrow>
     (\<forall>bs. yields any_error wf_e (deserialize_blinded P bs)) \<and>
     (\<forall>bs. yields any_error wf_e (deserialize_evaluation P bs)) \<and>
     (\<forall>bs. yields any_error (\<lambda>_. True) (deserialize_oprf_client P bs)) \<and>
     (\<forall>pw. runs any_error (\<lambda>_. True) (oprf_blind P pw)) \<and>
     (\<forall>c pw e. yields any_error (\<lambda>_. True) (oprf_finalize P c pw e)) \<and>
     (\<forall>k. yields any_error (\<lambda>_. True) (oprf_new_with_key P k)) \<and>
     (\<forall>ikm info. yields any_error (\<lambda>_. True) (oprf_derive_key P ikm info))"

lemma oprf_robustD:
  assumes "oprf_robust P wf_e"
  shows "yields any_error wf_e (deserialize_blinded P bs)"
    and "yields any_error wf_e (deserialize_evaluation P bs)"
    and "yields any_error (\<lambda>_. True) (deserialize_oprf_client P bs)"
    and "runs any_error (\<lambda>_. True) (oprf_blind P pw)"
    and "yields any_error (\<lambda>_. True) (oprf_finalize P c pw e)"
    and "yields any_error (\<lambda>_. True) (oprf_new_with_key P k)"
    and "yields any_error (\<lambda>_. True) (oprf_derive_key P ikm info)"
  using assms unfolding oprf_robust_def by blast+

text \<open>A key stretching function returns or fails.\<close>

definition ksf_robust :: "ksf \<Rightarrow> bool" where
  "ksf_robust f \<longleftrightarrow> (\<forall>input. yields any_error (\<lambda>_. True) (f input))"

lemma ksf_robust_impls: "ksf_robust ksf_identity" "ksf_robust (ksf_argon2 hash_password_into n)"
  by (simp_all add: ksf_robust_def ksf_identity_def ksf_argon2_def split: option.split)

text \<open>The records that a server can answer from: any stored one of the right shape, or none.\<close>

definition record_ok ::
    "('e, 'oc, 'sk, 'pk, 'k1s, 'k1m, 'k2s, 'k2b, 'k2d, 'k2i, 'k2m, 'k3m) cipher_suite \<Rightarrow>
     ('pk \<Rightarrow> bool) \<Rightarrow> 'pk server_registration option \<Rightarrow> bool" where
  "record_ok CS wf_pk password_file =
     (case password_file of
        None \<Rightarrow> True
      | Some rcd \<Rightarrow> wf_pk (ru_client_s_pk rcd) \<and> length (ru_masking_key rcd) = hash_len (cs_hash CS) \<and>
          length (envelope_serialize (ru_envelope rcd)) = envelope_len (cs_hash CS))"

lemma record_ok_None: "record_ok CS wf_pk None"
  by (simp add: record_ok_def)

lemma dummy_record_ok:
  assumes "server_setup_ok CS wf_sk wf_pk setup"
  shows "record_ok CS wf_pk (Some (fst (server_registration_dummy CS setup r)))"
  using assms
  by (auto simp: record_ok_def server_registration_dummy_def registration_upload_dummy_def
      server_setup_ok_def envelope_dummy_serialize length_fill_bytes split: prod.splits)

section \<open>Helpers\<close>

lemma i2osp_outcome: "yields any_error (\<lambda>_. True) (i2osp L w)"
  by (simp add: yields_any_iff)

lemma serialized_context_outcome: "yields any_error (\<lambda>_. True) (serialized_context_from c)"
  by (simp add: yields_any_iff)

lemma from_identifiers_outcome: "yields any_error (\<lambda>_. True) (from_identifiers ids cpk spk)"
  unfolding from_identifiers_def
  by (rule yields_bind [OF from_identifier_outcome], rule yields_bind [OF from_identifier_outcome])
     simp

lemma parses_envelope: "parses (envelope_ok H) (envelope_deserialize_take H)"
  unfolding envelope_deserialize_take_def
  by (rule parses_intros | simp add: envelope_ok_def)+

lemma ok_or_outcome: "yields any_error (\<lambda>a. x = Some a) (ok_or e x)"
  by (rule yields_ok_or) simp_all

lemma mask_response_outcome: "yields any_error (\<lambda>_. True) (mask_response H G mk n spk env)"
  unfolding mask_response_def Let_def
  by (rule yields_bind [OF ok_or_outcome], rule yields_bind [OF ok_or_outcome],
      rule yields_mono [OF parses_eval [OF parses_masked_response]]) simp_all

lemma unmask_response_outcome:
  assumes "group_ok G wf_sk wf_pk"
  shows "yields any_error (\<lambda>(pk, env). wf_pk pk \<and> envelope_ok H env)
    (unmask_response H G mk n mr)"
proof -
  have pk: "runs any_error wf_pk (map_err_st (\<lambda>_. SerializationError) (deserialize_take_pk G))"
    using parses_pk [OF assms] by (intro runs_map_err) (simp add: parses_def)
  show ?thesis
    unfolding unmask_response_def Let_def key_defs
    by (rule yields_bind [OF ok_or_outcome], rule yields_bind [OF ok_or_outcome],
        rule yields_eval, rule runs_bind [OF pk],
        rule runs_bind [OF parses_envelope [unfolded parses_def]]) (simp add: runs_return)
qed

text \<open>Key derivation from the password, and the envelope.\<close>

lemma recover_keys_outcome:
  assumes "hkdf_ok nh h" "derive_total G"
  shows "yields any_error (\<lambda>_. True) (recover_keys_internal G h n)"
proof -
  have "yields no_error (\<lambda>_. True) (derive_scalar G seed)" if "length seed = sk_len G" for seed
    using assms(2) that by (auto simp: derive_total_def intro: yieldsI_is_ok)
  then show ?thesis
    unfolding recover_keys_internal_def Let_def
    by (auto dest!: hkdf_expand_length [OF assms(1)] intro!: yields_bind [OF ok_or_outcome]
        yields_bind [OF yields_map_err [OF yields_no_error]])
qed

lemma build_inner_outcome:
  assumes "hkdf_ok nh h" "derive_total G"
  shows "yields any_error (\<lambda>_. True) (build_inner_envelope_internal G h n)"
  using recover_keys_outcome [OF assms, of n]
  by (auto simp: yields_any_iff build_inner_envelope_internal_def recover_keys_internal_def
      bind_result_Panic_iff Let_def)

lemma seal_outcome:
  assumes "hkdf_ok nh h" "derive_total G"
  shows "runs any_error (\<lambda>_. True) (seal H G h spk ids)"
proof -
  have raw: "yields any_error (\<lambda>_. True) (seal_raw H h n aad m)" for n aad m
    unfolding seal_raw_def Let_def
    by (rule yields_bind [OF ok_or_outcome], rule yields_bind [OF ok_or_outcome],
        rule yields_bind [OF ok_or_outcome]) simp
  have nonce: "runs no_error (\<lambda>_. True) (run_st (fill_bytes nonce_len))" by (rule runs_run) simp
  show ?thesis
    unfolding seal_def Let_def
    by (rule runs_bind_total [OF nonce],
        rule runs_bind [OF runs_lift [OF build_inner_outcome [OF assms]]],
        rule runs_bind [OF runs_lift [OF from_identifiers_outcome]],
        rule runs_bind [OF runs_lift [OF yields_map_err_any [OF raw]]])
       (auto intro: runs_return)
qed

lemma envelope_open_outcome:
  assumes "hkdf_ok nh h" "derive_total G"
  shows "yields any_error (\<lambda>_. True) (envelope_open H G env h spk ids)"
proof -
  have raw: "yields any_error (\<lambda>_. True) (open_raw H env h aad)" for aad
    unfolding open_raw_def Let_def
    by (rule yields_bind [OF ok_or_outcome], rule yields_bind [OF ok_or_outcome],
        rule yields_bind [OF ok_or_outcome]) simp
  have keys: "yields any_error (\<lambda>_. True)
      (case env_mode env of
         Zero \<Rightarrow> Err (protocol_from_internal IncompatibleEnvelopeModeError)
       | Internal \<Rightarrow> recover_keys_internal G h (env_nonce env))"
    using recover_keys_outcome [OF assms] by (simp split: inner_envelope_mode.split)
  show ?thesis
    unfolding envelope_open_def Let_def
    by (rule yields_bind [OF keys], rule yields_bind [OF from_identifiers_outcome],
        rule yields_bind [OF yields_map_err_any [OF raw]]) simp
qed

lemma get_password_derived_key_outcome:
  assumes "oprf_robust (cs_oprf CS) wf_e" "ksf_robust (cs_ksf CS)" "\<And>f. k = Some f \<Longrightarrow> ksf_robust f"
    and "hash_ok (cs_hash CS)"
  shows "yields any_error (\<lambda>(p, h). hkdf_ok (hash_len (cs_hash CS)) h)
    (get_password_derived_key CS pw c e k)"
proof -
  have stretch: "yields any_error (\<lambda>_. True)
      (case k of Some ksf \<Rightarrow> ksf x | None \<Rightarrow> cs_ksf CS x)" for x
    using assms(2,3) by (simp add: ksf_robust_def split: option.split)
  show ?thesis
    unfolding get_password_derived_key_def Let_def
    by (rule yields_bind [OF yields_map_err_any [OF oprf_robustD(5) [OF assms(1)]]],
        rule yields_bind [OF yields_map_err_any [OF stretch]])
       (auto simp: split_beta intro: hash_okD(4) [OF assms(4)])
qed

lemma server_evaluation_outcome:
  assumes "oprf_robust (cs_oprf CS) wf_e"
  shows "yields any_error (\<lambda>_. True) (server_evaluation CS seed cid)"
  unfolding server_evaluation_def oprf_key_material_def oprf_key_from_key_material_def
  by (rule yields_bind [OF yields_map_err_any [OF ok_or_outcome]],
      rule yields_bind [OF yields_map_err_any [OF yields_map_err_any [OF oprf_robustD(7) [OF assms]]]],
      rule yields_map_err_any [OF oprf_robustD(6) [OF assms]])


section \<open>The errors of a client\<close>

text \<open>Opening an envelope with sizes that fit: it opens, or its HMAC does not match.\<close>

lemma envelope_open_outcomes:
  assumes "hash_ok H" "hkdf_ok (hash_len H) h" "derive_total G" "group_ok G wf_sk wf_pk"
    and "wf_pk spk" "sk_len G \<le> 255 * hash_len H" "pk_len G < 65536"
    and "length (effective_identifier (id_client ids) []) < 65536"
    and "length (effective_identifier (id_server ids) []) < 65536"
    and "env_mode env = Internal"
  shows "envelope_open H G env h spk ids = Err (LibraryError SealOpenHmacError) \<or>
    is_ok (envelope_open H G env h spk ids)"
proof -
  obtain kp where kp: "recover_keys_internal G h (env_nonce env) = Ok kp"
    using assms(2,3,6) by (rule recover_keys_total)
  note pk = recover_keys_wf(2) [OF assms(4,2) kp]
  have "length (effective_identifier (id_client ids) (serialize_pk G (kp_pk kp))) < 65536"
    "length (effective_identifier (id_server ids) (serialize_pk G spk)) < 65536"
    using any_group.pk_length [OF assms(4,5)] any_group.pk_length [OF assms(4) pk] assms(7-9)
    by (auto simp: effective_identifier_def split: option.splits)
  then obtain sids where sids: "from_identifiers ids (serialize_pk G (kp_pk kp))
      (serialize_pk G spk) = Ok sids" by (rule from_identifiers_total)
  have expand: "\<exists>okm. hkdf_expand_multi_info h infos (hash_len H) = Some okm" for infos
    using hkdf_expand_ok [OF assms(2), of "hash_len H" infos] by auto
  obtain ak ek where "hkdf_expand_multi_info h [env_nonce env, STR_AUTH_KEY] (hash_len H) = Some ak"
    "hkdf_expand_multi_info h [env_nonce env, STR_EXPORT_KEY] (hash_len H) = Some ek"
    using expand by blast
  moreover obtain f where "hmac_new_from_slice H ak = Some f" using assms(1) by (rule hmac_new_ok)
  ultimately show ?thesis using kp sids assms(10)
    by (simp add: envelope_open_def open_raw_def key_defs Let_def protocol_from_internal_def)
qed

text \<open>
  A client whose own parameters are in order: whatever the server sent, short of the reflected
  element, \<open>ClientLogin::finish\<close> returns or fails with \<open>InvalidLoginError\<close>, if that is the only error
  of the last step of the key exchange.
\<close>

lemma client_login_finish_uniform:
  assumes "hash_ok (cs_hash CS)" "group_ok (cs_group CS) wf_sk wf_pk" "derive_total (cs_group CS)"
    and "sk_len (cs_group CS) \<le> 255 * hash_len (cs_hash CS)" "pk_len (cs_group CS) < 65536"
    and "masked_response_len (cs_hash CS) (cs_group CS) \<le> 255 * hash_len (cs_hash CS)"
    and "length (effective_identifier (id_client ids) []) < 65536"
    and "length (effective_identifier (id_server ids) []) < 65536"
    and "length (case c of Some x \<Rightarrow> x | None \<Rightarrow> []) < 65536"
    and pdk: "get_password_derived_key CS pw (cl_oprf_client cst) (crs_evaluation_element cresp) ksf
      = Ok (p, h)"
    and "crs_evaluation_element cresp \<noteq> cr_blinded_element (cl_credential_request cst)"
    and "masked_response_ok (cs_hash CS) (cs_group CS) (crs_masked_response cresp)"
    and ke3: "\<And>req resp spk csk sids ctx. runs (\<lambda>e. e = InvalidLoginError) (\<lambda>_. True)
      (generate_ke3 (cs_ke CS) req (cr_ke1_message (cl_credential_request cst)) resp
        (cl_ke1_state cst) (crs_ke2_message cresp) spk csk sids ctx)"
  shows "yields (\<lambda>e. e = InvalidLoginError) (\<lambda>_. True) (fst (client_login_finish CS cst pw cresp
    \<lparr>clp_context = c, clp_identifiers = ids, clp_ksf = ksf\<rparr> r))"
proof -
  let ?H = "cs_hash CS" and ?G = "cs_group CS"
  have h: "hkdf_ok (hash_len ?H) h" using get_password_derived_key_hkdf_ok [OF assms(1) pdk] .
  obtain mk where mk: "h STR_MASKING_KEY (hash_len ?H) = Some mk" "length mk = hash_len ?H"
    using hkdf_expand_ok [OF h, of "hash_len ?H" "[STR_MASKING_KEY]"]
    by (auto simp: hkdf_expand_multi_info_def)
  then obtain pad where pad: "response_pad ?H ?G mk (crs_masking_nonce cresp) = Some pad"
    by (metis order_refl response_pad_total [OF assms(1) _ assms(6)])
  obtain ctx where ctx: "serialized_context_from c = Ok ctx"
    using serialized_context_from_Ok [OF assms(9)] by blast
  have unmask: "yields (\<lambda>e. e = InvalidLoginError) (\<lambda>(pk, env). wf_pk pk \<and> env_mode env = Internal)
      (map_err unmask_error (unmask_response ?H ?G mk (crs_masking_nonce cresp)
        (crs_masked_response cresp)))"
    using unmask_response_outcomes [OF assms(1,2,12) pad]
    by (auto simp: envelope_ok_def split: prod.splits result.splits)
  have opened: "yields (\<lambda>e. e = InvalidLoginError) (\<lambda>_. True)
      (map_err open_error (envelope_open ?H ?G env h pk ids))"
    if "wf_pk pk" "env_mode env = Internal" for pk env
    using envelope_open_outcomes [OF assms(1) h assms(3,2) that(1) assms(4,5,7,8) that(2)]
    by (auto simp: is_ok_def)
  have "runs (\<lambda>e. e = InvalidLoginError) (\<lambda>_. True) (client_login_finish CS cst pw cresp
      \<lparr>clp_context = c, clp_identifiers = ids, clp_ksf = ksf\<rparr>)"
    using assms(11) [symmetric] mk(1)
    by (simp add: client_login_finish_def pdk ctx bind_lift_Ok)
       (rule runs_bind [OF runs_lift [OF unmask]], clarsimp, rule runs_bind [OF runs_lift [OF opened]],
         assumption+, rule runs_bind [OF ke3], auto intro: runs_return)
  then show ?thesis by (rule runsD)
qed

section \<open>Parties that survive every message\<close>

text \<open>
  A server whose messages and stored login states come from anyone, and a client whose responses and
  stored states do: each deserializes the bytes and goes on with its next operation, and no outcome
  is a panic. The client chooses its own key stretching functions.
\<close>

definition server_survives ::
    "('e, 'oc, 'sk, 'pk, 'k1s, 'k1m, 'k2s, 'k2b, 'k2d, 'k2i, 'k2m, 'k3m) cipher_suite \<Rightarrow> bool" where
  "server_survives CS \<longleftrightarrow>
     (\<forall>(setup :: (bytes, 'sk, 'pk) server_setup) bytes cid password_file params state rng.
        bind_result (registration_request_deserialize CS bytes) (\<lambda>message.
          server_registration_start CS setup message cid) \<noteq> Panic \<and>
        registration_upload_deserialize CS bytes \<noteq> Panic \<and>
        fst (bind_st (lift_st (credential_request_deserialize CS bytes)) (\<lambda>request.
          server_login_start CS setup password_file request cid params) rng) \<noteq> Panic \<and>
        bind_result (server_login_deserialize CS state) (\<lambda>server.
          bind_result (credential_finalization_deserialize CS bytes) (\<lambda>message.
          server_login_finish CS server message params)) \<noteq> Panic)"

definition client_survives ::
    "('e, 'oc, 'sk, 'pk, 'k1s, 'k1m, 'k2s, 'k2b, 'k2d, 'k2i, 'k2m, 'k3m) cipher_suite \<Rightarrow> bool" where
  "client_survives CS \<longleftrightarrow>
     (\<forall>password bytes state rparams params rng.
        (\<forall>f. crp_ksf rparams = Some f \<or> clp_ksf params = Some f \<longrightarrow> ksf_robust f) \<longrightarrow>
        fst (client_registration_start CS password rng) \<noteq> Panic \<and>
        fst (bind_st (lift_st (client_registration_deserialize CS state)) (\<lambda>client.
          bind_st (lift_st (registration_response_deserialize CS bytes)) (\<lambda>response.
          client_registration_finish CS client password response rparams)) rng) \<noteq> Panic \<and>
        fst (client_login_start CS password rng) \<noteq> Panic \<and>
        fst (bind_st (lift_st (client_login_deserialize CS state)) (\<lambda>client.
          bind_st (lift_st (credential_response_deserialize CS bytes)) (\<lambda>response.
          client_login_finish CS client password response params)) rng) \<noteq> Panic)"

text \<open>
  The last step of a client, from the bytes that a server sent: read the response, then
  \<open>ClientLogin::finish\<close>.
\<close>

definition client_login_finish_bytes ::
    "('e, 'oc, 'sk, 'pk, 'k1s, 'k1m, 'k2s, 'k2b, 'k2d, 'k2i, 'k2m, 'k3m) cipher_suite \<Rightarrow>
     ('oc, 'k1s, 'e, 'k1m) client_login \<Rightarrow> bytes \<Rightarrow> bytes \<Rightarrow> client_login_finish_parameters \<Rightarrow> rng \<Rightarrow>
     (protocol_error, ('k3m, 'pk) client_login_finish_result) result" where
  "client_login_finish_bytes CS client password bytes params rng =
     fst (bind_st (lift_st (credential_response_deserialize CS bytes)) (\<lambda>response.
       client_login_finish CS client password response params) rng)"

text \<open>
  How that step can end, for every client state, password, bytes and randomness. Bytes that are no
  response give the error of the decoder, a response that reflects the blinded element gives
  \<open>ReflectedValueError\<close>, and an OPRF or a key stretching function that fails on the password gives
  its own error. After these, nothing that a server can do wrong is told apart: the outcome is a
  result or \<open>InvalidLoginError\<close>. It is never a panic.
\<close>

definition fails_uniformly ::
    "('e, 'oc, 'sk, 'pk, 'k1s, 'k1m, 'k2s, 'k2b, 'k2d, 'k2i, 'k2m, 'k3m) cipher_suite \<Rightarrow>
     client_login_finish_parameters \<Rightarrow> bool" where
  "fails_uniformly CS params \<longleftrightarrow>
     (\<forall>client password bytes rng.
        let outcome = client_login_finish_bytes CS client password bytes params rng in
        case credential_response_deserialize CS bytes of
          Panic \<Rightarrow> False
        | Err e \<Rightarrow> outcome = Err e
        | Ok response \<Rightarrow>
            if cr_blinded_element (cl_credential_request client) = crs_evaluation_element response
            then outcome = Err ReflectedValueError
            else (case get_password_derived_key CS password (cl_oprf_client client)
                     (crs_evaluation_element response) (clp_ksf params) of
                    Panic \<Rightarrow> False
                  | Err e \<Rightarrow> outcome = Err e
                  | Ok _ \<Rightarrow> outcome = Err InvalidLoginError \<or> is_ok outcome))"

text \<open>
  The client's own parameters are in order: context and identifiers fit their two-byte length, the
  suite's keys fit it and the outputs of HKDF, and a custom key stretching function does not panic.
\<close>

definition login_parameters_fit ::
    "('e, 'oc, 'sk, 'pk, 'k1s, 'k1m, 'k2s, 'k2b, 'k2d, 'k2i, 'k2m, 'k3m) cipher_suite \<Rightarrow>
     client_login_finish_parameters \<Rightarrow> bool" where
  "login_parameters_fit CS params \<longleftrightarrow>
     sk_len (cs_group CS) \<le> 255 * hash_len (cs_hash CS) \<and> pk_len (cs_group CS) < 65536 \<and>
     masked_response_len (cs_hash CS) (cs_group CS) \<le> 255 * hash_len (cs_hash CS) \<and>
     length (effective_identifier (id_client (clp_identifiers params)) []) < 65536 \<and>
     length (effective_identifier (id_server (clp_identifiers params)) []) < 65536 \<and>
     length (case clp_context params of Some x \<Rightarrow> x | None \<Rightarrow> []) < 65536 \<and>
     (\<forall>f. clp_ksf params = Some f \<longrightarrow> ksf_robust f)"

locale robust_opaque_suite = opaque_suite +
  fixes live :: bool
  assumes robust_oprf: "trusted \<Longrightarrow> oprf_robust (cs_oprf CS) wf_e"
    and robust_ksf: "trusted \<Longrightarrow> ksf_robust (cs_ksf CS)"
    and robust_ke: "trusted \<Longrightarrow> robust_key_exchange (cs_ke CS) True (elem_len (cs_oprf CS))
      (cs_hash CS) wf_sk wf_pk ok_k1s ok_k1m ok_k2s ok_k2m ok_k3m live"
    and robust_group: "live \<Longrightarrow> derive_total (cs_group CS)"
begin

lemmas ke_parses =
  robust_key_exchange.k1s_parses [OF robust_ke TrueI]
  robust_key_exchange.k1m_parses [OF robust_ke TrueI]
  robust_key_exchange.k2s_parses [OF robust_ke TrueI]
  robust_key_exchange.k2m_parses [OF robust_ke TrueI]
  robust_key_exchange.k3m_parses [OF robust_ke TrueI]

text \<open>Registration messages.\<close>

lemma registration_request_outcome:
  assumes "trusted"
  shows "yields any_error (\<lambda>m. wf_e (rr_blinded_element m)) (registration_request_deserialize CS bs)"
  unfolding registration_request_deserialize_def
  by (rule yields_if, simp,
      rule yields_bind [OF yields_map_err_any [OF oprf_robustD(1) [OF robust_oprf [OF assms]]]])
     simp

lemma registration_response_outcome:
  assumes "trusted"
  shows "yields any_error (\<lambda>m. wf_e (rsp_evaluation_element m) \<and> wf_pk (rsp_server_s_pk m))
    (registration_response_deserialize CS bs)"
proof -
  note element = yields_bind [OF yields_map_err_any [OF oprf_robustD(2) [OF robust_oprf [OF assms]]]]
  note pk = runs_bind [OF parses_pk [OF grp [OF assms], unfolded parses_def]]
  show ?thesis
    unfolding registration_response_deserialize_def Let_def key_defs
    by (rule yields_if, simp, rule element, rule yields_eval, rule pk) (simp add: runs_return)
qed

lemma registration_upload_outcome:
  assumes "trusted"
  shows "yields any_error (\<lambda>m. record_ok CS wf_pk (Some (server_registration_finish m)))
    (registration_upload_deserialize CS bs)"
  unfolding registration_upload_deserialize_def key_defs
  by (rule parses_eval, rule parses_bind [OF parses_pk [OF grp [OF assms]]],
      rule parses_bind [OF parses_take_array], rule parses_bind [OF parses_envelope],
      rule parses_return)
     (simp add: record_ok_def server_registration_finish_def envelope_codec.enc_length)

lemma server_registration_outcome:
  assumes "trusted"
  shows "yields any_error (\<lambda>_. True) (server_registration_start CS setup m cid)"
  unfolding server_registration_start_eq
  by (rule yields_bind [OF server_evaluation_outcome [OF robust_oprf [OF assms]]]) simp

lemma client_registration_state_outcome:
  assumes "trusted"
  shows "yields any_error (\<lambda>_. True) (client_registration_deserialize CS bs)"
proof -
  note state = yields_bind [OF yields_map_err_any [OF oprf_robustD(3) [OF robust_oprf [OF assms]]]]
  note element = yields_bind [OF yields_map_err_any [OF oprf_robustD(1) [OF robust_oprf [OF assms]]]]
  show ?thesis
    unfolding client_registration_deserialize_def Let_def
    by (rule yields_if, simp, rule state, rule element) simp
qed

lemma client_registration_outcomes:
  assumes "trusted" "live" "\<And>f. crp_ksf params = Some f \<Longrightarrow> ksf_robust f"
  shows "runs any_error (\<lambda>_. True) (client_registration_start CS pw)"
    and "runs any_error (\<lambda>_. True) (client_registration_finish CS st pw resp params)"
proof -
  show "runs any_error (\<lambda>_. True) (client_registration_start CS pw)"
    unfolding client_registration_start_def blind_def
    by (rule runs_bind [OF runs_map_err_any [OF oprf_robustD(4) [OF robust_oprf [OF assms(1)]]]])
       (auto intro: runs_return)
  note pdk = get_password_derived_key_outcome [where k = "crp_ksf params",
      OF robust_oprf [OF assms(1)] robust_ksf [OF assms(1)] assms(3) hash [OF assms(1)]]
  show "runs any_error (\<lambda>_. True) (client_registration_finish CS st pw resp params)"
    unfolding client_registration_finish_def
    by (rule runs_if, simp add: runs_lift, rule runs_bind [OF runs_lift [OF pdk]], simp, clarsimp,
        rule runs_bind [OF runs_lift [OF ok_or_outcome]],
        rule runs_bind [OF seal_outcome [OF _ robust_group [OF assms(2)]]], assumption)
       (auto intro: runs_return)
qed

text \<open>Login messages and states.\<close>

lemma credential_request_take_outcome:
  assumes "trusted"
  shows "parses (\<lambda>m. wf_e (cr_blinded_element m) \<and> ok_k1m (cr_ke1_message m))
    (credential_request_deserialize_take CS)"
proof -
  have element: "runs any_error wf_e (\<lambda>input. (map_err protocol_from_voprf
      (deserialize_blinded (cs_oprf CS) (take n input)), input))" for n
    using oprf_robustD(1) [OF robust_oprf [OF assms]] by (intro runsI) (simp add: yields_map_err_any)
  have skip: "runs any_error (\<lambda>_. True) (\<lambda>input. (Ok (), drop n input))" for n :: nat
    by (rule runsI) simp
  note k1m = ke_parses(2) [OF assms, unfolded parses_def]
  have body: "runs any_error (\<lambda>m. wf_e (cr_blinded_element m) \<and> ok_k1m (cr_ke1_message m))
      (bind_st (\<lambda>input. (map_err protocol_from_voprf
          (deserialize_blinded (cs_oprf CS) (take n input)), input)) (\<lambda>blinded_element.
       bind_st (\<lambda>input. (Ok (), drop n input)) (\<lambda>_.
       bind_st (wire_deserialize_take (ke1_message_wire (cs_ke CS))) (\<lambda>ke1_message.
       return_st \<lparr>cr_blinded_element = blinded_element, cr_ke1_message = ke1_message\<rparr>))))" for n
    by (rule runs_bind [OF element], rule runs_bind [OF skip], rule runs_bind [OF k1m])
       (simp add: runs_return)
  show ?thesis
    unfolding parses_def
    by (rule runsI) (simp add: credential_request_deserialize_take_def Let_def runsD [OF body])
qed

lemma credential_request_outcome:
  assumes "trusted"
  shows "yields any_error (\<lambda>m. wf_e (cr_blinded_element m) \<and> ok_k1m (cr_ke1_message m))
    (credential_request_deserialize CS bs)"
  unfolding credential_request_deserialize_def
  by (rule parses_eval [OF credential_request_take_outcome [OF assms]])

lemma credential_response_outcome:
  assumes "trusted"
  shows "yields any_error (\<lambda>m. wf_e (crs_evaluation_element m) \<and>
      length (crs_masking_nonce m) = nonce_len \<and>
      masked_response_ok (cs_hash CS) (cs_group CS) (crs_masked_response m) \<and>
      ok_k2m (crs_ke2_message m))
    (credential_response_deserialize CS bs)"
proof -
  note element = yields_bind [OF yields_map_err_any [OF oprf_robustD(2) [OF robust_oprf [OF assms]]]]
  show ?thesis
    unfolding credential_response_deserialize_def Let_def
    by (rule yields_if, simp, rule element, rule parses_eval, rule parses_bind [OF parses_take_array],
        rule parses_bind [OF parses_masked_response], rule parses_bind [OF ke_parses(4) [OF assms]])
       (simp add: parses_return)
qed

lemma credential_finalization_outcome:
  assumes "trusted"
  shows "yields any_error (\<lambda>m. ok_k3m (cf_ke3_message m)) (credential_finalization_deserialize CS bs)"
  unfolding credential_finalization_deserialize_def
  by (rule parses_eval, rule parses_bind [OF ke_parses(5) [OF assms]]) (simp add: parses_return)

lemma server_login_state_outcome:
  assumes "trusted"
  shows "yields any_error (\<lambda>s. ok_k2s (sl_ke2_state s)) (server_login_deserialize CS bs)"
  unfolding server_login_deserialize_def
  by (rule parses_eval, rule parses_bind [OF ke_parses(3) [OF assms]]) (simp add: parses_return)

lemma client_login_state_outcome:
  assumes "trusted"
  shows "yields any_error (\<lambda>s. ok_k1s (cl_ke1_state s)) (client_login_deserialize CS bs)"
proof -
  note state = yields_bind [OF yields_map_err_any [OF oprf_robustD(3) [OF robust_oprf [OF assms]]]]
  show ?thesis
    unfolding client_login_deserialize_def Let_def
    by (rule yields_if, simp, rule state, rule parses_eval,
        rule parses_bind [OF credential_request_take_outcome [OF assms]],
        rule parses_bind [OF ke_parses(1) [OF assms]])
       (simp add: parses_return)
qed

text \<open>The steps of a login.\<close>

lemma server_login_start_outcome:
  assumes "trusted" "live" "ok_k1m (cr_ke1_message creq)"
  shows "runs any_error (\<lambda>_. True) (server_login_start CS setup pf creq cid params)"
proof -
  have dummy: "runs no_error (\<lambda>_. True) (run_st (server_registration_dummy CS setup))"
    and nonce: "runs no_error (\<lambda>_. True) (run_st (fill_bytes nonce_len))"
    by (rule runs_run, simp)+
  have chosen: "yields no_error (\<lambda>_. True) (choose_record d pf)" for d by (cases pf) simp_all
  have km: "yields any_error (\<lambda>_. True)
      (map_err protocol_from_internal (oprf_key_material CS seed info))" for seed info
    unfolding oprf_key_material_def by (rule yields_map_err_any [OF ok_or_outcome [THEN yields_mono]]) simp_all
  have key: "yields any_error (\<lambda>_. True)
      (map_err protocol_from_internal (oprf_key_from_key_material CS m))" for m
    unfolding oprf_key_from_key_material_def
    by (intro yields_map_err_any oprf_robustD(7) [OF robust_oprf [OF assms(1)]])
  note new = yields_map_err_any [OF oprf_robustD(6) [OF robust_oprf [OF assms(1)]]]
  note ke2 = robust_key_exchange.ke2_outcomes [OF robust_ke [OF assms(1)] TrueI assms(2,3)]
  have builder: "runs any_error (\<lambda>b. \<forall>s_sk r. yields no_error (\<lambda>_. True)
      (build_ke2 (cs_ke CS) (slb_ke2_builder b)
        (fst (generate_ke2_input (cs_ke CS) (slb_ke2_builder b) s_sk r))))
      (builder_with_key_material CS setup m pf creq params)" for m
    unfolding builder_with_key_material_def Let_def
    by (rule runs_bind_total [OF dummy], rule runs_bind_lift_total [OF chosen],
        rule runs_bind [OF runs_lift [OF serialized_context_outcome]],
        rule runs_bind_total [OF nonce], rule runs_bind [OF runs_lift [OF mask_response_outcome]],
        rule runs_bind [OF runs_lift [OF from_identifiers_outcome]],
        rule runs_bind [OF runs_lift [OF key]], rule runs_bind [OF runs_lift [OF new]],
        rule runs_bind [OF ke2]) (simp add: runs_return)
  have new_builder: "runs any_error (\<lambda>b. \<forall>s_sk r. yields no_error (\<lambda>_. True)
      (build_ke2 (cs_ke CS) (slb_ke2_builder b)
        (fst (generate_ke2_input (cs_ke CS) (slb_ke2_builder b) s_sk r))))
      (server_login_builder_new CS setup pf creq cid params)"
    unfolding server_login_builder_new_def Let_def
    by (rule runs_bind [OF runs_lift [OF km]], rule builder)
  have input: "runs any_error (\<lambda>i. yields no_error (\<lambda>_. True)
      (build_ke2 (cs_ke CS) (slb_ke2_builder b) i))
      (run_st (generate_ke2_input (cs_ke CS) (slb_ke2_builder b) sk))"
    if "\<forall>s_sk r. yields no_error (\<lambda>_. True) (build_ke2 (cs_ke CS) (slb_ke2_builder b)
        (fst (generate_ke2_input (cs_ke CS) (slb_ke2_builder b) s_sk r)))" for b sk
    using that by (intro runs_run) simp
  have build: "runs any_error (\<lambda>_. True) (lift_st (server_login_build CS b i))"
    if "yields no_error (\<lambda>_. True) (build_ke2 (cs_ke CS) (slb_ke2_builder b) i)" for b i
    unfolding server_login_build_def by (rule runs_lift, rule yields_bind_total [OF that]) (auto simp: Let_def)
  show ?thesis
    unfolding server_login_start_def
    by (rule runs_bind [OF new_builder], rule runs_bind [OF input], assumption, rule build)
qed

lemma server_login_finish_outcome:
  assumes "trusted"
  shows "yields any_error (\<lambda>_. True) (server_login_finish CS st m params)"
  unfolding server_login_finish_def
  by (rule yields_bind [OF serialized_context_outcome],
      rule yields_bind [OF robust_key_exchange.finish_outcomes [OF robust_ke [OF assms] TrueI]]) simp

lemma client_login_outcomes:
  assumes "trusted" "live" "\<And>f. clp_ksf params = Some f \<Longrightarrow> ksf_robust f"
  shows "runs any_error (\<lambda>_. True) (client_login_start CS pw)"
    and "ok_k2m (crs_ke2_message cresp) \<Longrightarrow>
      runs any_error (\<lambda>_. True) (client_login_finish CS cst pw cresp params)"
proof -
  note ke1 = robust_key_exchange.ke1_outcomes [OF robust_ke [OF assms(1)] TrueI assms(2)]
  show "runs any_error (\<lambda>_. True) (client_login_start CS pw)"
    unfolding client_login_start_def blind_def Let_def
    by (rule runs_bind [OF runs_map_err_any [OF oprf_robustD(4) [OF robust_oprf [OF assms(1)]]]],
        clarsimp, rule runs_bind_total [OF ke1]) (auto intro: runs_return)
  assume k2m: "ok_k2m (crs_ke2_message cresp)"
  note pdk = get_password_derived_key_outcome [where k = "clp_ksf params",
      OF robust_oprf [OF assms(1)] robust_ksf [OF assms(1)] assms(3) hash [OF assms(1)]]
  note unmask = yields_map_err_any [OF unmask_response_outcome [OF grp [OF assms(1)]]]
  note opened = yields_map_err_any [OF envelope_open_outcome [OF _ robust_group [OF assms(2)]]]
  note ke3 = robust_key_exchange.ke3_outcomes [OF robust_ke [OF assms(1)] TrueI k2m]
  show "runs any_error (\<lambda>_. True) (client_login_finish CS cst pw cresp params)"
    unfolding client_login_finish_def
    by (rule runs_if, simp add: runs_lift, rule runs_bind [OF runs_lift [OF pdk]], simp, clarsimp,
        rule runs_bind [OF runs_lift [OF ok_or_outcome]], rule runs_bind [OF runs_lift [OF unmask]],
        clarsimp, rule runs_bind [OF runs_lift [OF opened]], assumption,
        rule runs_bind [OF runs_lift [OF serialized_context_outcome]],
        rule runs_bind [OF runs_mono [OF ke3]]) (auto intro: runs_return)
qed

text \<open>Put together.\<close>

lemma server_survives_all:
  assumes "trusted" "live"
  shows "server_survives CS"
  unfolding server_survives_def yields_any [symmetric]
proof (intro allI conjI)
  fix SS :: "(bytes, 'c, 'd) server_setup" and bs cid pf params state rng
  show "yields any_error (\<lambda>_. True) (bind_result (registration_request_deserialize CS bs)
      (\<lambda>message. server_registration_start CS SS message cid))"
    by (rule yields_bind [OF registration_request_outcome [OF assms(1)]],
        rule server_registration_outcome [OF assms(1)])
  show "yields any_error (\<lambda>_. True) (registration_upload_deserialize CS bs)"
    by (rule yields_mono [OF registration_upload_outcome [OF assms(1)]]) simp_all
  show "yields any_error (\<lambda>_. True) (fst (bind_st (lift_st (credential_request_deserialize CS bs))
      (\<lambda>request. server_login_start CS SS pf request cid params) rng))"
    by (rule runsD, rule runs_bind [OF runs_lift [OF credential_request_outcome [OF assms(1)]]])
       (simp add: server_login_start_outcome [OF assms])
  show "yields any_error (\<lambda>_. True) (bind_result (server_login_deserialize CS state) (\<lambda>server.
      bind_result (credential_finalization_deserialize CS bs) (\<lambda>message.
      server_login_finish CS server message params)))"
    by (rule yields_bind [OF server_login_state_outcome [OF assms(1)]],
        rule yields_bind [OF credential_finalization_outcome [OF assms(1)]],
        rule server_login_finish_outcome [OF assms(1)])
qed

lemma client_survives_all:
  assumes "trusted" "live"
  shows "client_survives CS"
  unfolding client_survives_def yields_any [symmetric]
proof (intro allI impI conjI)
  fix pw bs state rng
  fix rparams :: client_registration_finish_parameters and params :: client_login_finish_parameters
  assume k: "\<forall>f. crp_ksf rparams = Some f \<or> clp_ksf params = Some f \<longrightarrow> ksf_robust f"
  then have r: "\<And>f. crp_ksf rparams = Some f \<Longrightarrow> ksf_robust f"
    and l: "\<And>f. clp_ksf params = Some f \<Longrightarrow> ksf_robust f" by blast+
  show "yields any_error (\<lambda>_. True) (fst (client_registration_start CS pw rng))"
    by (rule runsD, rule client_registration_outcomes [OF assms r])
  show "yields any_error (\<lambda>_. True) (fst (bind_st (lift_st (client_registration_deserialize CS state))
      (\<lambda>client. bind_st (lift_st (registration_response_deserialize CS bs)) (\<lambda>response.
        client_registration_finish CS client pw response rparams)) rng))"
    by (rule runsD, rule runs_bind [OF runs_lift [OF client_registration_state_outcome [OF assms(1)]]],
        rule runs_bind [OF runs_lift [OF registration_response_outcome [OF assms(1)]]],
        rule client_registration_outcomes [OF assms r])
  show "yields any_error (\<lambda>_. True) (fst (client_login_start CS pw rng))"
    by (rule runsD, rule client_login_outcomes [OF assms l])
  show "yields any_error (\<lambda>_. True) (fst (bind_st (lift_st (client_login_deserialize CS state))
      (\<lambda>client. bind_st (lift_st (credential_response_deserialize CS bs)) (\<lambda>response.
        client_login_finish CS client pw response params)) rng))"
    by (rule runsD, rule runs_bind [OF runs_lift [OF client_login_state_outcome [OF assms(1)]]],
        rule runs_bind [OF runs_lift [OF credential_response_outcome [OF assms(1)]]])
       (simp add: client_login_outcomes(2) [OF assms l])
qed

text \<open>The outcomes of a client whose own parameters are in order.\<close>

lemma client_login_uniform:
  assumes "trusted" "live" "login_parameters_fit CS params"
  shows "fails_uniformly CS params"
  unfolding fails_uniformly_def
proof (intro allI)
  fix cst :: "('b, 'e, 'a, 'f) client_login" and pw bytes r
  let ?out = "client_login_finish_bytes CS cst pw bytes params r"
  have Ok: "?out = fst (client_login_finish CS cst pw cresp params r)"
    if "credential_response_deserialize CS bytes = Ok cresp" for cresp
    using that by (simp add: client_login_finish_bytes_def bind_lift_Ok)
  have eta: "\<lparr>clp_context = clp_context params, clp_identifiers = clp_identifiers params,
      clp_ksf = clp_ksf params\<rparr> = params"
    by (cases params) simp
  have uniform: "?out = Err InvalidLoginError \<or> is_ok ?out"
    if resp: "credential_response_deserialize CS bytes = Ok cresp"
      and fresh: "crs_evaluation_element cresp \<noteq> cr_blinded_element (cl_credential_request cst)"
      and pdk: "get_password_derived_key CS pw (cl_oprf_client cst) (crs_evaluation_element cresp)
        (clp_ksf params) = Ok (p, h)" for cresp p h
  proof -
    have cresp: "masked_response_ok (cs_hash CS) (cs_group CS) (crs_masked_response cresp)"
      "ok_k2m (crs_ke2_message cresp)"
      using credential_response_outcome [OF assms(1), of bytes] resp by simp_all
    note ke3 = robust_key_exchange.ke3_outcomes [OF robust_ke [OF assms(1)] TrueI cresp(2)]
    from client_login_finish_uniform [OF hash [OF assms(1)] grp [OF assms(1)] robust_group [OF assms(2)]
        _ _ _ _ _ _ pdk fresh cresp(1) ke3, of "clp_identifiers params" "clp_context params" r]
      assms(3) show ?thesis
      by (simp add: yields_single_error login_parameters_fit_def Ok [OF resp] eta)
  qed
  have no_panic: "credential_response_deserialize CS bytes \<noteq> Panic"
    "get_password_derived_key CS pw c e (clp_ksf params) \<noteq> Panic" for c e
    using credential_response_outcome [OF assms(1), of bytes] assms(3)
      get_password_derived_key_outcome [OF robust_oprf [OF assms(1)] robust_ksf [OF assms(1)] _
        hash [OF assms(1)], of "clp_ksf params" pw c e]
    by (auto simp: yields_any_iff login_parameters_fit_def)
  show "let outcome = ?out in case credential_response_deserialize CS bytes of
          Panic \<Rightarrow> False
        | Err e \<Rightarrow> outcome = Err e
        | Ok response \<Rightarrow>
            if cr_blinded_element (cl_credential_request cst) = crs_evaluation_element response
            then outcome = Err ReflectedValueError
            else (case get_password_derived_key CS pw (cl_oprf_client cst)
                     (crs_evaluation_element response) (clp_ksf params) of
                    Panic \<Rightarrow> False
                  | Err e \<Rightarrow> outcome = Err e
                  | Ok _ \<Rightarrow> outcome = Err InvalidLoginError \<or> is_ok outcome)"
  proof (cases "credential_response_deserialize CS bytes")
    case resp: (Ok cresp)
    show ?thesis
      using uniform [OF resp] no_panic(2) [of "cl_oprf_client cst" "crs_evaluation_element cresp"]
      by (auto simp: Let_def resp Ok [OF resp] client_login_finish_def bind_st_def lift_st_def
          split: result.split)
  qed (use no_panic(1) in \<open>simp_all add: Let_def client_login_finish_bytes_def bind_st_def lift_st_def\<close>)
qed

end

end
