(* ===== verification/Login_Properties.thy ===== *)
theory Login_Properties
  imports Over_Wire Robustness
begin

text \<open>
  Properties of the server setup and of OPAQUE-3DH logins beyond honest agreement: what survives
  storage and what a response reveals about the record it is made from.
\<close>

section \<open>Facts\<close>

context opaque_suite
begin

text \<open>The states that both sides keep between the messages of a login survive storage.\<close>

lemma login_states_roundtrip:
  assumes "trusted" "server_setup_ok CS wf_sk wf_pk setup"
    and reg: "registered CS setup cid pw rparams pf ek"
    and login: "login_started CS setup cid pw pf \<lparr>slp_context = c, slp_identifiers = ids\<rparr>
      creq cst cresp sst"
  shows "client_login_deserialize CS (client_login_serialize CS cst) = Ok cst"
    and "server_login_deserialize CS (server_login_serialize CS sst) = Ok sst"
proof -
  note P = oprf [OF assms(1)] and K = ke [OF assms(1)]
  note ok = login_messages_ok [OF assms]
  note facts = oprf_okD(5,6) [OF P ok(1)]
    wire_okD [OF key_exchange_protocol.k1s_wire [OF K TrueI] ok(4)]
    credential_request_rt [OF P key_exchange_protocol.k1m_wire [OF K TrueI] ok(3,5)]
  show "client_login_deserialize CS (client_login_serialize CS cst) = Ok cst"
    by (simp add: client_login_serialize_def client_login_deserialize_def cat_def facts ok(2)
        eval_st_def Let_def)
  show "server_login_deserialize CS (server_login_serialize CS sst) = Ok sst"
    using wire_okD [OF key_exchange_protocol.k2s_wire [OF K TrueI] ok(10)]
    by (simp add: server_login_serialize_def server_login_deserialize_def eval_st_def)
qed

end

context live_opaque_suite
begin

lemma every_login_start_answered:
  assumes "trusted" "live" "server_setup_ok CS wf_sk wf_pk setup"
    and service: "service_ok CS setup I W" "cid \<in> I" "pw \<in> W"
  shows "\<exists>creq cst r1. client_login_start CS pw r = (Ok (creq, cst), r1) \<and>
    (\<forall>pf r2. record_ok CS wf_pk pf \<longrightarrow> (\<exists>cresp sst r3.
      server_login_start CS setup pf creq cid default_server_login_parameters r2
        = (Ok (cresp, sst), r3)))"
proof -
  obtain ev c be r' p h where ev: "server_evaluation CS (ss_oprf_seed setup) cid = Ok ev"
    and b: "oprf_blind (cs_oprf CS) pw r = (Ok (c, be), r')"
    using service by (rule service_okD)
  have sizes: "masked_response_len (cs_hash CS) (cs_group CS) \<le> 255 * hash_len (cs_hash CS)"
    "pk_len (cs_group CS) < 65536"
    "length (effective_identifier (id_client default_identifiers) []) < 65536"
    "length (effective_identifier (id_server default_identifiers) []) < 65536"
    "length (case (None :: bytes option) of Some x \<Rightarrow> x | None \<Rightarrow> []) < 65536"
    using service(1) by (simp_all add: service_ok_def effective_identifier_def default_identifiers_def)
  have answer: "\<exists>creq cst r1 cresp sst r3. client_login_start CS pw r = (Ok (creq, cst), r1) \<and>
      server_login_start CS setup pf creq cid default_server_login_parameters r2
        = (Ok (cresp, sst), r3)" if pf: "record_ok CS wf_pk pf" for pf r2
  proof -
    obtain rcd where rcd: "record_ok CS wf_pk (Some rcd)"
      "pf = None \<Longrightarrow> rcd = fst (server_registration_dummy CS setup r2)"
      "\<And>file. pf = Some file \<Longrightarrow> rcd = file"
      using pf dummy_record_ok [OF assms(3), of r2] by (cases pf) auto
    show ?thesis
      using login_start_total [OF assms(1-3) b ev _ _ _ _ _ sizes, of rcd pf r2] rcd
      unfolding default_server_login_parameters_def record_ok_def by auto
  qed
  obtain creq cst r1 where start: "client_login_start CS pw r = (Ok (creq, cst), r1)"
    using answer [OF record_ok_None] by blast
  with answer show ?thesis by fastforce
qed

end

text \<open>A masked response has the length of its type, whatever it hides.\<close>

lemma mask_response_ok:
  assumes "hash_ok H" "mask_response H G mk n spk env = Ok mr"
  shows "masked_response_ok H G mr"
proof -
  from assms(2) obtain pad where pad: "response_pad H G mk n = Some pad"
    and mr: "eval_st (masked_response_deserialize_take H G)
      (xor_bytes pad (serialize_pk G spk @ envelope_serialize env)) = Ok mr"
    by (auto simp: mask_response_eq split: option.splits)
  have "length (xor_bytes pad (serialize_pk G spk @ envelope_serialize env))
      = masked_response_len H G"
    using response_pad_length [OF assms(1) pad] by simp
  then obtain mr' where "masked_response_deserialize_take H G
      (xor_bytes pad (serialize_pk G spk @ envelope_serialize env)) = (Ok mr', [])"
    and "masked_response_ok H G mr'" by (rule masked_response_decode)
  with mr show ?thesis by (simp add: eval_st_def)
qed

text \<open>
  The public part of the server's builder in 3DH and the generator that it leaves do not depend on
  the client's key, the identifiers, the context or the credential response.
\<close>

lemma tdh_ke2_builder_public:
  assumes "tdh_ke2_builder G dh req m1 resp cpk sids ctx r = (Ok b, r1)"
    and "tdh_ke2_builder G dh req m1 resp' cpk' sids' ctx' r = (Ok b', r1')"
  shows "r1' = r1" "k2b_server_nonce b' = k2b_server_nonce b"
    and "k2b_server_e_pk b' = k2b_server_e_pk b"
  using assms
  by (auto simp: tdh_ke2_builder_def shared_ke2_builder_common_def bind_st_Ok_iff Let_def)

lemma tdh_build_ke2_public:
  assumes "hash_ok H" "tdh_build_ke2 H b input = Ok (st2, m2)"
  shows "k2m_server_nonce m2 = k2b_server_nonce b" "k2m_server_e_pk m2 = k2b_server_e_pk b"
    and "length (k2m_mac m2) = hash_len H"
  using assms(2) hmac_new_length [OF assms(1)]
  by (auto simp: tdh_build_ke2_def bind_result_Ok_iff eval_st_Ok_iff compute_ke2_macs_Ok_iff Let_def)

text \<open>How a response of 3DH comes from the evaluation, the masking nonce and some record.\<close>

definition tdh_answer ::
    "('e, 'oc) oprf_suite \<Rightarrow> ('sk, 'pk) ke_group \<Rightarrow> ('sk, 'pk) diffie_hellman \<Rightarrow> hash_fns \<Rightarrow> ksf \<Rightarrow>
     (bytes, 'sk, 'pk) server_setup \<Rightarrow> ('e, 'pk ke1_message) credential_request \<Rightarrow> ('e \<Rightarrow> 'e) \<Rightarrow>
     bytes \<Rightarrow> rng \<Rightarrow> ('e, 'pk ke2_message) credential_response \<Rightarrow> rng \<Rightarrow> bool" where
  "tdh_answer P G dh H ksf setup creq ev n rb cresp r1 \<longleftrightarrow>
     (\<exists>(rcd :: 'pk server_registration) mr b resp sids ctx input st2 m2.
        mask_response (oprf_hash P) G (ru_masking_key rcd) n (kp_pk (ss_keypair setup))
          (ru_envelope rcd) = Ok mr \<and>
        tdh_ke2_builder G dh (credential_request_to_parts (tdh_suite P G dh H ksf) creq)
          (cr_ke1_message creq) resp (ru_client_s_pk rcd) sids ctx rb = (Ok b, r1) \<and>
        tdh_build_ke2 H b input = Ok (st2, m2) \<and>
        cresp = \<lparr>crs_evaluation_element = ev (cr_blinded_element creq),
          crs_masking_nonce = n, crs_masked_response = mr, crs_ke2_message = m2\<rparr>)"

lemma tdh_server_login_startD:
  fixes G :: "('sk, 'pk) ke_group"
  assumes "server_login_start (tdh_suite P G dh H ksf) setup pf creq cid params r
    = (Ok (cresp, sst), r1)"
  shows "\<exists>ev n rb.
    server_evaluation (tdh_suite P G dh H ksf) (ss_oprf_seed setup) cid = Ok ev \<and>
    fill_bytes nonce_len (snd (server_registration_dummy (tdh_suite P G dh H ksf) setup r))
      = (n, rb) \<and>
    tdh_answer P G dh H ksf setup creq ev n rb cresp r1"
proof -
  from assms obtain ev dummy ra n rb mr sids ctx b r3 input st2 m2 and rcd :: "'pk server_registration"
    where "server_evaluation (tdh_suite P G dh H ksf) (ss_oprf_seed setup) cid = Ok ev"
    "server_registration_dummy (tdh_suite P G dh H ksf) setup r = (dummy, ra)"
    "fill_bytes nonce_len ra = (n, rb)"
    "mask_response (oprf_hash P) G (ru_masking_key rcd) n (kp_pk (ss_keypair setup))
      (ru_envelope rcd) = Ok mr"
    "ke2_builder (triple_dh G dh H) (credential_request_to_parts (tdh_suite P G dh H ksf) creq)
      (cr_ke1_message creq) (serialized_credential_response_new (tdh_suite P G dh H ksf)
        (ev (cr_blinded_element creq)) n mr) (ru_client_s_pk rcd) sids ctx rb = (Ok b, r3)"
    "generate_ke2_input (triple_dh G dh H) b (kp_sk (ss_keypair setup)) r3 = (input, r1)"
    "build_ke2 (triple_dh G dh H) b input = Ok (st2, m2)"
    "cresp = \<lparr>crs_evaluation_element = ev (cr_blinded_element creq),
      crs_masking_nonce = n, crs_masked_response = mr, crs_ke2_message = m2\<rparr>"
    unfolding server_login_start_Ok_iff tdh_suite_simps by blast
  then show ?thesis
    unfolding tdh_answer_def by (fastforce simp: triple_dh_def tdh_generate_ke2_input_def)
qed

section \<open>Properties\<close>

text \<open>
  C24. Every server setup that \<open>ServerSetup::new\<close> makes is consistent: the seed has the length of the
  hash, the public key belongs to the private key and the dummy key is a valid key; and storage
  keeps it: its serialization has the fixed length and is read back as the same setup.
\<close>

theorem server_setup_persists:
  assumes "group_ok (cs_group CS) wf_sk wf_pk" "server_setup_new CS r = Some (setup, r')"
  defines "SK \<equiv> private_key_serialization_impl (cs_group CS)"
    and "OS \<equiv> oprf_seed_serialization_impl (cs_hash CS) id"
  shows "server_setup_ok CS wf_sk wf_pk setup \<and>
    length (server_setup_serialize CS SK OS setup) = server_setup_len CS SK OS \<and>
    server_setup_deserialize CS SK OS id (server_setup_serialize CS SK OS setup) = Ok setup"
proof -
  note ok = server_setup_new_ok [OF assms(1,2)]
  from server_setup_roundtrip_aux(1) [OF assms(1) ok]
    server_setup_roundtrip_aux(2) [OF assms(1) ok, of "[]"] ok
  show ?thesis by (simp add: SK_def OS_def)
qed

theorem server_setup_persists_witness:
  "let SK = private_key_serialization_impl mini_group;
       OS = oprf_seed_serialization_impl (mini_hash 32) id
   in server_setup_deserialize mini_tdh_suite_32 SK OS id
     (server_setup_serialize mini_tdh_suite_32 SK OS mini_setup_32) = Ok mini_setup_32"
  using server_setup_persists [of mini_tdh_suite_32, OF _ mini_setup_new] mini_group_ok
  by (simp add: Let_def)

text \<open>
  C25. The state that either side of OPAQUE-3DH keeps while a login is under way survives storage:
  after an honest registration and the first two messages, \<open>ClientLogin\<close> and \<open>ServerLogin\<close> are read
  back from their serializations unchanged.
\<close>

theorem login_states_persist:
  assumes "oprf_ok P wf_e wf_oc" "dh_ok G dh wf_sk wf_pk" "hash_ok H"
    and "server_setup_ok (tdh_suite P G dh H ksf) wf_sk wf_pk setup"
    and "registered (tdh_suite P G dh H ksf) setup cid pw rparams pf ek"
    and "login_started (tdh_suite P G dh H ksf) setup cid pw pf
      \<lparr>slp_context = c, slp_identifiers = ids\<rparr> creq cst cresp sst"
  shows "client_login_deserialize (tdh_suite P G dh H ksf)
      (client_login_serialize (tdh_suite P G dh H ksf) cst) = Ok cst \<and>
    server_login_deserialize (tdh_suite P G dh H ksf)
      (server_login_serialize (tdh_suite P G dh H ksf) sst) = Ok sst"
proof -
  have "oprf_ok P wf_e wf_oc \<and> dh_ok G dh wf_sk wf_pk \<and> hash_ok H" using assms(1-3) by simp
  from tdh_opaque.login_states_roundtrip [OF this assms(4-6)] show ?thesis by blast
qed

theorem login_states_persist_witness:
  "\<exists>pf ek creq cst cresp sst.
    registered mini_tdh_suite mini_setup [7] [3, 1]
      \<lparr>crp_identifiers = sample_ids, crp_ksf = None\<rparr> pf ek \<and>
    login_started mini_tdh_suite mini_setup [7] [3, 1] pf mini_params creq cst cresp sst \<and>
    client_login_deserialize mini_tdh_suite (client_login_serialize mini_tdh_suite cst) = Ok cst \<and>
    server_login_deserialize mini_tdh_suite (server_login_serialize mini_tdh_suite sst) = Ok sst"
proof -
  obtain pf ek creq cst cresp sst where
    reg: "registered mini_tdh_suite mini_setup [7] [3, 1]
      \<lparr>crp_identifiers = sample_ids, crp_ksf = None\<rparr> pf ek"
    and login: "login_started mini_tdh_suite mini_setup [7] [3, 1] pf mini_params creq cst cresp sst"
    by (rule mini_run [OF mini_suites_ok(1) _ _ mini_setup_ok(1)]) simp_all
  from login_states_persist [OF mini_suite_ok mini_setup_ok(1) reg login] reg login
  show ?thesis by blast
qed

text \<open>
  C18. A server answers every login: for a server that meets \<open>service_ok\<close>, the client's start
  succeeds, and whether the user has a record of the right shape or none at all, and whatever the
  generator produces, \<open>ServerLogin::start\<close> returns a response and never an error that would tell
  the two apart.
\<close>

theorem every_login_answered:
  assumes "oprf_ok P wf_e wf_oc" "dh_ok G dh wf_sk wf_pk" "hash_ok H" "derive_total G"
    and "server_setup_ok (tdh_suite P G dh H ksf) wf_sk wf_pk setup"
    and "service_ok (tdh_suite P G dh H ksf) setup I W" "cid \<in> I" "pw \<in> W"
  shows "\<exists>creq cst r1. client_login_start (tdh_suite P G dh H ksf) pw r = (Ok (creq, cst), r1) \<and>
    (\<forall>pf r2. record_ok (tdh_suite P G dh H ksf) wf_pk pf \<longrightarrow> (\<exists>cresp sst r3.
      server_login_start (tdh_suite P G dh H ksf) setup pf creq cid
        default_server_login_parameters r2 = (Ok (cresp, sst), r3)))"
proof -
  have "oprf_ok P wf_e wf_oc \<and> dh_ok G dh wf_sk wf_pk \<and> hash_ok H" using assms(1-3) by simp
  from tdh_opaque.every_login_start_answered [OF this assms(4-8)] show ?thesis .
qed

theorem every_login_answered_witness:
  "\<exists>creq cst r1 cresp sst r3.
    client_login_start mini_tdh_suite_32 [49] (counter_rng 0) = (Ok (creq, cst), r1) \<and>
    server_login_start mini_tdh_suite_32 mini_setup_32 None creq [50]
      default_server_login_parameters (counter_rng 9) = (Ok (cresp, sst), r3)"
proof -
  have "[50] \<in> set mini_identifiers" "[49] \<in> set mini_passwords"
    by (simp_all add: mini_identifiers_def mini_passwords_def)
  from every_login_answered [OF mini_32_ok mini_derive_total mini_setup_32_ok
      mini_service_32 [OF subset_refl subset_refl] this, of "counter_rng 0"]
  show ?thesis using record_ok_None by blast
qed

text \<open>
  C17. What a 3DH server answers depends on the record only through the masked response and the MAC:
  for any two records (the file of a registered user, another file, or none, where a dummy is made
  up) the same request and randomness give the same evaluation element, masking nonce, server nonce
  and ephemeral key, leave the generator in the same state, and give responses of the same length.
\<close>

theorem response_hides_record:
  fixes G :: "('sk, 'pk) ke_group"
  assumes "hash_ok (oprf_hash P)" "hash_ok H"
    and "server_login_start (tdh_suite P G dh H ksf) setup pf creq cid params r
      = (Ok (cresp, sst), r1)"
    and "server_login_start (tdh_suite P G dh H ksf) setup pf' creq cid params r
      = (Ok (cresp', sst'), r1')"
  shows "r1' = r1 \<and> crs_evaluation_element cresp' = crs_evaluation_element cresp \<and>
    crs_masking_nonce cresp' = crs_masking_nonce cresp \<and>
    k2m_server_nonce (crs_ke2_message cresp') = k2m_server_nonce (crs_ke2_message cresp) \<and>
    k2m_server_e_pk (crs_ke2_message cresp') = k2m_server_e_pk (crs_ke2_message cresp) \<and>
    length (credential_response_serialize (tdh_suite P G dh H ksf) cresp')
      = length (credential_response_serialize (tdh_suite P G dh H ksf) cresp)"
proof -
  obtain ev n rb where run:
      "server_evaluation (tdh_suite P G dh H ksf) (ss_oprf_seed setup) cid = Ok ev"
      "fill_bytes nonce_len (snd (server_registration_dummy (tdh_suite P G dh H ksf) setup r))
        = (n, rb)"
    and first: "tdh_answer P G dh H ksf setup creq ev n rb cresp r1"
    using tdh_server_login_startD [OF assms(3)] by blast
  have "tdh_answer P G dh H ksf setup creq ev n rb cresp' r1'"
    using tdh_server_login_startD [OF assms(4)] run by auto
  then obtain mr' b' resp' sids' ctx' input' st2' m2' and rcd' :: "'pk server_registration"
    where mr': "mask_response (oprf_hash P) G (ru_masking_key rcd') n (kp_pk (ss_keypair setup))
      (ru_envelope rcd') = Ok mr'"
    and b': "tdh_ke2_builder G dh (credential_request_to_parts (tdh_suite P G dh H ksf) creq)
      (cr_ke1_message creq) resp' (ru_client_s_pk rcd') sids' ctx' rb = (Ok b', r1')"
    and build': "tdh_build_ke2 H b' input' = Ok (st2', m2')"
    and cresp': "cresp' = \<lparr>crs_evaluation_element = ev (cr_blinded_element creq),
      crs_masking_nonce = n, crs_masked_response = mr', crs_ke2_message = m2'\<rparr>"
    unfolding tdh_answer_def by blast
  from first obtain mr b resp sids ctx input st2 m2 and rcd :: "'pk server_registration"
    where mr: "mask_response (oprf_hash P) G (ru_masking_key rcd) n (kp_pk (ss_keypair setup))
      (ru_envelope rcd) = Ok mr"
    and b: "tdh_ke2_builder G dh (credential_request_to_parts (tdh_suite P G dh H ksf) creq)
      (cr_ke1_message creq) resp (ru_client_s_pk rcd) sids ctx rb = (Ok b, r1)"
    and build: "tdh_build_ke2 H b input = Ok (st2, m2)"
    and cresp: "cresp = \<lparr>crs_evaluation_element = ev (cr_blinded_element creq),
      crs_masking_nonce = n, crs_masked_response = mr, crs_ke2_message = m2\<rparr>"
    unfolding tdh_answer_def by blast
  note pub = tdh_ke2_builder_public [OF b b'] tdh_build_ke2_public [OF assms(2) build]
    tdh_build_ke2_public [OF assms(2) build']
  have "length (masked_response_serialize mr') = length (masked_response_serialize mr)"
    using masked_response_codec.enc_length [OF mask_response_ok [OF assms(1) mr]]
      masked_response_codec.enc_length [OF mask_response_ok [OF assms(1) mr']] by simp
  with pub show ?thesis
    by (simp add: cresp cresp' credential_response_serialize_def cat_def triple_dh_def
        ke2_message_serialize_def Let_def)
qed

theorem response_hides_record_witness:
  "\<exists>creq cresp sst r1 cresp' sst' r1' rcd.
    server_login_start mini_tdh_suite_32 mini_setup_32 (Some rcd) creq [50]
      default_server_login_parameters (counter_rng 9) = (Ok (cresp, sst), r1) \<and>
    server_login_start mini_tdh_suite_32 mini_setup_32 None creq [50]
      default_server_login_parameters (counter_rng 9) = (Ok (cresp', sst'), r1') \<and>
    r1' = r1 \<and> crs_evaluation_element cresp' = crs_evaluation_element cresp"
proof -
  let ?rcd = "fst (server_registration_dummy mini_tdh_suite_32 mini_setup_32 (counter_rng 1))"
  have ids: "[50] \<in> set mini_identifiers" "[49] \<in> set mini_passwords"
    by (simp_all add: mini_identifiers_def mini_passwords_def)
  have trusted: "oprf_ok (mini_oprf 32) (\<lambda>_. True) (\<lambda>_. True) \<and>
      dh_ok mini_group mini_dh (\<lambda>_. True) (\<lambda>_. True) \<and> hash_ok (mini_hash 32)"
    using mini_32_ok by simp
  obtain creq where answers: "\<And>pf r2. record_ok mini_tdh_suite_32 (\<lambda>_. True) pf \<Longrightarrow>
      \<exists>cresp sst r3. server_login_start mini_tdh_suite_32 mini_setup_32 pf creq [50]
        default_server_login_parameters r2 = (Ok (cresp, sst), r3)"
    using tdh_opaque.every_login_start_answered [OF trusted mini_derive_total mini_setup_32_ok
      mini_service_32 [OF subset_refl subset_refl] ids, of "counter_rng 0"] by blast
  obtain cresp sst r1 where start: "server_login_start mini_tdh_suite_32 mini_setup_32 (Some ?rcd)
      creq [50] default_server_login_parameters (counter_rng 9) = (Ok (cresp, sst), r1)"
    using answers [OF dummy_record_ok [OF mini_setup_32_ok]] by blast
  obtain cresp' sst' r1' where unknown: "server_login_start mini_tdh_suite_32 mini_setup_32 None
      creq [50] default_server_login_parameters (counter_rng 9) = (Ok (cresp', sst'), r1')"
    using answers [OF record_ok_None] by blast
  have "hash_ok (oprf_hash (mini_oprf 32))" by (simp add: mini_hash_ok)
  from response_hides_record [OF this mini_32_ok(3) start unknown] start unknown
  show ?thesis by blast
qed

end
