(* ===== verification/Robust_Logins.thy ===== *)
theory Robust_Logins
  imports Login_Properties
begin

text \<open>
  \<open>robust_opaque_suite\<close> for the three suites: no message makes a server or a client panic, every
  record that an upload leaves can be answered from, and a client that has read a response that is
  no reflection has one error for everything that a server can do wrong.
\<close>

section \<open>The suites\<close>

interpretation robust_tdh_opaque: robust_opaque_suite "tdh_suite P G dh H k"
  "oprf_ok P wf_e wf_oc \<and> dh_ok G dh wf_sk wf_pk \<and> hash_ok H \<and> oprf_robust P wf_e \<and> ksf_robust k"
  wf_e wf_oc wf_sk wf_pk "ke1_state_ok wf_sk" "ke1_message_ok wf_pk" "ke2_state_ok H"
  "ke2_message_ok H wf_pk" "ke3_message_ok H" "derive_total G"
  for P :: "('e, 'oc) oprf_suite" and G :: "('sk, 'pk) ke_group" and dh H k
    and wf_e wf_oc wf_sk wf_pk
proof (intro robust_opaque_suite.intro opaque_suite.intro robust_opaque_suite_axioms.intro, goal_cases)
  case 2
  then show ?case
    using tdh.key_exchange_protocol_axioms [of G dh H wf_sk wf_pk "elem_len P" "oprf_hash P"]
    by simp
next
  case 5
  then show ?case
    using robust_tdh.robust_key_exchange_axioms [of G dh H wf_sk wf_pk "elem_len P" "oprf_hash P"]
    by simp
qed simp_all

interpretation robust_kem_opaque: robust_opaque_suite "kem_suite P G dh H K k"
  "oprf_ok P wf_e wf_oc \<and> dh_ok G dh wf_sk wf_pk \<and> hash_ok H \<and> kem_robust K wf_dk wf_ek \<and>
   oprf_robust P wf_e \<and> ksf_robust k"
  wf_e wf_oc wf_sk wf_pk "kem_ke1_state_ok wf_sk wf_dk" "kem_ke1_message_ok K wf_pk"
  "kem_ke2_state_ok H K" "kem_ke2_message_ok H K wf_pk" "ke3_message_ok H" "derive_total G"
  for P :: "('e, 'oc) oprf_suite" and G :: "('sk, 'pk) ke_group" and dh H
    and K :: "('dk, 'ek) kem_core_wrapper" and k and wf_e wf_oc wf_sk wf_pk wf_dk wf_ek
proof (intro robust_opaque_suite.intro opaque_suite.intro robust_opaque_suite_axioms.intro, goal_cases)
  case 2
  then show ?case
    using tdh_kem.key_exchange_protocol_axioms [of G dh H K wf_sk wf_pk wf_dk wf_ek
        "elem_len P" "oprf_hash P"] by (simp add: kem_robust_ok)
next
  case 5
  then show ?case
    using robust_tdh_kem.robust_key_exchange_axioms [of G dh H K wf_sk wf_pk wf_dk wf_ek
        "elem_len P" "oprf_hash P"] by simp
qed simp_all

interpretation robust_sigma_opaque: robust_opaque_suite "sigma_suite P SP KG dh H k"
  "oprf_ok P wf_e wf_oc \<and>
   signature_robust SP wf_sk wf_pk wf_sig wf_vs (sigma_messages P SP KG H) \<and>
   dh_ok KG dh wf_esk wf_epk \<and> hash_ok H \<and> oprf_robust P wf_e \<and> ksf_robust k"
  wf_e wf_oc wf_sk wf_pk "ke1_state_ok wf_esk" "ke1_message_ok wf_epk"
  "sigma_ke2_state_ok H wf_pk wf_vs" "sigma_ke2_message_ok H wf_epk wf_sig"
  "sigma_ke3_message_ok H wf_sig" "derive_total KG \<and> derive_total (sig_group SP)"
  for P :: "('e, 'oc) oprf_suite" and SP :: "('sk, 'pk, 'sig, 'vs) signature_protocol"
    and KG :: "('esk, 'epk) ke_group" and dh H k
    and wf_e wf_oc wf_sk wf_pk wf_sig wf_vs wf_esk wf_epk
proof (intro robust_opaque_suite.intro opaque_suite.intro robust_opaque_suite_axioms.intro, goal_cases)
  case 2
  then have "signature_ok SP wf_sk wf_pk wf_sig wf_vs (sigma_messages P SP KG H)"
    by (simp add: signature_robust_ok)
  with 2 show ?case
    using sigma.key_exchange_protocol_axioms [of SP KG dh H wf_sk wf_pk wf_sig wf_vs
        "elem_len P" "oprf_hash P" wf_esk wf_epk]
    by (simp add: sigma_messages_def [abs_def])
next
  case 5
  then have "robust_key_exchange (sigma_i SP KG dh H) True (elem_len P) (oprf_hash P) wf_sk wf_pk
      (ke1_state_ok wf_esk) (ke1_message_ok wf_epk) (sigma_ke2_state_ok H wf_pk wf_vs)
      (sigma_ke2_message_ok H wf_epk wf_sig) (sigma_ke3_message_ok H wf_sig) (derive_total KG)"
    using robust_sigma.robust_key_exchange_axioms [where SP = SP and KG = KG and dh = dh and H = H
        and wf_sk = wf_sk and wf_pk = wf_pk and wf_sig = wf_sig and wf_vs = wf_vs
        and ne = "elem_len P" and OH = "oprf_hash P" and wf_esk = wf_esk and wf_epk = wf_epk]
    by (simp add: sigma_messages_def [abs_def])
  then show ?case
    by (auto simp: robust_key_exchange_def robust_key_exchange_axioms_def)
next
  case 6
  then show ?case by (simp add: sigma_i_def)
qed simp_all


section \<open>Concrete suites\<close>

lemma mini_oprf_robust: "oprf_robust (mini_oprf nh) (\<lambda>_. True)"
  unfolding oprf_robust_def runs_def by (auto simp: mini_oprf_def Let_def split: prod.split)

lemma mini_signature_robust:
  "signature_robust mini_pure_eddsa (ed_sk_ok mini_edwards) (ed_pk_ok mini_edwards) ed_signature_ok
     (cached_message_ok 1 (mini_hash 2) (ed25519 mini_edwards) mini_group (mini_hash 2))
     (sigma_messages (mini_oprf 2) mini_pure_eddsa mini_group (mini_hash 2))"
  using robust_ed_pure.robust_signature_axioms
    [of mini_edwards 1 "mini_hash 2" mini_group "mini_hash 2"]
  by (simp add: signature_robust_def mini_edwards_ok sigma_messages_def [abs_def])

section \<open>Properties\<close>

text \<open>
  C14. No bytes make a party of OPAQUE-3DH panic. Whatever arrives as a registration request, an
  upload, a credential request or a finalization, and whatever login state is read back, the
  server's next operation returns a value or an error, for every setup and record; the same holds
  of the client for every response and stored state. And every upload that the server accepts is a
  record it can answer logins from.
\<close>

theorem tdh_parties_survive:
  assumes "oprf_ok P wf_e wf_oc" "oprf_robust P wf_e" "dh_ok G dh wf_sk wf_pk" "hash_ok H"
    and "derive_total G" "ksf_robust k"
  shows "server_survives (tdh_suite P G dh H k) \<and> client_survives (tdh_suite P G dh H k) \<and>
    (\<forall>bytes upload. registration_upload_deserialize (tdh_suite P G dh H k) bytes = Ok upload \<longrightarrow>
       record_ok (tdh_suite P G dh H k) wf_pk (Some (server_registration_finish upload)))"
proof -
  have trusted: "oprf_ok P wf_e wf_oc \<and> dh_ok G dh wf_sk wf_pk \<and> hash_ok H \<and> oprf_robust P wf_e \<and>
      ksf_robust k" using assms by simp
  show ?thesis
    using robust_tdh_opaque.server_survives_all [OF trusted assms(5)]
      robust_tdh_opaque.client_survives_all [OF trusted assms(5)]
      robust_tdh_opaque.registration_upload_outcome [OF trusted] by (simp add: yields_any_iff)
qed

theorem tdh_parties_survive_witness:
  "server_survives mini_tdh_suite \<and> client_survives mini_tdh_suite"
  using tdh_parties_survive [OF mini_suite_ok(1) mini_oprf_robust mini_suite_ok(2,3)
      mini_derive_total ksf_robust_impls(1)] by blast

text \<open>
  C15. The same for 3DH with a KEM: the encapsulation key that a client sends is only validated when
  the server answers, and a ciphertext of the server is decapsulated as it comes; neither makes the
  other party panic.
\<close>

theorem kem_parties_survive:
  assumes "oprf_ok P wf_e wf_oc" "oprf_robust P wf_e" "dh_ok G dh wf_sk wf_pk" "hash_ok H"
    and "kem_robust K wf_dk wf_ek" "derive_total G" "ksf_robust k"
  shows "server_survives (kem_suite P G dh H K k) \<and> client_survives (kem_suite P G dh H K k)"
proof -
  have trusted: "oprf_ok P wf_e wf_oc \<and> dh_ok G dh wf_sk wf_pk \<and> hash_ok H \<and>
      kem_robust K wf_dk wf_ek \<and> oprf_robust P wf_e \<and> ksf_robust k" using assms by simp
  show ?thesis
    using robust_kem_opaque.server_survives_all [OF trusted assms(6)]
      robust_kem_opaque.client_survives_all [OF trusted assms(6)] by blast
qed

theorem kem_parties_survive_witness:
  "server_survives mini_kem_suite \<and> client_survives mini_kem_suite"
  using kem_parties_survive [OF mini_suite_ok(1) mini_oprf_robust mini_suite_ok(2,3) mini_kem_robust
      mini_derive_total ksf_robust_impls(1)] by blast

text \<open>
  C16. The same for SIGMA-I, where signatures and, in the stored state of the server, the cached
  message of PureEdDSA or the pre-hash of the other signature protocols are read from the bytes.
\<close>

theorem sigma_parties_survive:
  assumes "oprf_ok P wf_e wf_oc" "oprf_robust P wf_e"
    and "signature_robust SP wf_sk wf_pk wf_sig wf_vs (sigma_messages P SP KG H)"
    and "dh_ok KG dh wf_esk wf_epk" "hash_ok H" "derive_total KG" "derive_total (sig_group SP)"
    and "ksf_robust k"
  shows "server_survives (sigma_suite P SP KG dh H k) \<and> client_survives (sigma_suite P SP KG dh H k)"
proof -
  have trusted: "oprf_ok P wf_e wf_oc \<and>
      signature_robust SP wf_sk wf_pk wf_sig wf_vs (sigma_messages P SP KG H) \<and>
      dh_ok KG dh wf_esk wf_epk \<and> hash_ok H \<and> oprf_robust P wf_e \<and> ksf_robust k"
    using assms by simp
  have live: "derive_total KG \<and> derive_total (sig_group SP)" using assms by simp
  show ?thesis
    using robust_sigma_opaque.server_survives_all [OF trusted live]
      robust_sigma_opaque.client_survives_all [OF trusted live] by blast
qed

theorem sigma_parties_survive_witness:
  "server_survives mini_sigma_suite \<and> client_survives mini_sigma_suite"
  by (rule sigma_parties_survive [OF mini_suite_ok(1) mini_oprf_robust mini_signature_robust
        mini_suite_ok(2,3) mini_derive_total _ ksf_robust_impls(1)]) (simp add: ed_derive_total)

text \<open>
  C11. The errors of an OPAQUE-3DH client are uniform. If its own parameters are in order, then for
  every state, password and response from anyone the last step ends as follows: bytes that are no
  response give the decoder's error, a reflected element gives \<open>ReflectedValueError\<close>, an OPRF or key
  stretching function that fails gives its error; in every other case the client has a session
  key or \<open>InvalidLoginError\<close>, so that a wrong password, a masked response that is not a key, an
  envelope that does not open and a wrong MAC are not told apart. No server can make it panic.
\<close>

theorem login_failures_uniform:
  assumes "oprf_ok P wf_e wf_oc" "oprf_robust P wf_e" "dh_ok G dh wf_sk wf_pk" "hash_ok H"
    and "derive_total G" "ksf_robust k"
    and "login_parameters_fit (tdh_suite P G dh H k) params"
  shows "fails_uniformly (tdh_suite P G dh H k) params"
proof -
  have "oprf_ok P wf_e wf_oc \<and> dh_ok G dh wf_sk wf_pk \<and> hash_ok H \<and> oprf_robust P wf_e \<and>
      ksf_robust k" using assms by simp
  from robust_tdh_opaque.client_login_uniform [OF this assms(5,7)] show ?thesis .
qed

text \<open>
  One response, read from its bytes, for two clients: to the one that sent the element 9 it is a
  reflection, to the other it is a response that ends in a session key or \<open>InvalidLoginError\<close>.
\<close>

lemma mini_response:
  assumes "opaque_suite CS True (\<lambda>_. True) wf_oc wf_sk wf_pk ok_k1s ok_k1m ok_k2s ok_k2m ok_k3m"
    and "cs_oprf CS = mini_oprf 2" "ok_k2m m2"
  obtains bytes mr where "credential_response_deserialize CS bytes
    = Ok \<lparr>crs_evaluation_element = 9, crs_masking_nonce = zeros nonce_len,
          crs_masked_response = mr, crs_ke2_message = m2\<rparr>"
proof -
  let ?mr = "\<lparr>mr_nonce = zeros nonce_len, mr_hash = zeros 2, mr_pk = zeros (pk_len (cs_group CS))\<rparr>"
  note wire = key_exchange_protocol.k2m_wire [OF opaque_suite.ke [OF assms(1) TrueI] TrueI]
  have "oprf_ok (cs_oprf CS) (\<lambda>_. True) wf_oc" using opaque_suite.oprf [OF assms(1)] by simp
  from credential_response_rt(2) [OF this wire, of "\<lparr>crs_evaluation_element = 9,
      crs_masking_nonce = zeros nonce_len, crs_masked_response = ?mr, crs_ke2_message = m2\<rparr>" "[]"]
  show thesis using that assms(2,3) by (simp add: masked_response_ok_def)
qed

lemma fails_uniformly_mini:
  assumes uniform: "fails_uniformly CS default_client_login_parameters"
    and resp: "credential_response_deserialize CS bytes
      = Ok \<lparr>crs_evaluation_element = 9, crs_masking_nonce = n, crs_masked_response = mr,
            crs_ke2_message = m2\<rparr>"
    and suite: "cs_oprf CS = mini_oprf 2" "cs_ksf CS = ksf_identity"
  shows "client_login_finish_bytes CS \<lparr>cl_oprf_client = c, cl_ke1_state = st, cl_credential_request
      = \<lparr>cr_blinded_element = 9, cr_ke1_message = m1\<rparr>\<rparr> pw bytes default_client_login_parameters r
      = Err ReflectedValueError"
    and "e \<noteq> 9 \<Longrightarrow> client_login_finish_bytes CS \<lparr>cl_oprf_client = c, cl_ke1_state = st,
      cl_credential_request = \<lparr>cr_blinded_element = e, cr_ke1_message = m1\<rparr>\<rparr> pw bytes
        default_client_login_parameters r \<in> insert (Err InvalidLoginError) (range Ok)"
proof -
  obtain p h where pdk: "get_password_derived_key CS pw c 9 None = Ok (p, h)"
    by (rule mini_password_key [OF suite])
  have ksf: "clp_ksf default_client_login_parameters = None"
    by (simp add: default_client_login_parameters_def)
  note at = uniform [unfolded fails_uniformly_def Let_def, rule_format, where bytes = bytes,
      unfolded resp result.case]
  show "client_login_finish_bytes CS \<lparr>cl_oprf_client = c, cl_ke1_state = st, cl_credential_request
      = \<lparr>cr_blinded_element = 9, cr_ke1_message = m1\<rparr>\<rparr> pw bytes default_client_login_parameters r
      = Err ReflectedValueError"
    using at [of "\<lparr>cl_oprf_client = c, cl_ke1_state = st, cl_credential_request
      = \<lparr>cr_blinded_element = 9, cr_ke1_message = m1\<rparr>\<rparr>" pw r] by simp
  show "client_login_finish_bytes CS \<lparr>cl_oprf_client = c, cl_ke1_state = st,
      cl_credential_request = \<lparr>cr_blinded_element = e, cr_ke1_message = m1\<rparr>\<rparr> pw bytes
        default_client_login_parameters r \<in> insert (Err InvalidLoginError) (range Ok)" if "e \<noteq> 9"
    using at [of "\<lparr>cl_oprf_client = c, cl_ke1_state = st, cl_credential_request
      = \<lparr>cr_blinded_element = e, cr_ke1_message = m1\<rparr>\<rparr>" pw r] that
    by (auto simp: ksf pdk is_ok_def split: result.splits)
qed

lemma mini_parameters_fit:
  "login_parameters_fit mini_tdh_suite default_client_login_parameters"
  "login_parameters_fit mini_kem_suite default_client_login_parameters"
  "login_parameters_fit mini_sigma_suite default_client_login_parameters"
  by (simp_all add: login_parameters_fit_def masked_response_len_def envelope_len_def nonce_len_def
      effective_identifier_def default_client_login_parameters_def default_identifiers_def ed25519_def)

abbreviation mini_client where
  "mini_client e \<equiv>
      \<lparr>cl_oprf_client = 1, cl_ke1_state = \<lparr>client_e_sk = 5, k1s_client_nonce = zeros nonce_len\<rparr>,
       cl_credential_request = \<lparr>cr_blinded_element = e,
         cr_ke1_message = \<lparr>k1m_client_nonce = zeros nonce_len, client_e_pk = 15\<rparr>\<rparr>\<rparr>"

theorem login_failures_uniform_witness:
  "\<exists>bytes. is_ok (credential_response_deserialize mini_tdh_suite bytes) \<and>
    client_login_finish_bytes mini_tdh_suite (mini_client 9) [49] bytes
      default_client_login_parameters (counter_rng 0) = Err ReflectedValueError \<and>
    client_login_finish_bytes mini_tdh_suite (mini_client 7) [49] bytes
      default_client_login_parameters (counter_rng 0) \<in> insert (Err InvalidLoginError) (range Ok)"
proof -
  let ?m2 = "\<lparr>k2m_server_nonce = zeros nonce_len, k2m_server_e_pk = 3 :: byte, k2m_mac = zeros 2\<rparr>"
  have "ke2_message_ok (mini_hash 2) (\<lambda>_. True) ?m2" by (simp add: ke2_message_ok_def)
  then obtain bytes mr where "credential_response_deserialize mini_tdh_suite bytes
      = Ok \<lparr>crs_evaluation_element = 9, crs_masking_nonce = zeros nonce_len,
          crs_masked_response = mr, crs_ke2_message = ?m2\<rparr>"
    using mini_response [OF live_opaque_suite.axioms(1) [OF mini_suites_ok(1)]] by auto
  with fails_uniformly_mini [OF login_failures_uniform [OF mini_suite_ok(1) mini_oprf_robust
      mini_suite_ok(2,3) mini_derive_total ksf_robust_impls(1) mini_parameters_fit(1)] this
      tdh_suite_simps(1,3)]
  show ?thesis by (intro exI [of _ bytes]) (simp add: is_ok_def)
qed

text \<open>
  C12. The errors of a client of 3DH with a KEM are uniform in the same sense: once a response is read,
  is no reflection and the OPRF and key stretching have succeeded, a ciphertext that does not match,
  a wrong MAC and a record that does not unmask or open are not told apart.
\<close>

theorem kem_login_failures_uniform:
  assumes "oprf_ok P wf_e wf_oc" "oprf_robust P wf_e" "dh_ok G dh wf_sk wf_pk" "hash_ok H"
    and "kem_robust K wf_dk wf_ek" "derive_total G" "ksf_robust k"
    and "login_parameters_fit (kem_suite P G dh H K k) params"
  shows "fails_uniformly (kem_suite P G dh H K k) params"
proof -
  have "oprf_ok P wf_e wf_oc \<and> dh_ok G dh wf_sk wf_pk \<and> hash_ok H \<and>
      kem_robust K wf_dk wf_ek \<and> oprf_robust P wf_e \<and> ksf_robust k" using assms by simp
  from robust_kem_opaque.client_login_uniform [OF this assms(6,8)] show ?thesis .
qed

abbreviation mini_kem_client where
  "mini_kem_client e \<equiv>
      \<lparr>cl_oprf_client = 1, cl_ke1_state = \<lparr>kk1s_dh_state =
         \<lparr>client_e_sk = 5, k1s_client_nonce = zeros nonce_len\<rparr>, kem_decapsulation_key = 4\<rparr>,
       cl_credential_request = \<lparr>cr_blinded_element = e, cr_ke1_message =
         \<lparr>kk1m_dh_message = \<lparr>k1m_client_nonce = zeros nonce_len, client_e_pk = 15\<rparr>,
          kk1m_encapsulation_key = [4]\<rparr>\<rparr>\<rparr>"

theorem kem_login_failures_uniform_witness:
  "\<exists>bytes. is_ok (credential_response_deserialize mini_kem_suite bytes) \<and>
    client_login_finish_bytes mini_kem_suite (mini_kem_client 9) [49] bytes
      default_client_login_parameters (counter_rng 0) = Err ReflectedValueError \<and>
    client_login_finish_bytes mini_kem_suite (mini_kem_client 7) [49] bytes
      default_client_login_parameters (counter_rng 0) \<in> insert (Err InvalidLoginError) (range Ok)"
proof -
  let ?m2 = "\<lparr>kk2m_dh_message = \<lparr>k2m_server_nonce = zeros nonce_len, k2m_server_e_pk = 3 :: byte,
      k2m_mac = zeros 2\<rparr>, kk2m_ciphertext = [6]\<rparr>"
  have "kem_ke2_message_ok (mini_hash 2) mini_kem (\<lambda>_. True) ?m2"
    by (simp add: kem_ke2_message_ok_def ke2_message_ok_def ml_kem_wrapper_def mini_ml_kem_def)
  then obtain bytes mr where "credential_response_deserialize mini_kem_suite bytes
      = Ok \<lparr>crs_evaluation_element = 9, crs_masking_nonce = zeros nonce_len,
          crs_masked_response = mr, crs_ke2_message = ?m2\<rparr>"
    using mini_response [OF live_opaque_suite.axioms(1) [OF mini_suites_ok(2)]] by auto
  with fails_uniformly_mini [OF kem_login_failures_uniform [OF mini_suite_ok(1) mini_oprf_robust
      mini_suite_ok(2,3) mini_kem_robust mini_derive_total ksf_robust_impls(1)
      mini_parameters_fit(2)] this kem_suite_simps(1,3)]
  show ?thesis by (intro exI [of _ bytes]) (simp add: is_ok_def)
qed

text \<open>
  C13. And so are those of a client of SIGMA-I: a MAC or a signature that does not verify, an envelope
  that does not open and a response that does not unmask all end in \<open>InvalidLoginError\<close>; only the
  decoder, the reflection check, the OPRF and the key stretching have errors of their own.
\<close>

theorem sigma_login_failures_uniform:
  assumes "oprf_ok P wf_e wf_oc" "oprf_robust P wf_e"
    and "signature_robust SP wf_sk wf_pk wf_sig wf_vs (sigma_messages P SP KG H)"
    and "dh_ok KG dh wf_esk wf_epk" "hash_ok H" "derive_total KG" "derive_total (sig_group SP)"
    and "ksf_robust k"
    and "login_parameters_fit (sigma_suite P SP KG dh H k) params"
  shows "fails_uniformly (sigma_suite P SP KG dh H k) params"
proof -
  have "oprf_ok P wf_e wf_oc \<and>
      signature_robust SP wf_sk wf_pk wf_sig wf_vs (sigma_messages P SP KG H) \<and>
      dh_ok KG dh wf_esk wf_epk \<and> hash_ok H \<and> oprf_robust P wf_e \<and> ksf_robust k"
    and "derive_total KG \<and> derive_total (sig_group SP)" using assms by simp_all
  from robust_sigma_opaque.client_login_uniform [OF this assms(9)] show ?thesis .
qed

theorem sigma_login_failures_uniform_witness:
  "\<exists>bytes. is_ok (credential_response_deserialize mini_sigma_suite bytes) \<and>
    client_login_finish_bytes mini_sigma_suite (mini_client 9) [49] bytes
      default_client_login_parameters (counter_rng 0) = Err ReflectedValueError \<and>
    client_login_finish_bytes mini_sigma_suite (mini_client 7) [49] bytes
      default_client_login_parameters (counter_rng 0) \<in> insert (Err InvalidLoginError) (range Ok)"
proof -
  let ?m2 = "\<lparr>sg2_server_nonce = zeros nonce_len, sg2_server_e_pk = 3 :: byte,
      sg2_signature = \<lparr>sig_R = zeros 32, sig_s = 1 :: byte\<rparr>, sg2_mac = zeros 2\<rparr>"
  have "sigma_ke2_message_ok (mini_hash 2) (\<lambda>_. True) ed_signature_ok ?m2"
    by (simp add: sigma_ke2_message_ok_def ed_signature_ok_def)
  then obtain bytes mr where "credential_response_deserialize mini_sigma_suite bytes
      = Ok \<lparr>crs_evaluation_element = 9, crs_masking_nonce = zeros nonce_len,
          crs_masked_response = mr, crs_ke2_message = ?m2\<rparr>"
    using mini_response [OF live_opaque_suite.axioms(1) [OF mini_suites_ok(3)]] by auto
  with fails_uniformly_mini [OF sigma_login_failures_uniform [OF mini_suite_ok(1) mini_oprf_robust
      mini_signature_robust mini_suite_ok(2,3) mini_derive_total _ ksf_robust_impls(1)
      mini_parameters_fit(3)] this sigma_suite_simps(1,3)]
  show ?thesis by (intro exI [of _ bytes]) (simp add: is_ok_def ed_derive_total)
qed

end
