(* ===== verification/Matching_Logins.thy ===== *)
theory Matching_Logins
  imports Matching_Sessions Robust_Logins Over_Wire
begin

text \<open>
  Agreement without honest delivery, for whole logins: the contract that the three key exchanges
  share when anybody may have changed their messages (\<open>Matching_Sessions\<close>) as a locale, and in it what
  a client and a server of \<open>opaque.rs\<close> agree on when the server's last step accepts.
\<close>

section \<open>The two runs of a key exchange\<close>

text \<open>What a party knows of its run: its view, the messages it sent and received, its secrets.\<close>

record ('k1m, 'k2b, 'k2i, 'k2m) server_run =
  ks_view :: session_view
  ks_sids :: serialized_identifiers
  ks_ctx :: serialized_context
  ks_m1 :: 'k1m
  ks_builder :: 'k2b
  ks_input :: 'k2i
  ks_m2 :: 'k2m

record ('k1s, 'k1m, 'k2m, 'sk, 'pk) client_run =
  kc_view :: session_view
  kc_sids :: serialized_identifiers
  kc_ctx :: serialized_context
  kc_state :: 'k1s
  kc_m1 :: 'k1m
  kc_m2 :: 'k2m
  kc_server_pk :: 'pk
  kc_sk :: 'sk

text \<open>
  \<open>same_reply\<close> is what the client can know of the server's message, \<open>collision\<close> the collision that
  excuses a disagreement; both depend on the key exchange.
\<close>

locale matching_key_exchange =
  fixes KE :: "('sk, 'pk, 'k1s, 'k1m, 'k2s, 'k2b, 'k2d, 'k2i, 'k2m, 'k3m) key_exchange"
    and trusted :: bool
    and ne :: nat
    and OH :: hash_fns
    and wf_sk :: "'sk \<Rightarrow> bool"
    and ok_k1m :: "'k1m \<Rightarrow> bool"
    and ok_k2m :: "'k2m \<Rightarrow> bool"
    and same_reply :: "'k2m \<Rightarrow> 'k2m \<Rightarrow> bool"
    and collision :: "('k1m, 'k2b, 'k2i, 'k2m) server_run \<Rightarrow>
      ('k1s, 'k1m, 'k2m, 'sk, 'pk) client_run \<Rightarrow> bool"
  assumes matching: "trusted \<Longrightarrow> wf_sk c_sk \<Longrightarrow> wf_sk s_sk \<Longrightarrow>
      view_ok ne OH (ke_grp KE) v sids ctx \<Longrightarrow> view_ok ne OH (ke_grp KE) v' sids' ctx' \<Longrightarrow>
      ok_k1m m1 \<Longrightarrow> ok_k2m m2' \<Longrightarrow> generate_ke1 KE r1 = (Ok (st1, m1'), r1') \<Longrightarrow>
      ke2_builder KE (v_request v) m1 (v_response v) cpk sids ctx r2 = (Ok b, r2') \<Longrightarrow>
      generate_ke2_input KE b s_sk r3 = (input, r3') \<Longrightarrow>
      build_ke2 KE b input = Ok (st2, m2) \<Longrightarrow>
      generate_ke3 KE (v_request v') m1' (v_response v') st1 m2' spk c_sk sids' ctx' r4
        = (Ok (key', m3), r4') \<Longrightarrow>
      finish_ke KE st2 m3 fids fctx = Ok key \<Longrightarrow>
      same_view v v' \<and> m1 = m1' \<and> same_reply m2 m2' \<and>
        (spk = public_key (ke_grp KE) s_sk \<and> cpk = public_key (ke_grp KE) c_sk \<longrightarrow> key = key') \<or>
      collision
        \<lparr>ks_view = v, ks_sids = sids, ks_ctx = ctx, ks_m1 = m1, ks_builder = b, ks_input = input,
         ks_m2 = m2\<rparr>
        \<lparr>kc_view = v', kc_sids = sids', kc_ctx = ctx', kc_state = st1, kc_m1 = m1', kc_m2 = m2',
         kc_server_pk = spk, kc_sk = c_sk\<rparr>"

section \<open>3DH\<close>

definition tdh_collision ::
    "('sk, 'pk) ke_group \<Rightarrow> ('sk, 'pk) diffie_hellman \<Rightarrow> hash_fns \<Rightarrow>
     ('pk ke1_message, 'pk ke2_builder, bytes, 'pk ke2_message) server_run \<Rightarrow>
     ('sk ke1_state, 'pk ke1_message, 'pk ke2_message, 'sk, 'pk) client_run \<Rightarrow> bool" where
  "tdh_collision G dh H S C \<longleftrightarrow>
     (let th = view_transcript G (ks_view S) (ks_sids S) (ks_ctx S) (ks_m1 S) (ks_m2 S);
          th' = view_transcript G (kc_view C) (kc_sids C) (kc_ctx C) (kc_m1 C) (kc_m2 C);
          e_sk = client_e_sk (kc_state C); e_pk = k2m_server_e_pk (kc_m2 C) in
      \<exists>dk dk'.
        derive_keys H [k2b_shared_secret_1 (ks_builder S), ks_input S,
          k2b_shared_secret_3 (ks_builder S)] (hash_digest H th) = Ok dk \<and>
        derive_keys H [dh e_sk e_pk, dh e_sk (kc_server_pk C), dh (kc_sk C) e_pk]
          (hash_digest H th') = Ok dk' \<and>
        confirmation_collision H dk th (k2m_mac (ks_m2 S)) dk' th' (k2m_mac (kc_m2 C)))"

interpretation tdh_matching: matching_key_exchange "triple_dh G dh H"
  "dh_ok G dh wf_sk wf_pk \<and> hash_ok H" ne OH wf_sk "ke1_message_ok wf_pk" "ke2_message_ok H wf_pk"
  "(=)" "tdh_collision G dh H"
  for G :: "('sk, 'pk) ke_group" and dh H wf_sk wf_pk ne OH
proof (unfold_locales, elim conjE)
  fix c_sk s_sk v sids ctx v' sids' ctx' m1 m2' r1 st1 m1' r1' cpk r2 b r2' r3 input r3' st2 m2
    spk r4 key' m3 r4' fids fctx key
  let ?KE = "triple_dh G dh H"
  assume "dh_ok G dh wf_sk wf_pk" "hash_ok H" "wf_sk c_sk" "wf_sk s_sk"
    "view_ok ne OH (ke_grp ?KE) v sids ctx" "view_ok ne OH (ke_grp ?KE) v' sids' ctx'"
    "ke1_message_ok wf_pk m1" "ke2_message_ok H wf_pk m2'"
    "generate_ke1 ?KE r1 = (Ok (st1, m1'), r1')"
    "ke2_builder ?KE (v_request v) m1 (v_response v) cpk sids ctx r2 = (Ok b, r2')"
    "generate_ke2_input ?KE b s_sk r3 = (input, r3')" "build_ke2 ?KE b input = Ok (st2, m2)"
    "generate_ke3 ?KE (v_request v') m1' (v_response v') st1 m2' spk c_sk sids' ctx' r4
        = (Ok (key', m3), r4')"
    "finish_ke ?KE st2 m3 fids fctx = Ok key"
  from tdh_matching_sessions [OF this] show
    "same_view v v' \<and> m1 = m1' \<and> m2 = m2' \<and>
        (spk = public_key (ke_grp ?KE) s_sk \<and> cpk = public_key (ke_grp ?KE) c_sk \<longrightarrow> key = key') \<or>
      tdh_collision G dh H
        \<lparr>ks_view = v, ks_sids = sids, ks_ctx = ctx, ks_m1 = m1, ks_builder = b, ks_input = input,
         ks_m2 = m2\<rparr>
        \<lparr>kc_view = v', kc_sids = sids', kc_ctx = ctx', kc_state = st1, kc_m1 = m1', kc_m2 = m2',
         kc_server_pk = spk, kc_sk = c_sk\<rparr>"
    unfolding tdh_collision_def Let_def by (simp, blast)
qed

section \<open>3DH with a KEM\<close>

definition kem_collision ::
    "('sk, 'pk) ke_group \<Rightarrow> ('sk, 'pk) diffie_hellman \<Rightarrow> hash_fns \<Rightarrow> ('dk, 'ek) kem_core_wrapper \<Rightarrow>
     ('pk kem_ke1_message, 'pk kem_builder, bytes, 'pk kem_ke2_message) server_run \<Rightarrow>
     (('sk, 'dk) kem_ke1_state, 'pk kem_ke1_message, 'pk kem_ke2_message, 'sk, 'pk) client_run \<Rightarrow>
     bool" where
  "kem_collision G dh H K S C \<longleftrightarrow>
     (let th = kem_view_transcript G (ks_view S) (ks_sids S) (ks_ctx S) (ks_m1 S) (ks_m2 S);
          th' = kem_view_transcript G (kc_view C) (kc_sids C) (kc_ctx C) (kc_m1 C) (kc_m2 C);
          e_sk = client_e_sk (kk1s_dh_state (kc_state C));
          e_pk = k2m_server_e_pk (kk2m_dh_message (kc_m2 C)) in
      \<exists>dk dk' kss.
        derive_keys H [kk2b_shared_secret_1 (ks_builder S), ks_input S,
          kk2b_shared_secret_3 (ks_builder S), kk2b_kem_shared_secret (ks_builder S)]
          (hash_digest H th) = Ok dk \<and>
        kem_decapsulate K (kem_decapsulation_key (kc_state C)) (kk2m_ciphertext (kc_m2 C)) = Ok kss \<and>
        derive_keys H [dh e_sk e_pk, dh e_sk (kc_server_pk C), dh (kc_sk C) e_pk, kss]
          (hash_digest H th') = Ok dk' \<and>
        confirmation_collision H dk th (k2m_mac (kk2m_dh_message (ks_m2 S)))
          dk' th' (k2m_mac (kk2m_dh_message (kc_m2 C))))"

interpretation kem_matching: matching_key_exchange "triple_dh_kem G dh H K"
  "dh_ok G dh wf_sk wf_pk \<and> hash_ok H \<and> kem_robust K wf_dk wf_ek" ne OH wf_sk
  "kem_ke1_message_ok K wf_pk" "kem_ke2_message_ok H K wf_pk" "(=)" "kem_collision G dh H K"
  for G :: "('sk, 'pk) ke_group" and dh H and K :: "('dk, 'ek) kem_core_wrapper"
    and wf_sk wf_pk wf_dk wf_ek ne OH
proof (unfold_locales, elim conjE)
  fix c_sk s_sk v sids ctx v' sids' ctx' m1 m2' r1 st1 m1' r1' cpk r2 b r2' r3 input r3' st2 m2
    spk r4 key' m3 r4' fids fctx key
  let ?KE = "triple_dh_kem G dh H K"
  assume "dh_ok G dh wf_sk wf_pk" "hash_ok H" "kem_robust K wf_dk wf_ek" "wf_sk c_sk" "wf_sk s_sk"
    "view_ok ne OH (ke_grp ?KE) v sids ctx" "view_ok ne OH (ke_grp ?KE) v' sids' ctx'"
    "kem_ke1_message_ok K wf_pk m1" "kem_ke2_message_ok H K wf_pk m2'"
    "generate_ke1 ?KE r1 = (Ok (st1, m1'), r1')"
    "ke2_builder ?KE (v_request v) m1 (v_response v) cpk sids ctx r2 = (Ok b, r2')"
    "generate_ke2_input ?KE b s_sk r3 = (input, r3')" "build_ke2 ?KE b input = Ok (st2, m2)"
    "generate_ke3 ?KE (v_request v') m1' (v_response v') st1 m2' spk c_sk sids' ctx' r4
        = (Ok (key', m3), r4')"
    "finish_ke ?KE st2 m3 fids fctx = Ok key"
  from kem_matching_sessions [OF this] show
    "same_view v v' \<and> m1 = m1' \<and> m2 = m2' \<and>
        (spk = public_key (ke_grp ?KE) s_sk \<and> cpk = public_key (ke_grp ?KE) c_sk \<longrightarrow> key = key') \<or>
      kem_collision G dh H K
        \<lparr>ks_view = v, ks_sids = sids, ks_ctx = ctx, ks_m1 = m1, ks_builder = b, ks_input = input,
         ks_m2 = m2\<rparr>
        \<lparr>kc_view = v', kc_sids = sids', kc_ctx = ctx', kc_state = st1, kc_m1 = m1', kc_m2 = m2',
         kc_server_pk = spk, kc_sk = c_sk\<rparr>"
    unfolding kem_collision_def Let_def by (simp, blast)
qed

section \<open>SIGMA-I\<close>

text \<open>
  The two third MACs of a session are those of the client's identifier under a key that is derived
  from one secret and the transcript. So a collision is one of the MAC, of the key schedule, or of the
  hash; the server's ephemeral private key is known by its public key.
\<close>

definition sigma_transcript ::
    "('esk, 'epk) ke_group \<Rightarrow> session_view \<Rightarrow> serialized_identifiers \<Rightarrow> serialized_context \<Rightarrow>
     'epk ke1_message \<Rightarrow> ('epk, 'sig) sigma_ke2_message \<Rightarrow> bytes" where
  "sigma_transcript KG v sids ctx m1 m2 =
     view_transcript KG v sids ctx m1
       \<lparr>k2m_server_nonce = sg2_server_nonce m2, k2m_server_e_pk = sg2_server_e_pk m2,
        k2m_mac = sg2_mac m2\<rparr>"

definition identifier_bytes :: "serialized_identifier \<Rightarrow> bytes" where
  "identifier_bytes idt = concat (serialized_identifier_iter idt)"

definition sigma_collision ::
    "('esk, 'epk) ke_group \<Rightarrow> ('esk, 'epk) diffie_hellman \<Rightarrow> hash_fns \<Rightarrow>
     ('epk ke1_message, ('pk, 'epk) sigma_builder, 'sig \<times> 'vs, ('epk, 'sig) sigma_ke2_message)
       server_run \<Rightarrow>
     ('esk ke1_state, 'epk ke1_message, ('epk, 'sig) sigma_ke2_message, 'sk, 'pk) client_run \<Rightarrow>
     bool" where
  "sigma_collision KG dh H S C \<longleftrightarrow>
     (let th = sigma_transcript KG (ks_view S) (ks_sids S) (ks_ctx S) (ks_m1 S) (ks_m2 S);
          th' = sigma_transcript KG (kc_view C) (kc_sids C) (kc_ctx C) (kc_m1 C) (kc_m2 C);
          secret' = dh (client_e_sk (kc_state C)) (sg2_server_e_pk (kc_m2 C)) in
      \<exists>e_sk dk dk'. public_key KG e_sk = sg2_server_e_pk (ks_m2 S) \<and>
        derive_keys H [dh e_sk (client_e_pk (ks_m1 S))] (hash_digest H th) = Ok dk \<and>
        derive_keys H [secret'] (hash_digest H th') = Ok dk' \<and>
        (mac_collision H (dk_km3 dk, identifier_bytes (sids_client (ks_sids S)))
           (dk_km3 dk', identifier_bytes (sids_client (kc_sids C))) \<or>
         (dh e_sk (client_e_pk (ks_m1 S)), hash_digest H th) \<noteq> (secret', hash_digest H th') \<and>
           dk_km3 dk = dk_km3 dk' \<or>
         digest_collision H th th'))"

text \<open>Only the signature of the second message is not determined by what both parties hash.\<close>

definition same_sigma_reply ::
    "('epk, 'sig) sigma_ke2_message \<Rightarrow> ('epk, 'sig) sigma_ke2_message \<Rightarrow> bool" where
  "same_sigma_reply m m' \<longleftrightarrow> sg2_server_nonce m = sg2_server_nonce m' \<and>
     sg2_server_e_pk m = sg2_server_e_pk m' \<and> sg2_mac m = sg2_mac m'"

lemma sigma_server_side:
  assumes "group_ok KG wf_esk wf_epk"
    and "ke2_builder (sigma_i SP KG dh H) (v_request v) m1 (v_response v) cpk sids ctx r = (Ok b, r')"
    and "build_ke2 (sigma_i SP KG dh H) b input = Ok (st2, m2)"
  obtains e_sk dk where "public_key KG e_sk = sg2_server_e_pk m2"
    "wf_epk (sg2_server_e_pk m2)" "length (sg2_server_nonce m2) = nonce_len"
    "derive_keys H [dh e_sk (client_e_pk m1)] (hash_digest H (sigma_transcript KG v sids ctx m1 m2))
      = Ok dk"
    "identifier_mac H (dk_km2 dk) (sids_server sids) = Ok (sg2_mac m2)"
    "identifier_mac H (dk_km3 dk) (sids_client sids) = Ok (sgs_expected_mac st2)"
    "sgs_session_key st2 = dk_session_key dk"
  using assms that keypair_derive_random_wf [OF assms(1)]
  by (fastforce simp: sigma_i_def sigma_ke2_builder_Ok_iff sigma_build_ke2_def sigma_transcript_def
      view_transcript_def key_defs generate_nonce_length sigma_view_def
      keypair_derive_random_Ok_iff)

lemma sigma_accepted:
  assumes "generate_ke3 (sigma_i SP KG dh H) (v_request v) m1 (v_response v) st1 m2 spk c_sk
      sids ctx r = (Ok (key', m3), r')"
    and "finish_ke (sigma_i SP KG dh H) st2 m3 ids ctx0 = Ok key"
  obtains dk where "derive_keys H [dh (client_e_sk st1) (sg2_server_e_pk m2)]
      (hash_digest H (sigma_transcript KG v sids ctx m1 m2)) = Ok dk"
    "identifier_mac H (dk_km2 dk) (sids_server sids) = Ok (sg2_mac m2)"
    "identifier_mac H (dk_km3 dk) (sids_client sids) = Ok (sgs_expected_mac st2)"
    "key' = dk_session_key dk" "key = sgs_session_key st2"
  using assms that
  by (auto simp: sigma_i_def sigma_generate_ke3_def sigma_finish_ke_def ok_iffs Let_def
      sigma_transcript_def view_transcript_def key_defs split: if_splits)

lemma sigma_matching_sessions:
  assumes "group_ok KG wf_esk wf_epk" "hash_ok H"
    and "view_ok ne OH G v sids ctx" "view_ok ne OH G v' sids' ctx'"
    and "ke1_message_ok wf_epk m1" "sigma_ke2_message_ok H wf_epk wf_sig m2'"
    and "generate_ke1 (sigma_i SP KG dh H) r1 = (Ok (st1, m1'), r1')"
    and "ke2_builder (sigma_i SP KG dh H) (v_request v) m1 (v_response v) cpk sids ctx r2 = (Ok b, r2')"
    and "build_ke2 (sigma_i SP KG dh H) b input = Ok (st2, m2)"
    and "generate_ke3 (sigma_i SP KG dh H) (v_request v') m1' (v_response v') st1 m2' spk c_sk
      sids' ctx' r4 = (Ok (key', m3), r4')"
    and "finish_ke (sigma_i SP KG dh H) st2 m3 fids fctx = Ok key"
  shows "same_view v v' \<and> m1 = m1' \<and> same_sigma_reply m2 m2' \<and> key = key' \<or>
    sigma_collision KG dh H
      \<lparr>ks_view = v, ks_sids = sids, ks_ctx = ctx, ks_m1 = m1, ks_builder = b, ks_input = input,
       ks_m2 = m2\<rparr>
      \<lparr>kc_view = v', kc_sids = sids', kc_ctx = ctx', kc_state = st1, kc_m1 = m1', kc_m2 = m2',
       kc_server_pk = spk, kc_sk = c_sk\<rparr>"
    (is "_ \<or> sigma_collision KG dh H ?S ?C")
proof (cases "sigma_collision KG dh H ?S ?C")
  case False
  have m1': "ke1_message_ok wf_epk m1'"
    using generate_ke1_ok(2) [OF assms(1)] assms(7) by (simp add: sigma_i_def sigma_generate_ke1_def)
  let ?th = "sigma_transcript KG v sids ctx m1 m2"
    and ?th' = "sigma_transcript KG v' sids' ctx' m1' m2'"
    and ?secret' = "dh (client_e_sk st1) (sg2_server_e_pk m2')"
  obtain e_sk dk where e_sk: "public_key KG e_sk = sg2_server_e_pk m2"
    and m2: "wf_epk (sg2_server_e_pk m2)" "length (sg2_server_nonce m2) = nonce_len"
    and dk: "derive_keys H [dh e_sk (client_e_pk m1)] (hash_digest H ?th) = Ok dk"
    and mac: "identifier_mac H (dk_km2 dk) (sids_server sids) = Ok (sg2_mac m2)"
    and em: "identifier_mac H (dk_km3 dk) (sids_client sids) = Ok (sgs_expected_mac st2)"
    and skey: "sgs_session_key st2 = dk_session_key dk"
    by (rule sigma_server_side [OF assms(1,8,9)])
  obtain dk' where dk': "derive_keys H [?secret'] (hash_digest H ?th') = Ok dk'"
    and mac': "identifier_mac H (dk_km2 dk') (sids_server sids') = Ok (sg2_mac m2')"
    and em': "identifier_mac H (dk_km3 dk') (sids_client sids') = Ok (sgs_expected_mac st2)"
    and keys: "key' = dk_session_key dk'" "key = sgs_session_key st2"
    by (rule sigma_accepted [OF assms(10,11)])
  have no: "\<not> mac_collision H (dk_km3 dk, identifier_bytes (sids_client sids))
        (dk_km3 dk', identifier_bytes (sids_client sids'))"
    "dk_km3 dk = dk_km3 dk' \<Longrightarrow>
      (dh e_sk (client_e_pk m1), hash_digest H ?th) = (?secret', hash_digest H ?th')"
    "\<not> digest_collision H ?th ?th'"
    using False e_sk dk dk' unfolding sigma_collision_def Let_def by (auto simp del: prod.inject)
  from no(1) em em' have "dk_km3 dk = dk_km3 dk'"
    by (auto simp: mac_collision_def identifier_mac_Ok_iff identifier_bytes_def)
  from no(2) [OF this] no(3) have th: "?th = ?th'" and secret: "dh e_sk (client_e_pk m1) = ?secret'"
    by (auto simp: digest_collision_def)
  with dk dk' have same_keys: "dk = dk'" by simp
  have "length (sg2_mac m2) = hash_len H"
    using identifier_mac_total [OF assms(2), of "dk_km2 dk" "sids_server sids"] mac by auto
  note same = view_transcript_inj [OF assms(1,3,4,5) m1' _ _ th [unfolded sigma_transcript_def],
      where H = H]
  have same: "same_view v v'" "m1 = m1'" "sg2_server_nonce m2 = sg2_server_nonce m2'"
    "sg2_server_e_pk m2 = sg2_server_e_pk m2'"
    using same assms(6) m2 \<open>length (sg2_mac m2) = hash_len H\<close>
    by (simp_all add: ke2_message_ok_def sigma_ke2_message_ok_def)
  have ids: "view_server v = view_server v'" using same(1) by (simp add: same_view_def)
  have "concat (serialized_identifier_iter (sids_server sids))
      = concat (serialized_identifier_iter (sids_server sids'))"
    using assms(3,4) ids
    by (auto simp: view_ok_def from_identifiers_Ok_iff dest!: concat_identifier_iter)
  with mac mac' same_keys have "sg2_mac m2 = sg2_mac m2'" by (auto simp: identifier_mac_Ok_iff)
  with same keys skey same_keys show ?thesis by (simp add: same_sigma_reply_def)
qed simp

interpretation sigma_matching: matching_key_exchange "sigma_i SP KG dh H"
  "group_ok KG wf_esk wf_epk \<and> hash_ok H" ne OH wf_sk "ke1_message_ok wf_epk"
  "sigma_ke2_message_ok H wf_epk wf_sig" same_sigma_reply "sigma_collision KG dh H"
  for SP :: "('sk, 'pk, 'sig, 'vs) signature_protocol" and KG :: "('esk, 'epk) ke_group"
    and dh H wf_esk wf_epk wf_sk wf_sig ne OH
  by unfold_locales (blast dest: sigma_matching_sessions)

section \<open>Logins\<close>

text \<open>The part of \<open>ClientLogin::finish\<close> before the key exchange: the server's key and the envelope.\<close>

definition login_opened ::
    "('e, 'oc, 'sk, 'pk, 'k1s, 'k1m, 'k2s, 'k2b, 'k2d, 'k2i, 'k2m, 'k3m) cipher_suite \<Rightarrow>
     ('oc, 'k1s, 'e, 'k1m) client_login \<Rightarrow> bytes \<Rightarrow> ('e, 'k2m) credential_response \<Rightarrow>
     client_login_finish_parameters \<Rightarrow> (protocol_error, 'pk \<times> ('sk, 'pk) opened_envelope) result" where
  "login_opened CS self password response params =
     bind_result (get_password_derived_key CS password (cl_oprf_client self)
       (crs_evaluation_element response) (clp_ksf params)) (\<lambda>(_, hasher).
     bind_result (ok_or (protocol_from_internal HkdfError)
       (hasher STR_MASKING_KEY (hash_len (cs_hash CS)))) (\<lambda>masking_key.
     bind_result (map_err unmask_error (unmask_response (cs_hash CS) (cs_group CS) masking_key
       (crs_masking_nonce response) (crs_masked_response response))) (\<lambda>(server_s_pk, envelope).
     bind_result (map_err open_error (envelope_open (cs_hash CS) (cs_group CS) envelope hasher
       server_s_pk (clp_identifiers params))) (\<lambda>opened.
     Ok (server_s_pk, opened)))))"

lemma client_login_finish_opened:
  assumes "client_login_finish CS cst pw cresp params r = (Ok res, r')"
  obtains opened ctx where "login_opened CS cst pw cresp params = Ok (clf_server_s_pk res, opened)"
    "serialized_context_from (clp_context params) = Ok ctx"
    "generate_ke3 (cs_ke CS) (credential_request_to_parts CS (cl_credential_request cst))
       (cr_ke1_message (cl_credential_request cst)) (credential_response_to_parts CS cresp)
       (cl_ke1_state cst) (crs_ke2_message cresp) (clf_server_s_pk res)
       (kp_sk (client_static_keypair opened)) (opened_identifiers opened) ctx r
     = (Ok (clf_session_key res, cf_ke3_message (clf_message res)), r')"
  using assms that
  by (auto simp: client_login_finish_def login_opened_def bind_st_Ok_iff key_defs split: if_splits)

text \<open>What a party that sent or received \<open>creq\<close> and \<open>cresp\<close> under its parameters hashes.\<close>

definition login_view ::
    "('e, 'oc, 'sk, 'pk, 'k1s, 'k1m, 'k2s, 'k2b, 'k2d, 'k2i, 'k2m, 'k3m) cipher_suite \<Rightarrow>
     bytes option \<Rightarrow> identifiers \<Rightarrow> 'pk \<Rightarrow> 'pk \<Rightarrow> ('e, 'k1m) credential_request \<Rightarrow>
     ('e, 'k2m) credential_response \<Rightarrow> session_view" where
  "login_view CS context ids client_s_pk server_s_pk creq cresp =
     \<lparr>v_context = context, v_ids = ids,
      v_client_pk = public_key_serialize (cs_group CS) client_s_pk,
      v_server_pk = public_key_serialize (cs_group CS) server_s_pk,
      v_request = credential_request_to_parts CS creq,
      v_response = credential_response_to_parts CS cresp\<rparr>"

text \<open>A context or an identifier is a Rust slice, so its length is a \<open>usize\<close>.\<close>

definition view_sized :: "session_view \<Rightarrow> bool" where
  "view_sized v \<longleftrightarrow> length (view_context v) < 2 ^ 64 \<and> length (view_client v) < 2 ^ 64 \<and>
     length (view_server v) < 2 ^ 64"

text \<open>What both parties know of a login that the server accepted.\<close>

definition same_login ::
    "('k2m \<Rightarrow> 'k2m \<Rightarrow> bool) \<Rightarrow> session_view \<Rightarrow> ('e, 'k1m) credential_request \<Rightarrow>
     ('e, 'k2m) credential_response \<Rightarrow> session_view \<Rightarrow> ('e, 'k1m) credential_request \<Rightarrow>
     ('e, 'k2m) credential_response \<Rightarrow> bool" where
  "same_login same_reply v creq cresp v' creq' cresp' \<longleftrightarrow>
     view_context v = view_context v' \<and> view_client v = view_client v' \<and>
     view_server v = view_server v' \<and> creq = creq' \<and>
     crs_evaluation_element cresp = crs_evaluation_element cresp' \<and>
     crs_masking_nonce cresp = crs_masking_nonce cresp' \<and>
     crs_masked_response cresp = crs_masked_response cresp' \<and>
     same_reply (crs_ke2_message cresp) (crs_ke2_message cresp')"

lemma builder_run:
  assumes "server_login_builder_new CS SS (Some file) creq cid params r = (Ok bld, r')"
    and "builder_build CS bld input = Ok (cresp, sst)"
  obtains ev k n r2 ctx sids where "oprf_new_with_key (cs_oprf CS) k = Ok ev"
    "crs_evaluation_element cresp = ev (cr_blinded_element creq)"
    "crs_masking_nonce cresp = n" "length n = nonce_len"
    "mask_response (cs_hash CS) (cs_group CS) (ru_masking_key file) n (kp_pk (ss_keypair SS))
       (ru_envelope file) = Ok (crs_masked_response cresp)"
    "serialized_context_from (slp_context params) = Ok ctx"
    "from_identifiers (slp_identifiers params) (serialize_pk (cs_group CS) (ru_client_s_pk file))
       (serialize_pk (cs_group CS) (kp_pk (ss_keypair SS))) = Ok sids"
    "ke2_builder (cs_ke CS) (credential_request_to_parts CS creq) (cr_ke1_message creq)
       (credential_response_to_parts CS cresp) (ru_client_s_pk file) sids ctx r2
     = (Ok (slb_ke2_builder bld), r')"
    "build_ke2 (cs_ke CS) (slb_ke2_builder bld) input
       = Ok (sl_ke2_state sst, crs_ke2_message cresp)"
  using assms that length_fill_bytes
  by (fastforce simp: server_login_builder_new_Ok_iff builder_with_key_material_Ok_iff
      builder_build_def server_login_build_def credential_response_to_parts_def bind_result_Ok_iff
      Let_def)

text \<open>The runs of the two key exchanges inside a login.\<close>

definition server_login_run where
  "server_login_run CS SS file params creq bld input cresp sids ctx =
     \<lparr>ks_view = login_view CS (slp_context params) (slp_identifiers params) (ru_client_s_pk file)
        (kp_pk (ss_keypair SS)) creq cresp,
      ks_sids = sids, ks_ctx = ctx, ks_m1 = cr_ke1_message creq, ks_builder = slb_ke2_builder bld,
      ks_input = input, ks_m2 = crs_ke2_message cresp\<rparr>"

definition client_login_run where
  "client_login_run CS cst params server_s_pk opened cresp ctx =
     \<lparr>kc_view = login_view CS (clp_context params) (clp_identifiers params)
        (kp_pk (client_static_keypair opened)) server_s_pk (cl_credential_request cst) cresp,
      kc_sids = opened_identifiers opened, kc_ctx = ctx, kc_state = cl_ke1_state cst,
      kc_m1 = cr_ke1_message (cl_credential_request cst), kc_m2 = crs_ke2_message cresp,
      kc_server_pk = server_s_pk, kc_sk = kp_sk (client_static_keypair opened)\<rparr>"

locale matching_opaque_suite =
  robust_opaque_suite CS trusted wf_e wf_oc wf_sk wf_pk ok_k1s ok_k1m ok_k2s ok_k2m ok_k3m live
  for CS :: "('e, 'oc, 'sk, 'pk, 'k1s, 'k1m, 'k2s, 'k2b, 'k2d, 'k2i, 'k2m, 'k3m) cipher_suite"
    and trusted wf_e wf_oc wf_sk wf_pk ok_k1s ok_k1m ok_k2s ok_k2m ok_k3m live +
  fixes same_reply :: "'k2m \<Rightarrow> 'k2m \<Rightarrow> bool"
    and collision :: "('k1m, 'k2b, 'k2i, 'k2m) server_run \<Rightarrow>
      ('k1s, 'k1m, 'k2m, 'sk, 'pk) client_run \<Rightarrow> bool"
  assumes matching_ke: "trusted \<Longrightarrow> matching_key_exchange (cs_ke CS) True (elem_len (cs_oprf CS))
      (cs_hash CS) wf_sk ok_k1m ok_k2m same_reply collision"
begin

lemma element_inj: "trusted \<Longrightarrow> wf_e a \<Longrightarrow> wf_e b \<Longrightarrow>
    serialize_elem (cs_oprf CS) a = serialize_elem (cs_oprf CS) b \<Longrightarrow> a = b"
  by (metis oprf oprf_okD(3) result.inject(1))

text \<open>
  Whatever bytes the server reads as a credential request and the client as a credential response:
  when the server accepts what the client answers, they have had the same login.
\<close>

lemma matching_logins:
  assumes "trusted" "record_ok CS wf_pk (Some file)" "wf_pk (kp_pk (ss_keypair SS))" "wf_sk s_sk"
    and start: "client_login_start CS pw r1 = (Ok (creq, cst), r1')"
    and request: "credential_request_deserialize CS request = Ok creq'"
    and server: "server_login_builder_new CS SS (Some file) creq' cid slp r2 = (Ok bld, r2')"
      "generate_ke2_input (cs_ke CS) (slb_ke2_builder bld) s_sk r3 = (input, r3')"
      "builder_build CS bld input = Ok (cresp, sst)"
    and response: "credential_response_deserialize CS response = Ok cresp'"
    and client: "client_login_finish CS cst pw' cresp' clp r4 = (Ok res, r4')"
    and fin: "server_login_finish CS sst (clf_message res) slp' = Ok key"
    and opened: "login_opened CS cst pw' cresp' clp = Ok (clf_server_s_pk res, opened)"
  defines "v \<equiv> login_view CS (slp_context slp) (slp_identifiers slp) (ru_client_s_pk file)
        (kp_pk (ss_keypair SS)) creq' cresp"
    and "v' \<equiv> login_view CS (clp_context clp) (clp_identifiers clp)
        (kp_pk (client_static_keypair opened)) (clf_server_s_pk res) creq cresp'"
  assumes sized: "view_sized v" "view_sized v'"
  obtains sids ctx ctx' where "view_ok (elem_len (cs_oprf CS)) (cs_hash CS) (cs_group CS) v sids ctx"
    "view_ok (elem_len (cs_oprf CS)) (cs_hash CS) (cs_group CS) v' (opened_identifiers opened) ctx'"
    "same_login same_reply v creq' cresp v' creq cresp' \<and>
       (clf_server_s_pk res = public_key (cs_group CS) s_sk \<and>
        ru_client_s_pk file = kp_pk (client_static_keypair opened) \<longrightarrow> key = clf_session_key res) \<or>
     collision (server_login_run CS SS file slp creq' bld input cresp sids ctx)
       (client_login_run CS cst clp (clf_server_s_pk res) opened cresp' ctx')"
proof -
  note P = oprf [OF assms(1)] and G = grp [OF assms(1)] and H = hash [OF assms(1)]
    and elem_length = oprf_okD(2) [OF P]
  from start obtain c be r st1 m1 where blind: "oprf_blind (cs_oprf CS) pw r1 = (Ok (c, be), r)"
    and ke1: "generate_ke1 (cs_ke CS) r = (Ok (st1, m1), r1')"
    and creq: "creq = \<lparr>cr_blinded_element = be, cr_ke1_message = m1\<rparr>"
    and cst: "cst = \<lparr>cl_oprf_client = c, cl_ke1_state = st1, cl_credential_request = creq\<rparr>"
    by (auto simp: client_login_start_Ok_iff)
  have wf_be: "wf_e (cr_blinded_element creq)" using oprf_okD(8) [OF P blind] creq by simp
  have creq': "wf_e (cr_blinded_element creq')" "ok_k1m (cr_ke1_message creq')"
    using credential_request_outcome [OF assms(1), of request] request by simp_all
  have cresp': "wf_e (crs_evaluation_element cresp')" "length (crs_masking_nonce cresp') = nonce_len"
    "masked_response_ok (cs_hash CS) (cs_group CS) (crs_masked_response cresp')"
    "ok_k2m (crs_ke2_message cresp')"
    using credential_response_outcome [OF assms(1), of response] response by simp_all
  obtain ev k n r5 ctx sids where ev: "oprf_new_with_key (cs_oprf CS) k = Ok ev"
    and cresp: "crs_evaluation_element cresp = ev (cr_blinded_element creq')"
      "crs_masking_nonce cresp = n" "length n = nonce_len"
    and masked: "mask_response (cs_hash CS) (cs_group CS) (ru_masking_key file) n
       (kp_pk (ss_keypair SS)) (ru_envelope file) = Ok (crs_masked_response cresp)"
    and ctx: "serialized_context_from (slp_context slp) = Ok ctx"
    and sids: "from_identifiers (slp_identifiers slp)
       (serialize_pk (cs_group CS) (ru_client_s_pk file))
       (serialize_pk (cs_group CS) (kp_pk (ss_keypair SS))) = Ok sids"
    and ke2: "ke2_builder (cs_ke CS) (credential_request_to_parts CS creq') (cr_ke1_message creq')
       (credential_response_to_parts CS cresp) (ru_client_s_pk file) sids ctx r5
       = (Ok (slb_ke2_builder bld), r2')"
    and build: "build_ke2 (cs_ke CS) (slb_ke2_builder bld) input
       = Ok (sl_ke2_state sst, crs_ke2_message cresp)"
    by (rule builder_run [OF server(1,3)])
  have wf_cresp: "wf_e (crs_evaluation_element cresp)"
    using oprf_okD(9) [OF P ev creq'(1)] cresp(1) by simp
  have "masked_response_ok (cs_hash CS) (cs_group CS) (crs_masked_response cresp)"
    using mask_response_OkD [OF H masked any_group.pk_length [OF G assms(3)]] assms(2)
    by (simp add: record_ok_def)
  then have v: "view_ok (elem_len (cs_oprf CS)) (cs_hash CS) (cs_group CS) v sids ctx"
    using ctx sids sized(1) cresp wf_cresp creq'(1) elem_length
    unfolding view_ok_def view_sized_def v_def
    by (simp add: login_view_def key_defs credential_request_to_parts_def
        credential_response_to_parts_def serialized_credential_response_new_def
        serialized_credential_response_ok_def)
  obtain ctx' where ctx': "serialized_context_from (clp_context clp) = Ok ctx'"
    and ke3: "generate_ke3 (cs_ke CS) (credential_request_to_parts CS creq) m1
       (credential_response_to_parts CS cresp') st1 (crs_ke2_message cresp') (clf_server_s_pk res)
       (kp_sk (client_static_keypair opened)) (opened_identifiers opened) ctx' r4
     = (Ok (clf_session_key res, cf_ke3_message (clf_message res)), r4')"
    using client_login_finish_opened [OF client] opened by (auto simp: cst creq)
  from opened obtain p h env where
    pdk: "get_password_derived_key CS pw' c (crs_evaluation_element cresp') (clp_ksf clp) = Ok (p, h)"
    and env: "envelope_open (cs_hash CS) (cs_group CS) env h (clf_server_s_pk res)
      (clp_identifiers clp) = Ok opened"
    by (auto simp: login_opened_def bind_result_Ok_iff cst)
  note h = get_password_derived_key_hkdf_ok [OF H pdk]
  have sk: "wf_sk (kp_sk (client_static_keypair opened))" by (rule open_wf [OF G h env])
  have consistent: "kp_pk (client_static_keypair opened)
      = public_key (cs_group CS) (kp_sk (client_static_keypair opened))"
    using env by (auto simp: open_Ok_iff keypair_consistent_def dest!: recover_keys_consistent)
  have "from_identifiers (clp_identifiers clp)
      (serialize_pk (cs_group CS) (kp_pk (client_static_keypair opened)))
      (serialize_pk (cs_group CS) (clf_server_s_pk res)) = Ok (opened_identifiers opened)"
    using env by (auto simp: open_Ok_iff)
  then have v': "view_ok (elem_len (cs_oprf CS)) (cs_hash CS) (cs_group CS) v'
      (opened_identifiers opened) ctx'"
    using ctx' sized(2) cresp' wf_be elem_length
    unfolding view_ok_def view_sized_def v'_def
    by (simp add: login_view_def key_defs credential_request_to_parts_def
        credential_response_to_parts_def serialized_credential_response_new_def
        serialized_credential_response_ok_def)
  from fin obtain fctx where finish: "finish_ke (cs_ke CS) (sl_ke2_state sst)
      (cf_ke3_message (clf_message res)) (slp_identifiers slp') fctx = Ok key"
    by (auto simp: server_login_finish_def bind_result_Ok_iff)
  have parts: "v_request v = credential_request_to_parts CS creq'"
    "v_response v = credential_response_to_parts CS cresp"
    "v_request v' = credential_request_to_parts CS creq"
    "v_response v' = credential_response_to_parts CS cresp'"
    by (simp_all add: v_def v'_def login_view_def)
  note agree = matching_key_exchange.matching [OF matching_ke [OF assms(1)] TrueI sk assms(4) v v'
      creq'(2) cresp'(4) ke1 ke2 [folded parts] server(2) build ke3 [folded parts] finish]
  have "same_login same_reply v creq' cresp v' creq cresp'"
    if "same_view v v'" "cr_ke1_message creq' = m1"
      "same_reply (crs_ke2_message cresp) (crs_ke2_message cresp')"
    using that element_inj [OF assms(1) creq'(1) wf_be]
      element_inj [OF assms(1) wf_cresp cresp'(1)]
    by (cases creq') (auto simp: same_login_def same_view_def parts creq
        credential_request_to_parts_def credential_response_to_parts_def
        serialized_credential_response_new_def)
  with agree have "same_login same_reply v creq' cresp v' creq cresp' \<and>
       (clf_server_s_pk res = public_key (cs_group CS) s_sk \<and>
        ru_client_s_pk file = kp_pk (client_static_keypair opened) \<longrightarrow> key = clf_session_key res) \<or>
     collision (server_login_run CS SS file slp creq' bld input cresp sids ctx)
       (client_login_run CS cst clp (clf_server_s_pk res) opened cresp' ctx')"
    unfolding consistent
    by (auto simp: server_login_run_def client_login_run_def v_def v'_def cst creq)
  with that v v' show thesis by blast
qed

end

interpretation tdh_logins: matching_opaque_suite "tdh_suite P G dh H k"
  "oprf_ok P wf_e wf_oc \<and> dh_ok G dh wf_sk wf_pk \<and> hash_ok H \<and> oprf_robust P wf_e \<and> ksf_robust k"
  wf_e wf_oc wf_sk wf_pk "ke1_state_ok wf_sk" "ke1_message_ok wf_pk" "ke2_state_ok H"
  "ke2_message_ok H wf_pk" "ke3_message_ok H" "derive_total G" "(=)" "tdh_collision G dh H"
  for P :: "('e, 'oc) oprf_suite" and G :: "('sk, 'pk) ke_group" and dh H k
    and wf_e wf_oc wf_sk wf_pk
proof (intro matching_opaque_suite.intro robust_tdh_opaque.robust_opaque_suite_axioms
    matching_opaque_suite_axioms.intro)
  assume "oprf_ok P wf_e wf_oc \<and> dh_ok G dh wf_sk wf_pk \<and> hash_ok H \<and> oprf_robust P wf_e \<and>
    ksf_robust k"
  then show "matching_key_exchange (cs_ke (tdh_suite P G dh H k)) True
      (elem_len (cs_oprf (tdh_suite P G dh H k))) (cs_hash (tdh_suite P G dh H k)) wf_sk
      (ke1_message_ok wf_pk) (ke2_message_ok H wf_pk) (=) (tdh_collision G dh H)"
    using tdh_matching.matching_key_exchange_axioms [where G = G and dh = dh and H = H
        and wf_sk = wf_sk and wf_pk = wf_pk and ne = "elem_len P" and OH = "oprf_hash P"]
    by simp
qed

interpretation kem_logins: matching_opaque_suite "kem_suite P G dh H K k"
  "oprf_ok P wf_e wf_oc \<and> dh_ok G dh wf_sk wf_pk \<and> hash_ok H \<and> kem_robust K wf_dk wf_ek \<and>
   oprf_robust P wf_e \<and> ksf_robust k"
  wf_e wf_oc wf_sk wf_pk "kem_ke1_state_ok wf_sk wf_dk" "kem_ke1_message_ok K wf_pk"
  "kem_ke2_state_ok H K" "kem_ke2_message_ok H K wf_pk" "ke3_message_ok H" "derive_total G"
  "(=)" "kem_collision G dh H K"
  for P :: "('e, 'oc) oprf_suite" and G :: "('sk, 'pk) ke_group" and dh H
    and K :: "('dk, 'ek) kem_core_wrapper" and k and wf_e wf_oc wf_sk wf_pk wf_dk wf_ek
proof (intro matching_opaque_suite.intro robust_kem_opaque.robust_opaque_suite_axioms
    matching_opaque_suite_axioms.intro)
  assume "oprf_ok P wf_e wf_oc \<and> dh_ok G dh wf_sk wf_pk \<and> hash_ok H \<and> kem_robust K wf_dk wf_ek \<and>
    oprf_robust P wf_e \<and> ksf_robust k"
  then show "matching_key_exchange (cs_ke (kem_suite P G dh H K k)) True
      (elem_len (cs_oprf (kem_suite P G dh H K k))) (cs_hash (kem_suite P G dh H K k)) wf_sk
      (kem_ke1_message_ok K wf_pk) (kem_ke2_message_ok H K wf_pk) (=) (kem_collision G dh H K)"
    using kem_matching.matching_key_exchange_axioms [where G = G and dh = dh and H = H and K = K
        and wf_sk = wf_sk and wf_pk = wf_pk and wf_dk = wf_dk and wf_ek = wf_ek
        and ne = "elem_len P" and OH = "oprf_hash P"] by simp
qed

interpretation sigma_logins: matching_opaque_suite "sigma_suite P SP KG dh H k"
  "oprf_ok P wf_e wf_oc \<and>
   signature_robust SP wf_sk wf_pk wf_sig wf_vs (sigma_messages P SP KG H) \<and>
   dh_ok KG dh wf_esk wf_epk \<and> hash_ok H \<and> oprf_robust P wf_e \<and> ksf_robust k"
  wf_e wf_oc wf_sk wf_pk "ke1_state_ok wf_esk" "ke1_message_ok wf_epk"
  "sigma_ke2_state_ok H wf_pk wf_vs" "sigma_ke2_message_ok H wf_epk wf_sig"
  "sigma_ke3_message_ok H wf_sig" "derive_total KG \<and> derive_total (sig_group SP)"
  same_sigma_reply "sigma_collision KG dh H"
  for P :: "('e, 'oc) oprf_suite" and SP :: "('sk, 'pk, 'sig, 'vs) signature_protocol"
    and KG :: "('esk, 'epk) ke_group" and dh H k
    and wf_e wf_oc wf_sk wf_pk wf_sig wf_vs wf_esk wf_epk
proof (intro matching_opaque_suite.intro robust_sigma_opaque.robust_opaque_suite_axioms
    matching_opaque_suite_axioms.intro)
  assume "oprf_ok P wf_e wf_oc \<and>
    signature_robust SP wf_sk wf_pk wf_sig wf_vs (sigma_messages P SP KG H) \<and>
    dh_ok KG dh wf_esk wf_epk \<and> hash_ok H \<and> oprf_robust P wf_e \<and> ksf_robust k"
  then show "matching_key_exchange (cs_ke (sigma_suite P SP KG dh H k)) True
      (elem_len (cs_oprf (sigma_suite P SP KG dh H k))) (cs_hash (sigma_suite P SP KG dh H k)) wf_sk
      (ke1_message_ok wf_epk) (sigma_ke2_message_ok H wf_epk wf_sig) same_sigma_reply
      (sigma_collision KG dh H)"
    using sigma_matching.matching_key_exchange_axioms [where SP = SP and KG = KG and dh = dh and H = H
        and wf_sk = wf_sk and wf_esk = wf_esk and wf_epk = wf_epk and wf_sig = wf_sig
        and ne = "elem_len P" and OH = "oprf_hash P"] by (simp add: dh_ok_group_ok [of KG dh wf_esk wf_epk])
qed

section \<open>An honest login in full\<close>

context live_opaque_suite
begin

lemma honest_login:
  assumes "trusted" "live" "server_setup_ok CS wf_sk wf_pk SS"
    and service: "service_ok CS SS I W" "cid \<in> I" "pw \<in> W"
  obtains upload creq cst r1 bld r2 input r3 cresp sst res r4 opened where
    "record_ok CS wf_pk (Some upload)" "client_login_start CS pw r = (Ok (creq, cst), r1)"
    "credential_request_deserialize CS (credential_request_serialize CS creq) = Ok creq"
    "server_login_builder_new CS SS (Some upload) creq cid default_server_login_parameters r1
      = (Ok bld, r2)"
    "generate_ke2_input (cs_ke CS) (slb_ke2_builder bld) (kp_sk (ss_keypair SS)) r2 = (input, r3)"
    "builder_build CS bld input = Ok (cresp, sst)"
    "credential_response_deserialize CS (credential_response_serialize CS cresp) = Ok cresp"
    "client_login_finish CS cst pw cresp default_client_login_parameters r3 = (Ok res, r4)"
    "server_login_finish CS sst (clf_message res) default_server_login_parameters
      = Ok (clf_session_key res)"
    "login_opened CS cst pw cresp default_client_login_parameters
      = Ok (clf_server_s_pk res, opened)"
    "view_sized (login_view CS None default_identifiers (ru_client_s_pk upload)
      (kp_pk (ss_keypair SS)) creq cresp)"
    "view_sized (login_view CS None default_identifiers (kp_pk (client_static_keypair opened))
      (clf_server_s_pk res) creq cresp)"
proof -
  note G = grp [OF assms(1)] and H = hash [OF assms(1)]
  obtain upload ek where reg: "registered CS SS cid pw default_registration_parameters upload ek"
    using registration_over_wire [OF assms, of r] by metis
  then have stored: "record_ok CS wf_pk (Some upload)"
    using registered_file_ok [OF assms(1) reg] by (simp add: record_ok_def envelope_codec.enc_length)
  obtain creq cst r1 cresp sst r2 res r3 where
    login: "client_login_start CS pw r = (Ok (creq, cst), r1)"
      "credential_request_deserialize CS (credential_request_serialize CS creq) = Ok creq"
    and start: "server_login_start CS SS (Some upload) creq cid default_server_login_parameters r1
      = (Ok (cresp, sst), r2)"
    and rest: "credential_response_deserialize CS (credential_response_serialize CS cresp) = Ok cresp"
      "client_login_finish CS cst pw cresp default_client_login_parameters r2 = (Ok res, r3)"
      "server_login_finish CS sst (clf_message res) default_server_login_parameters
        = Ok (clf_session_key res)"
    and spk: "clf_server_s_pk res = kp_pk (ss_keypair SS)"
    by (rule login_over_wire [OF assms reg])
  obtain bld r1' input where server:
    "server_login_builder_new CS SS (Some upload) creq cid default_server_login_parameters r1
      = (Ok bld, r1')"
    "generate_ke2_input (cs_ke CS) (slb_ke2_builder bld) (kp_sk (ss_keypair SS)) r1' = (input, r2)"
    "builder_build CS bld input = Ok (cresp, sst)"
    using start by (auto simp: server_login_start_def builder_build_def bind_st_Ok_iff key_defs)
  obtain opened where opened:
    "login_opened CS cst pw cresp default_client_login_parameters = Ok (clf_server_s_pk res, opened)"
    by (rule client_login_finish_opened [OF rest(2)])
  then obtain p h env where
    "get_password_derived_key CS pw (cl_oprf_client cst) (crs_evaluation_element cresp) None = Ok (p, h)"
    and env: "envelope_open (cs_hash CS) (cs_group CS) env h (clf_server_s_pk res)
      default_identifiers = Ok opened"
    by (auto simp: login_opened_def bind_result_Ok_iff default_client_login_parameters_def)
  from open_wf [OF G get_password_derived_key_hkdf_ok [OF H this(1)] env] env
  have "wf_pk (kp_pk (client_static_keypair opened))"
    using any_group.public_key_wf [OF G]
    by (auto simp: open_Ok_iff keypair_consistent_def dest!: recover_keys_consistent)
  then have "view_sized (login_view CS None default_identifiers (ru_client_s_pk upload)
      (kp_pk (ss_keypair SS)) creq cresp)"
    "view_sized (login_view CS None default_identifiers (kp_pk (client_static_keypair opened))
      (clf_server_s_pk res) creq cresp)"
    using any_group.pk_length [OF G] stored server_key_ok(2) [OF assms(1,3)] service(1) spk
    by (simp_all add: view_sized_def login_view_def default_identifiers_def
        effective_identifier_def key_defs service_ok_def record_ok_def)
  with that [OF stored login server rest opened] show thesis by blast
qed

end

section \<open>Properties\<close>

text \<open>
  C8. Matching logins over OPAQUE-3DH. Whatever bytes the server read as a credential request and the
  client as a response, if the server accepts what the client answers, then both used the same context and
  the same effective identifiers, the server read the request that the client made and the client
  the response that the server made, and if the static keys are each other's the session keys are
  equal; or the hash or the MAC collides on the two transcripts, computed from what the parties hold.
\<close>

theorem tdh_matching_logins:
  fixes P :: "('e, 'oc) oprf_suite" and G :: "('sk, 'pk) ke_group" and dh H k
  defines "CS \<equiv> tdh_suite P G dh H k"
  assumes ok: "oprf_ok P wf_e wf_oc" "dh_ok G dh wf_sk wf_pk" "hash_ok H" "oprf_robust P wf_e"
      "ksf_robust k"
    and "record_ok CS wf_pk (Some file)" "wf_pk (kp_pk (ss_keypair SS))" "wf_sk s_sk"
    and "client_login_start CS pw r1 = (Ok (creq, cst), r1')"
    and "credential_request_deserialize CS request = Ok creq'"
    and "server_login_builder_new CS SS (Some file) creq' cid slp r2 = (Ok bld, r2')"
    and "generate_ke2_input (cs_ke CS) (slb_ke2_builder bld) s_sk r3 = (input, r3')"
    and "builder_build CS bld input = Ok (cresp, sst)"
    and "credential_response_deserialize CS response = Ok cresp'"
    and "client_login_finish CS cst pw' cresp' clp r4 = (Ok res, r4')"
    and "server_login_finish CS sst (clf_message res) slp' = Ok key"
    and "login_opened CS cst pw' cresp' clp = Ok (clf_server_s_pk res, opened)"
  defines "v \<equiv> login_view CS (slp_context slp) (slp_identifiers slp) (ru_client_s_pk file)
      (kp_pk (ss_keypair SS)) creq' cresp"
    and "v' \<equiv> login_view CS (clp_context clp) (clp_identifiers clp)
      (kp_pk (client_static_keypair opened)) (clf_server_s_pk res) creq cresp'"
  assumes "view_sized v" "view_sized v'"
  shows "\<exists>sids ctx ctx'. view_ok (elem_len P) (oprf_hash P) (cs_group CS) v sids ctx \<and>
    view_ok (elem_len P) (oprf_hash P) (cs_group CS) v' (opened_identifiers opened) ctx' \<and>
    (same_login (=) v creq' cresp v' creq cresp' \<and>
       (clf_server_s_pk res = public_key (cs_group CS) s_sk \<and>
        ru_client_s_pk file = kp_pk (client_static_keypair opened) \<longrightarrow> key = clf_session_key res) \<or>
     tdh_collision G dh H (server_login_run CS SS file slp creq' bld input cresp sids ctx)
       (client_login_run CS cst clp (clf_server_s_pk res) opened cresp' ctx'))"
proof -
  have trusted: "oprf_ok P wf_e wf_oc \<and> dh_ok G dh wf_sk wf_pk \<and> hash_ok H \<and> oprf_robust P wf_e \<and>
    ksf_robust k" using ok by simp
  from tdh_logins.matching_logins [OF trusted assms(7-18,21,22) [unfolded CS_def v_def v'_def]]
  show ?thesis unfolding CS_def v_def v'_def tdh_suite_simps by metis
qed

theorem tdh_matching_logins_witness:
  "\<exists>upload creq cst r bld r2 input r3 cresp sst res r4 sids ctx.
    client_login_start mini_tdh_suite_32 [50] (counter_rng 0) = (Ok (creq, cst), r) \<and>
    server_login_builder_new mini_tdh_suite_32 mini_setup_32 (Some upload) creq [49]
      default_server_login_parameters r = (Ok bld, r2) \<and>
    builder_build mini_tdh_suite_32 bld input = Ok (cresp, sst) \<and>
    client_login_finish mini_tdh_suite_32 cst [50] cresp default_client_login_parameters r3
      = (Ok res, r4) \<and>
    server_login_finish mini_tdh_suite_32 sst (clf_message res) default_server_login_parameters
      = Ok (clf_session_key res) \<and>
    view_ok (elem_len (mini_oprf 32)) (oprf_hash (mini_oprf 32))
      (cs_group mini_tdh_suite_32) (login_view mini_tdh_suite_32 None default_identifiers
        (ru_client_s_pk upload) (kp_pk (ss_keypair mini_setup_32)) creq cresp) sids ctx"
proof -
  let ?CS = mini_tdh_suite_32 and ?SS = mini_setup_32
  obtain upload creq cst r1 bld r2 input r3 cresp sst res r4 opened where
    stored: "record_ok ?CS (\<lambda>_. True) (Some upload)"
    and run: "client_login_start ?CS [50] (counter_rng 0) = (Ok (creq, cst), r1)"
      "credential_request_deserialize ?CS (credential_request_serialize ?CS creq) = Ok creq"
      "server_login_builder_new ?CS ?SS (Some upload) creq [49] default_server_login_parameters r1
        = (Ok bld, r2)"
      "generate_ke2_input (cs_ke ?CS) (slb_ke2_builder bld) (kp_sk (ss_keypair ?SS)) r2 = (input, r3)"
      "builder_build ?CS bld input = Ok (cresp, sst)"
      "credential_response_deserialize ?CS (credential_response_serialize ?CS cresp) = Ok cresp"
      "client_login_finish ?CS cst [50] cresp default_client_login_parameters r3 = (Ok res, r4)"
      "server_login_finish ?CS sst (clf_message res) default_server_login_parameters
        = Ok (clf_session_key res)"
      "login_opened ?CS cst [50] cresp default_client_login_parameters
        = Ok (clf_server_s_pk res, opened)"
    and sized: "view_sized (login_view ?CS None default_identifiers (ru_client_s_pk upload)
        (kp_pk (ss_keypair ?SS)) creq cresp)"
      "view_sized (login_view ?CS None default_identifiers (kp_pk (client_static_keypair opened))
        (clf_server_s_pk res) creq cresp)"
    by (rule tdh_opaque.honest_login [OF conjI [OF mini_32_ok(1) conjI [OF mini_32_ok(2,3)]]
        mini_derive_total mini_setup_32_ok
        mini_service_32 [of "{[49]}" "{[50]}"],
        where cid = "[49]" and pw = "[50]" and r = "counter_rng 0"])
       (simp_all add: mini_identifiers_def mini_passwords_def)
  from tdh_matching_logins [OF mini_32_ok mini_oprf_robust ksf_robust_impls(1) stored _ _ run,
      unfolded default_parameter_fields, OF TrueI TrueI sized]
  show ?thesis
    by (elim exE conjE) (intro exI conjI, rule run(1), rule run(3), rule run(5), rule run(7), rule run(8))
qed

text \<open>
  C9. Matching logins over 3DH with a KEM: the same, the client's encapsulation key and the server's
  ciphertext included, as parts of the request and the response. So nobody can exchange the key that
  the server encapsulates to or the ciphertext that the client decapsulates without being noticed.
\<close>

theorem kem_matching_logins:
  fixes P :: "('e, 'oc) oprf_suite" and G :: "('sk, 'pk) ke_group" and dh H
    and K :: "('dk, 'ek) kem_core_wrapper" and k
  defines "CS \<equiv> kem_suite P G dh H K k"
  assumes ok: "oprf_ok P wf_e wf_oc" "dh_ok G dh wf_sk wf_pk" "hash_ok H" "kem_robust K wf_dk wf_ek"
      "oprf_robust P wf_e" "ksf_robust k"
    and "record_ok CS wf_pk (Some file)" "wf_pk (kp_pk (ss_keypair SS))" "wf_sk s_sk"
    and "client_login_start CS pw r1 = (Ok (creq, cst), r1')"
    and "credential_request_deserialize CS request = Ok creq'"
    and "server_login_builder_new CS SS (Some file) creq' cid slp r2 = (Ok bld, r2')"
    and "generate_ke2_input (cs_ke CS) (slb_ke2_builder bld) s_sk r3 = (input, r3')"
    and "builder_build CS bld input = Ok (cresp, sst)"
    and "credential_response_deserialize CS response = Ok cresp'"
    and "client_login_finish CS cst pw' cresp' clp r4 = (Ok res, r4')"
    and "server_login_finish CS sst (clf_message res) slp' = Ok key"
    and "login_opened CS cst pw' cresp' clp = Ok (clf_server_s_pk res, opened)"
  defines "v \<equiv> login_view CS (slp_context slp) (slp_identifiers slp) (ru_client_s_pk file)
      (kp_pk (ss_keypair SS)) creq' cresp"
    and "v' \<equiv> login_view CS (clp_context clp) (clp_identifiers clp)
      (kp_pk (client_static_keypair opened)) (clf_server_s_pk res) creq cresp'"
  assumes "view_sized v" "view_sized v'"
  shows "\<exists>sids ctx ctx'. view_ok (elem_len P) (oprf_hash P) (cs_group CS) v sids ctx \<and>
    view_ok (elem_len P) (oprf_hash P) (cs_group CS) v' (opened_identifiers opened) ctx' \<and>
    (same_login (=) v creq' cresp v' creq cresp' \<and>
       (clf_server_s_pk res = public_key (cs_group CS) s_sk \<and>
        ru_client_s_pk file = kp_pk (client_static_keypair opened) \<longrightarrow> key = clf_session_key res) \<or>
     kem_collision G dh H K (server_login_run CS SS file slp creq' bld input cresp sids ctx)
       (client_login_run CS cst clp (clf_server_s_pk res) opened cresp' ctx'))"
proof -
  have trusted: "oprf_ok P wf_e wf_oc \<and> dh_ok G dh wf_sk wf_pk \<and> hash_ok H \<and> kem_robust K wf_dk wf_ek \<and>
    oprf_robust P wf_e \<and> ksf_robust k" using ok by simp
  from kem_logins.matching_logins [OF trusted assms(8-19,22,23) [unfolded CS_def v_def v'_def]]
  show ?thesis unfolding CS_def v_def v'_def kem_suite_simps by metis
qed

theorem kem_matching_logins_witness:
  "\<exists>upload creq cst r bld r2 input r3 cresp sst res r4 sids ctx.
    client_login_start mini_kem_suite_32 [50] (counter_rng 0) = (Ok (creq, cst), r) \<and>
    server_login_builder_new mini_kem_suite_32 mini_setup_32 (Some upload) creq [49]
      default_server_login_parameters r = (Ok bld, r2) \<and>
    builder_build mini_kem_suite_32 bld input = Ok (cresp, sst) \<and>
    client_login_finish mini_kem_suite_32 cst [50] cresp default_client_login_parameters r3
      = (Ok res, r4) \<and>
    server_login_finish mini_kem_suite_32 sst (clf_message res) default_server_login_parameters
      = Ok (clf_session_key res) \<and>
    view_ok (elem_len (mini_oprf 32)) (oprf_hash (mini_oprf 32))
      (cs_group mini_kem_suite_32) (login_view mini_kem_suite_32 None default_identifiers
        (ru_client_s_pk upload) (kp_pk (ss_keypair mini_setup_32)) creq cresp) sids ctx"
proof -
  let ?CS = mini_kem_suite_32 and ?SS = mini_setup_32
  obtain upload creq cst r1 bld r2 input r3 cresp sst res r4 opened where
    stored: "record_ok ?CS (\<lambda>_. True) (Some upload)"
    and run: "client_login_start ?CS [50] (counter_rng 0) = (Ok (creq, cst), r1)"
      "credential_request_deserialize ?CS (credential_request_serialize ?CS creq) = Ok creq"
      "server_login_builder_new ?CS ?SS (Some upload) creq [49] default_server_login_parameters r1
        = (Ok bld, r2)"
      "generate_ke2_input (cs_ke ?CS) (slb_ke2_builder bld) (kp_sk (ss_keypair ?SS)) r2 = (input, r3)"
      "builder_build ?CS bld input = Ok (cresp, sst)"
      "credential_response_deserialize ?CS (credential_response_serialize ?CS cresp) = Ok cresp"
      "client_login_finish ?CS cst [50] cresp default_client_login_parameters r3 = (Ok res, r4)"
      "server_login_finish ?CS sst (clf_message res) default_server_login_parameters
        = Ok (clf_session_key res)"
      "login_opened ?CS cst [50] cresp default_client_login_parameters
        = Ok (clf_server_s_pk res, opened)"
    and sized: "view_sized (login_view ?CS None default_identifiers (ru_client_s_pk upload)
        (kp_pk (ss_keypair ?SS)) creq cresp)"
      "view_sized (login_view ?CS None default_identifiers (kp_pk (client_static_keypair opened))
        (clf_server_s_pk res) creq cresp)"
    by (rule kem_opaque.honest_login [OF conjI [OF mini_32_ok(1) conjI [OF mini_32_ok(2)
        conjI [OF mini_32_ok(3) mini_kem_ok]]] mini_derive_total mini_kem_service_32,
        where cid = "[49]" and pw = "[50]" and r = "counter_rng 0"])
       simp_all
  from kem_matching_logins [OF mini_32_ok mini_kem_robust mini_oprf_robust ksf_robust_impls(1) stored
      _ _ run, unfolded default_parameter_fields, OF TrueI TrueI sized]
  show ?thesis
    by (elim exE conjE) (intro exI conjI, rule run(1), rule run(3), rule run(5), rule run(7), rule run(8))
qed

text \<open>
  C10. Matching logins over SIGMA-I: the MACs alone give the same as in 3DH, except that the signature in the
  server's message is not bound by them (it is verified, but two signatures of a message may both verify).
  The collision is one of the MAC over the client's identifiers, of the key schedule, or of the hash
  over the transcripts.
\<close>

theorem sigma_matching_logins:
  fixes P :: "('e, 'oc) oprf_suite" and SP :: "('sk, 'pk, 'sig, 'vs) signature_protocol"
    and KG :: "('esk, 'epk) ke_group" and dh H k
  defines "CS \<equiv> sigma_suite P SP KG dh H k"
  assumes ok: "oprf_ok P wf_e wf_oc"
      "signature_robust SP wf_sk wf_pk wf_sig wf_vs (sigma_messages P SP KG H)"
      "dh_ok KG dh wf_esk wf_epk" "hash_ok H" "oprf_robust P wf_e" "ksf_robust k"
    and "record_ok CS wf_pk (Some file)" "wf_pk (kp_pk (ss_keypair SS))" "wf_sk s_sk"
    and "client_login_start CS pw r1 = (Ok (creq, cst), r1')"
    and "credential_request_deserialize CS request = Ok creq'"
    and "server_login_builder_new CS SS (Some file) creq' cid slp r2 = (Ok bld, r2')"
    and "generate_ke2_input (cs_ke CS) (slb_ke2_builder bld) s_sk r3 = (input, r3')"
    and "builder_build CS bld input = Ok (cresp, sst)"
    and "credential_response_deserialize CS response = Ok cresp'"
    and "client_login_finish CS cst pw' cresp' clp r4 = (Ok res, r4')"
    and "server_login_finish CS sst (clf_message res) slp' = Ok key"
    and "login_opened CS cst pw' cresp' clp = Ok (clf_server_s_pk res, opened)"
  defines "v \<equiv> login_view CS (slp_context slp) (slp_identifiers slp) (ru_client_s_pk file)
      (kp_pk (ss_keypair SS)) creq' cresp"
    and "v' \<equiv> login_view CS (clp_context clp) (clp_identifiers clp)
      (kp_pk (client_static_keypair opened)) (clf_server_s_pk res) creq cresp'"
  assumes "view_sized v" "view_sized v'"
  shows "\<exists>sids ctx ctx'. view_ok (elem_len P) (oprf_hash P) (cs_group CS) v sids ctx \<and>
    view_ok (elem_len P) (oprf_hash P) (cs_group CS) v' (opened_identifiers opened) ctx' \<and>
    (same_login same_sigma_reply v creq' cresp v' creq cresp' \<and>
       (clf_server_s_pk res = public_key (cs_group CS) s_sk \<and>
        ru_client_s_pk file = kp_pk (client_static_keypair opened) \<longrightarrow> key = clf_session_key res) \<or>
     sigma_collision KG dh H (server_login_run CS SS file slp creq' bld input cresp sids ctx)
       (client_login_run CS cst clp (clf_server_s_pk res) opened cresp' ctx'))"
proof -
  have trusted: "oprf_ok P wf_e wf_oc \<and>
    signature_robust SP wf_sk wf_pk wf_sig wf_vs (sigma_messages P SP KG H) \<and>
    dh_ok KG dh wf_esk wf_epk \<and> hash_ok H \<and> oprf_robust P wf_e \<and> ksf_robust k" using ok by simp
  from sigma_logins.matching_logins [OF trusted assms(8-19,22,23) [unfolded CS_def v_def v'_def]]
  show ?thesis unfolding CS_def v_def v'_def sigma_suite_simps by metis
qed

theorem sigma_matching_logins_witness:
  "\<exists>upload creq cst r bld r2 input r3 cresp sst res r4 sids ctx.
    client_login_start mini_sigma_suite [50] (counter_rng 0) = (Ok (creq, cst), r) \<and>
    server_login_builder_new mini_sigma_suite mini_signing_setup (Some upload) creq [49]
      default_server_login_parameters r = (Ok bld, r2) \<and>
    builder_build mini_sigma_suite bld input = Ok (cresp, sst) \<and>
    client_login_finish mini_sigma_suite cst [50] cresp default_client_login_parameters r3
      = (Ok res, r4) \<and>
    server_login_finish mini_sigma_suite sst (clf_message res) default_server_login_parameters
      = Ok (clf_session_key res) \<and>
    view_ok (elem_len (mini_oprf 2)) (oprf_hash (mini_oprf 2))
      (cs_group mini_sigma_suite) (login_view mini_sigma_suite None default_identifiers
        (ru_client_s_pk upload) (kp_pk (ss_keypair mini_signing_setup)) creq cresp) sids ctx"
proof -
  let ?CS = mini_sigma_suite and ?SS = mini_signing_setup
  obtain upload creq cst r1 bld r2 input r3 cresp sst res r4 opened where
    stored: "record_ok ?CS (ed_pk_ok mini_edwards) (Some upload)"
    and run: "client_login_start ?CS [50] (counter_rng 0) = (Ok (creq, cst), r1)"
      "credential_request_deserialize ?CS (credential_request_serialize ?CS creq) = Ok creq"
      "server_login_builder_new ?CS ?SS (Some upload) creq [49] default_server_login_parameters r1
        = (Ok bld, r2)"
      "generate_ke2_input (cs_ke ?CS) (slb_ke2_builder bld) (kp_sk (ss_keypair ?SS)) r2 = (input, r3)"
      "builder_build ?CS bld input = Ok (cresp, sst)"
      "credential_response_deserialize ?CS (credential_response_serialize ?CS cresp) = Ok cresp"
      "client_login_finish ?CS cst [50] cresp default_client_login_parameters r3 = (Ok res, r4)"
      "server_login_finish ?CS sst (clf_message res) default_server_login_parameters
        = Ok (clf_session_key res)"
      "login_opened ?CS cst [50] cresp default_client_login_parameters
        = Ok (clf_server_s_pk res, opened)"
    and sized: "view_sized (login_view ?CS None default_identifiers (ru_client_s_pk upload)
        (kp_pk (ss_keypair ?SS)) creq cresp)"
      "view_sized (login_view ?CS None default_identifiers (kp_pk (client_static_keypair opened))
        (clf_server_s_pk res) creq cresp)"
    by (rule sigma_opaque.honest_login [OF conjI [OF mini_suite_ok(1) conjI [OF mini_signature_ok
        conjI [OF mini_suite_ok(2,3)]]] conjI [OF mini_derive_total] mini_signing_setup_ok mini_signing_service,
        where cid = "[49]" and pw = "[50]" and r = "counter_rng 0"])
       (simp_all add: ed_derive_total)
  have keys: "ed_pk_ok mini_edwards (kp_pk (ss_keypair ?SS))" "ed_sk_ok mini_edwards (kp_sk (ss_keypair ?SS))"
    using mini_signing_setup_ok by (simp_all add: server_setup_ok_def)
  from sigma_matching_logins [OF mini_suite_ok(1) mini_signature_robust mini_suite_ok(2,3)
      mini_oprf_robust ksf_robust_impls(1) stored keys run, unfolded default_parameter_fields, OF sized]
  show ?thesis
    by (elim exE conjE) (intro exI conjI, rule run(1), rule run(3), rule run(5), rule run(7), rule run(8))
qed

end
