(* ===== verification/Curve25519.thy ===== *)
theory Curve25519
  imports Concrete_Suite
begin

text \<open>
  \<open>src/key_exchange/group/curve25519.rs\<close>: X25519 as a key-exchange group. The operations of the
  \<open>curve25519-dalek\<close> crate on clamped scalars and Montgomery points, which are 32 bytes each, are
  a parameter.
\<close>

record montgomery =
  mont_is_identity :: "bytes \<Rightarrow> bool"
  clamp_integer :: "bytes \<Rightarrow> bytes"
  mul_base_clamped :: "bytes \<Rightarrow> bytes"
  mul_clamped :: "bytes \<Rightarrow> bytes \<Rightarrow> bytes"

section \<open>Keys\<close>

text \<open>\<open>NonIdentity::from_bytes\<close> and \<open>Scalar::from_bytes\<close>.\<close>

definition non_identity_from_bytes :: "montgomery \<Rightarrow> bytes \<Rightarrow> (protocol_error, bytes) result" where
  "non_identity_from_bytes M bytes =
     (let point = bytes in
      if mont_is_identity M point then Err SerializationError else Ok point)"

definition curve_scalar_from_bytes :: "montgomery \<Rightarrow> bytes \<Rightarrow> (protocol_error, bytes) result" where
  "curve_scalar_from_bytes M bytes =
     (let scalar = clamp_integer M bytes in
      if scalar = bytes then Ok scalar else Err SerializationError)"

definition curve_serialize_pk :: "bytes \<Rightarrow> bytes" where
  "curve_serialize_pk pk = pk"

definition curve_deserialize_take_pk :: "montgomery \<Rightarrow> (bytes, protocol_error, bytes) st" where
  "curve_deserialize_take_pk M =
     bind_st (take_array 32 ''public key'') (\<lambda>bytes. lift_st (non_identity_from_bytes M bytes))"

definition curve_random_sk :: "montgomery \<Rightarrow> rng \<Rightarrow> (bytes \<times> rng) option" where
  "curve_random_sk M rng =
     (case fill_bytes 32 rng of (scalar_bytes, rng') \<Rightarrow>
        let scalar = clamp_integer M scalar_bytes in Some (scalar, rng'))"

definition curve_derive_scalar :: "montgomery \<Rightarrow> bytes \<Rightarrow> (internal_error, bytes) result" where
  "curve_derive_scalar M seed = Ok (clamp_integer M seed)"

definition curve_public_key :: "montgomery \<Rightarrow> bytes \<Rightarrow> bytes" where
  "curve_public_key M sk = mul_base_clamped M sk"

definition curve_serialize_sk :: "bytes \<Rightarrow> bytes" where
  "curve_serialize_sk sk = sk"

definition curve_deserialize_take_sk :: "montgomery \<Rightarrow> (bytes, protocol_error, bytes) st" where
  "curve_deserialize_take_sk M =
     bind_st (take_array 32 ''secret key'') (\<lambda>bytes. lift_st (curve_scalar_from_bytes M bytes))"

definition curve_diffie_hellman :: "montgomery \<Rightarrow> (bytes, bytes) diffie_hellman" where
  "curve_diffie_hellman M sk pk = curve_serialize_pk (mul_clamped M pk sk)"

definition curve25519 :: "montgomery \<Rightarrow> (bytes, bytes) ke_group" where
  "curve25519 M =
     \<lparr>pk_len = 32, sk_len = 32,
      serialize_pk = curve_serialize_pk,
      deserialize_take_pk = curve_deserialize_take_pk M,
      random_sk = curve_random_sk M,
      derive_scalar = curve_derive_scalar M,
      public_key = curve_public_key M,
      serialize_sk = curve_serialize_sk,
      deserialize_take_sk = curve_deserialize_take_sk M\<rparr>"

text \<open>
  The serde hooks, on the bytes that the inner type's own \<open>Deserialize\<close> returns; \<open>()\<close> is the
  deserializer's custom error.
\<close>

definition curve_serde_deserialize_pk :: "montgomery \<Rightarrow> bytes \<Rightarrow> (unit, bytes) result" where
  "curve_serde_deserialize_pk M point = map_err (\<lambda>_. ()) (non_identity_from_bytes M point)"

definition curve_serde_deserialize_sk :: "montgomery \<Rightarrow> bytes \<Rightarrow> (unit, bytes) result" where
  "curve_serde_deserialize_sk M bytes = map_err (\<lambda>_. ()) (curve_scalar_from_bytes M bytes)"

section \<open>Facts\<close>

text \<open>What the crate documents of X25519.\<close>

definition montgomery_ok :: "montgomery \<Rightarrow> bool" where
  "montgomery_ok M \<longleftrightarrow>
     (\<forall>s. length s = 32 \<longrightarrow>
        length (clamp_integer M s) = 32 \<and> clamp_integer M (clamp_integer M s) = clamp_integer M s \<and>
        length (mul_base_clamped M s) = 32 \<and> \<not> mont_is_identity M (mul_base_clamped M s)) \<and>
     (\<forall>s p. length s = 32 \<longrightarrow> length p = 32 \<longrightarrow> length (mul_clamped M p s) = 32) \<and>
     (\<forall>s t. length s = 32 \<longrightarrow> length t = 32 \<longrightarrow>
        mul_clamped M (mul_base_clamped M t) s = mul_clamped M (mul_base_clamped M s) t)"

definition curve_sk_ok :: "montgomery \<Rightarrow> bytes \<Rightarrow> bool" where
  "curve_sk_ok M s \<longleftrightarrow> length s = 32 \<and> clamp_integer M s = s"

definition curve_pk_ok :: "montgomery \<Rightarrow> bytes \<Rightarrow> bool" where
  "curve_pk_ok M p \<longleftrightarrow> length p = 32 \<and> \<not> mont_is_identity M p"

lemma montgomery_okD:
  assumes "montgomery_ok M"
  shows "length s = 32 \<Longrightarrow> length (clamp_integer M s) = 32"
    and "length s = 32 \<Longrightarrow> clamp_integer M (clamp_integer M s) = clamp_integer M s"
    and "length s = 32 \<Longrightarrow> length (mul_base_clamped M s) = 32"
    and "length s = 32 \<Longrightarrow> \<not> mont_is_identity M (mul_base_clamped M s)"
    and "length s = 32 \<Longrightarrow> length p = 32 \<Longrightarrow> length (mul_clamped M p s) = 32"
    and "length s = 32 \<Longrightarrow> length t = 32 \<Longrightarrow>
      mul_clamped M (mul_base_clamped M t) s = mul_clamped M (mul_base_clamped M s) t"
  using assms unfolding montgomery_ok_def by blast+

lemmas curve_defs = curve25519_def curve_serialize_pk_def curve_deserialize_take_pk_def
  curve_random_sk_def curve_derive_scalar_def curve_public_key_def curve_serialize_sk_def
  curve_deserialize_take_sk_def curve_diffie_hellman_def non_identity_from_bytes_def
  curve_scalar_from_bytes_def curve_serde_deserialize_pk_def curve_serde_deserialize_sk_def
  curve_sk_ok_def curve_pk_ok_def Let_def

lemma curve_pk_Ok_iff:
  "deserialize_take_pk (curve25519 M) input = (Ok p, rest) \<longleftrightarrow>
     curve_pk_ok M p \<and> input = p @ rest"
  by (auto simp: curve_defs bind_st_Ok_iff take_array_Ok_iff split: if_splits)

lemma curve_sk_Ok_iff:
  "deserialize_take_sk (curve25519 M) input = (Ok s, rest) \<longleftrightarrow>
     curve_sk_ok M s \<and> input = s @ rest"
  by (auto simp: curve_defs bind_st_Ok_iff take_array_Ok_iff split: if_splits)

interpretation curve: dh_group "curve25519 M" "montgomery_ok M" "curve_sk_ok M" "curve_pk_ok M"
  "curve_diffie_hellman M"
  for M :: montgomery
proof (unfold_locales, goal_cases)
  case (9 s)
  then show ?case using montgomery_okD(3,4) [OF 9(1)] by (simp add: curve_defs)
next
  case (10 seed s)
  then show ?case using montgomery_okD(1,2) [OF 10(1)] by (auto simp: curve_defs)
next
  case (11 r s r')
  then show ?case
    using montgomery_okD(1,2) [OF 11(1)] by (auto simp: curve_defs length_fill_bytes split: prod.splits)
next
  case (12 s p)
  then show ?case using montgomery_okD(5) [OF 12(1)] by (simp add: curve_defs)
next
  case (13 s t)
  then show ?case using montgomery_okD(6) [OF 13(1)] by (simp add: curve_defs)
qed (auto simp: curve_defs bind_st_Ok_iff bind_st_Panic_iff take_array_Ok_iff split: if_splits)

interpretation curve_canonical: canonical_key_group "curve25519 M" "montgomery_ok M"
  "curve_sk_ok M" "curve_pk_ok M"
  for M :: montgomery
  by (intro canonical_key_group.intro curve.key_group_axioms canonical_key_group_axioms.intro)
     (simp_all add: curve_pk_Ok_iff curve_sk_Ok_iff, simp_all add: curve_defs)

lemma curve_dh_ok:
  "montgomery_ok M \<Longrightarrow> dh_ok (curve25519 M) (curve_diffie_hellman M) (curve_sk_ok M) (curve_pk_ok M)"
  using curve.dh_group_axioms [of M] by (simp add: dh_ok_def)

lemma curve_derive_total: "derive_total (curve25519 M)"
  by (simp add: derive_total_def curve_defs)

section \<open>A concrete curve\<close>

text \<open>Multiplication of odd bytes, padded to 32 bytes; for the concrete runs only.\<close>

definition mini_montgomery :: montgomery where
  "mini_montgomery =
     \<lparr>mont_is_identity = (\<lambda>p. hd p = 0),
      clamp_integer = (\<lambda>s. (hd s OR 1) # tl s),
      mul_base_clamped = (\<lambda>s. 3 * (hd s OR 1) # zeros 31),
      mul_clamped = (\<lambda>p s. hd p * (hd s OR 1) # zeros 31)\<rparr>"

lemma odd_or_1: "odd (x OR 1 :: byte)"
  by (simp add: even_or_iff)

lemma mini_montgomery_ok: "montgomery_ok mini_montgomery"
proof -
  have "3 * (x OR 1) \<noteq> (0 :: byte)" for x :: byte
  proof
    assume "3 * (x OR 1) = 0"
    then have "even (3 * (x OR 1))" by (metis even_zero)
    with odd_or_1 [of x] show False by simp
  qed
  note nonzero = this
  show ?thesis unfolding montgomery_ok_def
    by (intro conjI allI impI)
       (simp_all add: mini_montgomery_def nonzero)
qed

section \<open>Properties\<close>

text \<open>
  C39. X25519 secret keys are clamped scalars and nothing else: \<open>deserialize_take_sk\<close> accepts 32 bytes
  exactly when clamping leaves them unchanged and refuses other 32 bytes with \<open>SerializationError\<close>,
  the serde hooks accept exactly what the wire format accepts, and what key generation and
  derivation produce is accepted back unchanged.
\<close>

theorem curve25519_clamped_keys:
  assumes "montgomery_ok M"
  shows "(length bytes = 32 \<longrightarrow> deserialize_take_sk (curve25519 M) (bytes @ rest) =
        (if clamp_integer M bytes = bytes then Ok bytes else Err SerializationError, rest) \<and>
      curve_serde_deserialize_sk M bytes
        = map_err (\<lambda>_. ()) (fst (deserialize_take_sk (curve25519 M) (bytes @ rest))) \<and>
      curve_serde_deserialize_pk M bytes
        = map_err (\<lambda>_. ()) (fst (deserialize_take_pk (curve25519 M) (bytes @ rest)))) \<and>
    (length seed = 32 \<longrightarrow> (\<exists>sk. derive_scalar (curve25519 M) seed = Ok sk \<and>
      deserialize_take_sk (curve25519 M) (serialize_sk (curve25519 M) sk @ rest) = (Ok sk, rest))) \<and>
    (\<exists>sk r'. random_sk (curve25519 M) r = Some (sk, r') \<and>
      deserialize_take_sk (curve25519 M) (serialize_sk (curve25519 M) sk @ rest) = (Ok sk, rest))"
proof (intro conjI impI)
  assume len: "length bytes = 32"
  show "deserialize_take_sk (curve25519 M) (bytes @ rest) =
      (if clamp_integer M bytes = bytes then Ok bytes else Err SerializationError, rest)"
    "curve_serde_deserialize_sk M bytes
      = map_err (\<lambda>_. ()) (fst (deserialize_take_sk (curve25519 M) (bytes @ rest)))"
    "curve_serde_deserialize_pk M bytes
      = map_err (\<lambda>_. ()) (fst (deserialize_take_pk (curve25519 M) (bytes @ rest)))"
    using len by (simp_all add: curve_defs)
next
  assume len: "length seed = 32"
  then have "derive_scalar (curve25519 M) seed = Ok (clamp_integer M seed)" by (simp add: curve_defs)
  moreover from this len have "curve_sk_ok M (clamp_integer M seed)"
    using curve.derive_scalar_wf [OF assms] by (simp add: curve25519_def)
  ultimately show "\<exists>sk. derive_scalar (curve25519 M) seed = Ok sk \<and>
      deserialize_take_sk (curve25519 M) (serialize_sk (curve25519 M) sk @ rest) = (Ok sk, rest)"
    using curve.sk_roundtrip [OF assms] by blast
next
  obtain bs r' where "fill_bytes 32 r = (bs, r')" by fastforce
  then have "random_sk (curve25519 M) r = Some (clamp_integer M bs, r')" by (simp add: curve_defs)
  moreover from this have "curve_sk_ok M (clamp_integer M bs)"
    by (rule curve.random_sk_wf [OF assms])
  ultimately show "\<exists>sk r'. random_sk (curve25519 M) r = Some (sk, r') \<and>
      deserialize_take_sk (curve25519 M) (serialize_sk (curve25519 M) sk @ rest) = (Ok sk, rest)"
    using curve.sk_roundtrip [OF assms] by blast
qed

theorem curve25519_clamped_keys_witness:
  "deserialize_take_sk (curve25519 mini_montgomery) (2 # zeros 31 @ [9]) = (Err SerializationError, [9]) \<and>
   deserialize_take_sk (curve25519 mini_montgomery) (3 # zeros 31 @ [9]) = (Ok (3 # zeros 31), [9])"
proof -
  note acc = curve25519_clamped_keys [OF mini_montgomery_ok, THEN conjunct1, rule_format, THEN conjunct1]
  have "clamp_integer mini_montgomery (2 # zeros 31) \<noteq> 2 # zeros 31"
    "clamp_integer mini_montgomery (3 # zeros 31) = 3 # zeros 31"
    by (simp_all add: mini_montgomery_def)
  with acc [of "2 # zeros 31" "[9]"] acc [of "3 # zeros 31" "[9]"] show ?thesis by simp
qed

end
