(* ===== verification/Ristretto255.thy ===== *)
theory Ristretto255
  imports Concrete_Suite
begin

text \<open>
  \<open>src/key_exchange/group/ristretto255.rs\<close>: ristretto255 as a key-exchange group. Points, scalars
  and their arithmetic are those of the \<open>curve25519-dalek\<close> crate, \<open>derive_key\<close> is that of the \<open>voprf\<close>
  crate: a parameter.
\<close>

record ('sc, 'pt) ristretto =
  ris_compress :: "'pt \<Rightarrow> bytes"
  ris_decompress :: "bytes \<Rightarrow> 'pt option"
  ris_is_identity :: "'pt \<Rightarrow> bool"
  ris_mul :: "'pt \<Rightarrow> 'sc \<Rightarrow> 'pt"
  ris_basepoint :: 'pt
  sc_zero :: 'sc
  from_bytes_mod_order_wide :: "bytes \<Rightarrow> 'sc"
  sc_to_bytes :: "'sc \<Rightarrow> bytes"
  sc_from_canonical_bytes :: "bytes \<Rightarrow> 'sc option"
  ris_derive_key :: "bytes \<Rightarrow> bytes \<Rightarrow> (voprf_error, 'sc) result"

section \<open>Keys\<close>

text \<open>\<open>NonIdentity::from_point\<close> and \<open>NonZeroScalar::from_scalar\<close>.\<close>

definition non_identity_from_point ::
    "('sc, 'pt) ristretto \<Rightarrow> 'pt \<Rightarrow> (protocol_error, 'pt) result" where
  "non_identity_from_point R point =
     (if ris_is_identity R point then Err SerializationError else Ok point)"

definition non_zero_from_scalar ::
    "('sc, 'pt) ristretto \<Rightarrow> 'sc \<Rightarrow> (protocol_error, 'sc) result" where
  "non_zero_from_scalar R scalar =
     (if scalar = sc_zero R then Err SerializationError else Ok scalar)"

definition ris_serialize_pk :: "('sc, 'pt) ristretto \<Rightarrow> 'pt \<Rightarrow> bytes" where
  "ris_serialize_pk R pk = ris_compress R pk"

definition ris_deserialize_take_pk ::
    "('sc, 'pt) ristretto \<Rightarrow> (bytes, protocol_error, 'pt) st" where
  "ris_deserialize_take_pk R =
     bind_st (take_array 32 ''public key'') (\<lambda>bytes.
     lift_st (bind_result (ok_or SerializationError (ris_decompress R bytes))
       (non_identity_from_point R)))"

text \<open>The rejection sampling loop of \<open>random_sk\<close>; \<open>None\<close> when it never leaves.\<close>

partial_function (option) ris_random_sk ::
    "('sc, 'pt) ristretto \<Rightarrow> rng \<Rightarrow> ('sc \<times> rng) option" where
  "ris_random_sk R rng =
     (case fill_bytes 64 rng of (bytes, rng') \<Rightarrow>
        let scalar = from_bytes_mod_order_wide R bytes in
        if scalar \<noteq> sc_zero R then Some (scalar, rng') else ris_random_sk R rng')"

definition ris_derive_scalar ::
    "('sc, 'pt) ristretto \<Rightarrow> bytes \<Rightarrow> (internal_error, 'sc) result" where
  "ris_derive_scalar R seed =
     map_err internal_from_voprf (ris_derive_key R seed STR_OPAQUE_DERIVE_AUTH_KEY_PAIR)"

definition ris_public_key :: "('sc, 'pt) ristretto \<Rightarrow> 'sc \<Rightarrow> 'pt" where
  "ris_public_key R sk = ris_mul R (ris_basepoint R) sk"

definition ris_serialize_sk :: "('sc, 'pt) ristretto \<Rightarrow> 'sc \<Rightarrow> bytes" where
  "ris_serialize_sk R sk = sc_to_bytes R sk"

definition ris_deserialize_take_sk ::
    "('sc, 'pt) ristretto \<Rightarrow> (bytes, protocol_error, 'sc) st" where
  "ris_deserialize_take_sk R =
     bind_st (take_array 32 ''secret key'') (\<lambda>bytes.
     lift_st (bind_result (ok_or SerializationError (sc_from_canonical_bytes R bytes))
       (non_zero_from_scalar R)))"

definition ris_diffie_hellman :: "('sc, 'pt) ristretto \<Rightarrow> ('sc, 'pt) diffie_hellman" where
  "ris_diffie_hellman R sk pk = ris_serialize_pk R (ris_mul R pk sk)"

definition ristretto255 :: "('sc, 'pt) ristretto \<Rightarrow> ('sc, 'pt) ke_group" where
  "ristretto255 R =
     \<lparr>pk_len = 32, sk_len = 32,
      serialize_pk = ris_serialize_pk R,
      deserialize_take_pk = ris_deserialize_take_pk R,
      random_sk = ris_random_sk R,
      derive_scalar = ris_derive_scalar R,
      public_key = ris_public_key R,
      serialize_sk = ris_serialize_sk R,
      deserialize_take_sk = ris_deserialize_take_sk R\<rparr>"

text \<open>The serde hooks; \<open>()\<close> is the deserializer's error.\<close>

definition ris_serde_deserialize_pk :: "('sc, 'pt) ristretto \<Rightarrow> bytes \<Rightarrow> (unit, 'pt) result" where
  "ris_serde_deserialize_pk R bytes =
     bind_result (ok_or () (ris_decompress R bytes)) (\<lambda>point.
     map_err (\<lambda>_. ()) (non_identity_from_point R point))"

definition ris_serde_deserialize_sk :: "('sc, 'pt) ristretto \<Rightarrow> bytes \<Rightarrow> (unit, 'sc) result" where
  "ris_serde_deserialize_sk R bytes =
     bind_result (ok_or () (sc_from_canonical_bytes R bytes)) (\<lambda>scalar.
     map_err (\<lambda>_. ()) (non_zero_from_scalar R scalar))"

section \<open>Facts\<close>

text \<open>
  What the crates document: canonical encodings of 32 bytes, a commutative action of prime order,
  and keys derived by \<open>voprf\<close> are not zero.
\<close>

definition ristretto_ok :: "('sc, 'pt) ristretto \<Rightarrow> bool" where
  "ristretto_ok R \<longleftrightarrow>
     (\<forall>p. length (ris_compress R p) = 32) \<and>
     (\<forall>p bs. ris_decompress R bs = Some p \<longleftrightarrow> bs = ris_compress R p) \<and>
     (\<forall>s. length (sc_to_bytes R s) = 32) \<and>
     (\<forall>s bs. sc_from_canonical_bytes R bs = Some s \<longleftrightarrow> bs = sc_to_bytes R s) \<and>
     (\<forall>s. s \<noteq> sc_zero R \<longrightarrow> \<not> ris_is_identity R (ris_mul R (ris_basepoint R) s)) \<and>
     (\<forall>s t. ris_mul R (ris_mul R (ris_basepoint R) t) s
          = ris_mul R (ris_mul R (ris_basepoint R) s) t) \<and>
     (\<forall>seed info s. ris_derive_key R seed info = Ok s \<longrightarrow> s \<noteq> sc_zero R)"

lemma ristretto_okD:
  assumes "ristretto_ok R"
  shows "length (ris_compress R p) = 32"
    and "ris_decompress R bs = Some p \<longleftrightarrow> bs = ris_compress R p"
    and "length (sc_to_bytes R s) = 32"
    and "sc_from_canonical_bytes R bs = Some s \<longleftrightarrow> bs = sc_to_bytes R s"
    and "s \<noteq> sc_zero R \<Longrightarrow> \<not> ris_is_identity R (ris_mul R (ris_basepoint R) s)"
    and "ris_mul R (ris_mul R (ris_basepoint R) t) s = ris_mul R (ris_mul R (ris_basepoint R) s) t"
    and "ris_derive_key R seed info = Ok s \<Longrightarrow> s \<noteq> sc_zero R"
  using assms unfolding ristretto_ok_def by blast+

lemmas ristretto_defs = ristretto255_def ris_serialize_pk_def ris_deserialize_take_pk_def
  ris_derive_scalar_def ris_public_key_def ris_serialize_sk_def ris_deserialize_take_sk_def
  ris_diffie_hellman_def non_identity_from_point_def non_zero_from_scalar_def
  ris_serde_deserialize_pk_def ris_serde_deserialize_sk_def

text \<open>The draws of the sampling loop.\<close>

primrec ris_state :: "rng \<Rightarrow> nat \<Rightarrow> rng" where
  "ris_state rng 0 = rng"
| "ris_state rng (Suc k) = ris_state (snd (fill_bytes 64 rng)) k"

definition ris_draw :: "('sc, 'pt) ristretto \<Rightarrow> rng \<Rightarrow> nat \<Rightarrow> 'sc" where
  "ris_draw R rng k = from_bytes_mod_order_wide R (fst (fill_bytes 64 (ris_state rng k)))"

lemma ris_draw_Suc: "ris_draw R rng (Suc k) = ris_draw R (snd (fill_bytes 64 rng)) k"
  by (simp add: ris_draw_def)

lemma ris_random_sk_step:
  "ris_random_sk R rng =
     (if ris_draw R rng 0 \<noteq> sc_zero R then Some (ris_draw R rng 0, ris_state rng 1)
      else ris_random_sk R (ris_state rng 1))"
  by (subst ris_random_sk.simps) (simp add: ris_draw_def split_beta Let_def)

lemma ris_random_sk_first:
  assumes "ris_draw R rng k \<noteq> sc_zero R" "\<And>j. j < k \<Longrightarrow> ris_draw R rng j = sc_zero R"
  shows "ris_random_sk R rng = Some (ris_draw R rng k, ris_state rng (Suc k))"
  using assms
proof (induction k arbitrary: rng)
  case 0
  then show ?case by (subst ris_random_sk_step) simp
next
  case (Suc k)
  from Suc.prems(2) have "ris_draw R rng 0 = sc_zero R" by blast
  moreover have "ris_random_sk R (ris_state rng 1) =
      Some (ris_draw R rng (Suc k), ris_state rng (Suc (Suc k)))"
    using Suc.IH [of "ris_state rng 1"] Suc.prems by (simp add: ris_draw_Suc)
      (metis Suc_less_eq ris_draw_Suc)
  ultimately show ?case by (subst ris_random_sk_step) simp
qed

lemma ris_random_sk_nonzero:
  fixes R :: "('sc, 'pt) ristretto"
  assumes "ris_random_sk R rng = Some res"
  shows "\<exists>k. ris_draw R rng k \<noteq> sc_zero R"
proof (rule ris_random_sk.raw_induct
    [where P = "\<lambda>R rng _. \<exists>k. ris_draw R rng k \<noteq> sc_zero R", OF _ assms])
  fix f and R :: "('sc, 'pt) ristretto" and rng res
  assume IH: "\<And>R rng res. f R rng = Some res \<Longrightarrow> \<exists>k. ris_draw R rng k \<noteq> sc_zero R"
    and step: "(case fill_bytes 64 rng of (bytes, rng') \<Rightarrow>
        let scalar = from_bytes_mod_order_wide R bytes in
        if scalar \<noteq> sc_zero R then Some (scalar, rng') else f R rng') = Some res"
  show "\<exists>k. ris_draw R rng k \<noteq> sc_zero R"
  proof (cases "ris_draw R rng 0 = sc_zero R")
    case True
    with step have "f R (snd (fill_bytes 64 rng)) = Some res"
      by (simp add: ris_draw_def split_beta Let_def)
    from IH [OF this] show ?thesis by (metis ris_draw_Suc)
  qed blast
qed

lemma ris_random_sk_Some:
  assumes "ris_random_sk R rng = Some (s, r')"
  shows "\<exists>k. s = ris_draw R rng k \<and> s \<noteq> sc_zero R \<and> r' = ris_state rng (Suc k) \<and>
    (\<forall>j<k. ris_draw R rng j = sc_zero R)"
proof -
  obtain k0 where k0: "ris_draw R rng k0 \<noteq> sc_zero R"
    using ris_random_sk_nonzero [OF assms] by blast
  define k where "k = (LEAST k. ris_draw R rng k \<noteq> sc_zero R)"
  have k: "ris_draw R rng k \<noteq> sc_zero R" unfolding k_def using k0 by (rule LeastI)
  have least: "\<And>j. j < k \<Longrightarrow> ris_draw R rng j = sc_zero R"
    unfolding k_def using not_less_Least by blast
  from ris_random_sk_first [OF k least] assms k least show ?thesis by auto
qed

interpretation ristretto: dh_group "ristretto255 R" "ristretto_ok R" "\<lambda>s. s \<noteq> sc_zero R"
  "\<lambda>p. \<not> ris_is_identity R p" "ris_diffie_hellman R"
  for R :: "('sc, 'pt) ristretto"
proof (unfold_locales, goal_cases)
  case (11 r s r')
  then have "ris_random_sk R r = Some (s, r')" by (simp add: ristretto255_def)
  from ris_random_sk_Some [OF this] show ?case by blast
next
  case (13 s t)
  then show ?case using ristretto_okD(6) [OF 13(1)] by (simp add: ristretto_defs)
qed (auto simp: ristretto_defs ristretto_okD bind_st_Ok_iff bind_st_Panic_iff bind_result_Ok_iff
      bind_result_Panic_iff take_array_Ok_iff split: if_splits)

interpretation ristretto_canonical: canonical_key_group "ristretto255 R" "ristretto_ok R"
  "\<lambda>s. s \<noteq> sc_zero R" "\<lambda>p. \<not> ris_is_identity R p"
  for R :: "('sc, 'pt) ristretto"
  by (intro canonical_key_group.intro ristretto.key_group_axioms canonical_key_group_axioms.intro)
     (auto simp: ristretto_defs ristretto_okD bind_st_Ok_iff bind_result_Ok_iff take_array_Ok_iff
       split: if_splits)

lemma ristretto_dh_ok:
  "ristretto_ok R \<Longrightarrow> dh_ok (ristretto255 R) (ris_diffie_hellman R) (\<lambda>s. s \<noteq> sc_zero R)
     (\<lambda>p. \<not> ris_is_identity R p)"
  using ristretto.dh_group_axioms [of R] by (simp add: dh_ok_def)

section \<open>A concrete group\<close>

text \<open>Bytes under multiplication, padded to 32 bytes; for the concrete runs only.\<close>

definition pad_byte :: "byte \<Rightarrow> bytes" where
  "pad_byte b = b # zeros 31"

definition unpad_byte :: "bytes \<Rightarrow> byte option" where
  "unpad_byte bs = (if bs = pad_byte (hd bs) then Some (hd bs) else None)"

lemma unpad_byte_Some_iff: "unpad_byte bs = Some b \<longleftrightarrow> bs = pad_byte b"
  by (auto simp: unpad_byte_def pad_byte_def)

lemma length_pad_byte [simp]: "length (pad_byte b) = 32"
  by (simp add: pad_byte_def)

definition mini_ristretto :: "(byte, byte) ristretto" where
  "mini_ristretto =
     \<lparr>ris_compress = pad_byte, ris_decompress = unpad_byte, ris_is_identity = (\<lambda>p. p = 0),
      ris_mul = (*), ris_basepoint = 1, sc_zero = 0, from_bytes_mod_order_wide = hd,
      sc_to_bytes = pad_byte, sc_from_canonical_bytes = unpad_byte,
      ris_derive_key = (\<lambda>seed info. if hd seed = 0 then Err (Voprf_Error 0) else Ok (hd seed))\<rparr>"

lemma mini_ristretto_ok: "ristretto_ok mini_ristretto"
  by (simp add: ristretto_ok_def mini_ristretto_def unpad_byte_Some_iff ac_simps)

text \<open>A decoder that inverts an encoder exactly.\<close>

lemma canonical_decode:
  assumes "\<And>q. dec bs = Some q \<longleftrightarrow> bs = enc q"
  shows "(\<exists>q. P q \<and> bs = enc q) \<longleftrightarrow> (case dec bs of None \<Rightarrow> False | Some q \<Rightarrow> P q)"
proof (cases "dec bs")
  case None
  then have "bs \<noteq> enc q" for q using assms [of q] by simp
  with None show ?thesis by simp
next
  case (Some q)
  then have "bs = enc q' \<longleftrightarrow> q' = q" for q' using assms [of q'] by auto
  with Some show ?thesis by simp
qed

section \<open>Properties\<close>

text \<open>
  C37. Ristretto secret keys are sampled by rejection: the loop returns exactly when some draw of 64
  bytes reduces to a non-zero scalar, and then returns the first such scalar with the generator as
  that draw left it; it never leaves only if every draw reduces to zero.
\<close>

theorem ristretto_sampling:
  "(random_sk (ristretto255 R) rng = Some (s, rng') \<longleftrightarrow>
     (\<exists>k. s = ris_draw R rng k \<and> s \<noteq> sc_zero R \<and> rng' = ris_state rng (Suc k) \<and>
       (\<forall>j<k. ris_draw R rng j = sc_zero R))) \<and>
   (random_sk (ristretto255 R) rng = None \<longleftrightarrow> (\<forall>k. ris_draw R rng k = sc_zero R))"
proof (intro conjI iffI)
  assume "random_sk (ristretto255 R) rng = Some (s, rng')"
  then show "\<exists>k. s = ris_draw R rng k \<and> s \<noteq> sc_zero R \<and> rng' = ris_state rng (Suc k) \<and>
      (\<forall>j<k. ris_draw R rng j = sc_zero R)"
    by (intro ris_random_sk_Some) (simp add: ristretto255_def)
next
  assume "\<exists>k. s = ris_draw R rng k \<and> s \<noteq> sc_zero R \<and> rng' = ris_state rng (Suc k) \<and>
      (\<forall>j<k. ris_draw R rng j = sc_zero R)"
  then show "random_sk (ristretto255 R) rng = Some (s, rng')"
    using ris_random_sk_first [of R rng] by (auto simp: ristretto255_def)
next
  assume none: "random_sk (ristretto255 R) rng = None"
  show "\<forall>k. ris_draw R rng k = sc_zero R"
  proof (rule ccontr)
    assume "\<not> (\<forall>k. ris_draw R rng k = sc_zero R)"
    then have "ris_draw R rng (LEAST k. ris_draw R rng k \<noteq> sc_zero R) \<noteq> sc_zero R"
      by (metis (mono_tags, lifting) LeastI)
    from ris_random_sk_first [OF this] none not_less_Least show False
      by (fastforce simp: ristretto255_def)
  qed
next
  assume "\<forall>k. ris_draw R rng k = sc_zero R"
  then show "random_sk (ristretto255 R) rng = None"
    using ris_random_sk_nonzero [of R rng]
    by (cases "ris_random_sk R rng") (auto simp: ristretto255_def)
qed

theorem ristretto_sampling_witness:
  "random_sk (ristretto255 mini_ristretto) (counter_rng 0) = Some (64, counter_rng 128)"
proof -
  have "\<exists>k. (64 :: byte) = ris_draw mini_ristretto (counter_rng 0) k \<and>
      64 \<noteq> sc_zero mini_ristretto \<and> counter_rng 128 = ris_state (counter_rng 0) (Suc k) \<and>
      (\<forall>j<k. ris_draw mini_ristretto (counter_rng 0) j = sc_zero mini_ristretto)"
    by (intro exI [of _ 1]) (simp add: ris_draw_def mini_ristretto_def hd_map)
  then show ?thesis using ristretto_sampling [of mini_ristretto "counter_rng 0"] by blast
qed

text \<open>
  C38. Ristretto keys have one encoding each: a public key is read exactly from the encoding of a point
  that is not the identity, a secret key exactly from the encoding of a scalar that is not zero;
  32 bytes of anything else are refused with \<open>SerializationError\<close>. The serde hooks accept exactly
  the same bytes.
\<close>

theorem ristretto_keys_canonical:
  assumes "ristretto_ok R" "length bytes = 32"
  shows "deserialize_take_pk (ristretto255 R) (bytes @ rest) =
      (if \<exists>p. \<not> ris_is_identity R p \<and> bytes = ris_compress R p
       then Ok (the (ris_decompress R bytes)) else Err SerializationError, rest) \<and>
    deserialize_take_sk (ristretto255 R) (bytes @ rest) =
      (if \<exists>s. s \<noteq> sc_zero R \<and> bytes = sc_to_bytes R s
       then Ok (the (sc_from_canonical_bytes R bytes)) else Err SerializationError, rest) \<and>
    ris_serde_deserialize_pk R bytes
      = map_err (\<lambda>_. ()) (fst (deserialize_take_pk (ristretto255 R) (bytes @ rest))) \<and>
    ris_serde_deserialize_sk R bytes
      = map_err (\<lambda>_. ()) (fst (deserialize_take_sk (ristretto255 R) (bytes @ rest)))"
proof (intro conjI)
  show "ris_serde_deserialize_pk R bytes
      = map_err (\<lambda>_. ()) (fst (deserialize_take_pk (ristretto255 R) (bytes @ rest)))"
    using assms(2) by (cases "ris_decompress R bytes") (simp_all add: ristretto_defs)
  show "ris_serde_deserialize_sk R bytes
      = map_err (\<lambda>_. ()) (fst (deserialize_take_sk (ristretto255 R) (bytes @ rest)))"
    using assms(2) by (cases "sc_from_canonical_bytes R bytes") (simp_all add: ristretto_defs)
next
  show "deserialize_take_pk (ristretto255 R) (bytes @ rest) =
      (if \<exists>p. \<not> ris_is_identity R p \<and> bytes = ris_compress R p
       then Ok (the (ris_decompress R bytes)) else Err SerializationError, rest)"
  proof -
    have "(\<exists>q. \<not> ris_is_identity R q \<and> bytes = ris_compress R q) \<longleftrightarrow>
        (case ris_decompress R bytes of None \<Rightarrow> False | Some q \<Rightarrow> \<not> ris_is_identity R q)"
      by (rule canonical_decode) (rule ristretto_okD(2) [OF assms(1)])
    then show ?thesis
      using assms(2) by (cases "ris_decompress R bytes") (simp_all add: ristretto_defs)
  qed
  show "deserialize_take_sk (ristretto255 R) (bytes @ rest) =
      (if \<exists>s. s \<noteq> sc_zero R \<and> bytes = sc_to_bytes R s
       then Ok (the (sc_from_canonical_bytes R bytes)) else Err SerializationError, rest)"
  proof -
    have "(\<exists>q. q \<noteq> sc_zero R \<and> bytes = sc_to_bytes R q) \<longleftrightarrow>
        (case sc_from_canonical_bytes R bytes of None \<Rightarrow> False | Some q \<Rightarrow> q \<noteq> sc_zero R)"
      by (rule canonical_decode) (rule ristretto_okD(4) [OF assms(1)])
    then show ?thesis
      using assms(2) by (cases "sc_from_canonical_bytes R bytes") (simp_all add: ristretto_defs)
  qed
qed

theorem ristretto_keys_canonical_witness:
  "deserialize_take_pk (ristretto255 mini_ristretto) (zeros 32 @ [9]) = (Err SerializationError, [9]) \<and>
   deserialize_take_pk (ristretto255 mini_ristretto) (pad_byte 5 @ [9]) = (Ok 5, [9]) \<and>
   deserialize_take_sk (ristretto255 mini_ristretto) (replicate 32 1 @ [9])
     = (Err SerializationError, [9])"
proof -
  have z: "zeros 32 = pad_byte 0" by (simp add: zeros_def pad_byte_def numeral_eq_Suc)
  have ones: "replicate 32 1 \<noteq> pad_byte s" for s
    by (simp add: zeros_def pad_byte_def numeral_eq_Suc)
  have dec: "ris_decompress mini_ristretto (pad_byte 5) = Some 5"
    by (simp add: mini_ristretto_def unpad_byte_Some_iff)
  have pad: "pad_byte a = pad_byte b \<longleftrightarrow> a = b" for a b by (simp add: pad_byte_def)
  show ?thesis
    using ristretto_keys_canonical [OF mini_ristretto_ok, of "zeros 32" "[9]"]
      ristretto_keys_canonical [OF mini_ristretto_ok, of "pad_byte 5" "[9]"]
      ristretto_keys_canonical [OF mini_ristretto_ok, of "replicate 32 1" "[9]"] dec
    by (simp add: z ones pad mini_ristretto_def)
qed

end
