(* ===== verification/Ristretto_Voprf.thy ===== *)
theory Ristretto_Voprf
  imports Ristretto255
begin

text \<open>
  The second half of \<open>src/key_exchange/group/ristretto255.rs\<close>: the crate's own \<open>Ristretto255\<close> is also
  an OPRF suite, so that one type serves both as \<open>OprfCs\<close> and as key-exchange group. The traits
  \<open>Group\<close> and \<open>CipherSuite\<close> belong to the \<open>voprf\<close> crate, and so does \<open>voprf::Ristretto255\<close>, the
  implementation that every function forwards to: a parameter.
\<close>

record ('el, 'sc) voprf_group =
  elem_len :: nat
  scalar_len :: nat
  security_level :: nat
  hash_to_curve :: "hash_fns \<Rightarrow> bytes list \<Rightarrow> bytes list \<Rightarrow> (voprf_internal_error, 'el) result"
  hash_to_scalar :: "hash_fns \<Rightarrow> bytes list \<Rightarrow> bytes list \<Rightarrow> (voprf_internal_error, 'sc) result"
  base_elem :: 'el
  identity_elem :: 'el
  serialize_elem :: "'el \<Rightarrow> bytes"
  deserialize_elem :: "bytes \<Rightarrow> (voprf_error, 'el) result"
  random_scalar :: "(rng, voprf_error, 'sc) st"
  invert_scalar :: "'sc \<Rightarrow> 'sc"
  is_zero_scalar :: "'sc \<Rightarrow> bool"
  serialize_scalar :: "'sc \<Rightarrow> bytes"
  deserialize_scalar :: "bytes \<Rightarrow> (voprf_error, 'sc) result"

record ('el, 'sc) voprf_suite =
  suite_id :: bytes
  suite_group :: "('el, 'sc) voprf_group"
  suite_hash :: hash_fns

text \<open>\<open>impl voprf::Group for Ristretto255\<close>; \<open>V\<close> is that of \<open>voprf::Ristretto255\<close>.\<close>

definition ris_voprf_group :: "('el, 'sc) voprf_group \<Rightarrow> ('el, 'sc) voprf_group" where
  "ris_voprf_group V =
     \<lparr>elem_len = elem_len V,
      scalar_len = scalar_len V,
      security_level = security_level V,
      hash_to_curve = (\<lambda>H input dst. hash_to_curve V H input dst),
      hash_to_scalar = (\<lambda>H input dst. hash_to_scalar V H input dst),
      base_elem = base_elem V,
      identity_elem = identity_elem V,
      serialize_elem = (\<lambda>elem. serialize_elem V elem),
      deserialize_elem = (\<lambda>element_bits. deserialize_elem V element_bits),
      random_scalar = (\<lambda>rng. random_scalar V rng),
      invert_scalar = (\<lambda>scalar. invert_scalar V scalar),
      is_zero_scalar = (\<lambda>scalar. is_zero_scalar V scalar),
      serialize_scalar = (\<lambda>scalar. serialize_scalar V scalar),
      deserialize_scalar = (\<lambda>scalar_bits. deserialize_scalar V scalar_bits)\<rparr>"

text \<open>\<open>impl voprf::CipherSuite for Ristretto255\<close>; its group is the one of \<open>voprf\<close>.\<close>

definition ris_voprf_suite :: "('el, 'sc) voprf_suite \<Rightarrow> ('el, 'sc) voprf_suite" where
  "ris_voprf_suite V =
     \<lparr>suite_id = suite_id V, suite_group = suite_group V, suite_hash = suite_hash V\<rparr>"

text \<open>
  So keys derived with \<open>voprf::derive_key::<Self>\<close> are those of \<open>voprf::Ristretto255\<close>, and a suite may
  name either type.
\<close>

lemma ris_voprf_group_forwards: "ris_voprf_group V = V"
  by (simp add: ris_voprf_group_def)

lemma ris_voprf_suite_forwards: "ris_voprf_suite V = V"
  by (simp add: ris_voprf_suite_def)

lemma ristretto_derives_as_voprf:
  assumes "ris_derive_key R = derive_key (ris_voprf_suite V)"
  shows "derive_scalar (ristretto255 R) seed =
    map_err internal_from_voprf (derive_key V seed STR_OPAQUE_DERIVE_AUTH_KEY_PAIR)"
  using assms by (simp add: ristretto_defs ris_voprf_suite_forwards)

end
