(* ===== verification/Error_Debug.thy ===== *)
theory Error_Debug
  imports Errors
begin

text \<open>
  \<open>src/errors.rs\<close>: the \<open>Debug\<close> implementations of the two error types, as the text that \<open>{:?}\<close>
  writes. The builders \<open>debug_tuple\<close> and \<open>debug_struct\<close> and the \<open>Debug\<close> of \<open>str\<close> and \<open>usize\<close> are
  those of \<open>core::fmt\<close>, in the one-line form; text is ASCII. The \<open>Debug\<close> of the two error types of the
  \<open>voprf\<close> crate and that of the custom error type are parameters.
\<close>

section \<open>Formatting\<close>

primrec separated :: "string \<Rightarrow> string list \<Rightarrow> string" where
  "separated sep [] = ''''"
| "separated sep (x # xs) = (if xs = [] then x else x @ sep @ separated sep xs)"

definition debug_tuple :: "string \<Rightarrow> string list \<Rightarrow> string" where
  "debug_tuple name fields =
     name @ (if fields = [] then '''' else ''('' @ separated '', '' fields @ '')'')"

definition debug_struct :: "string \<Rightarrow> (string \<times> string) list \<Rightarrow> string" where
  "debug_struct name fields =
     name @ (if fields = [] then ''''
       else '' { '' @ separated '', '' (map (\<lambda>(field, v). field @ '': '' @ v) fields) @ '' }'')"

definition digit :: "nat \<Rightarrow> char" where
  "digit n = char_of (if n < 10 then 48 + n else 87 + n)"

fun usize_debug :: "nat \<Rightarrow> string" where
  "usize_debug n = (if n < 10 then [digit n] else usize_debug (n div 10) @ [digit (n mod 10)])"

declare usize_debug.simps [simp del]

definition escape_debug :: "char \<Rightarrow> string" where
  "escape_debug c =
     (let n = of_char c :: nat in
      if n = 0 then [CHR 0x5C, CHR ''0'']
      else if n = 9 then [CHR 0x5C, CHR ''t'']
      else if n = 10 then [CHR 0x5C, CHR ''n'']
      else if n = 13 then [CHR 0x5C, CHR ''r'']
      else if n = 34 then [CHR 0x5C, CHR 0x22]
      else if n = 92 then [CHR 0x5C, CHR 0x5C]
      else if n < 16 then [CHR 0x5C, CHR ''u'', CHR ''{'', digit n, CHR ''}'']
      else if n < 32 \<or> n = 127
        then [CHR 0x5C, CHR ''u'', CHR ''{'', digit (n div 16), digit (n mod 16), CHR ''}'']
      else [c])"

definition str_debug :: "string \<Rightarrow> string" where
  "str_debug s = [CHR 0x22] @ concat (map escape_debug s) @ [CHR 0x22]"

section \<open>The errors\<close>

text \<open>\<open>impl Debug for InternalError\<close>; \<open>dv\<close> and \<open>di\<close> print the errors of \<open>voprf\<close>.\<close>

primrec internal_debug ::
    "(voprf_error \<Rightarrow> string) \<Rightarrow> (voprf_internal_error \<Rightarrow> string) \<Rightarrow> internal_error \<Rightarrow> string"
  where
  "internal_debug dv di HashToScalar = debug_tuple ''HashToScalar'' []"
| "internal_debug dv di HkdfError = debug_tuple ''HkdfError'' []"
| "internal_debug dv di HmacError = debug_tuple ''HmacError'' []"
| "internal_debug dv di KsfError = debug_tuple ''KsfError'' []"
| "internal_debug dv di KemError = debug_tuple ''KemError'' []"
| "internal_debug dv di SealOpenHmacError = debug_tuple ''SealOpenHmacError'' []"
| "internal_debug dv di IncompatibleEnvelopeModeError =
     debug_tuple ''IncompatibleEnvelopeModeError'' []"
| "internal_debug dv di (OprfError error) = debug_tuple ''OprfError'' [dv error]"
| "internal_debug dv di (OprfInternalError error) = debug_tuple ''OprfInternalError'' [di error]"

text \<open>\<open>impl<T: Debug> Debug for ProtocolError<T>\<close>; \<open>dt\<close> prints the custom error.\<close>

primrec custom_protocol_debug ::
    "(voprf_error \<Rightarrow> string) \<Rightarrow> (voprf_internal_error \<Rightarrow> string) \<Rightarrow> ('t \<Rightarrow> string) \<Rightarrow>
     't custom_protocol_error \<Rightarrow> string" where
  "custom_protocol_debug dv di dt (CustomLibraryError pake_error) =
     debug_tuple ''LibraryError'' [internal_debug dv di pake_error]"
| "custom_protocol_debug dv di dt CustomInvalidLoginError = debug_tuple ''InvalidLoginError'' []"
| "custom_protocol_debug dv di dt CustomSerializationError = debug_tuple ''SerializationError'' []"
| "custom_protocol_debug dv di dt (CustomSizeError name len actual_len) =
     debug_struct ''SizeError''
       [(''name'', str_debug name), (''len'', usize_debug len),
        (''actual_len'', usize_debug actual_len)]"
| "custom_protocol_debug dv di dt CustomReflectedValueError =
     debug_tuple ''ReflectedValueError'' []"
| "custom_protocol_debug dv di dt (Custom custom) = debug_tuple ''Custom'' [dt custom]"

text \<open>The instance \<open>ProtocolError<Infallible>\<close>, which has no custom error to print.\<close>

definition protocol_debug ::
    "(voprf_error \<Rightarrow> string) \<Rightarrow> (voprf_internal_error \<Rightarrow> string) \<Rightarrow> protocol_error \<Rightarrow> string" where
  "protocol_debug dv di e =
     custom_protocol_debug dv di (\<lambda>_ :: unit. '''') (into_custom e)"

section \<open>Facts\<close>

text \<open>Decimal digits determine the number.\<close>

lemma of_char_digit [simp]:
  "n < 16 \<Longrightarrow> of_char (digit n) = (if n < 10 then 48 + n else 87 + n)"
  by (simp add: digit_def)

lemma digit_inj: "m < 16 \<Longrightarrow> n < 16 \<Longrightarrow> digit m = digit n \<longleftrightarrow> m = n"
  by (auto dest!: arg_cong [where f = "of_char :: char \<Rightarrow> nat"] split: if_splits)

lemma usize_debug_not_Nil [simp]: "usize_debug n \<noteq> []"
  by (subst usize_debug.simps) simp

lemma usize_debug_digits: "c \<in> set (usize_debug n) \<Longrightarrow> \<exists>d<10. c = digit d"
proof (induction n rule: usize_debug.induct)
  case (1 n)
  from "1.prems" show ?case
    by (subst (asm) usize_debug.simps)
      (auto split: if_splits dest: "1.IH" intro: exI [of _ "n mod 10"])
qed

primrec digits_value :: "string \<Rightarrow> nat \<Rightarrow> nat" where
  "digits_value [] acc = acc"
| "digits_value (c # cs) acc = digits_value cs (10 * acc + (of_char c - 48))"

lemma digits_value_append: "digits_value (xs @ ys) acc = digits_value ys (digits_value xs acc)"
  by (induction xs arbitrary: acc) auto

lemma digits_value_usize: "digits_value (usize_debug n) 0 = n"
proof (induction n rule: usize_debug.induct)
  case (1 n)
  then show ?case by (subst usize_debug.simps) (simp add: digits_value_append)
qed

lemma usize_debug_inj: "usize_debug m = usize_debug n \<longleftrightarrow> m = n"
  by (metis digits_value_usize)

text \<open>Escapes form a prefix code that never starts with a quote.\<close>

lemma div_mod_16_eqD: "(m :: nat) div 16 = n div 16 \<Longrightarrow> m mod 16 = n mod 16 \<Longrightarrow> m = n"
  by (metis div_mult_mod_eq)

lemma escape_debug_prefix_free:
  assumes "escape_debug c @ u = escape_debug d @ v"
  shows "c = d" and "u = v"
proof -
  have eq: "of_char c = (of_char d :: nat)"
    using assms
    by (auto simp: escape_debug_def Let_def digit_inj simp del: of_char_eq_iff split: if_splits
        dest!: arg_cong [where f = "of_char :: char \<Rightarrow> nat"] intro: div_mod_16_eqD)
  then show "c = d" by simp
  with assms show "u = v" by simp
qed

lemma escape_debug_no_quote [simp]: "escape_debug c @ u \<noteq> CHR 0x22 # v"
  by (auto simp: escape_debug_def Let_def dest!: arg_cong [where f = "of_char :: char \<Rightarrow> nat"])

lemma str_debug_prefix_free: "str_debug s @ u = str_debug t @ v \<longleftrightarrow> s = t \<and> u = v"
proof -
  have "s = t \<and> u = v" if "concat (map escape_debug s) @ CHR 0x22 # u
      = concat (map escape_debug t) @ CHR 0x22 # v"
    using that
  proof (induction s arbitrary: t)
    case Nil
    then show ?case by (cases t) (auto dest: sym)
  next
    case (Cons c s)
    then obtain d t' where t: "t = d # t'" by (cases t) auto
    with Cons.prems have "escape_debug c @ concat (map escape_debug s) @ CHR 0x22 # u
        = escape_debug d @ concat (map escape_debug t') @ CHR 0x22 # v" by simp
    from escape_debug_prefix_free [OF this] Cons.IH [of t'] t show ?case by simp
  qed
  then show ?thesis by (auto simp: str_debug_def)
qed

lemma usize_debug_prefix_free:
  assumes "\<And>d. d < 10 \<Longrightarrow> c \<noteq> digit d"
  shows "usize_debug m @ c # u = usize_debug n @ c # v \<longleftrightarrow> m = n \<and> u = v"
proof -
  have "c \<notin> set (usize_debug k)" for k
    using assms usize_debug_digits [of c k] by blast
  then have "takeWhile (\<lambda>x. x \<noteq> c) (usize_debug k @ c # w) = usize_debug k" for k w
    by (subst takeWhile_append2) auto
  then have "usize_debug m = usize_debug n" if "usize_debug m @ c # u = usize_debug n @ c # v"
    using that by metis
  then show ?thesis by (auto simp: usize_debug_inj)
qed

lemma punctuation_not_digit: "d < 10 \<Longrightarrow> CHR '','' \<noteq> digit d" "d < 10 \<Longrightarrow> CHR '' '' \<noteq> digit d"
  by (auto dest!: arg_cong [where f = "of_char :: char \<Rightarrow> nat"])

text \<open>The printed text identifies the error, if that of the \<open>voprf\<close> errors does.\<close>

lemma internal_debug_inj:
  assumes "inj dv" "inj di"
  shows "internal_debug dv di e = internal_debug dv di e' \<longleftrightarrow> e = e'"
  using assms by (cases e; cases e') (simp_all add: debug_tuple_def inj_eq)

lemma custom_protocol_debug_inj:
  assumes "inj dv" "inj di" "inj dt"
  shows "custom_protocol_debug dv di dt e = custom_protocol_debug dv di dt e' \<longleftrightarrow> e = e'"
  using assms
  by (cases e; cases e')
     (simp_all add: debug_tuple_def debug_struct_def inj_eq internal_debug_inj str_debug_prefix_free
       usize_debug_prefix_free [OF punctuation_not_digit(1)]
       usize_debug_prefix_free [OF punctuation_not_digit(2)] usize_debug_inj)

lemma protocol_debug_inj:
  assumes "inj dv" "inj di"
  shows "protocol_debug dv di e = protocol_debug dv di e' \<longleftrightarrow> e = e'"
  using custom_protocol_debug_inj [OF assms, of "\<lambda>_ :: unit. ''''"]
  by (simp add: protocol_debug_def into_custom_inj inj_def)

text \<open>Quotes and control characters of a name are escaped.\<close>

lemma protocol_debug_size_error:
  "protocol_debug dv di (SizeError [CHR ''a'', CHR 0x22, CHR 0x1B] 32 407) =
     ''SizeError { name: '' @ [CHR 0x22, CHR ''a'', CHR 0x5C, CHR 0x22, CHR 0x5C] @
     ''u{1b}'' @ [CHR 0x22] @ '', len: 32, actual_len: 407 }''"
  by (simp add: protocol_debug_def debug_struct_def str_debug_def escape_debug_def
      usize_debug.simps digit_def char_of_def bit_0)

end
