(* ===== verification/Key_Tests.thy ===== *)
theory Key_Tests
  imports Keypair Ed25519
begin

text \<open>
  The crate's own checks of keys (\<open>test!\<close> of \<open>src/keypair.rs\<close>, run there on random key pairs of four
  groups), of \<open>i2osp\<close> (\<open>unit_tests\<close> of \<open>src/serialization/mod.rs\<close>) and of the crate's EdDSA against
  \<open>ed25519_dalek\<close> (\<open>test\<close> of \<open>src/key_exchange/group/ed25519.rs\<close>) as functions, and what they sample:
  they succeed on every key pair of every lawful group. The proptest harness is not modelled;
  \<open>uniform_keypair_strategy\<close> is \<open>KeyPair::derive_random\<close> over a seeded generator.
\<close>

definition uniform_keypair_strategy ::
    "('sk, 'pk) ke_group \<Rightarrow> (bytes \<Rightarrow> rng) \<Rightarrow> bytes \<Rightarrow> (protocol_error, ('pk, 'sk) keypair) result" where
  "uniform_keypair_strategy G from_seed seed =
     (let rng = from_seed seed in eval_st (keypair_derive_random G) rng)"

definition pub_from_priv :: "('sk, 'pk) ke_group \<Rightarrow> ('pk, 'sk) keypair \<Rightarrow> bool" where
  "pub_from_priv G kp =
     (let pk = keypair_public kp;
          sk = keypair_private kp in
      public_key_serialize G (private_key_public_key G sk) = public_key_serialize G pk)"

definition dh_test ::
    "('sk, 'pk) diffie_hellman \<Rightarrow> ('pk, 'sk) keypair \<Rightarrow> ('pk, 'sk) keypair \<Rightarrow> bool" where
  "dh_test dh kp1 kp2 =
     (let dh1 = ke_diffie_hellman dh (keypair_private kp2) (keypair_public kp1);
          dh2 = ke_diffie_hellman dh (keypair_private kp1) (keypair_public kp2) in
      dh1 = dh2)"

definition private_key_slice ::
    "('sk, 'pk) ke_group \<Rightarrow> ('pk, 'sk) keypair \<Rightarrow> (protocol_error, bool) result" where
  "private_key_slice G kp =
     (let sk_bytes = private_key_serialize G (keypair_private kp) in
      bind_result (eval_st (deserialize_take_key_pair (private_key_serialization_impl G)) sk_bytes)
        (\<lambda>kp2.
      let kp2_private_bytes = private_key_serialize G (keypair_private kp2) in
      Ok (sk_bytes = kp2_private_bytes)))"

definition is_err :: "('e, 'a) result \<Rightarrow> bool" where
  "is_err r \<longleftrightarrow> (case r of Err _ \<Rightarrow> True | _ \<Rightarrow> False)"

definition test_i2osp_err_check :: bool where
  "test_i2osp_err_check \<longleftrightarrow>
     is_ok (i2osp 1 0) \<and>
     is_ok (i2osp 1 255) \<and> is_err (i2osp 1 256) \<and> is_err (i2osp 1 257) \<and>
     is_ok (i2osp 2 (256 * 256 - 1)) \<and> is_err (i2osp 2 (256 * 256)) \<and>
     is_err (i2osp 2 (256 * 256 + 1))"

text \<open>
  The signatures of \<open>ed25519_dalek\<close> under a 32-byte key, plain or over SHA-512 of the message: a
  parameter. A failed \<open>unwrap\<close> or \<open>assert_eq!\<close> is a panic.
\<close>

record dalek =
  dalek_sign :: "bytes \<Rightarrow> bytes \<Rightarrow> bytes"
  dalek_verify :: "bytes \<Rightarrow> bytes \<Rightarrow> bytes \<Rightarrow> (unit, unit) result"
  dalek_sign_prehashed :: "bytes \<Rightarrow> bytes \<Rightarrow> (unit, bytes) result"
  dalek_verify_prehashed :: "bytes \<Rightarrow> bytes \<Rightarrow> bytes \<Rightarrow> (unit, unit) result"

definition pure_eddsa_test ::
    "('sc, 'pt) edwards \<Rightarrow> dalek \<Rightarrow> bytes \<Rightarrow> bytes \<Rightarrow> (unit, unit) result" where
  "pure_eddsa_test E D message sk =
     (let signature = dalek_sign D sk message in
      bind_result (unwrap (eval_st (ed_deserialize_take_sk E) sk)) (\<lambda>custom_sk.
      let custom_signature = ed_sign E custom_sk False [message] in
      bind_result (if signature = ed_signature_serialize E custom_signature then Ok () else Panic)
        (\<lambda>_.
      bind_result (unwrap (dalek_verify D sk message signature)) (\<lambda>_.
      let custom_pk = ed_public_key custom_sk in
      unwrap (ed_verify E custom_pk False [message] custom_signature)))))"

definition hash_eddsa_test ::
    "('sc, 'pt) edwards \<Rightarrow> dalek \<Rightarrow> bytes \<Rightarrow> bytes \<Rightarrow> (unit, unit) result" where
  "hash_eddsa_test E D message sk =
     (let pre_hash = ed_sha512 E message in
      bind_result (unwrap (dalek_sign_prehashed D sk message)) (\<lambda>signature.
      bind_result (unwrap (eval_st (ed_deserialize_take_sk E) sk)) (\<lambda>custom_sk.
      let custom_signature = ed_sign E custom_sk True [pre_hash] in
      bind_result (if signature = ed_signature_serialize E custom_signature then Ok () else Panic)
        (\<lambda>_.
      bind_result (unwrap (dalek_verify_prehashed D sk message signature)) (\<lambda>_.
      let custom_pk = ed_public_key custom_sk in
      unwrap (ed_verify E custom_pk True [pre_hash] custom_signature))))))"

section \<open>Facts\<close>

lemma i2osp_err_check: test_i2osp_err_check
  by (simp add: test_i2osp_err_check_def is_err_def i2osp_eq)

lemma uniform_keypair:
  assumes "group_ok G wf_sk wf_pk" "uniform_keypair_strategy G from_seed seed = Ok kp"
  shows "wf_sk (kp_sk kp)" "kp_pk kp = public_key G (kp_sk kp)"
proof -
  obtain r' where kp: "keypair_derive_random G (from_seed seed) = (Ok kp, r')"
    using assms(2) by (auto simp: uniform_keypair_strategy_def eval_st_Ok_iff)
  from keypair_derive_random_wf [OF assms(1) kp] show "wf_sk (kp_sk kp)" ..
  from keypair_derive_random_consistent [OF kp] show "kp_pk kp = public_key G (kp_sk kp)"
    by (simp add: keypair_consistent_def)
qed

lemma uniform_keypair_total:
  assumes "derive_total G"
  obtains kp where "uniform_keypair_strategy G from_seed seed = Ok kp"
proof -
  obtain kp r' where "keypair_derive_random G (from_seed seed) = (Ok kp, r')"
    by (rule keypair_derive_random_total [OF assms])
  then show thesis using that by (simp add: uniform_keypair_strategy_def eval_st_def)
qed

text \<open>What the three tests sample holds of all key pairs.\<close>

lemma key_tests_pass:
  assumes "dh_ok G dh wf_sk wf_pk"
    and "uniform_keypair_strategy G from_seed seed1 = Ok kp1"
    and "uniform_keypair_strategy G from_seed seed2 = Ok kp2"
  shows "pub_from_priv G kp1" "dh_test dh kp1 kp2" "private_key_slice G kp1 = Ok True"
proof -
  note ok = dh_ok_group_ok [OF assms(1)]
  note kp1 = uniform_keypair [OF ok assms(2)] and kp2 = uniform_keypair [OF ok assms(3)]
  show "pub_from_priv G kp1" using kp1 by (simp add: pub_from_priv_def key_defs)
  show "dh_test dh kp1 kp2"
    using any_dh.dh_agree [OF assms(1) kp2(1) kp1(1)] kp1(2) kp2(2)
    by (simp add: dh_test_def key_defs)
  show "private_key_slice G kp1 = Ok True"
    using any_group.sk_roundtrip [OF ok kp1(1), of "[]"]
    by (simp add: private_key_slice_def private_key_serialization_impl_def key_defs eval_st_def
        bind_st_def Let_def)
qed

text \<open>The EdDSA tests pass exactly when \<open>ed25519_dalek\<close> makes, and accepts, the same signatures.\<close>

lemma ed_test_key:
  assumes "edwards_ok E" "length sk = 32"
  shows "eval_st (ed_deserialize_take_sk E) sk = Ok (signing_key_from_bytes E sk)"
    and "ed_verify E (ed_public_key (signing_key_from_bytes E sk)) pre_hash message
      (ed_sign E (signing_key_from_bytes E sk) pre_hash message) = Ok ()"
proof -
  have "ed_sk_ok E (signing_key_from_bytes E sk)"
    using ed.derive_scalar_wf [OF assms(1), of sk "signing_key_from_bytes E sk"] assms(2)
    by (simp add: ed_defs)
  from ed_verify_sign [OF assms(1) this]
  show "ed_verify E (ed_public_key (signing_key_from_bytes E sk)) pre_hash message
      (ed_sign E (signing_key_from_bytes E sk) pre_hash message) = Ok ()"
    by (simp add: ed_public_key_def)
  show "eval_st (ed_deserialize_take_sk E) sk = Ok (signing_key_from_bytes E sk)"
    using assms(2) take_array_Ok_iff [of 32 _ sk sk "[]"]
    by (simp add: ed_deserialize_take_sk_def eval_st_Ok_iff bind_st_Ok_iff)
qed

lemma eddsa_tests_pass:
  assumes "edwards_ok E" "length sk = 32"
  shows "pure_eddsa_test E D message sk = Ok () \<longleftrightarrow>
      dalek_sign D sk message
        = ed_signature_serialize E (ed_sign E (signing_key_from_bytes E sk) False [message]) \<and>
      dalek_verify D sk message (dalek_sign D sk message) = Ok ()"
    and "hash_eddsa_test E D message sk = Ok () \<longleftrightarrow>
      (\<exists>signature. dalek_sign_prehashed D sk message = Ok signature \<and>
        signature = ed_signature_serialize E
          (ed_sign E (signing_key_from_bytes E sk) True [ed_sha512 E message]) \<and>
        dalek_verify_prehashed D sk message signature = Ok ())"
  by (auto simp: pure_eddsa_test_def hash_eddsa_test_def ed_test_key [OF assms] Let_def
      bind_result_Ok_iff unwrap_Ok_iff)

end
