(* ===== verification/Spec2Isabelle.thy ===== *)
theory Spec2Isabelle
  imports Sessions Simple_Login Digital_Locker Doc_Examples Key_Lengths Matching_Logins
    Robust_Logins Remote_Server Curve25519 Ristretto_Voprf Error_Debug Key_Tests
begin

text \<open>
  A model of the opaque-vx crate (\<open>src/src\<close>, \<open>src/examples\<close>): the OPAQUE asymmetric
  password-authenticated key exchange of RFC 9807. A client registers a password with a server,
  which keeps a password file that does not reveal it; a login then gives both sides a session key
  and the client the export key of the registration.

  \<^bold>\<open>How to read the model.\<close> Every function of the source is a definition with the function's name,
  in the order of the source. A byte string is a list of 8-bit words, \<open>usize\<close> a 64-bit word. A
  \<open>Result\<close> is \<open>('e, 'a) result\<close> with a third outcome \<open>Panic\<close> for \<open>unwrap\<close> and \<open>expect\<close>; a function
  with an \<open>&mut\<close> argument (a generator, or the slice that a deserializer consumes) is a state
  transformer \<open>('s, 'e, 'a) st\<close>, which gives the state back on the error paths too. The generator
  is a codata stream of requests, so that a theorem about \<open>r\<close> holds for every randomness. The
  rejection sampling of a key, which need not end, is an \<open>option\<close>: \<open>None\<close> is divergence.

  \<^bold>\<open>Parameters.\<close> Code that is not in the repository is an argument of the definitions: the hash
  with HKDF and HMAC (\<open>hash_fns\<close>), the OPRF of the voprf crate (\<open>oprf_suite\<close>), the arithmetic of the
  curve crates, ML-KEM, the ecdsa crate, argon2 and the AEAD of the digital locker. What the code
  relies on is stated as \<open>hash_ok\<close>, \<open>oprf_ok\<close>, \<open>group_ok\<close>, \<open>dh_ok\<close>, \<open>kem_ok\<close>, \<open>signature_ok\<close>, \<open>aead_ok\<close>
  and the like: lengths, round trips of encodings, commutativity of Diffie-Hellman, decapsulation
  of what was encapsulated, verification of what was signed. Where a theorem is about arbitrary bytes
  instead of honest messages, it also needs that the external decoders return an error or a
  well-formed value and that no operation panics: \<open>oprf_robust\<close>, \<open>kem_robust\<close>, \<open>ml_kem_validates\<close>,
  \<open>signature_robust\<close>, \<open>ksf_robust\<close>. Nothing cryptographic is assumed;
  where a security statement would need collision resistance, the theorem names the collision.
  \<open>Concrete_Suite\<close> and its extensions are small executable instances for the witnesses.

  \<^bold>\<open>The parts.\<close>
  \<^item> \<open>Prelude\<close>: bytes, results, state passing. \<open>Errors\<close>, \<open>Error_Debug\<close>: \<open>errors.rs\<close>, the latter the
    text of its \<open>Debug\<close> implementations.
  \<^item> \<open>Serialization\<close>: \<open>serialization/mod.rs\<close> (\<open>i2osp\<close>, \<open>os2ip\<close>, \<open>take_array\<close>) and the codec locales
    \<open>wire_codec\<close> and \<open>canonical_codec\<close> that every serialized type interprets.
  \<^item> \<open>Primitives\<close>: \<open>hash.rs\<close>, \<open>ksf.rs\<close> and the OPRF interface. \<open>Ke_Group\<close>, \<open>Keypair\<close>:
    \<open>key_exchange/group/mod.rs\<close>, \<open>keypair.rs\<close>.
  \<^item> \<open>Curve25519\<close>, \<open>Ristretto255\<close>, \<open>Elliptic_Curve\<close>, \<open>Ed25519\<close>: the concrete groups, with the serde
    forms of their keys and the two variants of EdDSA; each interprets the group locale.
    \<open>Ristretto_Voprf\<close>: ristretto255 as OPRF suite. \<open>Key_Tests\<close>: the crate's own checks of keys,
    \<open>i2osp\<close> and EdDSA.
  \<^item> \<open>Ke_Parts\<close>, \<open>Envelope\<close>, \<open>Masking\<close>: contexts and identifiers, \<open>envelope.rs\<close>, and the response
    masking of \<open>opaque.rs\<close>.
  \<^item> \<open>Key_Exchange\<close>: the \<open>KeyExchange\<close> trait as a record of operations, and its contract, the locales
    \<open>key_exchange_protocol\<close> (codecs, agreement of honest parties) and \<open>live_key_exchange\<close> (no honest
    step fails). \<open>Ke_Shared\<close>: transcript, key schedule and MACs. \<open>Triple_Dh\<close>, \<open>Triple_Dh_Kem\<close>,
    \<open>Sigma_I\<close> (over \<open>Sigma_Message\<close> and \<open>Signatures\<close>): the three key exchanges, each an
    interpretation of the contract.
  \<^item> \<open>Opaque_Setup\<close>, \<open>Messages\<close>, \<open>Opaque_Registration\<close>, \<open>Opaque_Login\<close>: \<open>opaque.rs\<close>, \<open>messages.rs\<close> and
    \<open>ciphersuite.rs\<close>, over any cipher suite.
  \<^item> \<open>Login_Correctness\<close>: the locales \<open>opaque_suite\<close> and \<open>live_opaque_suite\<close>, in which the protocol is
    proved correct once from the contract of the key exchange; \<open>Suites\<close> interprets them for the
    three key exchanges. \<open>Login_Properties\<close>: storage of states, what a response reveals, errors.
    \<open>Sessions\<close>: many users and sessions in any interleaving, as a step relation over these functions.
  \<^item> \<open>Outcomes\<close>: the rules for what a computation can return, \<open>yields\<close> and \<open>runs\<close>: an error of a given
    set, or a value with a given property, and no panic. \<open>Robust_Exchange\<close>: the locale
    \<open>robust_key_exchange\<close>, the contract of a key exchange on messages that are well-formed and not
    honest, for all three key exchanges, and its counterparts for the KEM and the signatures.
    \<open>Robustness\<close>: the locale \<open>robust_opaque_suite\<close>, in which the protocol is run on arbitrary bytes.
    \<open>Robust_Logins\<close> interprets it for the three suites. \<open>Matching_Sessions\<close>: what the two parties of a
    key exchange agree on when the server accepts, if any message may have been changed on the way;
    \<open>Matching_Logins\<close>: the same for whole logins, proved once in the locale \<open>matching_opaque_suite\<close> over
    the locale \<open>matching_key_exchange\<close> and interpreted for the three suites.
  \<^item> \<open>Key_Lengths\<close>: the lengths of session and export keys, and the parameters that the server's last
    step looks at.
  \<^item> \<open>Over_Wire\<close>, \<open>Simple_Login\<close>, \<open>Digital_Locker\<close>: the two example programs, down to \<open>main\<close>.
    \<open>Remote_Server\<close>: servers whose private key or OPRF seed is held elsewhere, over the builder
    interface of \<open>opaque.rs\<close> (the runs are those of the tests in \<open>keypair.rs\<close>). \<open>Doc_Examples\<close>: the
    worked examples of the documentation in \<open>lib.rs\<close>, which its tests compile and run.

  \<^bold>\<open>What is shown.\<close> Honest registrations and logins succeed over all three key exchanges, with
  equal session keys and the export key of the registration, also over serialized messages and
  with any randomness (\<open>service_ok\<close> states what is needed of a server and the strings that it is
  given); sessions of many users in any interleaving do not disturb each other, passwords that change
  during a login included; each party accepts exactly the other's MAC; transcripts and envelope MACs
  determine the session, and what the signed bytes of SIGMA-I cover is stated exactly (not the other
  party's identifier, nor the MAC in the server's role); a server accepts only a client that had the
  same login (the same context, identifiers, request and response), or the hash, the MAC or the key
  schedule collides on inputs that the theorem names; the examples of the documentation run to their end;
  whatever bytes arrive, no party panics; a client that has read a response, has seen no reflection of
  its own element and has computed the password-derived key fails with \<open>InvalidLoginError\<close> only (before
  that it fails with the decoder's error, \<open>ReflectedValueError\<close>, or the error of the OPRF or the key
  stretching); a response depends on the user's record only through the masked response and a MAC; a
  server with a remote key or seed answers as one that holds them; every encoding is read back; the
  printed form of an error identifies it; the keys of the 25519 groups are read exactly from canonical
  encodings (of the NIST curves only round trips are shown: which other bytes are a point is up to
  the crate); session and export keys have the lengths of their hashes; the example programs refine a
  table of passwords and a list of lockers, where the outcome for a wrong password is left open.

  \<^bold>\<open>Bounds.\<close> No fuel is used: the loops of the examples recurse on the list of input lines, and
  everything else is structural or a definition. Context and identifiers are bounded by the two
  bytes of their length prefix, HKDF outputs by 255 hash lengths; these bounds are the code's own
  and appear as hypotheses where success is claimed, and as error cases where it is not.

  \<^bold>\<open>Not modelled.\<close> Zeroization, constant-time behaviour, \<open>Display\<close>, derived \<open>Debug\<close> and derived serde
  implementations (no effect on the values); the conversion of \<open>errors.rs\<close> from the empty type
  \<open>Infallible\<close>, which HOL cannot state and nobody can call; module declarations and re-exports;
  the tests and test vectors under \<open>src/src/tests\<close> and benchmarks; the text that the examples print for
  read errors.
\<close>

end
